(* ===== verification/Prelude.thy ===== *)
theory Prelude
  imports Main "HOL-Library.Word" "HOL-Library.AList" "HOL-Library.Sublist" "HOL-Library.Multiset"
begin

text \<open>
  What the component theories share: Go's results (a value, an error or a panic), programs that
  call an environment they do not control and leave a trace of those calls, a small program logic
  over such programs, and the functions of Go's \<^verbatim>\<open>strings\<close>, \<^verbatim>\<open>strconv\<close> and \<^verbatim>\<open>fmt\<close> packages the
  source uses. The collection \<open>sat_rules\<close> holds the rules of the logic; \<open>emits_intros\<close> those of its
  safety fragment.
\<close>

named_theorems sat_rules
named_theorems emits_intros

section \<open>Errors, panics and results\<close>

text \<open>
  An error is a Kubernetes ``not found'' status error, any other error with its text, an error
  wrapped by \<^verbatim>\<open>fmt.Errorf("...: %w", err)\<close>, or several errors put together by \<^verbatim>\<open>errors.Join\<close>.
  \<^verbatim>\<open>apierrors.IsNotFound\<close> looks through both.
\<close>

datatype error = NotFoundError | OtherError string | WrapError string error | JoinError "error list"

fun IsNotFound :: "error \<Rightarrow> bool" where
  "IsNotFound NotFoundError = True"
| "IsNotFound (OtherError _) = False"
| "IsNotFound (WrapError _ e) = IsNotFound e"
| "IsNotFound (JoinError es) = list_ex IsNotFound es"

datatype 'a res = Ok 'a | Err error | Panic string

primrec is_ok :: "'a res \<Rightarrow> bool" where
  "is_ok (Ok _) = True"
| "is_ok (Err _) = False"
| "is_ok (Panic _) = False"

lemma is_ok_iff: "is_ok r \<longleftrightarrow> (\<exists>a. r = Ok a)"
  by (cases r) auto

section \<open>Programs over an environment, with a trace\<close>

text \<open>
  A program runs in a world of type \<open>'w\<close> (the API server, the BMCs, the registry, the clock), which
  it can only reach through calls whose outcome the environment decides. A run gives its result,
  the events of the calls it made, in order, and the world it leaves.
\<close>

type_synonym ('e, 'w, 'a) prog = "'w \<Rightarrow> 'a res \<times> 'e list \<times> 'w"

definition returnM :: "'a \<Rightarrow> ('e, 'w, 'a) prog" where
  "returnM a = (\<lambda>w. (Ok a, [], w))"

definition errM :: "error \<Rightarrow> ('e, 'w, 'a) prog" where
  "errM e = (\<lambda>w. (Err e, [], w))"

definition panicM :: "string \<Rightarrow> ('e, 'w, 'a) prog" where
  "panicM s = (\<lambda>w. (Panic s, [], w))"

definition liftM :: "'a res \<Rightarrow> ('e, 'w, 'a) prog" where
  "liftM r = (\<lambda>w. (r, [], w))"

definition bindM :: "('e, 'w, 'a) prog \<Rightarrow> ('a \<Rightarrow> ('e, 'w, 'b) prog) \<Rightarrow> ('e, 'w, 'b) prog" where
  "bindM m f = (\<lambda>w. case m w of (r, es, w') \<Rightarrow>
     (case r of
        Ok a \<Rightarrow> (case f a w' of (r', es', w'') \<Rightarrow> (r', es @ es', w''))
      | Err e \<Rightarrow> (Err e, es, w')
      | Panic s \<Rightarrow> (Panic s, es, w')))"

text \<open>\<^verbatim>\<open>if err != nil { return fmt.Errorf(msg, err) }\<close> and a handler for an error.\<close>

definition wrapM :: "string \<Rightarrow> ('e, 'w, 'a) prog \<Rightarrow> ('e, 'w, 'a) prog" where
  "wrapM msg m = (\<lambda>w. case m w of (r, es, w') \<Rightarrow>
     (case r of Ok a \<Rightarrow> Ok a | Err e \<Rightarrow> Err (WrapError msg e) | Panic s \<Rightarrow> Panic s, es, w'))"

definition catchM :: "('e, 'w, 'a) prog \<Rightarrow> (error \<Rightarrow> ('e, 'w, 'a) prog) \<Rightarrow> ('e, 'w, 'a) prog" where
  "catchM m h = (\<lambda>w. case m w of (r, es, w') \<Rightarrow>
     (case r of
        Ok a \<Rightarrow> (Ok a, es, w')
      | Err e \<Rightarrow> (case h e w' of (r', es', w'') \<Rightarrow> (r', es @ es', w''))
      | Panic s \<Rightarrow> (Panic s, es, w')))"

text \<open>\<^verbatim>\<open>defer\<close>: the cleanup runs whatever the outcome, a panic included.\<close>

definition deferM :: "('e, 'w, unit) prog \<Rightarrow> ('e, 'w, 'a) prog \<Rightarrow> ('e, 'w, 'a) prog" where
  "deferM c m = (\<lambda>w. case m w of (r, es, w') \<Rightarrow>
     (case c w' of (_, es', w'') \<Rightarrow> (r, es @ es', w'')))"

text \<open>A \<^verbatim>\<open>for ... range\<close> loop that carries state and stops at the first error or panic.\<close>

fun foldM :: "('s \<Rightarrow> 'x \<Rightarrow> ('e, 'w, 's) prog) \<Rightarrow> 's \<Rightarrow> 'x list \<Rightarrow> ('e, 'w, 's) prog" where
  "foldM f s [] = returnM s"
| "foldM f s (x # xs) = bindM (f s x) (\<lambda>s'. foldM f s' xs)"

text \<open>
  A polling loop: the condition is tried at once and then at most \<open>n\<close> times more, until it is done
  (\<open>Some\<close>) or fails.
\<close>

fun poll_loop :: "nat \<Rightarrow> ('e, 'w, 'x option) prog \<Rightarrow> ('e, 'w, 'x) prog" where
  "poll_loop 0 c = bindM c (\<lambda>x. case x of
     Some v \<Rightarrow> returnM v | None \<Rightarrow> errM (OtherError ''context deadline exceeded''))"
| "poll_loop (Suc n) c = bindM c (\<lambda>x. case x of Some v \<Rightarrow> returnM v | None \<Rightarrow> poll_loop n c)"

text \<open>One call to the environment; its event records the outcome.\<close>

definition callM :: "('w \<Rightarrow> 'a res \<times> 'w) \<Rightarrow> ('a res \<Rightarrow> 'e) \<Rightarrow> ('e, 'w, 'a) prog" where
  "callM f ev = (\<lambda>w. case f w of (r, w') \<Rightarrow> (r, [ev r], w'))"

text \<open>A program with its events in another type.\<close>

definition mapE :: "('e \<Rightarrow> 'f) \<Rightarrow> ('e, 'w, 'a) prog \<Rightarrow> ('f, 'w, 'a) prog" where
  "mapE f m = (\<lambda>w. case m w of (r, es, w') \<Rightarrow> (r, map f es, w'))"

definition result_of :: "'a res \<times> 'e list \<times> 'w \<Rightarrow> 'a res" where
  "result_of x = fst x"

definition events_of :: "'a res \<times> 'e list \<times> 'w \<Rightarrow> 'e list" where
  "events_of x = fst (snd x)"

definition world_of :: "'a res \<times> 'e list \<times> 'w \<Rightarrow> 'w" where
  "world_of x = snd (snd x)"

lemmas prog_defs = returnM_def errM_def panicM_def liftM_def bindM_def wrapM_def catchM_def
  deferM_def callM_def result_of_def events_of_def world_of_def

lemma bindM_return_left [simp]: "bindM (returnM a) f = f a"
  by (simp add: bindM_def returnM_def)

lemma bindM_return_right [simp]: "bindM m returnM = m"
  by (rule ext) (auto simp: bindM_def returnM_def split: prod.splits res.splits)

lemma wrapM_return [simp]: "wrapM msg (returnM a) = returnM a"
  by (rule ext) (simp add: wrapM_def returnM_def)

lemma poll_loop_first: "c w = (Ok (Some v), es, w') \<Longrightarrow> poll_loop n c w = (Ok v, es, w')"
  by (cases n) (simp_all add: bindM_def returnM_def)

lemma bindM_assoc: "bindM (bindM m f) g = bindM m (\<lambda>a. bindM (f a) g)"
  by (rule ext) (auto simp: bindM_def split: prod.splits res.splits)


section \<open>A program logic over results and traces\<close>

text \<open>
  \<open>sat m Q\<close>: in every world, the result and the events of a run of \<open>m\<close> satisfy \<open>Q\<close>. Nothing is
  assumed of the environment, so \<open>Q\<close> holds whatever the API server, the BMC or the registry answer.
\<close>

definition sat :: "('e, 'w, 'a) prog \<Rightarrow> ('a res \<Rightarrow> 'e list \<Rightarrow> bool) \<Rightarrow> bool" where
  "sat m Q \<longleftrightarrow> (\<forall>w. Q (result_of (m w)) (events_of (m w)))"

text \<open>
  \<open>emits P R m\<close>: every event of a run of \<open>m\<close> satisfies \<open>P\<close>, and so does \<open>R\<close> of the value, when it
  returns one.
\<close>

definition emits :: "('e \<Rightarrow> bool) \<Rightarrow> ('a \<Rightarrow> bool) \<Rightarrow> ('e, 'w, 'a) prog \<Rightarrow> bool" where
  "emits P R m \<longleftrightarrow> sat m (\<lambda>r es. (\<forall>e\<in>set es. P e) \<and> (\<forall>a. r = Ok a \<longrightarrow> R a))"

lemma satD: "sat m Q \<Longrightarrow> m w = (r, es, w') \<Longrightarrow> Q r es"
  by (auto simp: sat_def result_of_def events_of_def dest: spec [of _ w])

lemma satI: "(\<And>w r es w'. m w = (r, es, w') \<Longrightarrow> Q r es) \<Longrightarrow> sat m Q"
  by (metis sat_def result_of_def events_of_def prod.collapse)

lemma sat_mono: "sat m Q \<Longrightarrow> (\<And>r es. Q r es \<Longrightarrow> Q' r es) \<Longrightarrow> sat m Q'"
  by (simp add: sat_def)

lemma sat_conj: "sat m Q \<Longrightarrow> sat m Q' \<Longrightarrow> sat m (\<lambda>r es. Q r es \<and> Q' r es)"
  by (simp add: sat_def)

lemma sat_return [simp]: "sat (returnM a) Q \<longleftrightarrow> Q (Ok a) []"
  by (simp add: sat_def prog_defs)

lemma sat_err [simp]: "sat (errM e) Q \<longleftrightarrow> Q (Err e) []"
  by (simp add: sat_def prog_defs)

lemma sat_panic [simp]: "sat (panicM s) Q \<longleftrightarrow> Q (Panic s) []"
  by (simp add: sat_def prog_defs)

lemma sat_lift [simp]: "sat (liftM r) Q \<longleftrightarrow> Q r []"
  by (simp add: sat_def prog_defs)

lemma sat_bind:
  assumes "sat m (\<lambda>r es. case r of
      Ok a \<Rightarrow> sat (f a) (\<lambda>r' es'. Q r' (es @ es'))
    | Err e \<Rightarrow> Q (Err e) es
    | Panic s \<Rightarrow> Q (Panic s) es)"
  shows "sat (bindM m f) Q"
proof (rule satI)
  fix w r es w'
  assume run: "bindM m f w = (r, es, w')"
  obtain r1 es1 w1 where m: "m w = (r1, es1, w1)" by (metis prod_cases3)
  note Q1 = satD [OF assms m]
  show "Q r es"
  proof (cases r1)
    case (Ok a)
    obtain r2 es2 w2 where f: "f a w1 = (r2, es2, w2)" by (metis prod_cases3)
    with Ok Q1 have "Q r2 (es1 @ es2)" by (auto dest: satD)
    with run m f Ok show ?thesis by (simp add: bindM_def)
  qed (use run m Q1 in \<open>auto simp: bindM_def\<close>)
qed

lemma sat_wrap:
  assumes "sat m (\<lambda>r es. case r of
      Ok a \<Rightarrow> Q (Ok a) es | Err e \<Rightarrow> Q (Err (WrapError msg e)) es | Panic s \<Rightarrow> Q (Panic s) es)"
  shows "sat (wrapM msg m) Q"
proof (rule satI)
  fix w r es w'
  assume run: "wrapM msg m w = (r, es, w')"
  obtain r1 es1 w1 where m: "m w = (r1, es1, w1)" by (metis prod_cases3)
  from satD [OF assms m] run m show "Q r es"
    by (cases r1) (simp_all add: wrapM_def)
qed

lemma sat_catch:
  assumes "sat m (\<lambda>r es. case r of
      Ok a \<Rightarrow> Q (Ok a) es
    | Err e \<Rightarrow> sat (h e) (\<lambda>r' es'. Q r' (es @ es'))
    | Panic s \<Rightarrow> Q (Panic s) es)"
  shows "sat (catchM m h) Q"
proof (rule satI)
  fix w r es w'
  assume run: "catchM m h w = (r, es, w')"
  obtain r1 es1 w1 where m: "m w = (r1, es1, w1)" by (metis prod_cases3)
  note Q1 = satD [OF assms m]
  show "Q r es"
  proof (cases r1)
    case (Err e)
    obtain r2 es2 w2 where f: "h e w1 = (r2, es2, w2)" by (metis prod_cases3)
    with Err Q1 have "Q r2 (es1 @ es2)" by (auto dest: satD)
    with run m f Err show ?thesis by (simp add: catchM_def)
  qed (use run m Q1 in \<open>auto simp: catchM_def\<close>)
qed

lemma sat_defer:
  assumes "sat m (\<lambda>r es. sat c (\<lambda>_ es'. Q r (es @ es')))"
  shows "sat (deferM c m) Q"
proof (rule satI)
  fix w r es w'
  assume run: "deferM c m w = (r, es, w')"
  obtain r1 es1 w1 where m: "m w = (r1, es1, w1)" by (metis prod_cases3)
  obtain r2 es2 w2 where c: "c w1 = (r2, es2, w2)" by (metis prod_cases3)
  from satD [OF satD [OF assms m] c] run m c show "Q r es"
    by (simp add: deferM_def)
qed

lemma sat_call: "(\<And>w. Q (fst (f w)) [ev (fst (f w))]) \<Longrightarrow> sat (callM f ev) Q"
  by (simp add: sat_def prog_defs split: prod.split) (metis fst_conv)

lemma sat_call_any: "(\<And>r. Q r [ev r]) \<Longrightarrow> sat (callM f ev) Q"
  by (rule sat_call) blast

lemma sat_mapE: "sat m (\<lambda>r es. Q r (map f es)) \<Longrightarrow> sat (mapE f m) Q"
  by (rule satI) (auto simp: mapE_def dest: satD split: prod.splits)

lemmas [sat_rules] = sat_bind sat_wrap sat_catch sat_defer sat_call_any

subsection \<open>The safety fragment\<close>

lemma emitsD:
  assumes "emits P R m" and "m w = (r, es, w')"
  shows "\<forall>e\<in>set es. P e" and "r = Ok a \<Longrightarrow> R a"
  using satD [OF assms(1) [unfolded emits_def] assms(2)] by auto

lemma emits_mono:
  "emits P R m \<Longrightarrow> (\<And>e. P e \<Longrightarrow> P' e) \<Longrightarrow> (\<And>a. R a \<Longrightarrow> R' a) \<Longrightarrow> emits P' R' m"
  unfolding emits_def by (erule sat_mono) blast

lemma emits_weaken: "emits P R m \<Longrightarrow> (\<And>a. R a \<Longrightarrow> R' a) \<Longrightarrow> emits P R' m"
  by (erule emits_mono) simp_all

lemma emits_conj: "emits P R m \<Longrightarrow> emits P R' m \<Longrightarrow> emits P (\<lambda>a. R a \<and> R' a) m"
  by (auto simp: emits_def sat_def)

lemma emits_any: "emits P R m \<Longrightarrow> emits P (\<lambda>_. True) m"
  by (erule emits_weaken) simp

lemma emits_return [emits_intros]: "R a \<Longrightarrow> emits P R (returnM a)"
  by (simp add: emits_def)

lemma emits_err [emits_intros]: "emits P R (errM e)"
  by (simp add: emits_def)

lemma emits_panic [emits_intros]: "emits P R (panicM s)"
  by (simp add: emits_def)

lemma emits_lift [emits_intros]: "(\<And>a. r = Ok a \<Longrightarrow> R a) \<Longrightarrow> emits P R (liftM r)"
  by (simp add: emits_def)

lemma emits_bind:
  assumes m: "emits P R' m" and f: "\<And>a. R' a \<Longrightarrow> emits P R (f a)"
  shows "emits P R (bindM m f)"
  unfolding emits_def
proof (rule sat_bind, rule sat_mono [OF m [unfolded emits_def]])
  fix r es
  assume *: "(\<forall>e\<in>set es. P e) \<and> (\<forall>a. r = Ok a \<longrightarrow> R' a)"
  show "case r of
      Ok a \<Rightarrow> sat (f a) (\<lambda>r' es'. (\<forall>e\<in>set (es @ es'). P e) \<and> (\<forall>a. r' = Ok a \<longrightarrow> R a))
    | Err e \<Rightarrow> (\<forall>e\<in>set es. P e) \<and> (\<forall>a. Err e = Ok a \<longrightarrow> R a)
    | Panic s \<Rightarrow> (\<forall>e\<in>set es. P e) \<and> (\<forall>a. Panic s = Ok a \<longrightarrow> R a)"
  proof (cases r)
    case (Ok a)
    with * have "emits P R (f a)" by (auto intro: f)
    then have "sat (f a) (\<lambda>r' es'. (\<forall>e\<in>set (es @ es'). P e) \<and> (\<forall>a. r' = Ok a \<longrightarrow> R a))"
      unfolding emits_def by (rule sat_mono) (use * in auto)
    with Ok show ?thesis by simp
  qed (use * in simp_all)
qed

text \<open>The rule for a first part whose value does not matter.\<close>

lemma emits_then [emits_intros]:
  "emits P (\<lambda>_. True) m \<Longrightarrow> (\<And>a. emits P R (f a)) \<Longrightarrow> emits P R (bindM m f)"
  by (rule emits_bind)

lemma emits_wrap [emits_intros]: "emits P R m \<Longrightarrow> emits P R (wrapM msg m)"
  unfolding emits_def by (rule sat_wrap, erule sat_mono) (auto split: res.splits)

lemma emits_catch [emits_intros]:
  assumes m: "emits P R m" and h: "\<And>e. emits P R (h e)"
  shows "emits P R (catchM m h)"
  unfolding emits_def
proof (rule sat_catch, rule sat_mono [OF m [unfolded emits_def]])
  fix r es
  assume *: "(\<forall>e\<in>set es. P e) \<and> (\<forall>a. r = Ok a \<longrightarrow> R a)"
  have "sat (h e) (\<lambda>r' es'. (\<forall>e\<in>set (es @ es'). P e) \<and> (\<forall>a. r' = Ok a \<longrightarrow> R a))" for e
    by (rule sat_mono [OF h [unfolded emits_def]]) (use * in auto)
  with * show "case r of
      Ok a \<Rightarrow> (\<forall>e\<in>set es. P e) \<and> (\<forall>a'. Ok a = Ok a' \<longrightarrow> R a')
    | Err e \<Rightarrow> sat (h e) (\<lambda>r' es'. (\<forall>e\<in>set (es @ es'). P e) \<and> (\<forall>a. r' = Ok a \<longrightarrow> R a))
    | Panic s \<Rightarrow> (\<forall>e\<in>set es. P e) \<and> (\<forall>a. Panic s = Ok a \<longrightarrow> R a)"
    by (auto split: res.split)
qed

lemma emits_defer [emits_intros]:
  assumes c: "emits P (\<lambda>_. True) c" and m: "emits P R m"
  shows "emits P R (deferM c m)"
  unfolding emits_def
proof (rule sat_defer, rule sat_mono [OF m [unfolded emits_def]])
  fix r es
  assume *: "(\<forall>e\<in>set es. P e) \<and> (\<forall>a. r = Ok a \<longrightarrow> R a)"
  show "sat c (\<lambda>_ es'. (\<forall>e\<in>set (es @ es'). P e) \<and> (\<forall>a. r = Ok a \<longrightarrow> R a))"
    by (rule sat_mono [OF c [unfolded emits_def]]) (use * in auto)
qed

lemma emits_mapE [emits_intros]: "emits (\<lambda>e. P (f e)) R m \<Longrightarrow> emits P R (mapE f m)"
  unfolding emits_def by (rule sat_mapE) simp

lemma emits_poll_loop:
  assumes "emits P (\<lambda>x. \<forall>v. x = Some v \<longrightarrow> R v) c"
  shows "emits P R (poll_loop n c)"
  using assms by (induction n) (auto intro!: emits_bind emits_return emits_err split: option.split)

lemma sat_poll_rounds: "(\<And>n. sat (poll_loop n c) Q) \<Longrightarrow> sat (\<lambda>w. poll_loop (rounds w) c w) Q"
  by (simp add: sat_def)

lemma emits_call [emits_intros]: "(\<And>r. P (ev r)) \<Longrightarrow> emits P (\<lambda>_. True) (callM f ev)"
  unfolding emits_def by (rule sat_call_any) simp

lemma emits_call_ok:
  "(\<And>r. P (ev r)) \<Longrightarrow> (\<And>w a. fst (f w) = Ok a \<Longrightarrow> R a) \<Longrightarrow> emits P R (callM f ev)"
  unfolding emits_def by (rule sat_call) auto

lemma emits_foldM:
  assumes "\<And>s x. I s \<Longrightarrow> x \<in> set xs \<Longrightarrow> emits P I (f s x)" and "I s"
  shows "emits P I (foldM f s xs)"
  using assms by (induction xs arbitrary: s) (auto intro!: emits_return emits_bind)

lemma emits_foldM_any [emits_intros]:
  "(\<And>s x. emits P (\<lambda>_. True) (f s x)) \<Longrightarrow> emits P (\<lambda>_. True) (foldM f s xs)"
  by (rule emits_foldM) simp_all

lemma emits_if [emits_intros]:
  "(b \<Longrightarrow> emits P R m) \<Longrightarrow> (\<not> b \<Longrightarrow> emits P R m') \<Longrightarrow> emits P R (if b then m else m')"
  by simp

lemma emits_case_option [emits_intros]:
  "(x = None \<Longrightarrow> emits P R m) \<Longrightarrow> (\<And>y. x = Some y \<Longrightarrow> emits P R (f y)) \<Longrightarrow>
   emits P R (case x of None \<Rightarrow> m | Some y \<Rightarrow> f y)"
  by (cases x) simp_all

lemma emits_case_prod [emits_intros]:
  "(\<And>a b. x = (a, b) \<Longrightarrow> emits P R (f a b)) \<Longrightarrow> emits P R (case x of (a, b) \<Rightarrow> f a b)"
  by (cases x) simp

lemma emits_case_prod_app [emits_intros]:
  "(\<And>a b. x = (a, b) \<Longrightarrow> emits P R (f a b y)) \<Longrightarrow> emits P R ((case x of (a, b) \<Rightarrow> f a b) y)"
  by (cases x) simp

lemma emits_case_list [emits_intros]:
  "(x = [] \<Longrightarrow> emits P R m) \<Longrightarrow> (\<And>y ys. x = y # ys \<Longrightarrow> emits P R (f y ys)) \<Longrightarrow>
   emits P R (case x of [] \<Rightarrow> m | y # ys \<Rightarrow> f y ys)"
  by (cases x) simp_all

lemma emits_let [emits_intros]: "emits P R (f x) \<Longrightarrow> emits P R (Let x f)"
  by simp

subsection \<open>Invariants of traces\<close>

text \<open>
  A property of traces that holds of the empty one and of two traces in a row holds of every run
  when it holds of the runs of the parts.
\<close>

locale trace_invariant =
  fixes Q :: "'e list \<Rightarrow> bool"
  assumes nil: "Q []"
    and append: "Q xs \<Longrightarrow> Q ys \<Longrightarrow> Q (xs @ ys)"
begin

lemma inv_bind:
  assumes "sat m (\<lambda>_ es. Q es)" and "\<And>a. sat (f a) (\<lambda>_ es. Q es)"
  shows "sat (bindM m f) (\<lambda>_ es. Q es)"
  by (rule sat_bind, rule sat_mono [OF assms(1)])
    (auto split: res.split intro!: sat_mono [OF assms(2)] append)

lemma inv_catch:
  assumes "sat m (\<lambda>_ es. Q es)" and "\<And>e. sat (h e) (\<lambda>_ es. Q es)"
  shows "sat (catchM m h) (\<lambda>_ es. Q es)"
  by (rule sat_catch, rule sat_mono [OF assms(1)])
    (auto split: res.split intro!: sat_mono [OF assms(2)] append)

lemma inv_wrap: "sat m (\<lambda>_ es. Q es) \<Longrightarrow> sat (wrapM msg m) (\<lambda>_ es. Q es)"
  by (rule sat_wrap, erule sat_mono) (simp split: res.split)

lemma inv_pure:
  "sat (returnM a) (\<lambda>_ es. Q es)" "sat (errM e) (\<lambda>_ es. Q es)" "sat (panicM s) (\<lambda>_ es. Q es)"
  "sat (liftM r) (\<lambda>_ es. Q es)"
  by (simp_all add: nil)

lemma inv_if:
  "(b \<Longrightarrow> sat m (\<lambda>_ es. Q es)) \<Longrightarrow> (\<not> b \<Longrightarrow> sat m' (\<lambda>_ es. Q es)) \<Longrightarrow> sat (if b then m else m') (\<lambda>_ es. Q es)"
  by simp

lemma inv_option:
  "sat m (\<lambda>_ es. Q es) \<Longrightarrow> (\<And>y. x = Some y \<Longrightarrow> sat (f y) (\<lambda>_ es. Q es)) \<Longrightarrow>
   sat (case x of None \<Rightarrow> m | Some y \<Rightarrow> f y) (\<lambda>_ es. Q es)"
  by (cases x) simp_all

lemma inv_prod:
  "(\<And>a b. x = (a, b) \<Longrightarrow> sat (f a b) (\<lambda>_ es. Q es)) \<Longrightarrow> sat (case x of (a, b) \<Rightarrow> f a b) (\<lambda>_ es. Q es)"
  by (cases x) simp

lemma inv_let: "sat (f x) (\<lambda>_ es. Q es) \<Longrightarrow> sat (Let x f) (\<lambda>_ es. Q es)"
  by simp

lemma inv_events: "emits P R m \<Longrightarrow> (\<And>e. P e \<Longrightarrow> Q [e]) \<Longrightarrow> sat m (\<lambda>_ es. Q es)"
proof (unfold emits_def, erule sat_mono)
  fix r es
  assume Q: "\<And>e. P e \<Longrightarrow> Q [e]" and es: "(\<forall>e\<in>set es. P e) \<and> (\<forall>a. r = Ok a \<longrightarrow> R a)"
  from es have "\<forall>e\<in>set es. P e" ..
  then show "Q es"
    using append [of "[_]"] by (induction es) (auto simp: nil intro: Q)
qed

lemmas inv_rules = inv_bind inv_catch inv_wrap inv_pure inv_if inv_option inv_prod inv_let

end

subsection \<open>Ordering: an event only after another\<close>

text \<open>\<open>guarded g p es\<close>: every event of \<open>es\<close> that satisfies \<open>p\<close> has an earlier one that satisfies \<open>g\<close>.\<close>

fun guarded :: "('e \<Rightarrow> bool) \<Rightarrow> ('e \<Rightarrow> bool) \<Rightarrow> 'e list \<Rightarrow> bool" where
  "guarded g p [] = True"
| "guarded g p (e # es) = (\<not> p e \<and> (g e \<or> guarded g p es))"

lemma guarded_append:
  "guarded g p (xs @ ys) \<longleftrightarrow> guarded g p xs \<and> ((\<exists>x\<in>set xs. g x) \<or> guarded g p ys)"
  by (induction xs) auto

lemma guarded_none: "(\<forall>e\<in>set es. \<not> p e) \<Longrightarrow> guarded g p es"
  by (induction es) auto

interpretation guarded_inv: trace_invariant "guarded g p" for g p :: "'e \<Rightarrow> bool"
  by unfold_locales (auto simp: guarded_append)

lemma guarded_iff:
  "guarded g p es \<longleftrightarrow> (\<forall>pre e post. es = pre @ e # post \<longrightarrow> p e \<longrightarrow> (\<exists>x\<in>set pre. g x))"
proof (induction es)
  case (Cons a es)
  show ?case
  proof
    assume L: "guarded g p (a # es)"
    show "\<forall>pre e post. a # es = pre @ e # post \<longrightarrow> p e \<longrightarrow> (\<exists>x\<in>set pre. g x)"
    proof (intro allI impI)
      fix pre e post
      assume *: "a # es = pre @ e # post" and "p e"
      with L obtain pre' where pre: "pre = a # pre'" and es: "es = pre' @ e # post"
        by (cases pre) auto
      from L have "g a \<or> guarded g p es" by simp
      with Cons.IH es \<open>p e\<close> pre show "\<exists>x\<in>set pre. g x" by auto
    qed
  next
    assume R: "\<forall>pre e post. a # es = pre @ e # post \<longrightarrow> p e \<longrightarrow> (\<exists>x\<in>set pre. g x)"
    from R [rule_format, of "[]"] have "\<not> p a" by auto
    moreover have "g a \<or> guarded g p es"
      unfolding Cons.IH using R [rule_format, of "a # _"] by auto
    ultimately show "guarded g p (a # es)" by simp
  qed
qed simp

subsection \<open>Events that a success needs\<close>

text \<open>\<open>achieves g m\<close>: a run of \<open>m\<close> that returns a value has an event that satisfies \<open>g\<close>.\<close>

definition achieves :: "('e \<Rightarrow> bool) \<Rightarrow> ('e, 'w, 'a) prog \<Rightarrow> bool" where
  "achieves g m \<longleftrightarrow> sat m (\<lambda>r es. is_ok r \<longrightarrow> (\<exists>e\<in>set es. g e))"

lemma achieves_pure [simp]: "achieves g (errM e)" "achieves g (panicM s)"
  by (simp_all add: achieves_def)

lemma achieves_call: "(\<And>a. g (ev (Ok a))) \<Longrightarrow> achieves g (callM f ev)"
  unfolding achieves_def by (rule sat_call_any) (auto simp: is_ok_iff)

lemma achieves_wrap: "achieves g m \<Longrightarrow> achieves g (wrapM msg m)"
  unfolding achieves_def by (rule sat_wrap, erule sat_mono) (auto split: res.split)

lemma achieves_first: "achieves g m \<Longrightarrow> achieves g (bindM m f)"
  unfolding achieves_def
  by (rule sat_bind, erule sat_mono) (auto split: res.split simp: sat_def)

lemma achieves_then:
  assumes "emits P R m" and "\<And>a. R a \<Longrightarrow> achieves g (f a)"
  shows "achieves g (bindM m f)"
  unfolding achieves_def
  by (intro sat_bind sat_mono [OF assms(1) [unfolded emits_def]])
    (auto split: res.split intro!: sat_mono [OF assms(2) [unfolded achieves_def]])

lemma achieves_defer: "achieves g m \<Longrightarrow> achieves g (deferM c m)"
  unfolding achieves_def
  by (rule sat_defer, erule sat_mono) (auto simp: sat_def)

lemma achieves_if:
  "(b \<Longrightarrow> achieves g m) \<Longrightarrow> (\<not> b \<Longrightarrow> achieves g m') \<Longrightarrow> achieves g (if b then m else m')"
  by simp

text \<open>What comes after a part that needs \<open>g\<close> to succeed comes after \<open>g\<close>.\<close>

lemma guarded_after:
  assumes "emits (\<lambda>e. \<not> p e) R m" and "achieves g m"
  shows "sat (bindM m f) (\<lambda>_ es. guarded g p es)"
  by (rule sat_bind, rule sat_mono [OF sat_conj [OF assms(1) [unfolded emits_def] assms(2) [unfolded achieves_def]]])
    (auto split: res.split simp: guarded_append guarded_none, auto simp: sat_def guarded_append guarded_none)

lemma guarded_bind:
  assumes "emits (\<lambda>e. \<not> p e) R m" and "\<And>a. R a \<Longrightarrow> sat (f a) (\<lambda>_ es. guarded g p es)"
  shows "sat (bindM m f) (\<lambda>_ es. guarded g p es)"
  by (intro sat_bind sat_mono [OF assms(1) [unfolded emits_def]])
    (auto split: res.split simp: guarded_none guarded_append intro!: sat_mono [OF assms(2)])

lemma guarded_emits: "emits (\<lambda>e. \<not> p e) R m \<Longrightarrow> sat m (\<lambda>_ es. guarded g p es)"
  unfolding emits_def by (erule sat_mono) (simp add: guarded_none)

text \<open>A part whose value decides what may follow.\<close>

lemma guarded_cond:
  assumes "sat m (\<lambda>res es. (\<forall>e\<in>set es. \<not> p e) \<and> (\<forall>a. res = Ok a \<longrightarrow> C a \<longrightarrow> (\<exists>e\<in>set es. g e)))"
    and "\<And>a. emits (\<lambda>e. p e \<longrightarrow> C a) R (k a)"
  shows "sat (bindM m k) (\<lambda>_ es. guarded g p es)"
proof -
  have "sat (k a) (\<lambda>_ es'. guarded g p (es @ es'))"
    if "\<forall>e\<in>set es. \<not> p e" "C a \<longrightarrow> (\<exists>e\<in>set es. g e)" for a es
    by (rule sat_mono [OF assms(2) [unfolded emits_def]]) (use that in \<open>cases "C a"; auto simp: guarded_append guarded_none\<close>)
  then show ?thesis
    by (intro sat_bind sat_mono [OF assms(1)]) (auto split: res.split simp: guarded_none)
qed

lemma guarded_defer:
  assumes "sat m (\<lambda>_ es. guarded g p es)" and "emits (\<lambda>e. \<not> p e) (\<lambda>_. True) c"
  shows "sat (deferM c m) (\<lambda>_ es. guarded g p es)"
  by (rule sat_defer, rule sat_mono [OF assms(1)])
    (auto intro!: sat_mono [OF assms(2) [unfolded emits_def]] simp: guarded_append guarded_none)


subsection \<open>Runs that return\<close>

text \<open>
  \<open>returns R m\<close>: in every world, a run of \<open>m\<close> returns a value that satisfies \<open>R\<close>: no error, no panic. This
  is the judgement for progress.
\<close>

definition returns :: "('a \<Rightarrow> bool) \<Rightarrow> ('e, 'w, 'a) prog \<Rightarrow> bool" where
  "returns R m \<longleftrightarrow> sat m (\<lambda>r es. \<exists>a. r = Ok a \<and> R a)"

lemma returns_return: "R a \<Longrightarrow> returns R (returnM a)"
  by (simp add: returns_def)

lemma returns_lift: "is_ok r \<Longrightarrow> (\<And>a. r = Ok a \<Longrightarrow> R a) \<Longrightarrow> returns R (liftM r)"
  by (auto simp: returns_def is_ok_iff)

lemma returns_call:
  "(\<And>w. is_ok (fst (f w))) \<Longrightarrow> (\<And>w a. fst (f w) = Ok a \<Longrightarrow> R a) \<Longrightarrow> returns R (callM f ev)"
  unfolding returns_def by (rule sat_call) (metis is_ok_iff)

lemma returns_answer: "(\<And>w. \<exists>a. fst (f w) = Ok a \<and> R a) \<Longrightarrow> returns R (callM f ev)"
  unfolding returns_def by (rule sat_call) blast

lemma returns_bind: "returns R' m \<Longrightarrow> (\<And>a. R' a \<Longrightarrow> returns R (f a)) \<Longrightarrow> returns R (bindM m f)"
  unfolding returns_def by (rule sat_bind, erule sat_mono) auto

lemma returns_wrap: "returns R m \<Longrightarrow> returns R (wrapM msg m)"
  unfolding returns_def by (rule sat_wrap, erule sat_mono) auto

lemma returns_catch: "returns R m \<Longrightarrow> returns R (catchM m h)"
  unfolding returns_def by (rule sat_catch, erule sat_mono) auto

lemma returns_defer: "returns R m \<Longrightarrow> returns R (deferM c m)"
  unfolding returns_def by (rule sat_defer, erule sat_mono) (simp add: sat_def)

lemma returns_mono: "returns R m \<Longrightarrow> (\<And>a. R a \<Longrightarrow> R' a) \<Longrightarrow> returns R' m"
  unfolding returns_def by (erule sat_mono) blast

lemma returns_foldM:
  assumes "\<And>s x. I s \<Longrightarrow> x \<in> set xs \<Longrightarrow> returns I (f s x)" and "I s"
  shows "returns I (foldM f s xs)"
  using assms by (induction xs arbitrary: s) (auto intro!: returns_return returns_bind)

lemma returns_emits: "returns R m \<Longrightarrow> emits P R' m \<Longrightarrow> returns (\<lambda>a. R a \<and> R' a) m"
  unfolding returns_def emits_def by (drule (1) sat_conj, erule sat_mono) blast

text \<open>\<open>does g R m\<close>: moreover, the run has an event that satisfies \<open>g\<close>.\<close>

definition does :: "('e \<Rightarrow> bool) \<Rightarrow> ('a \<Rightarrow> bool) \<Rightarrow> ('e, 'w, 'a) prog \<Rightarrow> bool" where
  "does g R m \<longleftrightarrow> sat m (\<lambda>r es. (\<exists>a. r = Ok a \<and> R a) \<and> (\<exists>e\<in>set es. g e))"

lemma doesI: "returns R m \<Longrightarrow> achieves g m \<Longrightarrow> does g R m"
  unfolding returns_def achieves_def does_def by (drule (1) sat_conj, erule sat_mono) auto

lemma does_first: "does g R' m \<Longrightarrow> (\<And>a. R' a \<Longrightarrow> returns R (f a)) \<Longrightarrow> does g R (bindM m f)"
  unfolding does_def returns_def by (rule sat_bind, erule sat_mono) (fastforce elim!: sat_mono)

lemma does_then: "returns R' m \<Longrightarrow> (\<And>a. R' a \<Longrightarrow> does g R (f a)) \<Longrightarrow> does g R (bindM m f)"
  unfolding does_def returns_def by (rule sat_bind, erule sat_mono) (fastforce elim!: sat_mono)

lemma does_run: "does g R m \<Longrightarrow> \<exists>a. result_of (m w) = Ok a \<and> R a \<and> (\<exists>e\<in>set (events_of (m w)). g e)"
  by (auto simp: does_def sat_def)

subsection \<open>Runs that succeed from some states\<close>

text \<open>
  \<open>ensures P m Q\<close>: from every world that satisfies \<open>P\<close>, a run of \<open>m\<close> returns a value, and \<open>Q\<close> holds of it
  and of the world it leaves. This is total correctness for programs whose environment keeps a state.
\<close>

definition ensures :: "('w \<Rightarrow> bool) \<Rightarrow> ('e, 'w, 'a) prog \<Rightarrow> ('a \<Rightarrow> 'w \<Rightarrow> bool) \<Rightarrow> bool" where
  "ensures P m Q \<longleftrightarrow> (\<forall>w. P w \<longrightarrow> (\<exists>a. result_of (m w) = Ok a \<and> Q a (world_of (m w))))"

lemma ensures_return: "(\<And>w. P w \<Longrightarrow> Q a w) \<Longrightarrow> ensures P (returnM a) Q"
  by (simp add: ensures_def prog_defs)

lemma ensures_call: "(\<And>w. P w \<Longrightarrow> \<exists>a. fst (f w) = Ok a \<and> Q a (snd (f w))) \<Longrightarrow> ensures P (callM f ev) Q"
  by (auto simp: ensures_def prog_defs split: prod.split) (metis fst_conv snd_conv)

lemma ensures_bind: "ensures P m R \<Longrightarrow> (\<And>a. ensures (R a) (f a) Q) \<Longrightarrow> ensures P (bindM m f) Q"
  by (fastforce simp: ensures_def bindM_def result_of_def world_of_def split: prod.splits res.splits)

lemma ensures_wrap: "ensures P m Q \<Longrightarrow> ensures P (wrapM msg m) Q"
  by (fastforce simp: ensures_def wrapM_def result_of_def world_of_def split: prod.splits res.splits)

lemma ensures_catch: "ensures P m Q \<Longrightarrow> ensures P (catchM m h) Q"
  by (fastforce simp: ensures_def catchM_def result_of_def world_of_def split: prod.splits res.splits)

lemma ensures_mono:
  "ensures P m Q \<Longrightarrow> (\<And>w. P' w \<Longrightarrow> P w) \<Longrightarrow> (\<And>a w. Q a w \<Longrightarrow> Q' a w) \<Longrightarrow> ensures P' m Q'"
  unfolding ensures_def by blast

lemma ensures_pre: "(\<And>w. P w \<Longrightarrow> \<exists>P'. P' w \<and> ensures P' m Q) \<Longrightarrow> ensures P m Q"
  unfolding ensures_def by blast

lemma ensures_value: "ensures P m (\<lambda>a w. a = v \<and> P' w) \<Longrightarrow> ensures P' (f v) Q \<Longrightarrow> ensures P (bindM m f) Q"
  by (erule ensures_bind) (auto simp: ensures_def)

lemma ensures_poll:
  assumes "ensures P c (\<lambda>x w. \<exists>v. x = Some v \<and> Q v w)"
  shows "ensures P (\<lambda>w. poll_loop (rounds w) c w) Q"
  unfolding ensures_def
proof (intro allI impI)
  fix w
  assume "P w"
  with assms obtain v es w' where "c w = (Ok (Some v), es, w')" "Q v w'"
    unfolding ensures_def result_of_def world_of_def by (metis prod.collapse)
  then show "\<exists>a. result_of (poll_loop (rounds w) c w) = Ok a \<and> Q a (world_of (poll_loop (rounds w) c w))"
    by (simp add: poll_loop_first result_of_def world_of_def)
qed

subsection \<open>Lists\<close>

lemma split_last_unique:
  assumes "a @ [c] @ x = b @ [c] @ y" and "c \<notin> set x" and "c \<notin> set y"
  shows "a = b \<and> x = y"
  using assms
proof (induction a arbitrary: b)
  case Nil
  then show ?case by (cases b) (auto simp: Cons_eq_append_conv)
next
  case (Cons d a)
  then show ?case by (cases b) (auto simp: append_eq_Cons_conv)
qed



lemma take_Suc_update:
  assumes "take (Suc k) p = take (Suc k) (q[k := c])" and "k < length q" and "length p = length q"
  shows "take k p = take k q" and "p ! k = c"
proof -
  have "take k (take (Suc k) p) = take k (take (Suc k) (q[k := c]))" using assms(1) by simp
  then show "take k p = take k q" by simp
  have "take (Suc k) p ! k = take (Suc k) (q[k := c]) ! k" using assms(1) by simp
  then show "p ! k = c" using assms(2) by simp
qed

end
