(* ===== verification/Netip.thy ===== *)
theory Netip
  imports Go_Strings
begin

text \<open>
  Addresses and prefixes of Go's \<^verbatim>\<open>net/netip\<close>, which the API's \<^verbatim>\<open>IP\<close> and \<^verbatim>\<open>IPPrefix\<close> wrap: how they are
  written and how a text is read. What is written is read back as the same address.
\<close>

section \<open>Addresses\<close>

text \<open>
  The zero \<^verbatim>\<open>netip.Addr\<close>, an IPv4 address of four bytes, or an IPv6 address of eight groups with its zone,
  which is empty for an address without one.
\<close>

datatype Addr = ZeroAddr | Addr4 "8 word list" | Addr6 "16 word list" string

fun wf_Addr :: "Addr \<Rightarrow> bool" where
  "wf_Addr ZeroAddr = True"
| "wf_Addr (Addr4 bs) = (length bs = 4)"
| "wf_Addr (Addr6 gs zone) = (length gs = 8)"

fun Addr_IsValid :: "Addr \<Rightarrow> bool" where
  "Addr_IsValid ZeroAddr = False"
| "Addr_IsValid _ = True"

fun Addr_Is4 :: "Addr \<Rightarrow> bool" where
  "Addr_Is4 (Addr4 _) = True"
| "Addr_Is4 _ = False"

fun Addr_Is6 :: "Addr \<Rightarrow> bool" where
  "Addr_Is6 (Addr6 _ _) = True"
| "Addr_Is6 _ = False"

fun Addr_BitLen :: "Addr \<Rightarrow> nat" where
  "Addr_BitLen ZeroAddr = 0"
| "Addr_BitLen (Addr4 _) = 32"
| "Addr_BitLen (Addr6 _ _) = 128"

section \<open>Hexadecimal groups\<close>

definition hex_char :: "nat \<Rightarrow> char" where
  "hex_char d = char_of (if d < 10 then 48 + d else 87 + d)"

definition char_hex :: "char \<Rightarrow> nat option" where
  "char_hex c = (let n = of_char c in
     if 48 \<le> n \<and> n \<le> (57::nat) then Some (n - 48)
     else if 97 \<le> n \<and> n \<le> 102 then Some (n - 87)
     else if 65 \<le> n \<and> n \<le> 70 then Some (n - 55) else None)"

definition is_hex :: "char \<Rightarrow> bool" where
  "is_hex c = (char_hex c \<noteq> None)"

fun hex_digits :: "nat \<Rightarrow> string" where
  "hex_digits n = (if n < 16 then [hex_char n] else hex_digits (n div 16) @ [hex_char (n mod 16)])"

declare hex_digits.simps [simp del]

definition hex_value :: "string \<Rightarrow> nat" where
  "hex_value s = foldl (\<lambda>acc c. 16 * acc + the (char_hex c)) 0 s"

definition hex16 :: "16 word \<Rightarrow> string" where
  "hex16 g = hex_digits (unat g)"

lemma char_hex_hex_char [simp]: "d < 16 \<Longrightarrow> char_hex (hex_char d) = Some d"
  by (auto simp: char_hex_def hex_char_def Let_def)

lemma is_hex_hex_digits: "c \<in> set (hex_digits n) \<Longrightarrow> is_hex c"
proof (induction n rule: hex_digits.induct)
  case (1 n)
  then show ?case
    by (cases "n < 16") (auto simp: hex_digits.simps [of n] is_hex_def)
qed

lemma hex_value_hex_digits: "hex_value (hex_digits n) = n"
proof (induction n rule: hex_digits.induct)
  case (1 n)
  then show ?case
    by (cases "n < 16") (simp_all add: hex_digits.simps [of n] hex_value_def)
qed

lemma length_hex_digits: "n < 16 ^ k \<Longrightarrow> k > 0 \<Longrightarrow> length (hex_digits n) \<le> k"
proof (induction k arbitrary: n)
  case (Suc k)
  show ?case
  proof (cases "n < 16")
    case False
    with Suc.prems have "k > 0" by (cases k) auto
    moreover have "n div 16 < 16 ^ k" using Suc.prems by (simp add: div_less_iff_less_mult mult.commute)
    ultimately have "length (hex_digits (n div 16)) \<le> k" by (rule Suc.IH [rotated])
    with False show ?thesis by (simp add: hex_digits.simps [of n])
  qed (simp add: hex_digits.simps [of n])
qed simp

lemma hex_digits_neq_Nil [simp]: "hex_digits n \<noteq> []"
  by (subst hex_digits.simps) simp

lemma hex16_neq_Nil [simp]: "hex16 g \<noteq> []"
  by (simp add: hex16_def)

lemma length_hex16: "length (hex16 g) \<le> 4"
  unfolding hex16_def using unsigned_less [of g] by (intro length_hex_digits) simp_all

lemma hex16_value: "word_of_nat (hex_value (hex16 g)) = g"
  by (simp add: hex16_def hex_value_hex_digits)

lemma is_hex_hex16: "c \<in> set (hex16 g) \<Longrightarrow> is_hex c"
  unfolding hex16_def by (rule is_hex_hex_digits)

lemma hex16_run:
  assumes "rest = [] \<or> \<not> is_hex (hd rest)"
  shows "takeWhile is_hex (hex16 g @ rest) = hex16 g" and "dropWhile is_hex (hex16 g @ rest) = rest"
  using assms by (cases rest; simp add: takeWhile_append dropWhile_append is_hex_hex16)+

section \<open>Writing an address\<close>

definition string4 :: "8 word list \<Rightarrow> string" where
  "string4 bs = Join (map (\<lambda>b. nat_digits (unat b)) bs) ''.''"

text \<open>The longest run of at least two zero groups, the first one of that length; \<open>(255, 255)\<close> if there is none.\<close>

definition zeros_at :: "16 word list \<Rightarrow> nat \<Rightarrow> nat" where
  "zeros_at gs i = length (takeWhile (\<lambda>g. g = 0) (drop i gs))"

definition zero_run :: "16 word list \<Rightarrow> nat \<times> nat" where
  "zero_run gs = foldl (\<lambda>(zeroStart, zeroEnd) i.
     let l = zeros_at gs i in
     if l \<ge> 2 \<and> l > zeroEnd - zeroStart then (i, i + l) else (zeroStart, zeroEnd)) (255, 255) [0..<8]"

definition string6 :: "16 word list \<Rightarrow> string" where
  "string6 gs =
     (case zero_run gs of (zeroStart, zeroEnd) \<Rightarrow>
        if zeroStart < 8
        then Join (map hex16 (take zeroStart gs)) '':'' @ ''::'' @ Join (map hex16 (drop zeroEnd gs)) '':''
        else Join (map hex16 gs) '':'')"

definition zone_suffix :: "string \<Rightarrow> string" where
  "zone_suffix zone = (if zone = [] then [] else CHR ''%'' # zone)"

definition Is4In6 :: "16 word list \<Rightarrow> bool" where
  "Is4In6 gs = (take 6 gs = [0, 0, 0, 0, 0, 0xffff])"

text \<open>The two bytes of a group.\<close>

definition group_bytes :: "16 word \<Rightarrow> 8 word list" where
  "group_bytes g = [word_of_nat (unat g div 256), word_of_nat (unat g mod 256)]"

definition bytes_group :: "8 word \<Rightarrow> 8 word \<Rightarrow> 16 word" where
  "bytes_group hi lo = word_of_nat (256 * unat hi + unat lo)"

fun Addr_String :: "Addr \<Rightarrow> string" where
  "Addr_String ZeroAddr = ''invalid IP''"
| "Addr_String (Addr4 bs) = string4 bs"
| "Addr_String (Addr6 gs zone) =
     (if Is4In6 gs then ''::ffff:'' @ string4 (concat (map group_bytes (drop 6 gs))) @ zone_suffix zone
      else string6 gs @ zone_suffix zone)"

section \<open>Reading an address\<close>

text \<open>The dotted fields: the value and the number of digits of the current field, the fields before it.\<close>

fun parse4 :: "nat \<Rightarrow> nat \<Rightarrow> 8 word list \<Rightarrow> string \<Rightarrow> 8 word list res" where
  "parse4 val digLen fields [] =
     (if length fields < 3 then Err (OtherError ''IPv4 address too short'') else Ok (fields @ [word_of_nat val]))"
| "parse4 val digLen fields (c # cs) =
     (case char_digit c of
        Some d \<Rightarrow>
          if digLen = 1 \<and> val = 0 then Err (OtherError ''IPv4 field has octet with leading zero'')
          else if val * 10 + d > 255 then Err (OtherError ''IPv4 field has value >255'')
          else parse4 (val * 10 + d) (digLen + 1) fields cs
      | None \<Rightarrow>
          if c = CHR ''.'' then
            if digLen = 0 \<or> cs = [] then Err (OtherError ''IPv4 field must have at least one digit'')
            else if length fields = 3 then Err (OtherError ''IPv4 address too long'')
            else parse4 0 0 (fields @ [word_of_nat val]) cs
          else Err (OtherError ''unexpected character''))"

definition parseIPv4Fields :: "string \<Rightarrow> 8 word list res" where
  "parseIPv4Fields s = parse4 0 0 [] s"

lemma dropWhile_shorter: "dropWhile P s = c # cs \<Longrightarrow> length cs < length s"
  using length_dropWhile_le [of P s] by simp

text \<open>
  The groups of an IPv6 address: the text that is left, the groups before it and the number of groups
  before the ellipsis. At most four digits make a group, so that it never exceeds 16 bits.
\<close>

function (sequential) parse6 ::
  "string \<Rightarrow> 16 word list \<Rightarrow> nat option \<Rightarrow> (string \<times> 16 word list \<times> nat option) res" where
  "parse6 s gs ellipsis =
     (if length gs \<ge> 8 then Ok (s, gs, ellipsis)
      else let digits = takeWhile is_hex s; rest = dropWhile is_hex s; gs' = gs @ [word_of_nat (hex_value digits)] in
        if length digits > 4 then Err (OtherError ''each group must have 4 or fewer digits'')
        else if digits = [] then Err (OtherError ''each colon-separated field must have at least one digit'')
        else case rest of
            [] \<Rightarrow> Ok ([], gs', ellipsis)
          | c # rest' \<Rightarrow>
              if c = CHR ''.'' then
                if ellipsis = None \<and> length gs \<noteq> 6 then
                  Err (OtherError ''embedded IPv4 address must replace the final 2 fields of the address'')
                else if length gs > 6 then
                  Err (OtherError ''too many hex fields to fit an embedded IPv4 at the end of the address'')
                else (case parseIPv4Fields s of
                        Ok bs \<Rightarrow> Ok ([], gs @ [bytes_group (bs ! 0) (bs ! 1), bytes_group (bs ! 2) (bs ! 3)], ellipsis)
                      | Err e \<Rightarrow> Err e | Panic p \<Rightarrow> Panic p)
              else if c \<noteq> CHR '':'' then Err (OtherError ''unexpected character, want colon'')
              else case rest' of
                  [] \<Rightarrow> Err (OtherError ''colon must be followed by more characters'')
                | c' # rest'' \<Rightarrow>
                    if c' = CHR '':'' then
                      if ellipsis \<noteq> None then Err (OtherError ''multiple :: in address'')
                      else if rest'' = [] then Ok ([], gs', Some (length gs'))
                      else parse6 rest'' gs' (Some (length gs'))
                    else parse6 rest' gs' ellipsis)"
  by pat_completeness auto

termination
  by (relation "measure (\<lambda>(s, _, _). length s)") (auto dest!: dropWhile_shorter [OF sym])

declare parse6.simps [simp del]

text \<open>The groups once the text is read: an ellipsis stands for the missing ones, at least one.\<close>

definition expand :: "16 word list \<Rightarrow> nat option \<Rightarrow> 16 word list res" where
  "expand gs ellipsis =
     (if length gs < 8 then
        (case ellipsis of
           None \<Rightarrow> Err (OtherError ''address string too short'')
         | Some e \<Rightarrow> Ok (take e gs @ replicate (8 - length gs) 0 @ drop e gs))
      else if ellipsis \<noteq> None then Err (OtherError ''the :: must expand to at least one field of zeros'')
      else Ok gs)"

definition parse_groups :: "string \<Rightarrow> 16 word list res" where
  "parse_groups s =
     (let (start, s', ell) = (if HasPrefix s ''::'' then (True, drop 2 s, Some 0) else (False, s, None)) in
      if start \<and> s' = [] then Ok (replicate 8 0)
      else case parse6 s' [] ell of
          Ok (rest, gs, ell') \<Rightarrow>
            if rest \<noteq> [] then Err (OtherError ''trailing garbage after address'') else expand gs ell'
        | Err e \<Rightarrow> Err e | Panic p \<Rightarrow> Panic p)"

definition parseIPv6 :: "string \<Rightarrow> Addr res" where
  "parseIPv6 s =
     (let text = takeWhile (\<lambda>c. c \<noteq> CHR ''%'') s; after = dropWhile (\<lambda>c. c \<noteq> CHR ''%'') s in
      if after = ''%'' then Err (OtherError ''zone must be a non-empty string'')
      else case parse_groups text of
          Ok gs \<Rightarrow> Ok (Addr6 gs (tl after)) | Err e \<Rightarrow> Err e | Panic p \<Rightarrow> Panic p)"

text \<open>The first dot, colon or percent sign decides.\<close>

definition ParseAddr :: "string \<Rightarrow> Addr res" where
  "ParseAddr s =
     (case dropWhile (\<lambda>c. c \<noteq> CHR ''.'' \<and> c \<noteq> CHR '':'' \<and> c \<noteq> CHR ''%'') s of
        [] \<Rightarrow> Err (OtherError ''unable to parse IP'')
      | c # _ \<Rightarrow>
          if c = CHR ''.'' then
            (case parseIPv4Fields s of Ok bs \<Rightarrow> Ok (Addr4 bs) | Err e \<Rightarrow> Err e | Panic p \<Rightarrow> Panic p)
          else if c = CHR '':'' then parseIPv6 s
          else Err (OtherError ''missing IPv6 address''))"

section \<open>What is written is read back\<close>

subsection \<open>Dotted fields\<close>

lemma char_digit_dot [simp]: "char_digit (CHR ''.'') = None"
  by (simp add: char_digit_def)

lemma parse4_digits:
  "n < 256 \<Longrightarrow> parse4 0 0 fields (nat_digits n @ rest) = parse4 n (length (nat_digits n)) fields rest"
proof (induction n arbitrary: rest rule: nat_digits.induct)
  case (1 n)
  show ?case
  proof (cases "n < 10")
    case True
    then show ?thesis by (simp add: nat_digits.simps [of n])
  next
    case False
    then have "n div 10 > 0" and "n div 10 * 10 + n mod 10 = n" by auto
    with False 1 show ?thesis by (simp add: nat_digits.simps [of n])
  qed
qed

lemma unat_byte: "unat (b :: 8 word) < 256"
  using unsigned_less [of b, where 'a = nat] by simp

lemma parse4_field:
  "length fields < 3 \<Longrightarrow> rest \<noteq> [] \<Longrightarrow>
   parse4 0 0 fields (nat_digits (unat (b :: 8 word)) @ CHR ''.'' # rest) = parse4 0 0 (fields @ [b]) rest"
  by (simp add: parse4_digits unat_byte)

lemma parse4_last:
  "length fields = 3 \<Longrightarrow> parse4 0 0 fields (nat_digits (unat (b :: 8 word))) = Ok (fields @ [b])"
  using parse4_digits [of "unat b" fields "[]"] by (simp add: unat_byte)

lemma length_4_cases: "length xs = 4 \<Longrightarrow> \<exists>a b c d. xs = [a, b, c, d]"
  by (auto simp: numeral_eq_Suc length_Suc_conv)

lemma parse_string4:
  assumes "length bs = 4"
  shows "parseIPv4Fields (string4 bs) = Ok bs"
proof -
  obtain a b c d where "bs = [a, b, c, d]" using length_4_cases [OF assms] by blast
  then show ?thesis by (simp add: parseIPv4Fields_def string4_def parse4_field parse4_last)
qed

subsection \<open>Groups\<close>

lemma not_hex [simp]: "\<not> is_hex (CHR '':'')" "\<not> is_hex (CHR ''.'')" "\<not> is_hex (CHR ''%'')"
  by (simp_all add: is_hex_def char_hex_def)

text \<open>One step of the loop on a group that was written.\<close>

lemma parse6_group:
  assumes "rest = [] \<or> \<not> is_hex (hd rest)" and "length gs < 8"
  shows "parse6 (hex16 g @ rest) gs ell =
    (case rest of
       [] \<Rightarrow> Ok ([], gs @ [g], ell)
     | c # rest' \<Rightarrow>
         if c = CHR ''.'' then
           if ell = None \<and> length gs \<noteq> 6 then
             Err (OtherError ''embedded IPv4 address must replace the final 2 fields of the address'')
           else if length gs > 6 then
             Err (OtherError ''too many hex fields to fit an embedded IPv4 at the end of the address'')
           else (case parseIPv4Fields (hex16 g @ rest) of
                   Ok bs \<Rightarrow> Ok ([], gs @ [bytes_group (bs ! 0) (bs ! 1), bytes_group (bs ! 2) (bs ! 3)], ell)
                 | Err e \<Rightarrow> Err e | Panic p \<Rightarrow> Panic p)
         else if c \<noteq> CHR '':'' then Err (OtherError ''unexpected character, want colon'')
         else case rest' of
             [] \<Rightarrow> Err (OtherError ''colon must be followed by more characters'')
           | c' # rest'' \<Rightarrow>
               if c' = CHR '':'' then
                 if ell \<noteq> None then Err (OtherError ''multiple :: in address'')
                 else if rest'' = [] then Ok ([], gs @ [g], Some (length (gs @ [g])))
                 else parse6 rest'' (gs @ [g]) (Some (length (gs @ [g])))
               else parse6 rest' (gs @ [g]) ell)"
  using assms(2) length_hex16 [of g]
  by (subst parse6.simps) (simp only: hex16_run [OF assms(1)] Let_def hex16_value hex16_neq_Nil not_le if_True if_False
      linorder_not_less [symmetric] not_False_eq_True not_True_eq_False)

lemma parse6_last: "length gs < 8 \<Longrightarrow> parse6 (hex16 g) gs ell = Ok ([], gs @ [g], ell)"
  using parse6_group [of "[]" gs g ell] by simp

lemma parse6_colon:
  "length gs < 8 \<Longrightarrow> rest \<noteq> [] \<Longrightarrow> hd rest \<noteq> CHR '':'' \<Longrightarrow>
   parse6 (hex16 g @ CHR '':'' # rest) gs ell = parse6 rest (gs @ [g]) ell"
  using parse6_group [of "CHR '':'' # rest" gs g ell] by (cases rest) simp_all

lemma parse6_ellipsis:
  "length gs < 8 \<Longrightarrow> parse6 (hex16 g @ CHR '':'' # CHR '':'' # rest) gs None =
     (if rest = [] then Ok ([], gs @ [g], Some (length gs + 1)) else parse6 rest (gs @ [g]) (Some (length gs + 1)))"
  using parse6_group [of "CHR '':'' # CHR '':'' # rest" gs g None] by simp

lemma hd_hex16: "hd (hex16 g @ rest) \<noteq> CHR '':''"
proof -
  have "is_hex (hd (hex16 g))" by (rule is_hex_hex16 [of _ g]) simp
  then show ?thesis by (auto simp: hd_append)
qed

lemma Join_groups_Cons: "gs \<noteq> [] \<Longrightarrow> Join (map hex16 (g # gs)) '':'' = hex16 g @ CHR '':'' # Join (map hex16 gs) '':''"
  by (cases gs) simp_all

lemma hd_Join_groups: "gs \<noteq> [] \<Longrightarrow> Join (map hex16 gs) '':'' @ rest \<noteq> [] \<and> hd (Join (map hex16 gs) '':'' @ rest) \<noteq> CHR '':''"
  by (cases gs rule: remdups_adj.cases) (simp_all add: hd_hex16 del: hd_append2)

lemma parse6_Join:
  "xs \<noteq> [] \<Longrightarrow> length gs + length xs \<le> 8 \<Longrightarrow> parse6 (Join (map hex16 xs) '':'') gs ell = Ok ([], gs @ xs, ell)"
proof (induction xs arbitrary: gs)
  case (Cons x xs)
  show ?case
  proof (cases "xs = []")
    case False
    from False Cons.prems Cons.IH [of "gs @ [x]"] hd_Join_groups [of xs "[]"] show ?thesis
      unfolding Join_groups_Cons [OF False] by (simp add: parse6_colon)
  qed (use Cons.prems in \<open>simp add: parse6_last\<close>)
qed simp

lemma parse6_Join_ellipsis:
  "xs \<noteq> [] \<Longrightarrow> length gs + length xs \<le> 8 \<Longrightarrow> parse6 (Join (map hex16 xs) '':'' @ CHR '':'' # CHR '':'' # rest) gs None =
     (if rest = [] then Ok ([], gs @ xs, Some (length gs + length xs))
      else parse6 rest (gs @ xs) (Some (length gs + length xs)))"
proof (induction xs arbitrary: gs)
  case (Cons x xs)
  show ?case
  proof (cases "xs = []")
    case False
    from False Cons.prems Cons.IH [of "gs @ [x]"] hd_Join_groups [of xs "CHR '':'' # CHR '':'' # rest"] show ?thesis
      unfolding Join_groups_Cons [OF False] by (simp add: parse6_colon del: hd_append2)
  qed (use Cons.prems in \<open>simp add: parse6_ellipsis\<close>)
qed simp

subsection \<open>The run of zeros\<close>

lemma zeros_at_zero: "take (zeros_at gs i) (drop i gs) = replicate (zeros_at gs i) 0"
proof -
  have "take (zeros_at gs i) (drop i gs) = takeWhile (\<lambda>g. g = 0) (drop i gs)"
    unfolding zeros_at_def by (simp add: takeWhile_eq_take [symmetric])
  also have "\<dots> = replicate (length (takeWhile (\<lambda>g. g = 0) (drop i gs))) 0"
    by (rule replicate_eqI) (auto dest: set_takeWhileD)
  finally show ?thesis unfolding zeros_at_def .
qed

lemma zeros_at_le: "zeros_at gs i \<le> length gs - i"
  unfolding zeros_at_def using length_takeWhile_le [of _ "drop i gs"] by simp

definition is_zero_run :: "16 word list \<Rightarrow> nat \<Rightarrow> nat \<Rightarrow> bool" where
  "is_zero_run gs zs ze \<longleftrightarrow> zs < ze \<and> ze \<le> length gs \<and> take (ze - zs) (drop zs gs) = replicate (ze - zs) 0"

lemma zero_run_is_zero_run:
  assumes "zero_run gs = (zs, ze)" and "zs < 8"
  shows "is_zero_run gs zs ze"
proof -
  have "is_zero_run gs i (i + zeros_at gs i)" if "zeros_at gs i \<ge> 2" for i
    using that zeros_at_le [of gs i] by (auto simp: is_zero_run_def zeros_at_zero)
  then have "fst p < 8 \<longrightarrow> is_zero_run gs (fst p) (snd p)"
    if "p = foldl (\<lambda>(zeroStart, zeroEnd) i. let l = zeros_at gs i in
         if l \<ge> 2 \<and> l > zeroEnd - zeroStart then (i, i + l) else (zeroStart, zeroEnd)) (255, 255) is" for p "is"
    using that by (induction "is" arbitrary: p rule: rev_induct) (auto simp: Let_def split: prod.splits)
  from this [OF refl, of "[0..<8]"] assms show ?thesis by (simp add: zero_run_def)
qed

lemma zero_run_expand:
  assumes "is_zero_run gs zs ze" and "length gs = 8"
  shows "expand (take zs gs @ drop ze gs) (Some zs) = Ok gs"
proof -
  from assms have len: "zs < ze" "ze \<le> 8" and run: "take (ze - zs) (drop zs gs) = replicate (ze - zs) 0"
    by (auto simp: is_zero_run_def)
  have "gs = take zs gs @ take (ze - zs) (drop zs gs) @ drop ze gs"
    using len by (metis append_take_drop_id drop_drop le_add_diff_inverse2 less_imp_le)
  then have "take zs gs @ replicate (ze - zs) 0 @ drop ze gs = gs" unfolding run by simp
  with len assms(2) show ?thesis by (simp add: expand_def)
qed

subsection \<open>Addresses\<close>

lemma parse_groups_leading:
  assumes "s \<noteq> []" and "parse6 s [] (Some 0) = Ok ([], gs, Some 0)"
  shows "parse_groups (CHR '':'' # CHR '':'' # s) = expand gs (Some 0)"
  using assms by (simp add: parse_groups_def)

lemma HasPrefix_groups: "gs \<noteq> [] \<Longrightarrow> \<not> HasPrefix (Join (map hex16 gs) '':'' @ rest) ''::''"
  using hd_Join_groups [of gs rest] by (cases "Join (map hex16 gs) '':'' @ rest") auto

lemma Join_groups_Nil_iff [simp]: "Join (map hex16 gs) '':'' = [] \<longleftrightarrow> gs = []"
  using hd_Join_groups [of gs "[]"] by auto

lemma parse_string6:
  assumes len: "length gs = 8"
  shows "parse_groups (string6 gs) = Ok gs"
proof -
  obtain zs ze where run: "zero_run gs = (zs, ze)" by (cases "zero_run gs")
  show ?thesis
  proof (cases "zs < 8")
    case False
    from len have "gs \<noteq> []" by auto
    with False run len HasPrefix_groups [of gs "[]"] show ?thesis
      by (simp add: string6_def parse_groups_def parse6_Join expand_def)
  next
    case True
    note zr = zero_run_is_zero_run [OF run True]
    note ex = zero_run_expand [OF zr len]
    from zr len have ze: "zs < ze" "ze \<le> 8" by (auto simp: is_zero_run_def)
    show ?thesis
    proof (cases "zs = 0")
      case True
      show ?thesis
      proof (cases "ze = 8")
        case False
        with ze len have "drop ze gs \<noteq> []" by simp
        moreover from this True ze len have
          "parse6 (Join (map hex16 (drop ze gs)) '':'') [] (Some 0) = Ok ([], drop ze gs, Some 0)"
          by (subst parse6_Join) simp_all
        ultimately show ?thesis
          using run True ex by (simp add: string6_def parse_groups_leading)
      qed (use run True len zr in \<open>simp add: string6_def parse_groups_def is_zero_run_def\<close>)
    next
      case False
      with True len have pre: "take zs gs \<noteq> []" by auto
      have "parse6 (Join (map hex16 (take zs gs)) '':'' @ CHR '':'' # CHR '':'' # Join (map hex16 (drop ze gs)) '':'') [] None =
          Ok ([], take zs gs @ drop ze gs, Some zs)"
        using pre True ze len by (subst parse6_Join_ellipsis) (simp_all add: parse6_Join)
      with run True ex HasPrefix_groups [OF pre] show ?thesis
        by (simp add: string6_def parse_groups_def)
    qed
  qed
qed

lemma bytes_group_bytes: "bytes_group (group_bytes g ! 0) (group_bytes g ! 1) = g"
proof -
  have "unat g div 256 < 256"
    using unsigned_less [of g, where 'a = nat] by (simp add: div_less_iff_less_mult)
  then show ?thesis
    by (simp add: bytes_group_def group_bytes_def unsigned_of_nat take_bit_nat_eq_self)
qed

lemma hex_of_digits: "c \<in> set (nat_digits n) \<Longrightarrow> is_hex c"
proof (induction n rule: nat_digits.induct)
  case (1 n)
  have "is_hex (digit_char d)" if "d < 10" for d
    using that by (simp add: is_hex_def char_hex_def digit_char_def Let_def)
  with 1 show ?case by (cases "n < 10") (auto simp: nat_digits.simps [of n])
qed

lemma length_nat_digits_byte: "n < 256 \<Longrightarrow> length (nat_digits n) \<le> 3"
  by (simp add: nat_digits.simps [of n] nat_digits.simps [of "n div 10"] nat_digits.simps [of "n div 10 div 10"])

lemma parse6_embedded:
  assumes "length bs = 4" and "length gs \<le> 6" and "ell \<noteq> None"
  shows "parse6 (string4 bs) gs ell =
    Ok ([], gs @ [bytes_group (bs ! 0) (bs ! 1), bytes_group (bs ! 2) (bs ! 3)], ell)"
proof -
  obtain a b c d where bs: "bs = [a, b, c, d]" using length_4_cases [OF assms(1)] by blast
  define rest where "rest = nat_digits (unat b) @ CHR ''.'' # nat_digits (unat c) @ CHR ''.'' # nat_digits (unat d)"
  have s: "string4 bs = nat_digits (unat a) @ CHR ''.'' # rest" by (simp add: bs string4_def rest_def)
  have run: "takeWhile is_hex (string4 bs) = nat_digits (unat a)" "dropWhile is_hex (string4 bs) = CHR ''.'' # rest"
    unfolding s by (simp_all add: takeWhile_append dropWhile_append hex_of_digits)
  have "length (nat_digits (unat a)) \<le> 3" by (rule length_nat_digits_byte) (rule unat_byte)
  with assms parse_string4 [OF assms(1)] show ?thesis
    by (subst parse6.simps) (simp add: run Let_def)
qed

lemma parse_4in6:
  assumes "Is4In6 gs" and "length gs = 8"
  shows "parse_groups (''::ffff:'' @ string4 (concat (map group_bytes (drop 6 gs)))) = Ok gs"
proof -
  obtain g h where d: "drop 6 gs = [g, h]"
    using assms(2) by (cases "drop 6 gs" rule: remdups_adj.cases) (auto dest: arg_cong [of _ _ length])
  have gs: "gs = [0, 0, 0, 0, 0, 0xffff, g, h]"
    using append_take_drop_id [of 6 gs] assms(1) d by (simp add: Is4In6_def)
  define bs where "bs = concat (map group_bytes (drop 6 gs))"
  have bs: "bs = group_bytes g @ group_bytes h" by (simp add: bs_def d)
  have len: "length bs = 4" by (simp add: bs group_bytes_def)
  have "is_hex (hd (nat_digits (unat (hd bs))))" by (rule hex_of_digits [of _ "unat (hd bs)"]) simp
  then have nil: "string4 bs \<noteq> []" and hd: "hd (string4 bs) \<noteq> CHR '':''"
    by (auto simp: bs group_bytes_def string4_def hd_append)
  have ffff: "hex16 0xffff = ''ffff''" by (simp add: hex16_def hex_digits.simps hex_char_def char_of_eq_iff)
  have "parse6 (''ffff:'' @ string4 bs) [] (Some 0) = parse6 (string4 bs) [0xffff] (Some 0)"
    using parse6_colon [of "[]" "string4 bs" "0xffff" "Some 0"] nil hd ffff by simp
  also have "\<dots> = Ok ([], [0xffff, g, h], Some 0)"
    using parse6_embedded [OF len, of "[0xffff]" "Some 0"] bytes_group_bytes [of g] bytes_group_bytes [of h]
    by (simp add: bs group_bytes_def)
  finally have "parse_groups (CHR '':'' # CHR '':'' # ''ffff:'' @ string4 bs) = expand [0xffff, g, h] (Some 0)"
    by (intro parse_groups_leading) simp_all
  then show ?thesis by (simp add: bs gs expand_def numeral_eq_Suc)
qed

lemma hex_not_special: "is_hex c \<Longrightarrow> c \<noteq> CHR ''.'' \<and> c \<noteq> CHR '':'' \<and> c \<noteq> CHR ''%''"
  using not_hex by auto

lemma set_Join: "set (Join xs sep) \<subseteq> \<Union> (set ` set xs) \<union> set sep"
  by (induction xs sep rule: Join.induct) auto

lemma groups_start:
  assumes "length gs = 8"
  shows "\<exists>hs rest. string6 gs = hs @ CHR '':'' # rest \<and> (\<forall>c\<in>set hs. is_hex c)"
proof -
  obtain zs ze where run: "zero_run gs = (zs, ze)" by (cases "zero_run gs")
  have first: "\<exists>hs rest. Join (map hex16 xs) '':'' @ CHR '':'' # t = hs @ CHR '':'' # rest \<and> (\<forall>c\<in>set hs. is_hex c)" for xs t
    by (cases xs rule: remdups_adj.cases) (auto intro: is_hex_hex16 exI [of _ "[]"] exI [of _ "hex16 _"])
  obtain g gs' where "gs = g # gs'" and "gs' \<noteq> []"
    using assms by (cases gs rule: remdups_adj.cases) auto
  then have "Join (map hex16 gs) '':'' = hex16 g @ CHR '':'' # Join (map hex16 gs') '':''"
    by (metis Join_groups_Cons)
  with first run show ?thesis
    by (cases "zs < 8") (auto simp: string6_def intro: is_hex_hex16)
qed

lemma no_percent_groups: "CHR ''%'' \<notin> set (Join (map hex16 gs) '':'')"
  using set_Join [of "map hex16 gs" "'':''"] is_hex_hex16 by (auto dest: hex_not_special)

lemma no_percent: "CHR ''%'' \<notin> set (string6 gs)" "CHR ''%'' \<notin> set (string4 bs)"
  using no_percent_groups set_Join [of "map (\<lambda>b. nat_digits (unat b)) bs" "''.''"]
  by (auto simp: string6_def string4_def split: prod.split dest!: subsetD dest: hex_of_digits hex_not_special)

lemma parseIPv6_zone:
  assumes "CHR ''%'' \<notin> set s" and "parse_groups s = Ok gs"
  shows "parseIPv6 (s @ zone_suffix zone) = Ok (Addr6 gs zone)"
proof -
  have "takeWhile (\<lambda>c. c \<noteq> CHR ''%'') (s @ zone_suffix zone) = s"
    and "dropWhile (\<lambda>c. c \<noteq> CHR ''%'') (s @ zone_suffix zone) = zone_suffix zone"
    using assms(1) by (auto simp: zone_suffix_def takeWhile_append dropWhile_append)
  with assms(2) show ?thesis by (auto simp: parseIPv6_def zone_suffix_def)
qed

lemma ParseAddr_colon:
  "\<forall>c\<in>set hs. is_hex c \<Longrightarrow> ParseAddr (hs @ CHR '':'' # rest) = parseIPv6 (hs @ CHR '':'' # rest)"
  by (auto simp: ParseAddr_def dropWhile_append dest: hex_not_special)

lemma ParseAddr_String:
  assumes "wf_Addr a" and "Addr_IsValid a"
  shows "ParseAddr (Addr_String a) = Ok a"
proof (cases a)
  case (Addr4 bs)
  with assms obtain b1 b2 b3 b4 where bs: "bs = [b1, b2, b3, b4]" using length_4_cases by fastforce
  have "dropWhile (\<lambda>c. c \<noteq> CHR ''.'' \<and> c \<noteq> CHR '':'' \<and> c \<noteq> CHR ''%'') (nat_digits (unat b1) @ CHR ''.'' # t) = CHR ''.'' # t" for t
    using hex_of_digits by (auto simp: dropWhile_append dest: hex_not_special)
  with Addr4 assms parse_string4 [of bs] show ?thesis
    by (simp add: ParseAddr_def bs string4_def)
next
  case (Addr6 gs zone)
  with assms have len: "length gs = 8" by simp
  show ?thesis
  proof (cases "Is4In6 gs")
    case True
    have "CHR ''%'' \<notin> set (''::ffff:'' @ string4 (concat (map group_bytes (drop 6 gs))))" using no_percent by simp
    from parseIPv6_zone [OF this parse_4in6 [OF True len]] Addr6 True show ?thesis
      using ParseAddr_colon [of "[]"] by simp
  next
    case False
    obtain hs rest where s: "string6 gs = hs @ CHR '':'' # rest" "\<forall>c\<in>set hs. is_hex c"
      using groups_start [OF len] by blast
    from parseIPv6_zone [OF no_percent(1) parse_string6 [OF len]] ParseAddr_colon [OF s(2), of "rest @ zone_suffix zone"] Addr6 False s(1)
    show ?thesis by simp
  qed
qed (use assms in simp)

subsection \<open>What is read is well-formed\<close>

lemma parse4_length: "parse4 val digLen fields s = Ok bs \<Longrightarrow> length fields \<le> 3 \<Longrightarrow> length bs = 4"
  by (induction val digLen fields s arbitrary: bs rule: parse4.induct) (auto split: if_splits option.splits)

lemma parseIPv4Fields_length: "parseIPv4Fields s = Ok bs \<Longrightarrow> length bs = 4"
  unfolding parseIPv4Fields_def by (erule parse4_length) simp

lemma parse6_bounds:
  "parse6 s gs ell = Ok (s', gs', ell') \<Longrightarrow> length gs \<le> 8 \<Longrightarrow> (\<forall>e. ell = Some e \<longrightarrow> e \<le> length gs) \<Longrightarrow>
   length gs' \<le> 8 \<and> (\<forall>e. ell' = Some e \<longrightarrow> e \<le> length gs')"
proof (induction "length s" arbitrary: s gs ell rule: less_induct)
  case less
  define rest where "rest = dropWhile is_hex s"
  have shorter: "length cs < length s" if "rest = c # cs" for c cs
    using dropWhile_shorter that rest_def by metis
  have ell: "\<forall>e. ell = Some e \<longrightarrow> e \<le> length (gs @ [g])" for g using less.prems(3) by auto
  show ?case
  proof (cases "length gs < 8")
    case True
    from less.prems(1) True obtain g where cases:
      "gs' = gs @ [g] \<and> (ell' = ell \<or> ell' = Some (length (gs @ [g]))) \<or>
       length gs \<le> 6 \<and> (\<exists>g'. gs' = gs @ [g, g']) \<and> ell' = ell \<or>
       (\<exists>c c' cs. rest = c # c' # cs \<and> (parse6 cs (gs @ [g]) (Some (length (gs @ [g]))) = Ok (s', gs', ell') \<or>
          parse6 (c' # cs) (gs @ [g]) ell = Ok (s', gs', ell')))"
      unfolding parse6.simps [of s] Let_def rest_def [symmetric]
      by (auto split: if_splits list.splits res.splits)
    have rec: ?thesis if "length cs < length s" "parse6 cs (gs @ [g]) ell2 = Ok (s', gs', ell')"
      "\<forall>e. ell2 = Some e \<longrightarrow> e \<le> length (gs @ [g])" for cs ell2
      using less.hyps [OF that(1,2) _ that(3)] True by simp
    from cases show ?thesis
    proof (elim disjE exE conjE)
      fix c c' cs
      assume "rest = c # c' # cs" and "parse6 cs (gs @ [g]) (Some (length (gs @ [g]))) = Ok (s', gs', ell')"
      then show ?thesis using rec [of cs "Some (length (gs @ [g]))"] shorter [of c "c' # cs"] by simp
    next
      fix c c' cs
      assume "rest = c # c' # cs" and "parse6 (c' # cs) (gs @ [g]) ell = Ok (s', gs', ell')"
      then show ?thesis using rec [of "c' # cs" ell] shorter [of c "c' # cs"] ell by simp
    qed (use True less.prems in auto)
  qed (use less.prems in \<open>simp add: parse6.simps [of s]\<close>)
qed

lemma parse_groups_length: "parse_groups s = Ok gs \<Longrightarrow> length gs = 8"
  by (auto simp: parse_groups_def expand_def split: if_splits res.splits option.splits dest!: parse6_bounds)

lemma ParseAddr_wf: "ParseAddr s = Ok a \<Longrightarrow> wf_Addr a \<and> Addr_IsValid a"
  by (auto simp: ParseAddr_def parseIPv6_def Let_def parseIPv4Fields_length parse_groups_length
      split: list.splits if_splits res.splits)

section \<open>Prefixes\<close>

text \<open>\<^verbatim>\<open>netip.Prefix\<close>: an address and the number of bits plus one, 0 for the zero value.\<close>

datatype Prefix = Prefix (Prefix_Addr: Addr) (Prefix_bitsPlusOne: "8 word")

definition ZeroPrefix :: Prefix where
  "ZeroPrefix = Prefix ZeroAddr 0"

definition Prefix_IsValid :: "Prefix \<Rightarrow> bool" where
  "Prefix_IsValid p = (Prefix_bitsPlusOne p > 0)"

definition Prefix_Bits :: "Prefix \<Rightarrow> int" where
  "Prefix_Bits p = int (unat (Prefix_bitsPlusOne p)) - 1"

definition Prefix_String :: "Prefix \<Rightarrow> string" where
  "Prefix_String p =
     (if Prefix_IsValid p then Addr_String (Prefix_Addr p) @ ''/'' @ itoa (Prefix_Bits p) else ''invalid Prefix'')"

fun withoutZone :: "Addr \<Rightarrow> Addr" where
  "withoutZone (Addr6 gs zone) = Addr6 gs []"
| "withoutZone a = a"

fun has_zone :: "Addr \<Rightarrow> bool" where
  "has_zone (Addr6 gs zone) = (zone \<noteq> [])"
| "has_zone _ = False"

definition PrefixFrom :: "Addr \<Rightarrow> int \<Rightarrow> Prefix" where
  "PrefixFrom ip bits =
     Prefix (withoutZone ip)
       (if ip \<noteq> ZeroAddr \<and> 0 \<le> bits \<and> bits \<le> int (Addr_BitLen ip) then word_of_int bits + 1 else 0)"

definition ParsePrefix :: "string \<Rightarrow> Prefix res" where
  "ParsePrefix s =
     (if CHR ''/'' \<notin> set s then Err (OtherError ''no '/' '')
      else let bitsStr = rev (takeWhile (\<lambda>c. c \<noteq> CHR ''/'') (rev s));
               text = rev (tl (dropWhile (\<lambda>c. c \<noteq> CHR ''/'') (rev s))) in
        case ParseAddr text of
          Err e \<Rightarrow> Err e | Panic p \<Rightarrow> Panic p
        | Ok ip \<Rightarrow>
            if has_zone ip then Err (OtherError ''IPv6 zones cannot be present in a prefix'')
            else if length bitsStr > 1 \<and> char_digit (hd bitsStr) \<in> {None, Some 0} then
              Err (OtherError ''bad bits after slash'')
            else (case Atoi bitsStr of
                None \<Rightarrow> Err (OtherError ''bad bits after slash'')
              | Some bits \<Rightarrow>
                  if bits < 0 \<or> bits > (if Addr_Is6 ip then 128 else 32) then Err (OtherError ''prefix length out of range'')
                  else Ok (PrefixFrom ip bits)))"

definition wf_Prefix :: "Prefix \<Rightarrow> bool" where
  "wf_Prefix p \<longleftrightarrow>
     (if Prefix_IsValid p
      then wf_Addr (Prefix_Addr p) \<and> Addr_IsValid (Prefix_Addr p) \<and> \<not> has_zone (Prefix_Addr p) \<and>
           Prefix_Bits p \<le> int (Addr_BitLen (Prefix_Addr p))
      else p = ZeroPrefix)"

lemma hd_nat_digits_pos: "n > 0 \<Longrightarrow> \<exists>d. 0 < d \<and> d < 10 \<and> hd (nat_digits n) = digit_char d"
proof (induction n rule: nat_digits.induct)
  case (1 n)
  then show ?case by (cases "n < 10") (auto simp: nat_digits.simps [of n] hd_append)
qed

lemma hd_nat_digits_bits: "length (nat_digits n) > 1 \<Longrightarrow> char_digit (hd (nat_digits n)) \<notin> {None, Some 0}"
  using hd_nat_digits_pos [of n] by (cases "n = 0") (auto simp: nat_digits.simps [of 0])

lemma no_slash_digits: "CHR ''/'' \<notin> set (nat_digits n)"
  using hex_of_digits [of "CHR ''/''" n] by (auto simp: is_hex_def char_hex_def)

lemma split_last_slash:
  assumes "CHR ''/'' \<notin> set t"
  shows "rev (takeWhile (\<lambda>c. c \<noteq> CHR ''/'') (rev (s @ CHR ''/'' # t))) = t"
    and "rev (tl (dropWhile (\<lambda>c. c \<noteq> CHR ''/'') (rev (s @ CHR ''/'' # t)))) = s"
  using assms by (auto simp: takeWhile_append dropWhile_append)

lemma withoutZone_id: "\<not> has_zone a \<Longrightarrow> withoutZone a = a"
  by (cases a) auto

lemma ParsePrefix_String:
  assumes wf: "wf_Prefix p" and valid: "Prefix_IsValid p"
  shows "ParsePrefix (Prefix_String p) = Ok p"
proof -
  define bits where "bits = unat (Prefix_bitsPlusOne p) - 1"
  have pos: "unat (Prefix_bitsPlusOne p) > 0" using valid by (simp add: Prefix_IsValid_def word_less_nat_alt)
  then have bits: "Prefix_Bits p = int bits" unfolding Prefix_Bits_def bits_def by linarith
  from wf valid have a: "wf_Addr (Prefix_Addr p)" "Addr_IsValid (Prefix_Addr p)" "\<not> has_zone (Prefix_Addr p)"
    "bits \<le> Addr_BitLen (Prefix_Addr p)"
    by (simp_all add: wf_Prefix_def bits)
  then have max: "bits \<le> (if Addr_Is6 (Prefix_Addr p) then 128 else 32)" by (cases "Prefix_Addr p") auto
  then have le: "bits \<le> 128" by (simp split: if_splits)
  have str: "Prefix_String p = Addr_String (Prefix_Addr p) @ CHR ''/'' # nat_digits bits"
    using valid by (simp add: Prefix_String_def bits itoa_def)
  have atoi: "Atoi (nat_digits bits) = Some (int bits)"
    using Atoi_itoa [of "int bits"] le by (simp add: itoa_def)
  have "word_of_int (int bits) + 1 = Prefix_bitsPlusOne p"
  proof -
    have "word_of_int (int bits) + 1 = (word_of_nat (Suc bits) :: 8 word)" by simp
    also have "Suc bits = unat (Prefix_bitsPlusOne p)" using pos by (simp add: bits_def)
    finally show ?thesis by simp
  qed
  then have from': "PrefixFrom (Prefix_Addr p) (int bits) = p"
    using a by (cases p) (auto simp: PrefixFrom_def withoutZone_id)
  show ?thesis
    unfolding ParsePrefix_def str split_last_slash [OF no_slash_digits] Let_def ParseAddr_String [OF a(1,2)]
    using a(3) max hd_nat_digits_bits [of bits] by (simp add: atoi from' split: if_splits)
qed

lemma PrefixFrom_wf:
  assumes "wf_Addr ip" "Addr_IsValid ip" "\<not> has_zone ip" "0 \<le> bits" "bits \<le> int (Addr_BitLen ip)"
  shows "wf_Prefix (PrefixFrom ip bits) \<and> Prefix_IsValid (PrefixFrom ip bits)"
proof -
  obtain n where n: "bits = int n" using assms(4) zero_le_imp_eq_int by blast
  have le: "n \<le> 128" using assms(5) n by (cases ip) auto
  have "word_of_int bits + 1 = (word_of_nat (Suc n) :: 8 word)" by (simp add: n)
  moreover have "unat (word_of_nat (Suc n) :: 8 word) = Suc n"
    using le by (simp only: unat_of_nat) simp
  ultimately have b: "unat (Prefix_bitsPlusOne (PrefixFrom ip bits)) = Suc n"
    using assms by (cases ip) (simp_all add: PrefixFrom_def add.commute)
  then have "Prefix_IsValid (PrefixFrom ip bits)" and "Prefix_Bits (PrefixFrom ip bits) = bits"
    unfolding Prefix_IsValid_def Prefix_Bits_def word_less_nat_alt b n by simp_all
  moreover have "Prefix_Addr (PrefixFrom ip bits) = ip" using assms(3) by (simp add: PrefixFrom_def withoutZone_id)
  ultimately show ?thesis using assms by (simp add: wf_Prefix_def)
qed

lemma ParsePrefix_wf: "ParsePrefix s = Ok p \<Longrightarrow> wf_Prefix p \<and> Prefix_IsValid p"
proof -
  assume ok: "ParsePrefix s = Ok p"
  then obtain t ip bits where ip: "ParseAddr t = Ok ip" "\<not> has_zone ip" and p: "p = PrefixFrom ip bits"
    and bits: "0 \<le> bits" "bits \<le> (if Addr_Is6 ip then 128 else 32)"
    by (auto simp: ParsePrefix_def Let_def split: if_splits res.splits option.splits)
  from ParseAddr_wf [OF ip(1)] have a: "wf_Addr ip" "Addr_IsValid ip" by simp_all
  from bits a(2) have "bits \<le> int (Addr_BitLen ip)" by (cases ip) auto
  with PrefixFrom_wf [OF a ip(2) bits(1)] p show ?thesis by simp
qed

end
