(* ===== verification/Ip_Types.thy ===== *)
theory Ip_Types
  imports Netip
begin

text \<open>
  The addresses and prefixes of the API, \<^verbatim>\<open>api/v1alpha1/common_types.go\<close>: they wrap \<^verbatim>\<open>netip.Addr\<close> and
  \<^verbatim>\<open>netip.Prefix\<close> and are strings in JSON, \<^verbatim>\<open>null\<close> for the zero value. The locale \<open>json_codec\<close> is the contract of
  such a type; both satisfy it.
\<close>

section \<open>JSON\<close>

text \<open>
  The value of a JSON text: \<^verbatim>\<open>null\<close>, a string, or something else. \<^verbatim>\<open>UnmarshalJSON\<close> is given the text of one
  value without surrounding space, so a text of four bytes that spells \<^verbatim>\<open>null\<close> is \<open>JNull\<close>. Into a string,
  \<^verbatim>\<open>json.Unmarshal\<close> reads strings only.
\<close>

datatype json = JNull | JString string | JOther

fun json_Unmarshal_string :: "json \<Rightarrow> string res" where
  "json_Unmarshal_string JNull = Ok []"
| "json_Unmarshal_string (JString s) = Ok s"
| "json_Unmarshal_string JOther = Err (OtherError ''json: cannot unmarshal value into Go value of type string'')"

text \<open>The contract: what is written is read back, and what is read is well-formed.\<close>

locale json_codec =
  fixes marshal :: "'a \<Rightarrow> json" and unmarshal :: "json \<Rightarrow> 'a res" and wf :: "'a \<Rightarrow> bool"
  assumes unmarshal_marshal: "wf x \<Longrightarrow> unmarshal (marshal x) = Ok x"
    and unmarshal_wf: "unmarshal j = Ok x \<Longrightarrow> wf x"
begin

lemma marshal_inject: "wf x \<Longrightarrow> wf y \<Longrightarrow> marshal x = marshal y \<longleftrightarrow> x = y"
  by (metis res.inject(1) unmarshal_marshal)

text \<open>A value that was read once is read back the same ever after.\<close>

lemma read_write_read: "unmarshal j = Ok x \<Longrightarrow> unmarshal (marshal x) = Ok x"
  by (blast intro: unmarshal_marshal unmarshal_wf)

text \<open>The text of a value that was read does not change when it is read and written again.\<close>

lemma written_text_is_stable: "unmarshal j = Ok x \<Longrightarrow> unmarshal (marshal x) = Ok y \<Longrightarrow> marshal y = marshal x"
  by (simp add: read_write_read)

end

section \<open>IP\<close>

datatype IP = IP (IP_Addr: Addr)

abbreviation ZeroIP :: IP where "ZeroIP \<equiv> IP ZeroAddr"

definition IP_String :: "IP \<Rightarrow> string" where
  "IP_String i = Addr_String (IP_Addr i)"

text \<open>The methods on a pointer; \<open>None\<close> is the nil pointer.\<close>

definition IP_IsValid :: "IP option \<Rightarrow> bool" where
  "IP_IsValid i = (case i of None \<Rightarrow> False | Some ip \<Rightarrow> Addr_IsValid (IP_Addr ip))"

definition IP_IsZero :: "IP option \<Rightarrow> bool" where
  "IP_IsZero i = (case i of None \<Rightarrow> True | Some ip \<Rightarrow> \<not> Addr_IsValid (IP_Addr ip))"

definition IP_DeepCopyInto :: "IP \<Rightarrow> IP \<Rightarrow> IP" where
  "IP_DeepCopyInto inp out = inp"

definition IP_DeepCopy :: "IP \<Rightarrow> IP" where
  "IP_DeepCopy inp = IP (IP_Addr inp)"

definition IP_UnmarshalJSON :: "json \<Rightarrow> IP res" where
  "IP_UnmarshalJSON b =
     (if b = JNull then Ok ZeroIP
      else case json_Unmarshal_string b of
          Err e \<Rightarrow> Err e | Panic p \<Rightarrow> Panic p
        | Ok str \<Rightarrow> (case ParseAddr str of Ok p \<Rightarrow> Ok (IP p) | Err e \<Rightarrow> Err e | Panic p \<Rightarrow> Panic p))"

definition IP_MarshalJSON :: "IP \<Rightarrow> json" where
  "IP_MarshalJSON i = (if IP_IsZero (Some i) then JNull else JString (IP_String i))"

text \<open>\<^verbatim>\<open>interface{}\<close> of an address: nil or a string.\<close>

definition IP_ToUnstructured :: "IP \<Rightarrow> string option" where
  "IP_ToUnstructured i = (if IP_IsZero (Some i) then None else Some (Addr_String (IP_Addr i)))"

definition IP_Family :: "IP \<Rightarrow> string" where
  "IP_Family i = (if Addr_Is4 (IP_Addr i) then ''IPv4'' else if Addr_Is6 (IP_Addr i) then ''IPv6'' else '''')"

definition NewIP :: "Addr \<Rightarrow> IP" where
  "NewIP ip = IP ip"

definition ParseIP :: "string \<Rightarrow> IP res" where
  "ParseIP s = (case ParseAddr s of Ok addr \<Rightarrow> Ok (IP addr) | Err e \<Rightarrow> Err e | Panic p \<Rightarrow> Panic p)"

definition ParseNewIP :: "string \<Rightarrow> IP option res" where
  "ParseNewIP s = (case ParseIP s of Ok ip \<Rightarrow> Ok (Some ip) | Err e \<Rightarrow> Err e | Panic p \<Rightarrow> Panic p)"

text \<open>\<^verbatim>\<open>netip.MustParseAddr\<close> and \<^verbatim>\<open>runtime.Must\<close> panic with the error.\<close>

definition MustParseIP :: "string \<Rightarrow> IP res" where
  "MustParseIP s = (case ParseAddr s of Ok addr \<Rightarrow> Ok (IP addr) | Err e \<Rightarrow> Panic ''MustParseAddr'' | Panic p \<Rightarrow> Panic p)"

definition MustParseNewIP :: "string \<Rightarrow> IP option res" where
  "MustParseNewIP s = (case ParseNewIP s of Ok ip \<Rightarrow> Ok ip | Err e \<Rightarrow> Panic ''Must'' | Panic p \<Rightarrow> Panic p)"

definition NewIPPtr :: "Addr \<Rightarrow> IP option" where
  "NewIPPtr ip = Some (IP ip)"

definition PtrToIP :: "IP \<Rightarrow> IP option" where
  "PtrToIP addr = Some addr"

definition wf_IP :: "IP \<Rightarrow> bool" where
  "wf_IP i = wf_Addr (IP_Addr i)"

interpretation ip_json: json_codec IP_MarshalJSON IP_UnmarshalJSON wf_IP
proof
  show "IP_UnmarshalJSON (IP_MarshalJSON i) = Ok i" if "wf_IP i" for i
    using that ParseAddr_String [of "IP_Addr i"]
    by (cases "IP_Addr i"; cases i)
      (auto simp: IP_UnmarshalJSON_def IP_MarshalJSON_def IP_IsZero_def IP_String_def wf_IP_def)
  show "wf_IP i" if "IP_UnmarshalJSON j = Ok i" for j i
    using that by (auto simp: IP_UnmarshalJSON_def wf_IP_def dest: ParseAddr_wf split: if_splits res.splits)
qed

section \<open>IPPrefix\<close>

datatype IPPrefix = IPPrefix (IPPrefix_Prefix: Prefix)

definition IPPrefix_String :: "IPPrefix \<Rightarrow> string" where
  "IPPrefix_String i = Prefix_String (IPPrefix_Prefix i)"

definition IPPrefix_IP :: "IPPrefix \<Rightarrow> IP" where
  "IPPrefix_IP i = IP (Prefix_Addr (IPPrefix_Prefix i))"

definition IPPrefix_IsValid :: "IPPrefix option \<Rightarrow> bool" where
  "IPPrefix_IsValid i = (case i of None \<Rightarrow> False | Some p \<Rightarrow> Prefix_IsValid (IPPrefix_Prefix p))"

definition IPPrefix_IsZero :: "IPPrefix option \<Rightarrow> bool" where
  "IPPrefix_IsZero i = (case i of None \<Rightarrow> True | Some p \<Rightarrow> \<not> Prefix_IsValid (IPPrefix_Prefix p))"

definition IPPrefix_DeepCopyInto :: "IPPrefix \<Rightarrow> IPPrefix \<Rightarrow> IPPrefix" where
  "IPPrefix_DeepCopyInto inp out = inp"

definition IPPrefix_DeepCopy :: "IPPrefix \<Rightarrow> IPPrefix" where
  "IPPrefix_DeepCopy inp = IPPrefix (IPPrefix_Prefix inp)"

definition IPPrefix_UnmarshalJSON :: "json \<Rightarrow> IPPrefix res" where
  "IPPrefix_UnmarshalJSON b =
     (if b = JNull then Ok (IPPrefix ZeroPrefix)
      else case json_Unmarshal_string b of
          Err e \<Rightarrow> Err e | Panic p \<Rightarrow> Panic p
        | Ok str \<Rightarrow> (case ParsePrefix str of Ok p \<Rightarrow> Ok (IPPrefix p) | Err e \<Rightarrow> Err e | Panic p \<Rightarrow> Panic p))"

definition IPPrefix_MarshalJSON :: "IPPrefix \<Rightarrow> json" where
  "IPPrefix_MarshalJSON i = (if IPPrefix_IsZero (Some i) then JNull else JString (IPPrefix_String i))"

definition IPPrefix_ToUnstructured :: "IPPrefix \<Rightarrow> string option" where
  "IPPrefix_ToUnstructured i = (if IPPrefix_IsZero (Some i) then None else Some (IPPrefix_String i))"

definition NewIPPrefix :: "Prefix \<Rightarrow> IPPrefix option" where
  "NewIPPrefix p = Some (IPPrefix p)"

definition ParseIPPrefix :: "string \<Rightarrow> IPPrefix res" where
  "ParseIPPrefix s = (case ParsePrefix s of Ok p \<Rightarrow> Ok (IPPrefix p) | Err e \<Rightarrow> Err e | Panic p \<Rightarrow> Panic p)"

definition ParseNewIPPrefix :: "string \<Rightarrow> IPPrefix option res" where
  "ParseNewIPPrefix s = (case ParseIPPrefix s of Ok p \<Rightarrow> Ok (Some p) | Err e \<Rightarrow> Err e | Panic p \<Rightarrow> Panic p)"

definition MustParseIPPrefix :: "string \<Rightarrow> IPPrefix res" where
  "MustParseIPPrefix s =
     (case ParsePrefix s of Ok p \<Rightarrow> Ok (IPPrefix p) | Err e \<Rightarrow> Panic ''MustParsePrefix'' | Panic p \<Rightarrow> Panic p)"

definition MustParseNewIPPrefix :: "string \<Rightarrow> IPPrefix option res" where
  "MustParseNewIPPrefix s = (case ParseNewIPPrefix s of Ok p \<Rightarrow> Ok p | Err e \<Rightarrow> Panic ''Must'' | Panic p \<Rightarrow> Panic p)"

definition PtrToIPPrefix :: "IPPrefix \<Rightarrow> IPPrefix option" where
  "PtrToIPPrefix p = Some p"

definition EqualIPPrefixes :: "IPPrefix \<Rightarrow> IPPrefix \<Rightarrow> bool" where
  "EqualIPPrefixes a b = (a = b)"

definition wf_IPPrefix :: "IPPrefix \<Rightarrow> bool" where
  "wf_IPPrefix i = wf_Prefix (IPPrefix_Prefix i)"

lemma wf_ZeroPrefix [simp]: "wf_Prefix ZeroPrefix"
  by (simp add: wf_Prefix_def ZeroPrefix_def Prefix_IsValid_def)

interpretation prefix_json: json_codec IPPrefix_MarshalJSON IPPrefix_UnmarshalJSON wf_IPPrefix
proof
  show "IPPrefix_UnmarshalJSON (IPPrefix_MarshalJSON i) = Ok i" if "wf_IPPrefix i" for i
    using that ParsePrefix_String [of "IPPrefix_Prefix i"]
    by (cases "Prefix_IsValid (IPPrefix_Prefix i)"; cases i)
      (auto simp: IPPrefix_UnmarshalJSON_def IPPrefix_MarshalJSON_def IPPrefix_IsZero_def IPPrefix_String_def
        wf_IPPrefix_def wf_Prefix_def)
  show "wf_IPPrefix i" if "IPPrefix_UnmarshalJSON j = Ok i" for j i
    using that
    by (auto simp: IPPrefix_UnmarshalJSON_def wf_IPPrefix_def dest: ParsePrefix_wf split: if_splits res.splits)
qed

end
