(* ===== verification/Api_Types.thy ===== *)
theory Api_Types
  imports Ip_Types
begin

text \<open>
  The custom resources of \<^verbatim>\<open>api/v1alpha1\<close> and the parts of the Kubernetes object types they embed.
  A struct is a record whose fields carry the struct's name as prefix; a string type with constants
  is \<open>string\<close> with the constants as abbreviations, because the code converts freely between them
  and what the BMC reports; a pointer field is an option; a Go map is an association list, iterated
  in the order of the list, so that a theorem about every list covers every iteration order.
\<close>

section \<open>Object metadata and references\<close>

type_synonym labels = "(string \<times> string) list"

datatype LocalObjectReference = LocalObjectReference (LocalObjectReference_Name: string)

record ObjectReference =
  ObjectReference_APIVersion :: string
  ObjectReference_Kind :: string
  ObjectReference_Namespace :: string
  ObjectReference_Name :: string
  ObjectReference_UID :: string

record OwnerReference =
  OwnerReference_Kind :: string
  OwnerReference_Name :: string
  OwnerReference_UID :: string
  OwnerReference_Controller :: bool

record ManagedFieldsEntry =
  ManagedFieldsEntry_Operation :: string
  ManagedFieldsEntry_Subresource :: string
  ManagedFieldsEntry_Time :: "int option"

record ObjectMeta =
  ObjectMeta_Name :: string
  ObjectMeta_Namespace :: string
  ObjectMeta_UID :: string
  ObjectMeta_Labels :: labels
  ObjectMeta_Annotations :: "(string \<times> string) list"
  ObjectMeta_Finalizers :: "string list"
  ObjectMeta_OwnerReferences :: "OwnerReference list"
  ObjectMeta_DeletionTimestamp :: "int option"
  ObjectMeta_ManagedFields :: "ManagedFieldsEntry list"

definition empty_ObjectMeta :: ObjectMeta where
  "empty_ObjectMeta = \<lparr>ObjectMeta_Name = '''', ObjectMeta_Namespace = '''', ObjectMeta_UID = '''',
     ObjectMeta_Labels = [], ObjectMeta_Annotations = [], ObjectMeta_Finalizers = [],
     ObjectMeta_OwnerReferences = [], ObjectMeta_DeletionTimestamp = None,
     ObjectMeta_ManagedFields = []\<rparr>"

record Condition =
  Condition_Type :: string
  Condition_Status :: string
  Condition_Reason :: string
  Condition_Message :: string

record LabelSelectorRequirement =
  LabelSelectorRequirement_Key :: string
  LabelSelectorRequirement_Operator :: string
  LabelSelectorRequirement_Values :: "string list"

record LabelSelector =
  LabelSelector_MatchLabels :: labels
  LabelSelector_MatchExpressions :: "LabelSelectorRequirement list"

section \<open>constants.go\<close>

abbreviation OperationAnnotation :: string where
  "OperationAnnotation \<equiv> ''metal.ironcore.dev/operation''"

abbreviation OperationAnnotationIgnore :: string where
  "OperationAnnotationIgnore \<equiv> ''ignore''"

section \<open>server\_types.go\<close>

type_synonym Power = string
type_synonym ServerPowerState = string
type_synonym ServerState = string
type_synonym IndicatorLED = string
type_synonym StorageState = string
type_synonym Quantity = int

abbreviation PowerOn :: Power where "PowerOn \<equiv> ''On''"
abbreviation PowerOff :: Power where "PowerOff \<equiv> ''Off''"

abbreviation ServerOnPowerState :: ServerPowerState where "ServerOnPowerState \<equiv> ''On''"
abbreviation ServerOffPowerState :: ServerPowerState where "ServerOffPowerState \<equiv> ''Off''"
abbreviation ServerPausedPowerState :: ServerPowerState where "ServerPausedPowerState \<equiv> ''Paused''"
abbreviation ServerPoweringOnPowerState :: ServerPowerState where
  "ServerPoweringOnPowerState \<equiv> ''PoweringOn''"
abbreviation ServerPoweringOffPowerState :: ServerPowerState where
  "ServerPoweringOffPowerState \<equiv> ''PoweringOff''"

abbreviation ServerStateInitial :: ServerState where "ServerStateInitial \<equiv> ''Initial''"
abbreviation ServerStateDiscovery :: ServerState where "ServerStateDiscovery \<equiv> ''Discovery''"
abbreviation ServerStateAvailable :: ServerState where "ServerStateAvailable \<equiv> ''Available''"
abbreviation ServerStateReserved :: ServerState where "ServerStateReserved \<equiv> ''Reserved''"
abbreviation ServerStateError :: ServerState where "ServerStateError \<equiv> ''Error''"

record Protocol =
  Protocol_Name :: string
  Protocol_Port :: "32 word"

record BMCAccess =
  BMCAccess_Protocol :: Protocol
  BMCAccess_Address :: string
  BMCAccess_BMCSecretRef :: LocalObjectReference

record BootOrder =
  BootOrder_Name :: string
  BootOrder_Priority :: int
  BootOrder_Device :: string

record BIOSSettings =
  BIOSSettings_Version :: string
  BIOSSettings_Settings :: "(string \<times> string) list"

record ServerSpec =
  ServerSpec_UUID :: string
  ServerSpec_SystemUUID :: string
  ServerSpec_Power :: Power
  ServerSpec_IndicatorLED :: IndicatorLED
  ServerSpec_ServerClaimRef :: "ObjectReference option"
  ServerSpec_BMCRef :: "LocalObjectReference option"
  ServerSpec_BMC :: "BMCAccess option"
  ServerSpec_BootConfigurationRef :: "ObjectReference option"
  ServerSpec_BootOrder :: "BootOrder list"
  ServerSpec_BIOS :: "BIOSSettings list"

record NetworkInterface =
  NetworkInterface_Name :: string
  NetworkInterface_IP :: IP
  NetworkInterface_MACAddress :: string

record StorageDrive =
  StorageDrive_Name :: string
  StorageDrive_MediaType :: string
  StorageDrive_Type :: string
  StorageDrive_Capacity :: "Quantity option"
  StorageDrive_Vendor :: string
  StorageDrive_Model :: string
  StorageDrive_State :: StorageState

record StorageVolume =
  StorageVolume_Name :: string
  StorageVolume_Capacity :: "Quantity option"
  StorageVolume_State :: StorageState
  StorageVolume_RAIDType :: string
  StorageVolume_VolumeUsage :: string

record Storage =
  Storage_Name :: string
  Storage_State :: StorageState
  Storage_Volumes :: "StorageVolume list"
  Storage_Drives :: "StorageDrive list"

record ServerStatus =
  ServerStatus_Manufacturer :: string
  ServerStatus_Model :: string
  ServerStatus_SKU :: string
  ServerStatus_SerialNumber :: string
  ServerStatus_PowerState :: ServerPowerState
  ServerStatus_IndicatorLED :: IndicatorLED
  ServerStatus_State :: ServerState
  ServerStatus_NetworkInterfaces :: "NetworkInterface list"
  ServerStatus_TotalSystemMemory :: "Quantity option"
  ServerStatus_Storages :: "Storage list"
  ServerStatus_BIOS :: BIOSSettings
  ServerStatus_Conditions :: "Condition list"

record Server =
  Server_Meta :: ObjectMeta
  Server_Spec :: ServerSpec
  Server_Status :: ServerStatus

section \<open>bmc\_types.go, bmcsecret\_types.go, endpoint\_types.go\<close>

abbreviation BMCType :: string where "BMCType \<equiv> ''bmc''"
abbreviation ProtocolRedfish :: string where "ProtocolRedfish \<equiv> ''Redfish''"
abbreviation ProtocolRedfishLocal :: string where "ProtocolRedfishLocal \<equiv> ''RedfishLocal''"
abbreviation ProtocolRedfishKube :: string where "ProtocolRedfishKube \<equiv> ''RedfishKube''"

record InlineEndpoint =
  InlineEndpoint_MACAddress :: string
  InlineEndpoint_IP :: IP

record ConsoleProtocol =
  ConsoleProtocol_Name :: string
  ConsoleProtocol_Port :: "32 word"

record BMCSpec =
  BMCSpec_EndpointRef :: "LocalObjectReference option"
  BMCSpec_Endpoint :: "InlineEndpoint option"
  BMCSpec_BMCSecretRef :: LocalObjectReference
  BMCSpec_Protocol :: Protocol
  BMCSpec_ConsoleProtocol :: "ConsoleProtocol option"

record BMCStatus =
  BMCStatus_MACAddress :: string
  BMCStatus_IP :: IP
  BMCStatus_Manufacturer :: string
  BMCStatus_Model :: string
  BMCStatus_SKU :: string
  BMCStatus_SerialNumber :: string
  BMCStatus_FirmwareVersion :: string
  BMCStatus_State :: string
  BMCStatus_PowerState :: string
  BMCStatus_Conditions :: "Condition list"

record BMC =
  BMC_Meta :: ObjectMeta
  BMC_Spec :: BMCSpec
  BMC_Status :: BMCStatus

abbreviation BMCSecretUsernameKeyName :: string where "BMCSecretUsernameKeyName \<equiv> ''username''"
abbreviation BMCSecretPasswordKeyName :: string where "BMCSecretPasswordKeyName \<equiv> ''password''"

record BMCSecret =
  BMCSecret_Meta :: ObjectMeta
  BMCSecret_Immutable :: "bool option"
  BMCSecret_Data :: "(string \<times> string) list"
  BMCSecret_StringData :: "(string \<times> string) list"
  BMCSecret_Type :: string

record EndpointSpec =
  EndpointSpec_MACAddress :: string
  EndpointSpec_IP :: IP

record Endpoint =
  Endpoint_Meta :: ObjectMeta
  Endpoint_Spec :: EndpointSpec

section \<open>serverbootconfiguration\_types.go, serverclaim\_types.go\<close>

abbreviation ServerBootConfigurationStatePending :: string where
  "ServerBootConfigurationStatePending \<equiv> ''Pending''"
abbreviation ServerBootConfigurationStateReady :: string where
  "ServerBootConfigurationStateReady \<equiv> ''Ready''"
abbreviation ServerBootConfigurationStateError :: string where
  "ServerBootConfigurationStateError \<equiv> ''Error''"

record ServerBootConfigurationSpec =
  SBCSpec_ServerRef :: LocalObjectReference
  SBCSpec_Image :: string
  SBCSpec_IgnitionSecretRef :: "LocalObjectReference option"

record ServerBootConfiguration =
  SBC_Meta :: ObjectMeta
  SBC_Spec :: ServerBootConfigurationSpec
  SBC_State :: string

abbreviation PhaseBound :: string where "PhaseBound \<equiv> ''Bound''"
abbreviation PhaseUnbound :: string where "PhaseUnbound \<equiv> ''Unbound''"

record ServerClaimSpec =
  ServerClaimSpec_Power :: Power
  ServerClaimSpec_ServerRef :: "LocalObjectReference option"
  ServerClaimSpec_ServerSelector :: "LabelSelector option"
  ServerClaimSpec_IgnitionSecretRef :: "LocalObjectReference option"
  ServerClaimSpec_Image :: string

record ServerClaim =
  ServerClaim_Meta :: ObjectMeta
  ServerClaim_Spec :: ServerClaimSpec
  ServerClaim_Phase :: string

text \<open>A core \<^verbatim>\<open>v1.Secret\<close>, as far as the controllers write one.\<close>

record Secret =
  Secret_Meta :: ObjectMeta
  Secret_Data :: "(string \<times> string) list"

text \<open>\<^verbatim>\<open>&Server{}\<close> with a name.\<close>

definition named_Server :: "string \<Rightarrow> Server" where
  "named_Server n = \<lparr>Server_Meta = empty_ObjectMeta\<lparr>ObjectMeta_Name := n\<rparr>,
     Server_Spec = \<lparr>ServerSpec_UUID = '''', ServerSpec_SystemUUID = '''', ServerSpec_Power = '''',
       ServerSpec_IndicatorLED = '''', ServerSpec_ServerClaimRef = None, ServerSpec_BMCRef = None,
       ServerSpec_BMC = None, ServerSpec_BootConfigurationRef = None, ServerSpec_BootOrder = [],
       ServerSpec_BIOS = []\<rparr>,
     Server_Status = \<lparr>ServerStatus_Manufacturer = '''', ServerStatus_Model = '''', ServerStatus_SKU = '''',
       ServerStatus_SerialNumber = '''', ServerStatus_PowerState = '''', ServerStatus_IndicatorLED = '''',
       ServerStatus_State = '''', ServerStatus_NetworkInterfaces = [], ServerStatus_TotalSystemMemory = None,
       ServerStatus_Storages = [], ServerStatus_BIOS = \<lparr>BIOSSettings_Version = '''', BIOSSettings_Settings = []\<rparr>,
       ServerStatus_Conditions = []\<rparr>\<rparr>"

section \<open>Field access through pointers\<close>

text \<open>The paths the code writes most: \<^verbatim>\<open>server.Spec.F\<close>, \<^verbatim>\<open>server.Status.F\<close>, \<^verbatim>\<open>obj.Name\<close>.\<close>

abbreviation "srvName s \<equiv> ObjectMeta_Name (Server_Meta s)"
abbreviation "srvAnnotations s \<equiv> ObjectMeta_Annotations (Server_Meta s)"
abbreviation "srvPower s \<equiv> ServerSpec_Power (Server_Spec s)"
abbreviation "srvSystemUUID s \<equiv> ServerSpec_SystemUUID (Server_Spec s)"
abbreviation "srvClaimRef s \<equiv> ServerSpec_ServerClaimRef (Server_Spec s)"
abbreviation "srvBMCRef s \<equiv> ServerSpec_BMCRef (Server_Spec s)"
abbreviation "srvBMC s \<equiv> ServerSpec_BMC (Server_Spec s)"
abbreviation "srvBootConfigurationRef s \<equiv> ServerSpec_BootConfigurationRef (Server_Spec s)"
abbreviation "srvBootOrder s \<equiv> ServerSpec_BootOrder (Server_Spec s)"
abbreviation "srvBIOS s \<equiv> ServerSpec_BIOS (Server_Spec s)"
abbreviation "srvState s \<equiv> ServerStatus_State (Server_Status s)"
abbreviation "srvPowerState s \<equiv> ServerStatus_PowerState (Server_Status s)"

definition set_Power :: "Power \<Rightarrow> Server \<Rightarrow> Server" where
  "set_Power p s = s\<lparr>Server_Spec := (Server_Spec s)\<lparr>ServerSpec_Power := p\<rparr>\<rparr>"

definition set_ServerClaimRef :: "ObjectReference option \<Rightarrow> Server \<Rightarrow> Server" where
  "set_ServerClaimRef r s = s\<lparr>Server_Spec := (Server_Spec s)\<lparr>ServerSpec_ServerClaimRef := r\<rparr>\<rparr>"

definition set_BootConfigurationRef :: "ObjectReference option \<Rightarrow> Server \<Rightarrow> Server" where
  "set_BootConfigurationRef r s =
     s\<lparr>Server_Spec := (Server_Spec s)\<lparr>ServerSpec_BootConfigurationRef := r\<rparr>\<rparr>"

definition set_State :: "ServerState \<Rightarrow> Server \<Rightarrow> Server" where
  "set_State st s = s\<lparr>Server_Status := (Server_Status s)\<lparr>ServerStatus_State := st\<rparr>\<rparr>"

lemma set_Power_simps [simp]:
  "srvPower (set_Power p s) = p"
  "srvState (set_Power p s) = srvState s"
  "srvPowerState (set_Power p s) = srvPowerState s"
  "srvClaimRef (set_Power p s) = srvClaimRef s"
  "srvBootConfigurationRef (set_Power p s) = srvBootConfigurationRef s"
  "srvSystemUUID (set_Power p s) = srvSystemUUID s"
  "Server_Meta (set_Power p s) = Server_Meta s"
  "Server_Status (set_Power p s) = Server_Status s"
  by (simp_all add: set_Power_def)

lemma set_ServerClaimRef_simps [simp]:
  "srvClaimRef (set_ServerClaimRef r s) = r"
  "srvState (set_ServerClaimRef r s) = srvState s"
  "srvPower (set_ServerClaimRef r s) = srvPower s"
  "srvBootConfigurationRef (set_ServerClaimRef r s) = srvBootConfigurationRef s"
  "Server_Meta (set_ServerClaimRef r s) = Server_Meta s"
  "Server_Status (set_ServerClaimRef r s) = Server_Status s"
  by (simp_all add: set_ServerClaimRef_def)

lemma set_BootConfigurationRef_simps [simp]:
  "srvBootConfigurationRef (set_BootConfigurationRef r s) = r"
  "srvState (set_BootConfigurationRef r s) = srvState s"
  "srvPower (set_BootConfigurationRef r s) = srvPower s"
  "srvClaimRef (set_BootConfigurationRef r s) = srvClaimRef s"
  "Server_Meta (set_BootConfigurationRef r s) = Server_Meta s"
  "Server_Status (set_BootConfigurationRef r s) = Server_Status s"
  by (simp_all add: set_BootConfigurationRef_def)

lemma set_State_simps [simp]:
  "srvState (set_State st s) = st"
  "srvPowerState (set_State st s) = srvPowerState s"
  "Server_Spec (set_State st s) = Server_Spec s"
  "Server_Meta (set_State st s) = Server_Meta s"
  by (simp_all add: set_State_def)

end
