(* ===== verification/Environment.thy ===== *)
theory Environment
  imports Api_Types
begin

text \<open>
  Everything the program calls and does not contain: the Kubernetes API through the
  controller-runtime client, the gofish Redfish library, HTTP, the clock and the sources of
  randomness. It is a parameter \<open>E\<close> of every definition that uses it: a record of functions on an
  unknown world \<open>'w\<close>. Each operation below only names one of these functions and records the call
  and its outcome in the trace.
\<close>

section \<open>Data of the libraries\<close>

text \<open>\<^verbatim>\<open>controllerutil.OperationResult\<close>.\<close>

datatype OperationResult = OperationResultNone | OperationResultCreated | OperationResultUpdated
  | OperationResultUpdatedStatus | OperationResultUpdatedStatusOnly

text \<open>The parts of gofish's \<^verbatim>\<open>redfish\<close> types that are read or written.\<close>

record Boot =
  Boot_BootSourceOverrideEnabled :: string
  Boot_BootSourceOverrideMode :: string
  Boot_BootSourceOverrideTarget :: string
  Boot_BootOrder :: "string list"

record ComputerSystem =
  CS_ID :: string
  CS_UUID :: string
  CS_Model :: string
  CS_Manufacturer :: string
  CS_PowerState :: string
  CS_SerialNumber :: string
  CS_SKU :: string
  CS_IndicatorLED :: string
  CS_Status :: string
  CS_TotalSystemMemoryGiB :: nat
  CS_BIOSVersion :: string
  CS_Boot :: Boot

record GManager =
  GManager_UUID :: string
  GManager_Manufacturer :: string
  GManager_State :: string
  GManager_PowerState :: string
  GManager_SerialNumber :: string
  GManager_FirmwareVersion :: string
  GManager_PartNumber :: string
  GManager_Model :: string

record GRegistry =
  GRegistry_ID :: string
  GRegistry_Location :: "string list"

record RegistryEntryAttributes =
  Attr_AttributeName :: string
  Attr_Hidden :: bool
  Attr_Immutable :: bool
  Attr_ReadOnly :: bool
  Attr_ResetRequired :: bool
  Attr_Type :: string

record GVolume =
  GVolume_ID :: string
  GVolume_Name :: string
  GVolume_CapacityBytes :: "64 word"
  GVolume_RAIDType :: string
  GVolume_State :: string

record GDrive =
  GDrive_ID :: string
  GDrive_Name :: string
  GDrive_MediaType :: string
  GDrive_DriveFormFactor :: string
  GDrive_CapacityBytes :: "64 word"
  GDrive_Manufacturer :: string
  GDrive_Model :: string
  GDrive_State :: string

record GStorage =
  GStorage_ID :: string
  GStorage_Name :: string

record GSimpleStorage =
  GSimpleStorage_ID :: string
  GSimpleStorage_Name :: string
  GSimpleStorage_Devices :: "GDrive list"

record ClientConfig =
  ClientConfig_Endpoint :: string
  ClientConfig_Username :: string
  ClientConfig_Password :: string
  ClientConfig_Insecure :: bool
  ClientConfig_BasicAuth :: bool

text \<open>
  The wire format between probe, registry and controller (\<^verbatim>\<open>internal/api/registry\<close>). A body is the
  value it decodes to, or \<open>None\<close> when it does not decode.
\<close>

record RegistryNetworkInterface =
  RNI_Name :: string
  RNI_IPAddress :: string
  RNI_MACAddress :: string

record RegistryServer =
  RegistryServer_NetworkInterfaces :: "RegistryNetworkInterface list"

record RegistrationPayload =
  RegistrationPayload_SystemUUID :: string
  RegistrationPayload_Data :: RegistryServer

record HttpResponse =
  HttpResponse_StatusCode :: int
  HttpResponse_Body :: "RegistryServer option"

text \<open>A \<^verbatim>\<open>batch/v1\<close> Job as the test BMC creates it.\<close>

record Job =
  Job_GenerateName :: string
  Job_Namespace :: string
  Job_Labels :: labels
  Job_PodLabels :: labels
  Job_ContainerName :: string
  Job_Image :: string
  Job_Command :: "string list"
  Job_RestartPolicy :: string
  Job_TTLSecondsAfterFinished :: int

section \<open>The environment\<close>

record 'w kube =
  k_getServer :: "string \<Rightarrow> 'w \<Rightarrow> Server res \<times> 'w"
  k_getBMC :: "string \<Rightarrow> 'w \<Rightarrow> BMC res \<times> 'w"
  k_getBMCSecret :: "string \<Rightarrow> 'w \<Rightarrow> BMCSecret res \<times> 'w"
  k_getEndpoint :: "string \<Rightarrow> 'w \<Rightarrow> Endpoint res \<times> 'w"
  k_getSBC :: "string \<Rightarrow> string \<Rightarrow> 'w \<Rightarrow> ServerBootConfiguration res \<times> 'w"
  k_getClaim :: "string \<Rightarrow> string \<Rightarrow> 'w \<Rightarrow> ServerClaim res \<times> 'w"
  k_listServers :: "(labels \<Rightarrow> bool) option \<Rightarrow> 'w \<Rightarrow> Server list res \<times> 'w"
  k_listClaims :: "'w \<Rightarrow> ServerClaim list res \<times> 'w"
  k_listEndpoints :: "'w \<Rightarrow> Endpoint list res \<times> 'w"
  k_listJobs :: "string \<Rightarrow> labels \<Rightarrow> 'w \<Rightarrow> nat res \<times> 'w"
  k_patchServer :: "Server \<Rightarrow> Server \<Rightarrow> 'w \<Rightarrow> Server res \<times> 'w"
  k_patchServerStatus :: "Server \<Rightarrow> Server \<Rightarrow> 'w \<Rightarrow> Server res \<times> 'w"
  k_patchClaim :: "ServerClaim \<Rightarrow> ServerClaim \<Rightarrow> 'w \<Rightarrow> ServerClaim res \<times> 'w"
  k_patchClaimStatus :: "ServerClaim \<Rightarrow> ServerClaim \<Rightarrow> 'w \<Rightarrow> ServerClaim res \<times> 'w"
  k_patchSBCStatus ::
    "ServerBootConfiguration \<Rightarrow> ServerBootConfiguration \<Rightarrow> 'w \<Rightarrow> ServerBootConfiguration res \<times> 'w"
  k_patchBMCStatus :: "BMC \<Rightarrow> BMC \<Rightarrow> 'w \<Rightarrow> BMC res \<times> 'w"
  k_applySecret :: "Secret \<Rightarrow> 'w \<Rightarrow> unit res \<times> 'w"
  k_deleteSBC :: "string \<Rightarrow> string \<Rightarrow> 'w \<Rightarrow> unit res \<times> 'w"
  k_createJob :: "Job \<Rightarrow> 'w \<Rightarrow> unit res \<times> 'w"
  k_createOrPatchServer ::
    "Server \<Rightarrow> (Server \<Rightarrow> Server res) \<Rightarrow> 'w \<Rightarrow> (OperationResult \<times> Server) res \<times> 'w"
  k_createOrPatchSBC :: "ServerBootConfiguration \<Rightarrow> (ServerBootConfiguration \<Rightarrow> ServerBootConfiguration res)
    \<Rightarrow> 'w \<Rightarrow> (OperationResult \<times> ServerBootConfiguration) res \<times> 'w"
  k_createOrPatchBMC :: "BMC \<Rightarrow> (BMC \<Rightarrow> BMC res) \<Rightarrow> 'w \<Rightarrow> (OperationResult \<times> BMC) res \<times> 'w"
  k_createOrPatchBMCSecret ::
    "BMCSecret \<Rightarrow> (BMCSecret \<Rightarrow> BMCSecret res) \<Rightarrow> 'w \<Rightarrow> (OperationResult \<times> BMCSecret) res \<times> 'w"
  k_ensureFinalizerServer :: "Server \<Rightarrow> string \<Rightarrow> 'w \<Rightarrow> (bool \<times> Server) res \<times> 'w"
  k_ensureNoFinalizerServer :: "Server \<Rightarrow> string \<Rightarrow> 'w \<Rightarrow> (bool \<times> Server) res \<times> 'w"
  k_ensureFinalizerClaim :: "ServerClaim \<Rightarrow> string \<Rightarrow> 'w \<Rightarrow> (bool \<times> ServerClaim) res \<times> 'w"
  k_ensureNoFinalizerClaim :: "ServerClaim \<Rightarrow> string \<Rightarrow> 'w \<Rightarrow> (bool \<times> ServerClaim) res \<times> 'w"
  k_ensureNoFinalizerBMC :: "BMC \<Rightarrow> string \<Rightarrow> 'w \<Rightarrow> (bool \<times> BMC) res \<times> 'w"
  k_ensureNoFinalizerEndpoint :: "Endpoint \<Rightarrow> string \<Rightarrow> 'w \<Rightarrow> (bool \<times> Endpoint) res \<times> 'w"
  k_setControllerReference :: "string \<Rightarrow> ObjectMeta \<Rightarrow> ObjectMeta \<Rightarrow> ObjectMeta res"
  k_setLabels :: "labels \<Rightarrow> labels \<Rightarrow> labels"
  k_setStatusCondition :: "Condition list \<Rightarrow> Condition \<Rightarrow> bool \<times> Condition list"
  k_labelSelectorAsSelector :: "LabelSelector \<Rightarrow> (labels \<Rightarrow> bool) res"

record 'w gofish = "'w kube" +
  g_connect :: "ClientConfig \<Rightarrow> 'w \<Rightarrow> nat res \<times> 'w"
  g_logout :: "nat \<Rightarrow> 'w \<Rightarrow> unit res \<times> 'w"
  g_systems :: "nat \<Rightarrow> 'w \<Rightarrow> ComputerSystem list res \<times> 'w"
  g_reset :: "nat \<Rightarrow> ComputerSystem \<Rightarrow> string \<Rightarrow> 'w \<Rightarrow> unit res \<times> 'w"
  g_setBoot :: "nat \<Rightarrow> ComputerSystem \<Rightarrow> Boot \<Rightarrow> 'w \<Rightarrow> unit res \<times> 'w"
  g_patchSystem :: "nat \<Rightarrow> string \<Rightarrow> ComputerSystem \<Rightarrow> 'w \<Rightarrow> unit res \<times> 'w"
  g_managers :: "nat \<Rightarrow> 'w \<Rightarrow> GManager list res \<times> 'w"
  g_registries :: "nat \<Rightarrow> 'w \<Rightarrow> (GRegistry list \<times> error option) res \<times> 'w"
  g_registryGet :: "nat \<Rightarrow> string \<Rightarrow> 'w \<Rightarrow> RegistryEntryAttributes list res \<times> 'w"
  g_bios :: "nat \<Rightarrow> ComputerSystem \<Rightarrow> 'w \<Rightarrow> (string \<Rightarrow> string) res \<times> 'w"
  g_updateBiosAttributes :: "nat \<Rightarrow> ComputerSystem \<Rightarrow> (string \<times> string) list \<Rightarrow> 'w \<Rightarrow> unit res \<times> 'w"
  g_storage :: "nat \<Rightarrow> ComputerSystem \<Rightarrow> 'w \<Rightarrow> GStorage list res \<times> 'w"
  g_volumes :: "nat \<Rightarrow> GStorage \<Rightarrow> 'w \<Rightarrow> GVolume list res \<times> 'w"
  g_drives :: "nat \<Rightarrow> GStorage \<Rightarrow> 'w \<Rightarrow> GDrive list res \<times> 'w"
  g_simpleStorages :: "nat \<Rightarrow> ComputerSystem \<Rightarrow> 'w \<Rightarrow> GSimpleStorage list res \<times> 'w"
  g_parseQuantity :: "string \<Rightarrow> Quantity res"

text \<open>
  \<open>s_polls interval timeout\<close> is how often the interval elapses before the timeout of a
  \<^verbatim>\<open>wait.PollUntilContextTimeout\<close>; \<open>s_sortBootOrder\<close> is \<^verbatim>\<open>sort.Slice\<close>, which fixes no order among
  equal priorities.
\<close>

record 'w env = "'w gofish" +
  s_polls :: "int \<Rightarrow> int \<Rightarrow> 'w \<Rightarrow> nat"
  s_httpGet :: "string \<Rightarrow> 'w \<Rightarrow> (HttpResponse option \<times> error option) res \<times> 'w"
  s_httpDelete :: "string \<Rightarrow> 'w \<Rightarrow> unit res \<times> 'w"
  s_httpPostRegister :: "string \<Rightarrow> RegistrationPayload \<Rightarrow> 'w \<Rightarrow> int res \<times> 'w"
  s_now :: "'w \<Rightarrow> int"
  s_sortBootOrder :: "BootOrder list \<Rightarrow> BootOrder list"
  s_rsaGenerateKey :: "nat \<Rightarrow> 'w \<Rightarrow> string res \<times> 'w"
  s_marshalPrivateKey :: "string \<Rightarrow> string res"
  s_newPublicKey :: "string \<Rightarrow> string res"
  s_randInt :: "nat \<Rightarrow> 'w \<Rightarrow> nat res \<times> 'w"
  s_bcrypt :: "string \<Rightarrow> 'w \<Rightarrow> string res \<times> 'w"

section \<open>Events\<close>

datatype kube_event =
    GotServer string "Server res"
  | GotClaim string string "ServerClaim res"
  | GotSBC string string "ServerBootConfiguration res"
  | GotObject string string bool
  | Listed string bool
  | PatchedServer Server Server "Server res"
  | PatchedServerStatus Server Server "Server res"
  | PatchedClaim ServerClaim ServerClaim "ServerClaim res"
  | PatchedClaimStatus ServerClaim ServerClaim "ServerClaim res"
  | PatchedSBCStatus ServerBootConfiguration ServerBootConfiguration bool
  | PatchedBMCStatus BMC BMC bool
  | AppliedSecret Secret bool
  | DeletedSBC string string "unit res"
  | CreatedJob Job bool
  | CreatedOrPatchedServer string "(OperationResult \<times> Server) res"
  | CreatedOrPatchedSBC string string "(OperationResult \<times> ServerBootConfiguration) res"
  | CreatedOrPatchedBMC string "(OperationResult \<times> BMC) res"
  | CreatedOrPatchedBMCSecret string "(OperationResult \<times> BMCSecret) res"
  | EnsuredFinalizer string string string bool
  | EnsuredNoFinalizer string string string bool

datatype bmc_event =
    Connected ClientConfig "nat res"
  | LoggedOut nat
  | ListedSystems nat "ComputerSystem list res"
  | ResetSystem nat string string bool
  | SetBoot nat string Boot bool
  | PatchedSystem nat string ComputerSystem bool
  | ReadBMC nat string bool
  | UpdatedBiosAttributes nat string "(string \<times> string) list" bool

datatype sys_event =
    HttpGot string "(HttpResponse option \<times> error option) res"
  | HttpDeleted string bool
  | HttpPostedRegister string RegistrationPayload bool
  | RandomRead nat

datatype event = EKube kube_event | EBmc bmc_event | ESys sys_event

type_synonym ('w, 'a) M = "(event, 'w, 'a) prog"

section \<open>Calls\<close>

definition GetServer :: "'w env \<Rightarrow> string \<Rightarrow> ('w, Server) M" where
  "GetServer E n = callM (k_getServer E n) (\<lambda>r. EKube (GotServer n r))"

definition GetBMC :: "'w env \<Rightarrow> string \<Rightarrow> ('w, BMC) M" where
  "GetBMC E n = callM (k_getBMC E n) (\<lambda>r. EKube (GotObject ''BMC'' n (is_ok r)))"

definition GetBMCSecret :: "'w env \<Rightarrow> string \<Rightarrow> ('w, BMCSecret) M" where
  "GetBMCSecret E n = callM (k_getBMCSecret E n) (\<lambda>r. EKube (GotObject ''BMCSecret'' n (is_ok r)))"

definition GetEndpoint :: "'w env \<Rightarrow> string \<Rightarrow> ('w, Endpoint) M" where
  "GetEndpoint E n = callM (k_getEndpoint E n) (\<lambda>r. EKube (GotObject ''Endpoint'' n (is_ok r)))"

definition GetSBC :: "'w env \<Rightarrow> string \<Rightarrow> string \<Rightarrow> ('w, ServerBootConfiguration) M" where
  "GetSBC E ns n = callM (k_getSBC E ns n) (\<lambda>r. EKube (GotSBC ns n r))"

definition GetClaim :: "'w env \<Rightarrow> string \<Rightarrow> string \<Rightarrow> ('w, ServerClaim) M" where
  "GetClaim E ns n = callM (k_getClaim E ns n) (\<lambda>r. EKube (GotClaim ns n r))"

definition ListServers :: "'w env \<Rightarrow> (labels \<Rightarrow> bool) option \<Rightarrow> ('w, Server list) M" where
  "ListServers E sel = callM (k_listServers E sel) (\<lambda>r. EKube (Listed ''Server'' (is_ok r)))"

definition ListClaims :: "'w env \<Rightarrow> ('w, ServerClaim list) M" where
  "ListClaims E = callM (k_listClaims E) (\<lambda>r. EKube (Listed ''ServerClaim'' (is_ok r)))"

definition ListEndpoints :: "'w env \<Rightarrow> ('w, Endpoint list) M" where
  "ListEndpoints E = callM (k_listEndpoints E) (\<lambda>r. EKube (Listed ''Endpoint'' (is_ok r)))"

definition ListJobs :: "'w env \<Rightarrow> string \<Rightarrow> labels \<Rightarrow> ('w, nat) M" where
  "ListJobs E ns ls = callM (k_listJobs E ns ls) (\<lambda>r. EKube (Listed ''Job'' (is_ok r)))"

definition PatchServer :: "'w env \<Rightarrow> Server \<Rightarrow> Server \<Rightarrow> ('w, Server) M" where
  "PatchServer E base new = callM (k_patchServer E base new) (\<lambda>r. EKube (PatchedServer base new r))"

definition PatchServerStatus :: "'w env \<Rightarrow> Server \<Rightarrow> Server \<Rightarrow> ('w, Server) M" where
  "PatchServerStatus E base new =
     callM (k_patchServerStatus E base new) (\<lambda>r. EKube (PatchedServerStatus base new r))"

definition PatchClaim :: "'w env \<Rightarrow> ServerClaim \<Rightarrow> ServerClaim \<Rightarrow> ('w, ServerClaim) M" where
  "PatchClaim E base new = callM (k_patchClaim E base new) (\<lambda>r. EKube (PatchedClaim base new r))"

definition PatchClaimStatus :: "'w env \<Rightarrow> ServerClaim \<Rightarrow> ServerClaim \<Rightarrow> ('w, ServerClaim) M" where
  "PatchClaimStatus E base new =
     callM (k_patchClaimStatus E base new) (\<lambda>r. EKube (PatchedClaimStatus base new r))"

definition PatchSBCStatus ::
  "'w env \<Rightarrow> ServerBootConfiguration \<Rightarrow> ServerBootConfiguration \<Rightarrow> ('w, ServerBootConfiguration) M" where
  "PatchSBCStatus E base new =
     callM (k_patchSBCStatus E base new) (\<lambda>r. EKube (PatchedSBCStatus base new (is_ok r)))"

definition PatchBMCStatus :: "'w env \<Rightarrow> BMC \<Rightarrow> BMC \<Rightarrow> ('w, BMC) M" where
  "PatchBMCStatus E base new =
     callM (k_patchBMCStatus E base new) (\<lambda>r. EKube (PatchedBMCStatus base new (is_ok r)))"

definition ApplySecret :: "'w env \<Rightarrow> Secret \<Rightarrow> ('w, unit) M" where
  "ApplySecret E s = callM (k_applySecret E s) (\<lambda>r. EKube (AppliedSecret s (is_ok r)))"

definition DeleteSBC :: "'w env \<Rightarrow> string \<Rightarrow> string \<Rightarrow> ('w, unit) M" where
  "DeleteSBC E ns n = callM (k_deleteSBC E ns n) (\<lambda>r. EKube (DeletedSBC ns n r))"

definition CreateJob :: "'w env \<Rightarrow> Job \<Rightarrow> ('w, unit) M" where
  "CreateJob E j = callM (k_createJob E j) (\<lambda>r. EKube (CreatedJob j (is_ok r)))"

definition CreateOrPatchServer ::
  "'w env \<Rightarrow> Server \<Rightarrow> (Server \<Rightarrow> Server res) \<Rightarrow> ('w, OperationResult \<times> Server) M" where
  "CreateOrPatchServer E s f =
     callM (k_createOrPatchServer E s f) (\<lambda>r. EKube (CreatedOrPatchedServer (srvName s) r))"

definition CreateOrPatchSBC ::
  "'w env \<Rightarrow> ServerBootConfiguration \<Rightarrow> (ServerBootConfiguration \<Rightarrow> ServerBootConfiguration res)
    \<Rightarrow> ('w, OperationResult \<times> ServerBootConfiguration) M" where
  "CreateOrPatchSBC E c f = callM (k_createOrPatchSBC E c f)
     (\<lambda>r. EKube (CreatedOrPatchedSBC (ObjectMeta_Namespace (SBC_Meta c)) (ObjectMeta_Name (SBC_Meta c)) r))"

definition CreateOrPatchBMC ::
  "'w env \<Rightarrow> BMC \<Rightarrow> (BMC \<Rightarrow> BMC res) \<Rightarrow> ('w, OperationResult \<times> BMC) M" where
  "CreateOrPatchBMC E b f =
     callM (k_createOrPatchBMC E b f) (\<lambda>r. EKube (CreatedOrPatchedBMC (ObjectMeta_Name (BMC_Meta b)) r))"

definition CreateOrPatchBMCSecret ::
  "'w env \<Rightarrow> BMCSecret \<Rightarrow> (BMCSecret \<Rightarrow> BMCSecret res) \<Rightarrow> ('w, OperationResult \<times> BMCSecret) M" where
  "CreateOrPatchBMCSecret E b f = callM (k_createOrPatchBMCSecret E b f)
     (\<lambda>r. EKube (CreatedOrPatchedBMCSecret (ObjectMeta_Name (BMCSecret_Meta b)) r))"

definition PatchEnsureFinalizer_Server :: "'w env \<Rightarrow> Server \<Rightarrow> string \<Rightarrow> ('w, bool \<times> Server) M" where
  "PatchEnsureFinalizer_Server E s f = callM (k_ensureFinalizerServer E s f)
     (\<lambda>r. EKube (EnsuredFinalizer ''Server'' (srvName s) f (is_ok r)))"

definition PatchEnsureNoFinalizer_Server :: "'w env \<Rightarrow> Server \<Rightarrow> string \<Rightarrow> ('w, bool \<times> Server) M" where
  "PatchEnsureNoFinalizer_Server E s f = callM (k_ensureNoFinalizerServer E s f)
     (\<lambda>r. EKube (EnsuredNoFinalizer ''Server'' (srvName s) f (is_ok r)))"

definition PatchEnsureFinalizer_Claim ::
  "'w env \<Rightarrow> ServerClaim \<Rightarrow> string \<Rightarrow> ('w, bool \<times> ServerClaim) M" where
  "PatchEnsureFinalizer_Claim E c f = callM (k_ensureFinalizerClaim E c f)
     (\<lambda>r. EKube (EnsuredFinalizer ''ServerClaim'' (ObjectMeta_Name (ServerClaim_Meta c)) f (is_ok r)))"

definition PatchEnsureNoFinalizer_Claim ::
  "'w env \<Rightarrow> ServerClaim \<Rightarrow> string \<Rightarrow> ('w, bool \<times> ServerClaim) M" where
  "PatchEnsureNoFinalizer_Claim E c f = callM (k_ensureNoFinalizerClaim E c f)
     (\<lambda>r. EKube (EnsuredNoFinalizer ''ServerClaim'' (ObjectMeta_Name (ServerClaim_Meta c)) f (is_ok r)))"

definition PatchEnsureNoFinalizer_BMC :: "'w env \<Rightarrow> BMC \<Rightarrow> string \<Rightarrow> ('w, bool \<times> BMC) M" where
  "PatchEnsureNoFinalizer_BMC E b f = callM (k_ensureNoFinalizerBMC E b f)
     (\<lambda>r. EKube (EnsuredNoFinalizer ''BMC'' (ObjectMeta_Name (BMC_Meta b)) f (is_ok r)))"

definition PatchEnsureNoFinalizer_Endpoint ::
  "'w env \<Rightarrow> Endpoint \<Rightarrow> string \<Rightarrow> ('w, bool \<times> Endpoint) M" where
  "PatchEnsureNoFinalizer_Endpoint E e f = callM (k_ensureNoFinalizerEndpoint E e f)
     (\<lambda>r. EKube (EnsuredNoFinalizer ''Endpoint'' (ObjectMeta_Name (Endpoint_Meta e)) f (is_ok r)))"

lemmas kube_call_defs = GetServer_def GetBMC_def GetBMCSecret_def GetEndpoint_def GetSBC_def
  GetClaim_def ListServers_def ListClaims_def ListEndpoints_def ListJobs_def PatchServer_def
  PatchServerStatus_def PatchClaim_def PatchClaimStatus_def PatchSBCStatus_def PatchBMCStatus_def
  ApplySecret_def DeleteSBC_def CreateJob_def CreateOrPatchServer_def CreateOrPatchSBC_def
  CreateOrPatchBMC_def CreateOrPatchBMCSecret_def PatchEnsureFinalizer_Server_def
  PatchEnsureNoFinalizer_Server_def PatchEnsureFinalizer_Claim_def PatchEnsureNoFinalizer_Claim_def
  PatchEnsureNoFinalizer_BMC_def PatchEnsureNoFinalizer_Endpoint_def


section \<open>Classes of events\<close>

text \<open>
  Reads change nothing outside; a power-on is a reset of type \<^verbatim>\<open>On\<close> or, with the local test client, a
  patch of the power state; a power-off is a graceful or a forced one; \<open>is_netboot\<close> prepares the next
  boot over the network; \<open>is_session\<close> opens or closes a BMC session.
\<close>

fun is_read :: "event \<Rightarrow> bool" where
  "is_read (EKube (GotServer _ _)) = True"
| "is_read (EKube (GotClaim _ _ _)) = True"
| "is_read (EKube (GotSBC _ _ _)) = True"
| "is_read (EKube (GotObject _ _ _)) = True"
| "is_read (EKube (Listed _ _)) = True"
| "is_read (EBmc (ListedSystems _ _)) = True"
| "is_read (EBmc (ReadBMC _ _ _)) = True"
| "is_read (ESys (HttpGot _ _)) = True"
| "is_read (ESys (RandomRead _)) = True"
| "is_read _ = False"

fun is_power_on :: "event \<Rightarrow> bool" where
  "is_power_on (EBmc (ResetSystem _ _ t _)) = (t = ''On'')"
| "is_power_on (EBmc (PatchedSystem _ _ s _)) = (CS_PowerState s = ''On'')"
| "is_power_on _ = False"

fun is_power_off :: "event \<Rightarrow> bool" where
  "is_power_off (EBmc (ResetSystem _ _ t _)) = (t = ''GracefulShutdown'' \<or> t = ''ForceOff'')"
| "is_power_off (EBmc (PatchedSystem _ _ s _)) = (CS_PowerState s = ''Off'')"
| "is_power_off _ = False"

fun is_netboot :: "event \<Rightarrow> bool" where
  "is_netboot (EBmc (SetBoot _ _ b _)) = (Boot_BootSourceOverrideTarget b = ''Pxe'')"
| "is_netboot (EKube (CreatedJob _ _)) = True"
| "is_netboot _ = False"

fun is_session :: "event \<Rightarrow> bool" where
  "is_session (EBmc (Connected _ _)) = True"
| "is_session (EBmc (LoggedOut _)) = True"
| "is_session _ = False"

text \<open>
  The systems a BMC reported last in a trace, and what they show of one system's power.
\<close>

fun last_listing :: "event list \<Rightarrow> ComputerSystem list option" where
  "last_listing [] = None"
| "last_listing (e # es) =
     (case last_listing es of
        Some ss \<Rightarrow> Some ss
      | None \<Rightarrow> (case e of EBmc (ListedSystems _ (Ok ss)) \<Rightarrow> Some ss | _ \<Rightarrow> None))"

lemma last_listing_append:
  "last_listing (xs @ ys) = (case last_listing ys of Some ss \<Rightarrow> Some ss | None \<Rightarrow> last_listing xs)"
  by (induction xs) (auto split: option.splits)


section \<open>Safety rules of the calls\<close>

lemma emits_kube_calls [emits_intros]:
  "(\<And>res1. P (EKube (GotServer n1 res1))) \<Longrightarrow>
     emits P (\<lambda>_. True) (GetServer E n1)"
  "(\<And>res2. P (EKube (GotObject ''BMC'' n2 res2))) \<Longrightarrow>
     emits P (\<lambda>_. True) (GetBMC E n2)"
  "(\<And>res3. P (EKube (GotObject ''BMCSecret'' n3 res3))) \<Longrightarrow>
     emits P (\<lambda>_. True) (GetBMCSecret E n3)"
  "(\<And>res4. P (EKube (GotObject ''Endpoint'' n4 res4))) \<Longrightarrow>
     emits P (\<lambda>_. True) (GetEndpoint E n4)"
  "(\<And>res5. P (EKube (GotSBC ns5 n5 res5))) \<Longrightarrow>
     emits P (\<lambda>_. True) (GetSBC E ns5 n5)"
  "(\<And>res6. P (EKube (GotClaim ns6 n6 res6))) \<Longrightarrow>
     emits P (\<lambda>_. True) (GetClaim E ns6 n6)"
  "(\<And>res7. P (EKube (Listed ''Server'' res7))) \<Longrightarrow>
     emits P (\<lambda>_. True) (ListServers E sel7)"
  "(\<And>res8. P (EKube (Listed ''ServerClaim'' res8))) \<Longrightarrow>
     emits P (\<lambda>_. True) (ListClaims E)"
  "(\<And>res9. P (EKube (Listed ''Endpoint'' res9))) \<Longrightarrow>
     emits P (\<lambda>_. True) (ListEndpoints E)"
  "(\<And>res10. P (EKube (Listed ''Job'' res10))) \<Longrightarrow>
     emits P (\<lambda>_. True) (ListJobs E ns10 ls10)"
  "(\<And>res11. P (EKube (PatchedServer base11 new11 res11))) \<Longrightarrow>
     emits P (\<lambda>_. True) (PatchServer E base11 new11)"
  "(\<And>res12. P (EKube (PatchedServerStatus base12 new12 res12))) \<Longrightarrow>
     emits P (\<lambda>_. True) (PatchServerStatus E base12 new12)"
  "(\<And>res13. P (EKube (PatchedClaim base13 new13 res13))) \<Longrightarrow>
     emits P (\<lambda>_. True) (PatchClaim E base13 new13)"
  "(\<And>res14. P (EKube (PatchedClaimStatus base14 new14 res14))) \<Longrightarrow>
     emits P (\<lambda>_. True) (PatchClaimStatus E base14 new14)"
  "(\<And>res15. P (EKube (PatchedSBCStatus base15 new15 res15))) \<Longrightarrow>
     emits P (\<lambda>_. True) (PatchSBCStatus E base15 new15)"
  "(\<And>res16. P (EKube (PatchedBMCStatus base16 new16 res16))) \<Longrightarrow>
     emits P (\<lambda>_. True) (PatchBMCStatus E base16 new16)"
  "(\<And>res17. P (EKube (AppliedSecret s17 res17))) \<Longrightarrow>
     emits P (\<lambda>_. True) (ApplySecret E s17)"
  "(\<And>res18. P (EKube (DeletedSBC ns18 n18 res18))) \<Longrightarrow>
     emits P (\<lambda>_. True) (DeleteSBC E ns18 n18)"
  "(\<And>res19. P (EKube (CreatedJob j19 res19))) \<Longrightarrow>
     emits P (\<lambda>_. True) (CreateJob E j19)"
  "(\<And>res20. P (EKube (CreatedOrPatchedServer (srvName s20) res20))) \<Longrightarrow>
     emits P (\<lambda>_. True) (CreateOrPatchServer E s20 f20)"
  "(\<And>res21. P (EKube (CreatedOrPatchedSBC (ObjectMeta_Namespace (SBC_Meta c21)) (ObjectMeta_Name (SBC_Meta c21)) res21))) \<Longrightarrow>
     emits P (\<lambda>_. True) (CreateOrPatchSBC E c21 f21)"
  "(\<And>res22. P (EKube (CreatedOrPatchedBMC (ObjectMeta_Name (BMC_Meta b22)) res22))) \<Longrightarrow>
     emits P (\<lambda>_. True) (CreateOrPatchBMC E b22 f22)"
  "(\<And>res23. P (EKube (CreatedOrPatchedBMCSecret (ObjectMeta_Name (BMCSecret_Meta b23)) res23))) \<Longrightarrow>
     emits P (\<lambda>_. True) (CreateOrPatchBMCSecret E b23 f23)"
  "(\<And>res24. P (EKube (EnsuredFinalizer ''Server'' (srvName s24) f24 res24))) \<Longrightarrow>
     emits P (\<lambda>_. True) (PatchEnsureFinalizer_Server E s24 f24)"
  "(\<And>res25. P (EKube (EnsuredNoFinalizer ''Server'' (srvName s25) f25 res25))) \<Longrightarrow>
     emits P (\<lambda>_. True) (PatchEnsureNoFinalizer_Server E s25 f25)"
  "(\<And>res26. P (EKube (EnsuredFinalizer ''ServerClaim'' (ObjectMeta_Name (ServerClaim_Meta c26)) f26 res26))) \<Longrightarrow>
     emits P (\<lambda>_. True) (PatchEnsureFinalizer_Claim E c26 f26)"
  "(\<And>res27. P (EKube (EnsuredNoFinalizer ''ServerClaim'' (ObjectMeta_Name (ServerClaim_Meta c27)) f27 res27))) \<Longrightarrow>
     emits P (\<lambda>_. True) (PatchEnsureNoFinalizer_Claim E c27 f27)"
  "(\<And>res28. P (EKube (EnsuredNoFinalizer ''BMC'' (ObjectMeta_Name (BMC_Meta b28)) f28 res28))) \<Longrightarrow>
     emits P (\<lambda>_. True) (PatchEnsureNoFinalizer_BMC E b28 f28)"
  "(\<And>res29. P (EKube (EnsuredNoFinalizer ''Endpoint'' (ObjectMeta_Name (Endpoint_Meta e29)) f29 res29))) \<Longrightarrow>
     emits P (\<lambda>_. True) (PatchEnsureNoFinalizer_Endpoint E e29 f29)"
  by (simp_all add: kube_call_defs emits_call)

end
