(* ===== verification/Redfish.thy ===== *)
theory Redfish
  imports Environment
begin

text \<open>
  The BMC clients of \<^verbatim>\<open>bmc/\<close>: the Redfish implementation (\<^verbatim>\<open>redfish.go\<close>), the two test
  implementations that override some of its methods (\<^verbatim>\<open>redfish_local.go\<close>, \<^verbatim>\<open>redfish_kube.go\<close>) and the
  interface they implement (\<^verbatim>\<open>bmc.go\<close>), with dynamic dispatch as a case distinction on the client.
  The gofish library is part of the environment.
\<close>

section \<open>Calls to gofish\<close>

definition ConnectContext :: "'w env \<Rightarrow> ClientConfig \<Rightarrow> ('w, nat) M" where
  "ConnectContext E c = callM (g_connect E c) (\<lambda>r. EBmc (Connected c r))"

definition gofish_Logout :: "'w env \<Rightarrow> nat \<Rightarrow> ('w, unit) M" where
  "gofish_Logout E h = callM (g_logout E h) (\<lambda>_. EBmc (LoggedOut h))"

definition Systems :: "'w env \<Rightarrow> nat \<Rightarrow> ('w, ComputerSystem list) M" where
  "Systems E h = callM (g_systems E h) (\<lambda>r. EBmc (ListedSystems h r))"

definition System_Reset :: "'w env \<Rightarrow> nat \<Rightarrow> ComputerSystem \<Rightarrow> string \<Rightarrow> ('w, unit) M" where
  "System_Reset E h s t = callM (g_reset E h s t) (\<lambda>r. EBmc (ResetSystem h (CS_UUID s) t (is_ok r)))"

definition System_SetBoot :: "'w env \<Rightarrow> nat \<Rightarrow> ComputerSystem \<Rightarrow> Boot \<Rightarrow> ('w, unit) M" where
  "System_SetBoot E h s b = callM (g_setBoot E h s b) (\<lambda>r. EBmc (SetBoot h (CS_UUID s) b (is_ok r)))"

definition System_Patch :: "'w env \<Rightarrow> nat \<Rightarrow> string \<Rightarrow> ComputerSystem \<Rightarrow> ('w, unit) M" where
  "System_Patch E h uri s = callM (g_patchSystem E h uri s) (\<lambda>r. EBmc (PatchedSystem h uri s (is_ok r)))"

definition Managers :: "'w env \<Rightarrow> nat \<Rightarrow> ('w, GManager list) M" where
  "Managers E h = callM (g_managers E h) (\<lambda>r. EBmc (ReadBMC h ''managers'' (is_ok r)))"

definition Registries :: "'w env \<Rightarrow> nat \<Rightarrow> ('w, GRegistry list \<times> error option) M" where
  "Registries E h = callM (g_registries E h) (\<lambda>r. EBmc (ReadBMC h ''registries'' (is_ok r)))"

definition Registry_Get :: "'w env \<Rightarrow> nat \<Rightarrow> string \<Rightarrow> ('w, RegistryEntryAttributes list) M" where
  "Registry_Get E h uri = callM (g_registryGet E h uri) (\<lambda>r. EBmc (ReadBMC h ''registry'' (is_ok r)))"

definition System_Bios :: "'w env \<Rightarrow> nat \<Rightarrow> ComputerSystem \<Rightarrow> ('w, string \<Rightarrow> string) M" where
  "System_Bios E h s = callM (g_bios E h s) (\<lambda>r. EBmc (ReadBMC h ''bios'' (is_ok r)))"

definition UpdateBiosAttributes ::
  "'w env \<Rightarrow> nat \<Rightarrow> ComputerSystem \<Rightarrow> (string \<times> string) list \<Rightarrow> ('w, unit) M" where
  "UpdateBiosAttributes E h s attrs = callM (g_updateBiosAttributes E h s attrs)
     (\<lambda>r. EBmc (UpdatedBiosAttributes h (CS_UUID s) attrs (is_ok r)))"

definition System_Storage :: "'w env \<Rightarrow> nat \<Rightarrow> ComputerSystem \<Rightarrow> ('w, GStorage list) M" where
  "System_Storage E h s = callM (g_storage E h s) (\<lambda>r. EBmc (ReadBMC h ''storage'' (is_ok r)))"

definition Storage_GVolumes :: "'w env \<Rightarrow> nat \<Rightarrow> GStorage \<Rightarrow> ('w, GVolume list) M" where
  "Storage_GVolumes E h s = callM (g_volumes E h s) (\<lambda>r. EBmc (ReadBMC h ''volumes'' (is_ok r)))"

definition Storage_GDrives :: "'w env \<Rightarrow> nat \<Rightarrow> GStorage \<Rightarrow> ('w, GDrive list) M" where
  "Storage_GDrives E h s = callM (g_drives E h s) (\<lambda>r. EBmc (ReadBMC h ''drives'' (is_ok r)))"

definition System_SimpleStorages :: "'w env \<Rightarrow> nat \<Rightarrow> ComputerSystem \<Rightarrow> ('w, GSimpleStorage list) M" where
  "System_SimpleStorages E h s =
     callM (g_simpleStorages E h s) (\<lambda>r. EBmc (ReadBMC h ''simplestorages'' (is_ok r)))"

lemmas gofish_call_defs = ConnectContext_def gofish_Logout_def Systems_def System_Reset_def
  System_SetBoot_def System_Patch_def Managers_def Registries_def Registry_Get_def System_Bios_def
  UpdateBiosAttributes_def System_Storage_def Storage_GVolumes_def Storage_GDrives_def
  System_SimpleStorages_def

text \<open>
  \<^verbatim>\<open>wait.PollUntilContextTimeout\<close> with \<^verbatim>\<open>immediate = true\<close>: the condition is evaluated at once and then
  each time the interval elapses, until it is done (\<open>Some\<close>), fails, or the timeout is over. The value
  in \<open>Some\<close> is what the Go closure leaves in the variable it captures; how often the interval fits
  into the timeout is up to the clock.
\<close>

definition PollUntilContextTimeout ::
  "'w env \<Rightarrow> int \<Rightarrow> int \<Rightarrow> ('w, 'x option) M \<Rightarrow> ('w, 'x) M" where
  "PollUntilContextTimeout E interval timeout c = (\<lambda>w. poll_loop (s_polls E interval timeout w) c w)"

section \<open>bmc.go: the interface's data\<close>

record BMCServer =
  BMCServer_UUID :: string
  BMCServer_Model :: string
  BMCServer_Manufacturer :: string
  BMCServer_PowerState :: string
  BMCServer_SerialNumber :: string

record Volume =
  Volume_ID :: string
  Volume_Name :: string
  Volume_SizeBytes :: "64 word"
  Volume_State :: string
  Volume_RAIDType :: string
  Volume_VolumeUsage :: string

record Drive =
  Drive_ID :: string
  Drive_Name :: string
  Drive_MediaType :: string
  Drive_Type :: string
  Drive_SizeBytes :: "64 word"
  Drive_Vendor :: string
  Drive_Model :: string
  Drive_State :: string

record BMCStorage =
  BMCStorage_ID :: string
  BMCStorage_Name :: string
  BMCStorage_State :: string
  BMCStorage_Drives :: "Drive list"
  BMCStorage_Volumes :: "Volume list"

record SystemInfo =
  SystemInfo_Manufacturer :: string
  SystemInfo_Model :: string
  SystemInfo_Status :: string
  SystemInfo_PowerState :: string
  SystemInfo_TotalSystemMemory :: Quantity
  SystemInfo_SystemUUID :: string
  SystemInfo_SerialNumber :: string
  SystemInfo_SKU :: string
  SystemInfo_IndicatorLED :: string

record Manager =
  Manager_UUID :: string
  Manager_Manufacturer :: string
  Manager_FirmwareVersion :: string
  Manager_SerialNumber :: string
  Manager_SKU :: string
  Manager_Model :: string
  Manager_PowerState :: string
  Manager_State :: string
  Manager_MACAddress :: string

section \<open>redfish.go\<close>

record BMCOptions =
  BMCOptions_Endpoint :: string
  BMCOptions_Username :: string
  BMCOptions_Password :: string
  BMCOptions_BasicAuth :: bool
  BMCOptions_ResourcePollingInterval :: int
  BMCOptions_ResourcePollingTimeout :: int
  BMCOptions_PowerPollingInterval :: int
  BMCOptions_PowerPollingTimeout :: int

text \<open>Durations are nanoseconds, as in \<^verbatim>\<open>time.Duration\<close>.\<close>

definition DefaultResourcePollingInterval :: int where
  "DefaultResourcePollingInterval = 30 * 1000000000"

definition DefaultResourcePollingTimeout :: int where
  "DefaultResourcePollingTimeout = 5 * 60 * 1000000000"

definition DefaultPowerPollingInterval :: int where
  "DefaultPowerPollingInterval = 30 * 1000000000"

definition DefaultPowerPollingTimeout :: int where
  "DefaultPowerPollingTimeout = 5 * 60 * 1000000000"

record RedfishBMC =
  RedfishBMC_client :: nat
  RedfishBMC_options :: BMCOptions

text \<open>gofish's constants for the values the code compares and sends.\<close>

abbreviation OnPowerState :: string where "OnPowerState \<equiv> ''On''"
abbreviation OffPowerState :: string where "OffPowerState \<equiv> ''Off''"
abbreviation OnResetType :: string where "OnResetType \<equiv> ''On''"
abbreviation GracefulShutdownResetType :: string where "GracefulShutdownResetType \<equiv> ''GracefulShutdown''"
abbreviation ForceOffResetType :: string where "ForceOffResetType \<equiv> ''ForceOff''"
abbreviation UEFIBootSourceOverrideMode :: string where "UEFIBootSourceOverrideMode \<equiv> ''UEFI''"

definition pxeBootWithSettingUEFIBootMode :: Boot where
  "pxeBootWithSettingUEFIBootMode = \<lparr>Boot_BootSourceOverrideEnabled = ''Once'',
     Boot_BootSourceOverrideMode = UEFIBootSourceOverrideMode,
     Boot_BootSourceOverrideTarget = ''Pxe'', Boot_BootOrder = []\<rparr>"

definition pxeBootWithoutSettingUEFIBootMode :: Boot where
  "pxeBootWithoutSettingUEFIBootMode = \<lparr>Boot_BootSourceOverrideEnabled = ''Once'',
     Boot_BootSourceOverrideMode = '''',
     Boot_BootSourceOverrideTarget = ''Pxe'', Boot_BootOrder = []\<rparr>"

definition default_options :: "BMCOptions \<Rightarrow> BMCOptions" where
  "default_options o1 =
     (let o2 = (if BMCOptions_ResourcePollingInterval o1 = 0
                then o1\<lparr>BMCOptions_ResourcePollingInterval := DefaultResourcePollingInterval\<rparr> else o1);
          o3 = (if BMCOptions_ResourcePollingTimeout o2 = 0
                then o2\<lparr>BMCOptions_ResourcePollingTimeout := DefaultResourcePollingTimeout\<rparr> else o2);
          o4 = (if BMCOptions_PowerPollingInterval o3 = 0
                then o3\<lparr>BMCOptions_PowerPollingInterval := DefaultPowerPollingInterval\<rparr> else o3)
      in if BMCOptions_PowerPollingTimeout o4 = 0
         then o4\<lparr>BMCOptions_PowerPollingTimeout := DefaultPowerPollingTimeout\<rparr> else o4)"

definition NewRedfishBMCClient :: "'w env \<Rightarrow> BMCOptions \<Rightarrow> ('w, RedfishBMC) M" where
  "NewRedfishBMCClient E options =
     bindM (wrapM ''failed to connect to redfish endpoint''
              (ConnectContext E \<lparr>ClientConfig_Endpoint = BMCOptions_Endpoint options,
                 ClientConfig_Username = BMCOptions_Username options,
                 ClientConfig_Password = BMCOptions_Password options,
                 ClientConfig_Insecure = True,
                 ClientConfig_BasicAuth = BMCOptions_BasicAuth options\<rparr>))
       (\<lambda>client. returnM \<lparr>RedfishBMC_client = client, RedfishBMC_options = default_options options\<rparr>)"

definition RedfishBMC_Logout :: "'w env \<Rightarrow> RedfishBMC \<Rightarrow> ('w, unit) M" where
  "RedfishBMC_Logout E r = gofish_Logout E (RedfishBMC_client r)"

fun find_system :: "string \<Rightarrow> ComputerSystem list \<Rightarrow> ComputerSystem option" where
  "find_system systemUUID [] = None"
| "find_system systemUUID (s # ss) =
     (if ToLower (CS_UUID s) = systemUUID then Some s else find_system systemUUID ss)"

definition getSystemByUUID :: "'w env \<Rightarrow> RedfishBMC \<Rightarrow> string \<Rightarrow> ('w, ComputerSystem) M" where
  "getSystemByUUID E r systemUUID =
     bindM (wrapM ''failed to wait for for server systems to be ready''
              (PollUntilContextTimeout E
                 (BMCOptions_ResourcePollingInterval (RedfishBMC_options r))
                 (BMCOptions_ResourcePollingTimeout (RedfishBMC_options r))
                 (catchM (bindM (Systems E (RedfishBMC_client r)) (\<lambda>ss. returnM (Some ss)))
                         (\<lambda>_. returnM None))))
       (\<lambda>systems. case find_system systemUUID systems of
          Some s \<Rightarrow> returnM s
        | None \<Rightarrow> errM (OtherError ''no system found''))"

definition RedfishBMC_PowerOn :: "'w env \<Rightarrow> RedfishBMC \<Rightarrow> string \<Rightarrow> ('w, unit) M" where
  "RedfishBMC_PowerOn E r systemUUID =
     bindM (wrapM ''failed to get systems'' (getSystemByUUID E r systemUUID)) (\<lambda>system.
       if CS_PowerState system \<noteq> OnPowerState
       then wrapM ''failed to reset system to power on state''
              (System_Reset E (RedfishBMC_client r) system OnResetType)
       else returnM ())"

definition RedfishBMC_PowerOff :: "'w env \<Rightarrow> RedfishBMC \<Rightarrow> string \<Rightarrow> ('w, unit) M" where
  "RedfishBMC_PowerOff E r systemUUID =
     bindM (wrapM ''failed to get systems'' (getSystemByUUID E r systemUUID)) (\<lambda>system.
       wrapM ''failed to reset system to power on state''
         (System_Reset E (RedfishBMC_client r) system GracefulShutdownResetType))"

definition RedfishBMC_ForcePowerOff :: "'w env \<Rightarrow> RedfishBMC \<Rightarrow> string \<Rightarrow> ('w, unit) M" where
  "RedfishBMC_ForcePowerOff E r systemUUID =
     bindM (wrapM ''failed to get systems'' (getSystemByUUID E r systemUUID)) (\<lambda>system.
       wrapM ''failed to reset system to power on state''
         (System_Reset E (RedfishBMC_client r) system ForceOffResetType))"

definition RedfishBMC_Reset :: "'w env \<Rightarrow> RedfishBMC \<Rightarrow> string \<Rightarrow> string \<Rightarrow> ('w, unit) M" where
  "RedfishBMC_Reset E r systemUUID resetType =
     bindM (wrapM ''failed to get systems'' (getSystemByUUID E r systemUUID)) (\<lambda>system.
       wrapM ''failed to reset system'' (System_Reset E (RedfishBMC_client r) system resetType))"

definition RedfishBMC_GetSystems :: "'w env \<Rightarrow> RedfishBMC \<Rightarrow> ('w, BMCServer list) M" where
  "RedfishBMC_GetSystems E r =
     bindM (wrapM ''failed to get systems'' (Systems E (RedfishBMC_client r))) (\<lambda>systems.
       returnM (map (\<lambda>s. \<lparr>BMCServer_UUID = CS_UUID s, BMCServer_Model = CS_Model s,
                   BMCServer_Manufacturer = CS_Manufacturer s, BMCServer_PowerState = CS_PowerState s,
                   BMCServer_SerialNumber = CS_SerialNumber s\<rparr>) systems))"

definition pxe_boot_for :: "ComputerSystem \<Rightarrow> Boot" where
  "pxe_boot_for system =
     (if Boot_BootSourceOverrideMode (CS_Boot system) \<noteq> UEFIBootSourceOverrideMode
      then pxeBootWithSettingUEFIBootMode else pxeBootWithoutSettingUEFIBootMode)"

definition RedfishBMC_SetPXEBootOnce :: "'w env \<Rightarrow> RedfishBMC \<Rightarrow> string \<Rightarrow> ('w, unit) M" where
  "RedfishBMC_SetPXEBootOnce E r systemUUID =
     bindM (wrapM ''failed to get systems'' (getSystemByUUID E r systemUUID)) (\<lambda>system.
       wrapM ''failed to set the boot order''
         (System_SetBoot E (RedfishBMC_client r) system (pxe_boot_for system)))"

definition RedfishBMC_GetManager :: "'w env \<Rightarrow> RedfishBMC \<Rightarrow> ('w, Manager option) M" where
  "RedfishBMC_GetManager E r =
     bindM (wrapM ''failed to get managers'' (Managers E (RedfishBMC_client r))) (\<lambda>managers.
       case managers of
         m # _ \<Rightarrow> returnM (Some \<lparr>Manager_UUID = GManager_UUID m,
                   Manager_Manufacturer = GManager_Manufacturer m,
                   Manager_FirmwareVersion = GManager_FirmwareVersion m,
                   Manager_SerialNumber = GManager_SerialNumber m,
                   Manager_SKU = GManager_PartNumber m, Manager_Model = GManager_Model m,
                   Manager_PowerState = GManager_PowerState m, Manager_State = GManager_State m,
                   Manager_MACAddress = ''''\<rparr>)
       | [] \<Rightarrow> returnM None)"

definition RedfishBMC_GetSystemInfo :: "'w env \<Rightarrow> RedfishBMC \<Rightarrow> string \<Rightarrow> ('w, SystemInfo) M" where
  "RedfishBMC_GetSystemInfo E r systemUUID =
     bindM (wrapM ''failed to get systems'' (getSystemByUUID E r systemUUID)) (\<lambda>system.
     bindM (wrapM ''failed to parse memory quantity''
              (liftM (g_parseQuantity E (itoa (int (CS_TotalSystemMemoryGiB system)) @ ''Gi'')))) (\<lambda>quantity.
       returnM \<lparr>SystemInfo_Manufacturer = CS_Manufacturer system, SystemInfo_Model = CS_Model system,
         SystemInfo_Status = CS_Status system, SystemInfo_PowerState = CS_PowerState system,
         SystemInfo_TotalSystemMemory = quantity, SystemInfo_SystemUUID = CS_UUID system,
         SystemInfo_SerialNumber = CS_SerialNumber system, SystemInfo_SKU = CS_SKU system,
         SystemInfo_IndicatorLED = CS_IndicatorLED system\<rparr>))"

definition RedfishBMC_GetBootOrder :: "'w env \<Rightarrow> RedfishBMC \<Rightarrow> string \<Rightarrow> ('w, string list) M" where
  "RedfishBMC_GetBootOrder E r systemUUID =
     bindM (getSystemByUUID E r systemUUID) (\<lambda>system. returnM (Boot_BootOrder (CS_Boot system)))"

definition RedfishBMC_GetBiosVersion :: "'w env \<Rightarrow> RedfishBMC \<Rightarrow> string \<Rightarrow> ('w, string) M" where
  "RedfishBMC_GetBiosVersion E r systemUUID =
     bindM (getSystemByUUID E r systemUUID) (\<lambda>system. returnM (CS_BIOSVersion system))"

text \<open>
  The BIOS attribute registry. A later registry's attributes replace those of an earlier one, and a
  successful read clears the error of listing the registries; both callers look at the error first.
\<close>

definition filter_attributes ::
  "bool \<Rightarrow> bool \<Rightarrow> RegistryEntryAttributes list \<Rightarrow> (string \<times> RegistryEntryAttributes) list" where
  "filter_attributes readOnly immutable attrs =
     fold (\<lambda>entry m. if Attr_Immutable entry = immutable \<and> Attr_ReadOnly entry = readOnly \<and> \<not> Attr_Hidden entry
                     then AList.update (Attr_AttributeName entry) entry m else m) attrs []"

definition getFilteredBiosRegistryAttributes ::
  "'w env \<Rightarrow> RedfishBMC \<Rightarrow> bool \<Rightarrow> bool \<Rightarrow> ('w, (string \<times> RegistryEntryAttributes) list) M" where
  "getFilteredBiosRegistryAttributes E r readOnly immutable =
     bindM (Registries E (RedfishBMC_client r)) (\<lambda>(registries, err).
     bindM (foldM (\<lambda>(err, attrs) registry.
              if Contains (GRegistry_ID registry) ''BiosAttributeRegistry''
              then (case GRegistry_Location registry of
                      [] \<Rightarrow> panicM ''index out of range''
                    | uri # _ \<Rightarrow> bindM (Registry_Get E (RedfishBMC_client r) uri) (\<lambda>a. returnM (None, a)))
              else returnM (err, attrs)) (err, []) registries) (\<lambda>(err, attrs).
       case err of
         Some e \<Rightarrow> errM e
       | None \<Rightarrow> returnM (filter_attributes readOnly immutable attrs)))"

definition RedfishBMC_GetBiosAttributeValues ::
  "'w env \<Rightarrow> RedfishBMC \<Rightarrow> string \<Rightarrow> string list \<Rightarrow> ('w, (string \<times> string) list) M" where
  "RedfishBMC_GetBiosAttributeValues E r systemUUID attributes =
     (if attributes = [] then returnM []
      else bindM (getSystemByUUID E r systemUUID) (\<lambda>system.
           bindM (System_Bios E (RedfishBMC_client r) system) (\<lambda>bios.
           bindM (getFilteredBiosRegistryAttributes E r False False) (\<lambda>filteredAttr.
             returnM (fold (\<lambda>name result. if map_of filteredAttr name \<noteq> None
                                          then AList.update name (bios name) result else result)
                           attributes [])))))"

text \<open>One attribute: the error text, if any, and whether it needs a reset.\<close>

definition check_attribute ::
  "(string \<times> RegistryEntryAttributes) list \<Rightarrow> string \<times> string \<Rightarrow> string option \<times> bool" where
  "check_attribute filtered nv =
     (case map_of filtered (fst nv) of
        None \<Rightarrow> (Some (''attribute '' @ fst nv @ '' not found or immutable/hidden''), False)
      | Some entryAttribute \<Rightarrow>
          (if ToLower (Attr_Type entryAttribute) = ''integer'' then
             (if Atoi (snd nv) = None then Some (''attribute '' @ fst nv @ '' value has wrong type'') else None)
           else if ToLower (Attr_Type entryAttribute) = ''string'' then None
           else Some (''attribute '' @ fst nv @ '' value has wrong type''),
           Attr_ResetRequired entryAttribute))"

fun check_attributes ::
  "(string \<times> RegistryEntryAttributes) list \<Rightarrow> (string \<times> string) list \<Rightarrow> bool \<Rightarrow> string list \<Rightarrow> bool \<times> string list" where
  "check_attributes filtered [] reset errs = (reset, errs)"
| "check_attributes filtered (nv # attrs) reset errs =
     (case check_attribute filtered nv of (e, rr) \<Rightarrow>
        check_attributes filtered attrs (reset \<or> rr) (case e of None \<Rightarrow> errs | Some m \<Rightarrow> errs @ [m]))"

text \<open>The text of an error built by \<^verbatim>\<open>errors.Join\<close>: one line per error.\<close>

fun join_lines :: "string list \<Rightarrow> string" where
  "join_lines [] = []"
| "join_lines [l] = l"
| "join_lines (l # ls) = l @ [CHR 10] @ join_lines ls"

definition checkBiosAttributes ::
  "'w env \<Rightarrow> RedfishBMC \<Rightarrow> (string \<times> string) list \<Rightarrow> ('w, bool) M" where
  "checkBiosAttributes E r attrs =
     bindM (getFilteredBiosRegistryAttributes E r False False) (\<lambda>filtered.
       case check_attributes filtered attrs False [] of (reset, errs) \<Rightarrow>
         (if errs = [] then returnM reset else errM (OtherError (join_lines errs))))"

definition RedfishBMC_SetBiosAttributes ::
  "'w env \<Rightarrow> RedfishBMC \<Rightarrow> string \<Rightarrow> (string \<times> string) list \<Rightarrow> ('w, bool) M" where
  "RedfishBMC_SetBiosAttributes E r systemUUID attributes =
     bindM (getSystemByUUID E r systemUUID) (\<lambda>system.
     bindM (System_Bios E (RedfishBMC_client r) system) (\<lambda>_.
     bindM (checkBiosAttributes E r attributes) (\<lambda>reset.
     bindM (UpdateBiosAttributes E (RedfishBMC_client r) system attributes) (\<lambda>_. returnM reset))))"

definition RedfishBMC_SetBootOrder :: "'w env \<Rightarrow> RedfishBMC \<Rightarrow> string \<Rightarrow> string list \<Rightarrow> ('w, unit) M" where
  "RedfishBMC_SetBootOrder E r systemUUID bootOrder =
     bindM (getSystemByUUID E r systemUUID) (\<lambda>system.
       System_SetBoot E (RedfishBMC_client r) system
         \<lparr>Boot_BootSourceOverrideEnabled = ''Continuous'', Boot_BootSourceOverrideMode = '''',
          Boot_BootSourceOverrideTarget = ''None'', Boot_BootOrder = bootOrder\<rparr>)"

definition volume_of :: "GVolume \<Rightarrow> Volume" where
  "volume_of v = \<lparr>Volume_ID = GVolume_ID v, Volume_Name = GVolume_Name v,
     Volume_SizeBytes = GVolume_CapacityBytes v, Volume_State = GVolume_State v,
     Volume_RAIDType = GVolume_RAIDType v, Volume_VolumeUsage = ''''\<rparr>"

definition drive_of :: "GDrive \<Rightarrow> Drive" where
  "drive_of d = \<lparr>Drive_ID = GDrive_ID d, Drive_Name = GDrive_Name d, Drive_MediaType = GDrive_MediaType d,
     Drive_Type = GDrive_DriveFormFactor d, Drive_SizeBytes = GDrive_CapacityBytes d,
     Drive_Vendor = GDrive_Manufacturer d, Drive_Model = GDrive_Model d, Drive_State = GDrive_State d\<rparr>"

definition device_of :: "GDrive \<Rightarrow> Drive" where
  "device_of d = \<lparr>Drive_ID = '''', Drive_Name = GDrive_Name d, Drive_MediaType = '''',
     Drive_Type = '''', Drive_SizeBytes = GDrive_CapacityBytes d,
     Drive_Vendor = GDrive_Manufacturer d, Drive_Model = GDrive_Model d, Drive_State = GDrive_State d\<rparr>"

definition simple_storage_of :: "GSimpleStorage \<Rightarrow> BMCStorage" where
  "simple_storage_of s = \<lparr>BMCStorage_ID = GSimpleStorage_ID s, BMCStorage_Name = GSimpleStorage_Name s,
     BMCStorage_State = '''', BMCStorage_Drives = map device_of (GSimpleStorage_Devices s),
     BMCStorage_Volumes = []\<rparr>"

definition RedfishBMC_GetStorages :: "'w env \<Rightarrow> RedfishBMC \<Rightarrow> string \<Rightarrow> ('w, BMCStorage list) M" where
  "RedfishBMC_GetStorages E r systemUUID =
     bindM (getSystemByUUID E r systemUUID) (\<lambda>system.
     bindM (wrapM ''failed to wait for for server storages to be ready''
              (PollUntilContextTimeout E
                 (BMCOptions_ResourcePollingInterval (RedfishBMC_options r))
                 (BMCOptions_ResourcePollingTimeout (RedfishBMC_options r))
                 (catchM (bindM (System_Storage E (RedfishBMC_client r) system) (\<lambda>ss. returnM (Some ss)))
                         (\<lambda>_. returnM None)))) (\<lambda>systemStorage.
     bindM (foldM (\<lambda>result s.
              bindM (Storage_GVolumes E (RedfishBMC_client r) s) (\<lambda>volumes.
              bindM (Storage_GDrives E (RedfishBMC_client r) s) (\<lambda>drives.
                returnM (result @ [\<lparr>BMCStorage_ID = GStorage_ID s, BMCStorage_Name = GStorage_Name s,
                  BMCStorage_State = '''', BMCStorage_Drives = map drive_of drives,
                  BMCStorage_Volumes = map volume_of volumes\<rparr>])))) [] systemStorage) (\<lambda>result.
       if result = []
       then bindM (System_SimpleStorages E (RedfishBMC_client r) system) (\<lambda>simpleStorages.
              returnM (map simple_storage_of simpleStorages))
       else returnM result)))"

definition RedfishBMC_WaitForServerPowerState ::
  "'w env \<Rightarrow> RedfishBMC \<Rightarrow> string \<Rightarrow> string \<Rightarrow> ('w, unit) M" where
  "RedfishBMC_WaitForServerPowerState E r systemUUID powerState =
     wrapM ''failed to wait for for server power state''
       (PollUntilContextTimeout E
          (BMCOptions_PowerPollingInterval (RedfishBMC_options r))
          (BMCOptions_PowerPollingTimeout (RedfishBMC_options r))
          (bindM (wrapM ''failed to get system info'' (getSystemByUUID E r systemUUID)) (\<lambda>sysInfo.
             returnM (if CS_PowerState sysInfo = powerState then Some () else None))))"


section \<open>redfish\_local.go\<close>

definition system_uri :: "ComputerSystem \<Rightarrow> string" where
  "system_uri s = ''/redfish/v1/Systems/'' @ CS_ID s"

definition RedfishLocalBMC_PowerOn :: "'w env \<Rightarrow> RedfishBMC \<Rightarrow> string \<Rightarrow> ('w, unit) M" where
  "RedfishLocalBMC_PowerOn E r systemUUID =
     bindM (wrapM ''failed to get system'' (getSystemByUUID E r systemUUID)) (\<lambda>system.
       wrapM ''failed to set power state''
         (System_Patch E (RedfishBMC_client r) (system_uri system) (system\<lparr>CS_PowerState := OnPowerState\<rparr>)))"

definition RedfishLocalBMC_PowerOff :: "'w env \<Rightarrow> RedfishBMC \<Rightarrow> string \<Rightarrow> ('w, unit) M" where
  "RedfishLocalBMC_PowerOff E r systemUUID =
     bindM (wrapM ''failed to get system'' (getSystemByUUID E r systemUUID)) (\<lambda>system.
       wrapM ''failed to set power state''
         (System_Patch E (RedfishBMC_client r) (system_uri system) (system\<lparr>CS_PowerState := OffPowerState\<rparr>)))"

section \<open>redfish\_kube.go\<close>

abbreviation metalJobLabel :: string where "metalJobLabel \<equiv> ''kube.ironcore.dev/job''"

abbreviation registryURL :: string where
  "registryURL \<equiv> ''http://metal-registry.metal-operator-system.svc.cluster.local:30000/register''"

text \<open>A double quote, a single quote, and a backslash at the end of a line.\<close>

abbreviation dq :: string where "dq \<equiv> [CHR 0x22]"
abbreviation sq :: string where "sq \<equiv> [CHR 0x27]"
abbreviation bsnl :: string where "bsnl \<equiv> [CHR 0x5C, CHR 0x0A]"

definition quoted :: "string \<Rightarrow> string" where
  "quoted s = dq @ s @ dq"

definition netData :: string where
  "netData = ''{'' @ quoted ''networkInterfaces'' @ '':[{'' @ quoted ''name'' @ '':'' @ quoted ''dummy0''
     @ '','' @ quoted ''ipAddress'' @ '':'' @ quoted ''127.0.0.2''
     @ '','' @ quoted ''macAddress'' @ '':'' @ quoted ''aa:bb:cc:dd:ee:ff'' @ ''}]''"

definition curlCmd :: "string \<Rightarrow> string" where
  "curlCmd systemUUID = ''apk add curl && curl -H '' @ sq @ ''Content-Type: application/json'' @ sq @ '' '' @ bsnl
     @ ''-d '' @ sq @ ''{'' @ quoted ''SystemUUID'' @ '':'' @ quoted systemUUID @ '','' @ quoted ''data'' @ '':''
     @ netData @ ''}}'' @ sq @ '' '' @ bsnl @ ''-X POST '' @ registryURL"

definition createJob :: "'w env \<Rightarrow> string list \<Rightarrow> string \<Rightarrow> string \<Rightarrow> ('w, unit) M" where
  "createJob E cmd namespace systemUUID =
     bindM (wrapM ''failed to list jobs'' (ListJobs E namespace [(metalJobLabel, systemUUID)])) (\<lambda>n.
       if n > 0 then returnM ()
       else CreateJob E \<lparr>Job_GenerateName = ''register-'' @ systemUUID @ ''-'',
              Job_Namespace = namespace, Job_Labels = [(metalJobLabel, systemUUID)],
              Job_PodLabels = [(metalJobLabel, systemUUID)], Job_ContainerName = ''registry-job'',
              Job_Image = ''alpine:latest'', Job_Command = cmd, Job_RestartPolicy = ''Never'',
              Job_TTLSecondsAfterFinished = 30\<rparr>)"

definition RedfishKubeBMC_SetPXEBootOnce :: "'w env \<Rightarrow> RedfishBMC \<Rightarrow> string \<Rightarrow> string \<Rightarrow> ('w, unit) M" where
  "RedfishKubeBMC_SetPXEBootOnce E r namespace systemUUID =
     bindM (wrapM ''failed to get systems'' (getSystemByUUID E r systemUUID)) (\<lambda>system.
     bindM (wrapM ''failed to set the boot order''
              (System_SetBoot E (RedfishBMC_client r) system (pxe_boot_for system))) (\<lambda>_.
       wrapM ''failed to create job for system''
         (createJob E [''/bin/sh'', ''-c'', curlCmd systemUUID] namespace systemUUID)))"

section \<open>bmc.go: the interface\<close>

datatype BMCClient = Redfish RedfishBMC | RedfishLocal RedfishBMC | RedfishKube RedfishBMC string

fun base_client :: "BMCClient \<Rightarrow> RedfishBMC" where
  "base_client (Redfish r) = r"
| "base_client (RedfishLocal r) = r"
| "base_client (RedfishKube r _) = r"

definition NewRedfishLocalBMCClient :: "'w env \<Rightarrow> BMCOptions \<Rightarrow> ('w, BMCClient) M" where
  "NewRedfishLocalBMCClient E options =
     bindM (NewRedfishBMCClient E options) (\<lambda>b. returnM (RedfishLocal b))"

definition NewRedfishKubeBMCClient :: "'w env \<Rightarrow> BMCOptions \<Rightarrow> string \<Rightarrow> ('w, BMCClient) M" where
  "NewRedfishKubeBMCClient E options ns =
     bindM (NewRedfishBMCClient E options) (\<lambda>b. returnM (RedfishKube b ns))"

fun BMC_PowerOn :: "'w env \<Rightarrow> BMCClient \<Rightarrow> string \<Rightarrow> ('w, unit) M" where
  "BMC_PowerOn E (RedfishLocal r) u = RedfishLocalBMC_PowerOn E r u"
| "BMC_PowerOn E (Redfish r) u = RedfishBMC_PowerOn E r u"
| "BMC_PowerOn E (RedfishKube r _) u = RedfishBMC_PowerOn E r u"

fun BMC_PowerOff :: "'w env \<Rightarrow> BMCClient \<Rightarrow> string \<Rightarrow> ('w, unit) M" where
  "BMC_PowerOff E (RedfishLocal r) u = RedfishLocalBMC_PowerOff E r u"
| "BMC_PowerOff E (Redfish r) u = RedfishBMC_PowerOff E r u"
| "BMC_PowerOff E (RedfishKube r _) u = RedfishBMC_PowerOff E r u"

fun BMC_SetPXEBootOnce :: "'w env \<Rightarrow> BMCClient \<Rightarrow> string \<Rightarrow> ('w, unit) M" where
  "BMC_SetPXEBootOnce E (RedfishKube r ns) u = RedfishKubeBMC_SetPXEBootOnce E r ns u"
| "BMC_SetPXEBootOnce E (Redfish r) u = RedfishBMC_SetPXEBootOnce E r u"
| "BMC_SetPXEBootOnce E (RedfishLocal r) u = RedfishBMC_SetPXEBootOnce E r u"

text \<open>The methods that no test client overrides.\<close>

abbreviation "BMC_ForcePowerOff E c \<equiv> RedfishBMC_ForcePowerOff E (base_client c)"
abbreviation "BMC_Reset E c \<equiv> RedfishBMC_Reset E (base_client c)"
abbreviation "BMC_GetSystemInfo E c \<equiv> RedfishBMC_GetSystemInfo E (base_client c)"
abbreviation "BMC_Logout E c \<equiv> RedfishBMC_Logout E (base_client c)"
abbreviation "BMC_GetSystems E c \<equiv> RedfishBMC_GetSystems E (base_client c)"
abbreviation "BMC_GetManager E c \<equiv> RedfishBMC_GetManager E (base_client c)"
abbreviation "BMC_GetBootOrder E c \<equiv> RedfishBMC_GetBootOrder E (base_client c)"
abbreviation "BMC_GetBiosAttributeValues E c \<equiv> RedfishBMC_GetBiosAttributeValues E (base_client c)"
abbreviation "BMC_SetBiosAttributes E c \<equiv> RedfishBMC_SetBiosAttributes E (base_client c)"
abbreviation "BMC_GetBiosVersion E c \<equiv> RedfishBMC_GetBiosVersion E (base_client c)"
abbreviation "BMC_SetBootOrder E c \<equiv> RedfishBMC_SetBootOrder E (base_client c)"
abbreviation "BMC_GetStorages E c \<equiv> RedfishBMC_GetStorages E (base_client c)"
abbreviation "BMC_WaitForServerPowerState E c \<equiv> RedfishBMC_WaitForServerPowerState E (base_client c)"


section \<open>What each operation may do\<close>

lemma emits_gofish_calls [emits_intros]:
  "(\<And>res1. P (EBmc (Connected c1 res1))) \<Longrightarrow>
     emits P (\<lambda>_. True) (ConnectContext E c1)"
  "(P (EBmc (LoggedOut h2))) \<Longrightarrow>
     emits P (\<lambda>_. True) (gofish_Logout E h2)"
  "(\<And>res3. P (EBmc (ListedSystems h3 res3))) \<Longrightarrow>
     emits P (\<lambda>_. True) (Systems E h3)"
  "(\<And>res4. P (EBmc (ResetSystem h4 (CS_UUID s4) t4 res4))) \<Longrightarrow>
     emits P (\<lambda>_. True) (System_Reset E h4 s4 t4)"
  "(\<And>res5. P (EBmc (SetBoot h5 (CS_UUID s5) b5 res5))) \<Longrightarrow>
     emits P (\<lambda>_. True) (System_SetBoot E h5 s5 b5)"
  "(\<And>res6. P (EBmc (PatchedSystem h6 uri6 s6 res6))) \<Longrightarrow>
     emits P (\<lambda>_. True) (System_Patch E h6 uri6 s6)"
  "(\<And>res7. P (EBmc (ReadBMC h7 ''managers'' res7))) \<Longrightarrow>
     emits P (\<lambda>_. True) (Managers E h7)"
  "(\<And>res8. P (EBmc (ReadBMC h8 ''registries'' res8))) \<Longrightarrow>
     emits P (\<lambda>_. True) (Registries E h8)"
  "(\<And>res9. P (EBmc (ReadBMC h9 ''registry'' res9))) \<Longrightarrow>
     emits P (\<lambda>_. True) (Registry_Get E h9 uri9)"
  "(\<And>res10. P (EBmc (ReadBMC h10 ''bios'' res10))) \<Longrightarrow>
     emits P (\<lambda>_. True) (System_Bios E h10 s10)"
  "(\<And>res11. P (EBmc (UpdatedBiosAttributes h11 (CS_UUID s11) attrs11 res11))) \<Longrightarrow>
     emits P (\<lambda>_. True) (UpdateBiosAttributes E h11 s11 attrs11)"
  "(\<And>res12. P (EBmc (ReadBMC h12 ''storage'' res12))) \<Longrightarrow>
     emits P (\<lambda>_. True) (System_Storage E h12 s12)"
  "(\<And>res13. P (EBmc (ReadBMC h13 ''volumes'' res13))) \<Longrightarrow>
     emits P (\<lambda>_. True) (Storage_GVolumes E h13 s13)"
  "(\<And>res14. P (EBmc (ReadBMC h14 ''drives'' res14))) \<Longrightarrow>
     emits P (\<lambda>_. True) (Storage_GDrives E h14 s14)"
  "(\<And>res15. P (EBmc (ReadBMC h15 ''simplestorages'' res15))) \<Longrightarrow>
     emits P (\<lambda>_. True) (System_SimpleStorages E h15 s15)"
  by (simp_all add: gofish_call_defs emits_call)

lemma sat_poll:
  "(\<And>n. sat (poll_loop n c) Q) \<Longrightarrow> sat (PollUntilContextTimeout E i t c) Q"
  unfolding PollUntilContextTimeout_def by (rule sat_poll_rounds)

lemma emits_poll [emits_intros]:
  "emits P (\<lambda>_. True) c \<Longrightarrow> emits P (\<lambda>_. True) (PollUntilContextTimeout E i t c)"
  unfolding emits_def by (rule sat_poll, fold emits_def) (simp add: emits_poll_loop)

lemma find_system_Some: "find_system u ss = Some s \<Longrightarrow> s \<in> set ss \<and> ToLower (CS_UUID s) = u"
  by (induction ss) (auto split: if_splits)

lemma find_system_None: "find_system u ss = None \<longleftrightarrow> (\<forall>s\<in>set ss. ToLower (CS_UUID s) \<noteq> u)"
  by (induction ss) auto

text \<open>
  A successful lookup by UUID ends with a listing that holds the system, and it is the first of the
  listing whose UUID, in lower case, is the one asked for.
\<close>

definition found_in :: "string \<Rightarrow> ComputerSystem \<Rightarrow> event list \<Rightarrow> bool" where
  "found_in u s es \<longleftrightarrow> (\<exists>ss. last_listing es = Some ss \<and> find_system u ss = Some s)"

definition is_listing :: "event \<Rightarrow> bool" where
  "is_listing e \<longleftrightarrow> (\<exists>h r. e = EBmc (ListedSystems h r))"

lemma getSystemByUUID_run:
  assumes "g_systems E (RedfishBMC_client r) w = (Ok ss, w')"
  shows "getSystemByUUID E r u w = ((case find_system u ss of Some s \<Rightarrow> Ok s | None \<Rightarrow> Err (OtherError ''no system found'')),
    [EBmc (ListedSystems (RedfishBMC_client r) (Ok ss))], w')"
proof -
  have "catchM (bindM (Systems E (RedfishBMC_client r)) (\<lambda>ss. returnM (Some ss))) (\<lambda>_. returnM None) w =
      (Ok (Some ss), [EBmc (ListedSystems (RedfishBMC_client r) (Ok ss))], w')"
    using assms by (simp add: Systems_def prog_defs)
  then show ?thesis
    by (auto simp: getSystemByUUID_def PollUntilContextTimeout_def bindM_def wrapM_def poll_loop_first
        returnM_def errM_def split: option.split)
qed

lemma sat_poll_loop_systems:
  "sat (poll_loop n (catchM (bindM (Systems E h) (\<lambda>ss. returnM (Some ss))) (\<lambda>_. returnM None)))
     (\<lambda>r es. (\<forall>e\<in>set es. is_listing e) \<and> (\<forall>ss. r = Ok ss \<longrightarrow> last_listing es = Some ss))"
proof -
  let ?c = "catchM (bindM (Systems E h) (\<lambda>ss. returnM (Some ss))) (\<lambda>_. returnM None)"
  have c: "sat ?c (\<lambda>r es. (\<forall>e\<in>set es. is_listing e) \<and> (\<forall>ss. r = Ok (Some ss) \<longrightarrow> last_listing es = Some ss))"
    unfolding Systems_def
    by (intro sat_rules) (auto simp: is_listing_def split: res.split)
  show ?thesis
  proof (induction n)
    case 0
    show ?case
      by (simp, rule sat_bind, rule sat_mono [OF c]) (auto split: res.split option.split)
  next
    case (Suc n)
    show ?case
      by (simp, rule sat_bind, rule sat_mono [OF c])
        (auto split: res.split option.split intro!: sat_mono [OF Suc.IH] simp: last_listing_append)
  qed
qed

lemma sat_getSystemByUUID:
  "sat (getSystemByUUID E r u)
     (\<lambda>res es. (\<forall>e\<in>set es. is_listing e) \<and> (\<forall>s. res = Ok s \<longrightarrow> found_in u s es))"
  unfolding getSystemByUUID_def
  by (intro sat_bind sat_wrap sat_poll, rule sat_mono [OF sat_poll_loop_systems])
    (auto split: res.split option.split simp: found_in_def)

lemma emits_getSystemByUUID [emits_intros]:
  assumes "\<And>e. is_read e \<Longrightarrow> P e"
  shows "emits P (\<lambda>_. True) (getSystemByUUID E r u)"
  unfolding emits_def
  by (rule sat_mono [OF sat_getSystemByUUID]) (auto simp: is_listing_def assms)


text \<open>
  Safety rules, one per operation: whatever a property \<open>P\<close> of events says of reads and of the kind
  of change the operation is for, a run of the operation keeps.
\<close>

lemma emits_reads [emits_intros]:
  assumes "\<And>e. is_read e \<Longrightarrow> P e"
  shows "emits P (\<lambda>_. True) (getFilteredBiosRegistryAttributes E r ro im)"
    and "emits P (\<lambda>_. True) (RedfishBMC_GetSystems E r)"
    and "emits P (\<lambda>_. True) (RedfishBMC_GetManager E r)"
    and "emits P (\<lambda>_. True) (RedfishBMC_GetSystemInfo E r u)"
    and "emits P (\<lambda>_. True) (RedfishBMC_GetBootOrder E r u)"
    and "emits P (\<lambda>_. True) (RedfishBMC_GetBiosVersion E r u)"
    and "emits P (\<lambda>_. True) (RedfishBMC_GetStorages E r u)"
    and "emits P (\<lambda>_. True) (RedfishBMC_WaitForServerPowerState E r u st)"
  unfolding getFilteredBiosRegistryAttributes_def RedfishBMC_GetSystems_def RedfishBMC_GetManager_def
    RedfishBMC_GetSystemInfo_def RedfishBMC_GetBootOrder_def RedfishBMC_GetBiosVersion_def
    RedfishBMC_GetStorages_def RedfishBMC_WaitForServerPowerState_def
  by (intro emits_intros; simp add: assms)+

lemma emits_reads_attributes [emits_intros]:
  assumes "\<And>e. is_read e \<Longrightarrow> P e"
  shows "emits P (\<lambda>_. True) (RedfishBMC_GetBiosAttributeValues E r u ks)"
    and "emits P (\<lambda>_. True) (checkBiosAttributes E r attrs)"
  unfolding RedfishBMC_GetBiosAttributeValues_def checkBiosAttributes_def
  by (intro emits_intros; simp add: assms)+

lemma emits_SetBiosAttributes [emits_intros]:
  assumes "\<And>e. is_read e \<Longrightarrow> P e" and "\<And>h u b. P (EBmc (UpdatedBiosAttributes h u attrs b))"
  shows "emits P (\<lambda>_. True) (RedfishBMC_SetBiosAttributes E r u attrs)"
  unfolding RedfishBMC_SetBiosAttributes_def
  by (intro emits_intros; simp add: assms)

lemma emits_PowerOn [emits_intros]:
  assumes "\<And>e. is_read e \<Longrightarrow> P e" and "\<And>e. is_power_on e \<Longrightarrow> P e"
  shows "emits P (\<lambda>_. True) (BMC_PowerOn E c u)"
  by (cases c; simp add: RedfishBMC_PowerOn_def RedfishLocalBMC_PowerOn_def)
    (intro emits_intros; simp add: assms)+

lemma emits_PowerOff [emits_intros]:
  assumes "\<And>e. is_read e \<Longrightarrow> P e" and "\<And>e. is_power_off e \<Longrightarrow> P e"
  shows "emits P (\<lambda>_. True) (BMC_PowerOff E c u)"
    and "emits P (\<lambda>_. True) (RedfishBMC_ForcePowerOff E r u)"
   apply (cases c; simp add: RedfishBMC_PowerOff_def RedfishLocalBMC_PowerOff_def)
     apply (intro emits_intros; simp add: assms)+
  unfolding RedfishBMC_ForcePowerOff_def
  by (intro emits_intros; simp add: assms)

lemma pxe_boot_for_target [simp]: "Boot_BootSourceOverrideTarget (pxe_boot_for s) = ''Pxe''"
  by (simp add: pxe_boot_for_def pxeBootWithSettingUEFIBootMode_def pxeBootWithoutSettingUEFIBootMode_def)

lemma emits_SetPXEBootOnce [emits_intros]:
  assumes "\<And>e. is_read e \<Longrightarrow> P e" and "\<And>e. is_netboot e \<Longrightarrow> P e"
  shows "emits P (\<lambda>_. True) (BMC_SetPXEBootOnce E c u)"
  by (cases c; simp add: RedfishBMC_SetPXEBootOnce_def RedfishKubeBMC_SetPXEBootOnce_def createJob_def
        ListJobs_def CreateJob_def)
    (intro emits_intros; simp add: assms)+

lemma emits_SetBootOrder [emits_intros]:
  assumes "\<And>e. is_read e \<Longrightarrow> P e" and "\<And>h u b ok. Boot_BootOrder b = order \<Longrightarrow> P (EBmc (SetBoot h u b ok))"
  shows "emits P (\<lambda>_. True) (RedfishBMC_SetBootOrder E r u order)"
  unfolding RedfishBMC_SetBootOrder_def
  by (intro emits_intros; simp add: assms)

lemma emits_Reset [emits_intros]:
  assumes "\<And>e. is_read e \<Longrightarrow> P e" and "\<And>h u b. P (EBmc (ResetSystem h u t b))"
  shows "emits P (\<lambda>_. True) (RedfishBMC_Reset E r u t)"
  unfolding RedfishBMC_Reset_def
  by (intro emits_intros; simp add: assms)

lemma emits_session [emits_intros]:
  assumes "\<And>e. is_session e \<Longrightarrow> P e"
  shows "emits P (\<lambda>_. True) (NewRedfishBMCClient E opts)"
    and "emits P (\<lambda>_. True) (RedfishBMC_Logout E r)"
  unfolding NewRedfishBMCClient_def RedfishBMC_Logout_def
  by (intro emits_intros; simp add: assms)+

lemma emits_test_session [emits_intros]:
  assumes "\<And>e. is_session e \<Longrightarrow> P e"
  shows "emits P (\<lambda>_. True) (NewRedfishLocalBMCClient E opts)"
    and "emits P (\<lambda>_. True) (NewRedfishKubeBMCClient E opts ns)"
  unfolding NewRedfishLocalBMCClient_def NewRedfishKubeBMCClient_def
  by (intro emits_intros; simp add: assms)+

section \<open>Functional behaviour\<close>

text \<open>The last listing of a trace shows the system \<open>u\<close> in power state \<open>st\<close>.\<close>

definition shows_power :: "string \<Rightarrow> string \<Rightarrow> event list \<Rightarrow> bool" where
  "shows_power u st es \<longleftrightarrow> (\<exists>s. found_in u s es \<and> CS_PowerState s = st)"

lemma found_in_append_left: "found_in u s ys \<Longrightarrow> found_in u s (xs @ ys)"
  by (auto simp: found_in_def last_listing_append)

lemma shows_power_append: "shows_power u st ys \<Longrightarrow> shows_power u st (xs @ ys)"
  by (auto simp: shows_power_def intro: found_in_append_left)

lemma sat_WaitForServerPowerState:
  "sat (RedfishBMC_WaitForServerPowerState E r u st) (\<lambda>res es. res = Ok () \<longrightarrow> shows_power u st es)"
proof -
  let ?c = "bindM (wrapM ''failed to get system info'' (getSystemByUUID E r u)) (\<lambda>sysInfo.
             returnM (if CS_PowerState sysInfo = st then Some () else None))"
  have c: "sat ?c (\<lambda>res es. res = Ok (Some ()) \<longrightarrow> shows_power u st es)"
    by (intro sat_bind sat_wrap, rule sat_mono [OF sat_getSystemByUUID])
      (auto split: res.split simp: shows_power_def)
  have "sat (poll_loop n ?c) (\<lambda>res es. res = Ok () \<longrightarrow> shows_power u st es)" for n
  proof (induction n)
    case 0
    show ?case
      by (simp, rule sat_bind, rule sat_mono [OF c]) (auto split: res.split option.split)
  next
    case (Suc n)
    show ?case
      by (simp, rule sat_bind, rule sat_mono [OF c])
        (auto split: res.split option.split intro!: sat_mono [OF Suc.IH] shows_power_append)
  qed
  then show ?thesis
    unfolding RedfishBMC_WaitForServerPowerState_def
    by (intro sat_wrap sat_poll) (rule sat_mono, assumption, auto split: res.split)
qed

text \<open>
  Powering on lists the systems and then resets the system with that UUID, of type \<^verbatim>\<open>On\<close> and once,
  when and only when it is not reported as on.
\<close>

definition power_on_trace :: "RedfishBMC \<Rightarrow> string \<Rightarrow> unit res \<Rightarrow> event list \<Rightarrow> bool" where
  "power_on_trace r u res es \<longleftrightarrow>
     (\<exists>ls tl. es = ls @ tl \<and> (\<forall>e\<in>set ls. is_listing e) \<and>
        (tl \<noteq> [] \<longrightarrow> (\<exists>s ok. found_in u s ls \<and> CS_PowerState s \<noteq> OnPowerState \<and>
            tl = [EBmc (ResetSystem (RedfishBMC_client r) (CS_UUID s) OnResetType ok)])) \<and>
        (res = Ok () \<longrightarrow> (\<exists>s. found_in u s ls \<and> (CS_PowerState s = OnPowerState \<longleftrightarrow> tl = []))))"

lemma sat_PowerOn: "sat (RedfishBMC_PowerOn E r u) (power_on_trace r u)"
proof -
  have reset: "power_on_trace r u res
      (ls @ [EBmc (ResetSystem (RedfishBMC_client r) (CS_UUID s) OnResetType ok)])"
    if "\<forall>e\<in>set ls. is_listing e" "found_in u s ls" "CS_PowerState s \<noteq> OnPowerState" for res ls s ok
    using that unfolding power_on_trace_def by fastforce
  have none: "power_on_trace r u res ls"
    if "\<forall>e\<in>set ls. is_listing e" "res = Ok () \<longrightarrow> (\<exists>s. found_in u s ls \<and> CS_PowerState s = OnPowerState)"
    for res ls
    using that unfolding power_on_trace_def by (intro exI [of _ ls] exI [of _ "[]"]) auto
  show ?thesis
    unfolding RedfishBMC_PowerOn_def System_Reset_def
    by (intro sat_bind sat_wrap, rule sat_mono [OF sat_getSystemByUUID])
      (auto split: res.split intro!: sat_wrap sat_call_any simp: reset none intro: none)
qed

text \<open>
  Network boot: one boot override, for the next boot only, from PXE, and in UEFI mode: the mode is
  set unless the system already reports it.
\<close>

definition pxe_trace :: "RedfishBMC \<Rightarrow> string \<Rightarrow> unit res \<Rightarrow> event list \<Rightarrow> bool" where
  "pxe_trace r u res es \<longleftrightarrow> (res = Ok () \<longrightarrow>
     (\<exists>ls s b. es = ls @ [EBmc (SetBoot (RedfishBMC_client r) (CS_UUID s) b True)] \<and>
        (\<forall>e\<in>set ls. is_listing e) \<and> found_in u s ls \<and>
        Boot_BootSourceOverrideEnabled b = ''Once'' \<and> Boot_BootSourceOverrideTarget b = ''Pxe'' \<and>
        (Boot_BootSourceOverrideMode b = UEFIBootSourceOverrideMode \<or>
         Boot_BootSourceOverrideMode b = '''' \<and>
         Boot_BootSourceOverrideMode (CS_Boot s) = UEFIBootSourceOverrideMode)))"

lemma sat_SetPXEBootOnce: "sat (RedfishBMC_SetPXEBootOnce E r u) (pxe_trace r u)"
proof -
  have pxe: "Boot_BootSourceOverrideEnabled (pxe_boot_for s) = ''Once''"
      "Boot_BootSourceOverrideMode (pxe_boot_for s) = UEFIBootSourceOverrideMode \<or>
       Boot_BootSourceOverrideMode (pxe_boot_for s) = '''' \<and>
       Boot_BootSourceOverrideMode (CS_Boot s) = UEFIBootSourceOverrideMode" for s
    by (auto simp: pxe_boot_for_def pxeBootWithSettingUEFIBootMode_def pxeBootWithoutSettingUEFIBootMode_def)
  have step: "pxe_trace r u res (ls @ [EBmc (SetBoot (RedfishBMC_client r) (CS_UUID s) (pxe_boot_for s) ok)])"
    if "\<forall>e\<in>set ls. is_listing e" "found_in u s ls" "res = Ok () \<longrightarrow> ok" for ls s res ok
    using that pxe [of s] unfolding pxe_trace_def by auto
  have none: "res \<noteq> Ok () \<Longrightarrow> pxe_trace r u res es" for res es
    by (simp add: pxe_trace_def)
  show ?thesis
    unfolding RedfishBMC_SetPXEBootOnce_def System_SetBoot_def
    by (intro sat_bind sat_wrap, rule sat_mono [OF sat_getSystemByUUID])
      (auto split: res.split intro!: sat_wrap sat_call_any simp: step none)
qed

subsection \<open>BIOS attributes\<close>

text \<open>An attribute is settable when the registry lists it and its value fits the registry's type.\<close>

definition settable :: "(string \<times> RegistryEntryAttributes) list \<Rightarrow> string \<times> string \<Rightarrow> bool" where
  "settable filtered nv \<longleftrightarrow> (\<exists>a. map_of filtered (fst nv) = Some a \<and>
     (ToLower (Attr_Type a) = ''integer'' \<and> Atoi (snd nv) \<noteq> None \<or> ToLower (Attr_Type a) = ''string''))"

definition needs_reset :: "(string \<times> RegistryEntryAttributes) list \<Rightarrow> string \<times> string \<Rightarrow> bool" where
  "needs_reset filtered nv \<longleftrightarrow> (\<exists>a. map_of filtered (fst nv) = Some a \<and> Attr_ResetRequired a)"

lemma check_attribute_iff:
  "fst (check_attribute filtered nv) = None \<longleftrightarrow> settable filtered nv"
  "snd (check_attribute filtered nv) = needs_reset filtered nv"
  by (auto simp: check_attribute_def settable_def needs_reset_def split: option.split)

lemma check_attributes_iff:
  "check_attributes filtered attrs reset errs = (rr, es) \<Longrightarrow>
     (es = [] \<longleftrightarrow> errs = [] \<and> (\<forall>nv\<in>set attrs. settable filtered nv)) \<and>
     (rr \<longleftrightarrow> reset \<or> (\<exists>nv\<in>set attrs. needs_reset filtered nv))"
proof (induction attrs arbitrary: reset errs)
  case (Cons nv attrs)
  obtain e b where c: "check_attribute filtered nv = (e, b)" by fastforce
  from check_attribute_iff [of filtered nv] c have "e = None \<longleftrightarrow> settable filtered nv" "b = needs_reset filtered nv"
    by auto
  moreover note Cons.IH [of "reset \<or> b" "case e of None \<Rightarrow> errs | Some m \<Rightarrow> errs @ [m]"]
  ultimately show ?case
    using Cons.prems c by (auto split: option.splits)
qed auto

lemma find_append_last:
  "List.find q (xs @ [x]) = (case List.find q xs of Some a \<Rightarrow> Some a | None \<Rightarrow> if q x then Some x else None)"
  by (induction xs) auto

lemma fold_filter_lookup:
  "map_of (fold (\<lambda>entry m. if q entry then AList.update (Attr_AttributeName entry) entry m else m) attrs m) n =
     (case List.find (\<lambda>a. Attr_AttributeName a = n) (rev (filter q attrs)) of
        Some a \<Rightarrow> Some a | None \<Rightarrow> map_of m n)"
  by (induction attrs arbitrary: m) (auto simp: update_conv find_append_last split: option.split)

text \<open>
  Only attributes that are neither hidden nor immutable nor read-only pass the filter, each with its
  last entry in the registry.
\<close>

lemma filter_attributes_lookup:
  "map_of (filter_attributes ro im attrs) n =
     List.find (\<lambda>a. Attr_AttributeName a = n)
       (rev (filter (\<lambda>a. Attr_Immutable a = im \<and> Attr_ReadOnly a = ro \<and> \<not> Attr_Hidden a) attrs))"
  unfolding filter_attributes_def fold_filter_lookup by (simp split: option.split)

subsection \<open>The interface as a contract\<close>

text \<open>
  What the controllers rely on when they switch a server's power through a BMC client: each operation
  only reads and does the kind of switching it is named for, and a wait that returns has seen the
  state waited for.
\<close>

locale bmc_power =
  fixes power_on :: "'c \<Rightarrow> string \<Rightarrow> ('w, unit) M"
    and power_off :: "'c \<Rightarrow> string \<Rightarrow> ('w, unit) M"
    and force_off :: "'c \<Rightarrow> string \<Rightarrow> ('w, unit) M"
    and wait_for :: "'c \<Rightarrow> string \<Rightarrow> string \<Rightarrow> ('w, unit) M"
  assumes on_only: "emits (\<lambda>e. is_read e \<or> is_power_on e) (\<lambda>_. True) (power_on c u)"
    and off_only: "emits (\<lambda>e. is_read e \<or> is_power_off e) (\<lambda>_. True) (power_off c u)"
    and force_only: "emits (\<lambda>e. is_read e \<or> is_power_off e) (\<lambda>_. True) (force_off c u)"
    and wait_reads: "emits is_read (\<lambda>_. True) (wait_for c u st)"
    and wait_shows: "sat (wait_for c u st) (\<lambda>r es. r = Ok () \<longrightarrow> shows_power u st es)"
begin

lemma switch_on_shows:
  "sat (bindM (wrapM m1 (power_on c u)) (\<lambda>_. wrapM m2 (wait_for c u st)))
     (\<lambda>r es. r = Ok () \<longrightarrow> shows_power u st es)"
  by (intro sat_bind sat_wrap, rule sat_mono [OF on_only [unfolded emits_def]])
    (auto split: res.split intro!: sat_wrap sat_mono [OF wait_shows] shows_power_append)

text \<open>A graceful switch-off, and a forced one when the wait for it fails.\<close>

lemma switch_off_shows:
  "sat (bindM (wrapM m1 (power_off c u)) (\<lambda>_.
          catchM (wait_for c u st) (\<lambda>e.
            if enforce
            then bindM (wrapM m2 (force_off c u)) (\<lambda>_. wrapM m3 (wait_for c u st))
            else errM (WrapError m4 e))))
     (\<lambda>r es. r = Ok () \<longrightarrow> shows_power u st es)"
  by (intro sat_bind sat_wrap, rule sat_mono [OF off_only [unfolded emits_def]])
    (auto split: res.split
      intro!: sat_wrap sat_catch sat_bind sat_mono [OF wait_shows]
        sat_mono [OF force_only [unfolded emits_def]] shows_power_append)

end

interpretation bmc_client: bmc_power "BMC_PowerOn E" "BMC_PowerOff E" "BMC_ForcePowerOff E"
    "BMC_WaitForServerPowerState E"
  for E :: "'w env"
  by unfold_locales (intro emits_intros sat_WaitForServerPowerState; simp)+

end
