(* ===== verification/Bmcutils.thy ===== *)
theory Bmcutils
  imports Redfish
begin

text \<open>
  How a controller reaches a BMC (\<^verbatim>\<open>internal/bmcutils/bmcutils.go\<close>) and how the console command does
  (\<^verbatim>\<open>internal/console/console.go\<close>), with the helpers every controller shares
  (\<^verbatim>\<open>internal/controller/helper.go\<close>). The lemmas say which address, port and credentials a client is
  connected with, and that the names given to a BMC's servers are distinct.
\<close>

section \<open>bmcutils.go\<close>

definition GetBMCCredentialsFromSecret :: "BMCSecret \<Rightarrow> (string \<times> string) res" where
  "GetBMCCredentialsFromSecret secret =
     (case map_of (BMCSecret_Data secret) ''username'' of
        None \<Rightarrow> Err (OtherError ''no username found in the BMC secret'')
      | Some username \<Rightarrow>
          (case map_of (BMCSecret_Data secret) ''password'' of
             None \<Rightarrow> Err (OtherError ''no password found in the BMC secret'')
           | Some password \<Rightarrow> Ok (username, password)))"

definition GetBMCFromBMCName :: "'w env \<Rightarrow> string \<Rightarrow> ('w, BMC) M" where
  "GetBMCFromBMCName E bmcName = wrapM ''failed to get bmc'' (GetBMC E bmcName)"

definition GetBMCCredentialsForBMCSecretName :: "'w env \<Rightarrow> string \<Rightarrow> ('w, string \<times> string) M" where
  "GetBMCCredentialsForBMCSecretName E bmcSecretName =
     bindM (wrapM ''failed to get bmc secret'' (GetBMCSecret E bmcSecretName)) (\<lambda>bmcSecret.
       liftM (GetBMCCredentialsFromSecret bmcSecret))"

definition GetBMCAddressForBMC :: "'w env \<Rightarrow> BMC \<Rightarrow> ('w, string) M" where
  "GetBMCAddressForBMC E bmcObj =
     (case BMCSpec_EndpointRef (BMC_Spec bmcObj) of
        Some ref \<Rightarrow>
          bindM (wrapM ''failed to get Endpoints for BMC'' (GetEndpoint E (LocalObjectReference_Name ref)))
            (\<lambda>endpoint. returnM (IP_String (EndpointSpec_IP (Endpoint_Spec endpoint))))
      | None \<Rightarrow>
          (case BMCSpec_Endpoint (BMC_Spec bmcObj) of
             Some ep \<Rightarrow> returnM (IP_String (InlineEndpoint_IP ep))
           | None \<Rightarrow> returnM ''''))"

abbreviation DefaultKubeNamespace :: string where "DefaultKubeNamespace \<equiv> ''default''"

text \<open>\<^verbatim>\<open>fmt.Sprintf("%s://%s", protocol, net.JoinHostPort(address, port))\<close>\<close>

definition bmc_endpoint :: "bool \<Rightarrow> string \<Rightarrow> 32 word \<Rightarrow> string" where
  "bmc_endpoint insecure address port =
     (if insecure then ''http'' else ''https'') @ ''://'' @ JoinHostPort address (itoa (sint port))"

definition with_credentials :: "BMCOptions \<Rightarrow> string \<Rightarrow> BMCSecret \<Rightarrow> BMCOptions res" where
  "with_credentials options endpoint bmcSecret =
     (case GetBMCCredentialsFromSecret bmcSecret of
        Ok (username, password) \<Rightarrow>
          Ok (options\<lparr>BMCOptions_Endpoint := endpoint, BMCOptions_Username := username,
                      BMCOptions_Password := password\<rparr>)
      | Err e \<Rightarrow> Err (WrapError ''failed to get credentials from BMC secret'' e)
      | Panic s \<Rightarrow> Panic s)"

definition CreateBMCClient ::
  "'w env \<Rightarrow> bool \<Rightarrow> string \<Rightarrow> string \<Rightarrow> 32 word \<Rightarrow> BMCSecret \<Rightarrow> BMCOptions \<Rightarrow> ('w, BMCClient) M" where
  "CreateBMCClient E insecure bmcProtocol address port bmcSecret bmcOptions =
     (if bmcProtocol = ProtocolRedfish then
        bindM (liftM (with_credentials bmcOptions (bmc_endpoint insecure address port) bmcSecret)) (\<lambda>o1.
        bindM (wrapM ''failed to create Redfish client'' (NewRedfishBMCClient E o1)) (\<lambda>c. returnM (Redfish c)))
      else if bmcProtocol = ProtocolRedfishLocal then
        bindM (liftM (with_credentials bmcOptions (bmc_endpoint insecure address port) bmcSecret)) (\<lambda>o1.
        wrapM ''failed to create Redfish client'' (NewRedfishLocalBMCClient E o1))
      else if bmcProtocol = ProtocolRedfishKube then
        bindM (liftM (with_credentials bmcOptions (bmc_endpoint insecure address port) bmcSecret)) (\<lambda>o1.
        wrapM ''failed to create Redfish client'' (NewRedfishKubeBMCClient E o1 DefaultKubeNamespace))
      else errM (OtherError (''unsupported BMC protocol '' @ bmcProtocol)))"

definition GetBMCClientFromBMC :: "'w env \<Rightarrow> BMC \<Rightarrow> bool \<Rightarrow> BMCOptions \<Rightarrow> ('w, BMCClient) M" where
  "GetBMCClientFromBMC E bmcObj insecure options =
     bindM (case BMCSpec_EndpointRef (BMC_Spec bmcObj) of
              Some ref \<Rightarrow>
                bindM (wrapM ''failed to get Endpoints for BMC'' (GetEndpoint E (LocalObjectReference_Name ref)))
                  (\<lambda>endpoint. returnM (IP_String (EndpointSpec_IP (Endpoint_Spec endpoint))))
            | None \<Rightarrow> returnM '''') (\<lambda>address0.
     let address = (case BMCSpec_Endpoint (BMC_Spec bmcObj) of
                      Some ep \<Rightarrow> IP_String (InlineEndpoint_IP ep) | None \<Rightarrow> address0) in
     bindM (wrapM ''failed to get BMC secret''
              (GetBMCSecret E (LocalObjectReference_Name (BMCSpec_BMCSecretRef (BMC_Spec bmcObj))))) (\<lambda>bmcSecret.
       CreateBMCClient E insecure (Protocol_Name (BMCSpec_Protocol (BMC_Spec bmcObj))) address
         (Protocol_Port (BMCSpec_Protocol (BMC_Spec bmcObj))) bmcSecret options))"

definition GetBMCClientForServer :: "'w env \<Rightarrow> Server \<Rightarrow> bool \<Rightarrow> BMCOptions \<Rightarrow> ('w, BMCClient) M" where
  "GetBMCClientForServer E server insecure options =
     (case srvBMCRef server of
        Some ref \<Rightarrow>
          bindM (wrapM ''failed to get BMC'' (GetBMC E (LocalObjectReference_Name ref))) (\<lambda>b.
            GetBMCClientFromBMC E b insecure options)
      | None \<Rightarrow>
          (case srvBMC server of
             Some acc \<Rightarrow>
               bindM (wrapM ''failed to get BMC secret''
                        (GetBMCSecret E (LocalObjectReference_Name (BMCAccess_BMCSecretRef acc)))) (\<lambda>bmcSecret.
                 CreateBMCClient E insecure (Protocol_Name (BMCAccess_Protocol acc)) (BMCAccess_Address acc)
                   (Protocol_Port (BMCAccess_Protocol acc)) bmcSecret options)
           | None \<Rightarrow> errM (OtherError (''server '' @ srvName server @
                             '' has neither a BMCRef nor a BMC configured''))))"

definition GetServerNameFromBMCandIndex :: "nat \<Rightarrow> BMC \<Rightarrow> string" where
  "GetServerNameFromBMCandIndex index bmc =
     ObjectMeta_Name (BMC_Meta bmc) @ ''-'' @ ''system'' @ ''-'' @ itoa (int index)"

section \<open>console.go\<close>

record ConsoleConfig =
  ConsoleConfig_BMCAddress :: string
  ConsoleConfig_Username :: string
  ConsoleConfig_Password :: string

definition GetConfigForServerName :: "'w env \<Rightarrow> string \<Rightarrow> ('w, ConsoleConfig) M" where
  "GetConfigForServerName E serverName =
     bindM (wrapM ''failed to get server'' (GetServer E serverName)) (\<lambda>server.
       case srvBMC server of
         Some acc \<Rightarrow>
           bindM (GetBMCCredentialsForBMCSecretName E (LocalObjectReference_Name (BMCAccess_BMCSecretRef acc)))
             (\<lambda>(username, password).
                returnM \<lparr>ConsoleConfig_BMCAddress = BMCAccess_Address acc,
                  ConsoleConfig_Username = username, ConsoleConfig_Password = password\<rparr>)
       | None \<Rightarrow>
           (case srvBMCRef server of
              Some ref \<Rightarrow>
                bindM (GetBMCFromBMCName E (LocalObjectReference_Name ref)) (\<lambda>bmc.
                bindM (GetBMCCredentialsForBMCSecretName E
                         (LocalObjectReference_Name (BMCSpec_BMCSecretRef (BMC_Spec bmc)))) (\<lambda>(username, password).
                bindM (GetBMCAddressForBMC E bmc) (\<lambda>address.
                  returnM \<lparr>ConsoleConfig_BMCAddress = address,
                    ConsoleConfig_Username = username, ConsoleConfig_Password = password\<rparr>)))
            | None \<Rightarrow> errM (OtherError (''failed to create configuration for accessing server '' @ serverName))))"

section \<open>helper.go\<close>

definition shouldIgnoreReconciliation :: "ObjectMeta \<Rightarrow> bool" where
  "shouldIgnoreReconciliation obj =
     (case map_of (ObjectMeta_Annotations obj) OperationAnnotation of
        None \<Rightarrow> False | Some val \<Rightarrow> val = OperationAnnotationIgnore)"

definition RandInt :: "'w env \<Rightarrow> nat \<Rightarrow> ('w, nat) M" where
  "RandInt E n = callM (s_randInt E n) (\<lambda>_. ESys (RandomRead n))"

definition letters :: string where
  "letters = ''abcdefghijklmnopqrstuvwxyzABCDEFGHIJKLMNOPQRSTUVWXYZ0123456789''"

definition random_letter :: "'w env \<Rightarrow> ('w, char) M" where
  "random_letter E =
     bindM (wrapM ''failed to generate random password'' (RandInt E (length letters))) (\<lambda>n.
       if n < length letters then returnM (letters ! n) else panicM ''index out of range'')"

definition GenerateRandomPassword :: "'w env \<Rightarrow> nat \<Rightarrow> ('w, string) M" where
  "GenerateRandomPassword E len =
     foldM (\<lambda>result i. bindM (random_letter E) (\<lambda>c. returnM (result[i := c])))
       (replicate len (CHR 0x00)) [0..<len]"

section \<open>What the controllers share\<close>

text \<open>\<^verbatim>\<open>ctrl.Result\<close>, and the lookup at the start of every \<^verbatim>\<open>Reconcile\<close>, which ignores a missing object.\<close>

record Result =
  Result_Requeue :: bool
  Result_RequeueAfter :: int

definition emptyResult :: Result where
  "emptyResult = \<lparr>Result_Requeue = False, Result_RequeueAfter = 0\<rparr>"

definition reconcileObject :: "('w, 'o) M \<Rightarrow> ('o \<Rightarrow> ('w, Result) M) \<Rightarrow> ('w, Result) M" where
  "reconcileObject get reconcileExists =
     bindM (catchM (bindM get (\<lambda>o1. returnM (Some o1)))
              (\<lambda>e. if IsNotFound e then returnM None else errM e)) (\<lambda>x.
       case x of None \<Rightarrow> returnM emptyResult | Some o1 \<Rightarrow> reconcileExists o1)"

text \<open>\<^verbatim>\<open>if modified, err := step(...); err != nil || modified { return ctrl.Result{}, err }\<close>\<close>

definition ifUnmodified :: "('w, bool \<times> 's) M \<Rightarrow> ('s \<Rightarrow> ('w, Result) M) \<Rightarrow> ('w, Result) M" where
  "ifUnmodified step k =
     bindM step (\<lambda>(modified, s). if modified then returnM emptyResult else k s)"

text \<open>
  A BMC client for the server, used by \<open>body\<close> and logged out when \<open>body\<close> is over, as
  \<^verbatim>\<open>defer bmcClient.Logout()\<close> does.
\<close>

definition withBMCClient ::
  "'w env \<Rightarrow> bool \<Rightarrow> BMCOptions \<Rightarrow> Server \<Rightarrow> string \<Rightarrow> (BMCClient \<Rightarrow> ('w, 'a) M) \<Rightarrow> ('w, 'a) M" where
  "withBMCClient E insecure options server msg body =
     bindM (wrapM msg (GetBMCClientForServer E server insecure options)) (\<lambda>bmcClient.
       deferM (BMC_Logout E bmcClient) (body bmcClient))"

section \<open>What these operations may do\<close>

lemma emits_CreateBMCClient [emits_intros]:
  assumes "\<And>e. is_session e \<Longrightarrow> P e"
  shows "emits P (\<lambda>_. True) (CreateBMCClient E insecure pr a p s opts)"
  unfolding CreateBMCClient_def by (intro emits_intros; simp add: assms)

lemma emits_GetBMCClientFromBMC [emits_intros]:
  assumes "\<And>e. is_read e \<Longrightarrow> P e" and "\<And>e. is_session e \<Longrightarrow> P e"
  shows "emits P (\<lambda>_. True) (GetBMCClientFromBMC E b insecure opts)"
  unfolding GetBMCClientFromBMC_def by (intro emits_intros; simp add: assms)

lemma emits_GetBMCClientForServer [emits_intros]:
  assumes "\<And>e. is_read e \<Longrightarrow> P e" and "\<And>e. is_session e \<Longrightarrow> P e"
  shows "emits P (\<lambda>_. True) (GetBMCClientForServer E s insecure opts)"
  unfolding GetBMCClientForServer_def by (intro emits_intros; simp add: assms)

lemma emits_console [emits_intros]:
  assumes "\<And>e. is_read e \<Longrightarrow> P e"
  shows "emits P (\<lambda>_. True) (GetConfigForServerName E n)"
  unfolding GetConfigForServerName_def GetBMCFromBMCName_def GetBMCCredentialsForBMCSecretName_def
    GetBMCAddressForBMC_def
  by (intro emits_intros; simp add: assms)

lemma emits_reconcileObject [emits_intros]:
  "emits P (\<lambda>_. True) get \<Longrightarrow> (\<And>o1. emits P R (k o1)) \<Longrightarrow> R emptyResult \<Longrightarrow> emits P R (reconcileObject get k)"
  unfolding reconcileObject_def by (intro emits_intros; simp)

lemma emits_ifUnmodified:
  assumes "emits P (\<lambda>x. \<not> fst x \<longrightarrow> R' (snd x)) step" and "\<And>s. R' s \<Longrightarrow> emits P R (k s)" and "R emptyResult"
  shows "emits P R (ifUnmodified step k)"
  unfolding ifUnmodified_def using assms
  by (intro emits_bind [OF assms(1)]) (auto intro!: emits_return)

lemma emits_ifUnmodified_any [emits_intros]:
  "emits P (\<lambda>_. True) step \<Longrightarrow> (\<And>s. emits P R (k s)) \<Longrightarrow> R emptyResult \<Longrightarrow> emits P R (ifUnmodified step k)"
  by (rule emits_ifUnmodified [where R' = "\<lambda>_. True"]) (auto elim: emits_any)

lemma emits_withBMCClient:
  assumes "\<And>e. is_read e \<Longrightarrow> P e" and "\<And>e. is_session e \<Longrightarrow> P e" and "\<And>c. emits P R (body c)"
  shows "emits P R (withBMCClient E insecure opts s msg body)"
  unfolding withBMCClient_def by (intro emits_intros assms(3)) (simp_all add: assms)

lemma guarded_withBMCClient:
  assumes "\<And>c. sat (body c) (\<lambda>_ es. guarded g p es)" and "\<And>e. is_read e \<or> is_session e \<Longrightarrow> \<not> p e"
  shows "sat (withBMCClient E i opts s msg body) (\<lambda>_ es. guarded g p es)"
  unfolding withBMCClient_def
  by (rule guarded_bind [where R = "\<lambda>_. True"])
    (intro guarded_defer assms(1) emits_intros; simp add: assms(2))+

lemma emits_RandInt [emits_intros]: "P (ESys (RandomRead n)) \<Longrightarrow> emits P (\<lambda>_. True) (RandInt E n)"
  unfolding RandInt_def by (intro emits_intros)

section \<open>Which BMC a client talks to\<close>

fun connects_to :: "(ClientConfig \<Rightarrow> bool) \<Rightarrow> event \<Rightarrow> bool" where
  "connects_to Q (EBmc (Connected cfg _)) = Q cfg"
| "connects_to Q _ = True"

lemma CreateBMCClient_config:
  "emits (connects_to (\<lambda>cfg. ClientConfig_Endpoint cfg = bmc_endpoint insecure address port \<and>
       GetBMCCredentialsFromSecret secret = Ok (ClientConfig_Username cfg, ClientConfig_Password cfg)))
     (\<lambda>_. True) (CreateBMCClient E insecure protocol address port secret opts)"
proof -
  let ?Q = "connects_to (\<lambda>cfg. ClientConfig_Endpoint cfg = bmc_endpoint insecure address port \<and>
       GetBMCCredentialsFromSecret secret = Ok (ClientConfig_Username cfg, ClientConfig_Password cfg))"
  have new: "emits ?Q (\<lambda>_. True) (NewRedfishBMCClient E o1)"
    if "with_credentials opts (bmc_endpoint insecure address port) secret = Ok o1" for o1
    unfolding NewRedfishBMCClient_def
    by (intro emits_intros) (use that in \<open>auto simp: with_credentials_def split: res.splits prod.splits\<close>)
  have lift: "emits ?Q (\<lambda>o1. with_credentials opts (bmc_endpoint insecure address port) secret = Ok o1)
      (liftM (with_credentials opts (bmc_endpoint insecure address port) secret))"
    by (intro emits_lift)
  show ?thesis
    unfolding CreateBMCClient_def NewRedfishLocalBMCClient_def NewRedfishKubeBMCClient_def
    by (intro emits_if emits_bind [OF lift] emits_then emits_wrap new emits_return emits_err; simp)
qed

text \<open>
  The two ways to find a BMC's address agree on every BMC that does not have both a reference to an
  endpoint and an inline endpoint, which the resource definition excludes.
\<close>

lemma GetBMCClientFromBMC_address:
  assumes "BMCSpec_EndpointRef (BMC_Spec b) = None \<or> BMCSpec_Endpoint (BMC_Spec b) = None"
  shows "GetBMCClientFromBMC E b insecure opts =
    bindM (GetBMCAddressForBMC E b) (\<lambda>address.
    bindM (wrapM ''failed to get BMC secret''
             (GetBMCSecret E (LocalObjectReference_Name (BMCSpec_BMCSecretRef (BMC_Spec b))))) (\<lambda>secret.
      CreateBMCClient E insecure (Protocol_Name (BMCSpec_Protocol (BMC_Spec b))) address
        (Protocol_Port (BMCSpec_Protocol (BMC_Spec b))) secret opts))"
  using assms
  by (cases "BMCSpec_EndpointRef (BMC_Spec b)"; cases "BMCSpec_Endpoint (BMC_Spec b)")
    (simp_all add: GetBMCClientFromBMC_def GetBMCAddressForBMC_def bindM_assoc)

section \<open>Names of servers\<close>

text \<open>A server's name determines the BMC it was found on and its index there.\<close>

lemma GetServerName_inject:
  assumes "GetServerNameFromBMCandIndex i b = GetServerNameFromBMCandIndex j c"
  shows "ObjectMeta_Name (BMC_Meta b) = ObjectMeta_Name (BMC_Meta c) \<and> i = j"
proof -
  let ?a = "\<lambda>b. ObjectMeta_Name (BMC_Meta b) @ ''-system''"
  have "?a b @ [CHR ''-''] @ nat_digits i = ?a c @ [CHR ''-''] @ nat_digits j"
    using assms by (simp add: GetServerNameFromBMCandIndex_def itoa_def)
  from split_last_unique [OF this] show ?thesis
    by (simp add: nat_digits_no_dash)
qed

section \<open>Passwords\<close>

lemma sat_random_letter:
  "sat (random_letter E) (\<lambda>res es. \<forall>c. res = Ok c \<longrightarrow> c \<in> set letters \<and> es = [ESys (RandomRead (length letters))])"
  unfolding random_letter_def RandInt_def
  by (intro sat_bind sat_wrap sat_call_any) (auto split: res.split)

lemma password_loop:
  assumes "k \<le> len" and "length p0 = len"
  shows "sat (foldM (\<lambda>result i. bindM (random_letter E) (\<lambda>c. returnM (result[i := c]))) p0 [k..<len])
      (\<lambda>res es. \<forall>p. res = Ok p \<longrightarrow> length p = len \<and> take k p = take k p0 \<and> (\<forall>i\<in>{k..<len}. p ! i \<in> set letters) \<and>
         es = replicate (len - k) (ESys (RandomRead (length letters))))"
  using assms
proof (induction "len - k" arbitrary: k p0)
  case 0
  then show ?case by simp
next
  case (Suc n)
  then have k: "k < len" "[k..<len] = k # [Suc k..<len]" by (simp_all add: upt_rec)
  have len: "length (p0[k := c]) = len" "k < length p0" for c using k Suc.prems by simp_all
  have IH: "sat (foldM (\<lambda>result i. bindM (random_letter E) (\<lambda>c. returnM (result[i := c]))) (p0[k := c]) [Suc k..<len])
    (\<lambda>res es. \<forall>p. res = Ok p \<longrightarrow> length p = len \<and> take k p = take k p0 \<and>
       (\<forall>i\<in>{k..<len}. p ! i \<in> set letters) \<and> es = replicate (len - Suc k) (ESys (RandomRead (length letters))))"
    if "c \<in> set letters" for c
  proof (rule sat_mono [OF Suc.hyps(1) [of "Suc k" "p0[k := c]"]], goal_cases)
    case (4 res es)
    show ?case
    proof (intro allI impI)
      fix p assume "res = Ok p"
      with 4 have p: "length p = len" "take (Suc k) p = take (Suc k) (p0[k := c])"
          "\<forall>i\<in>{Suc k..<len}. p ! i \<in> set letters"
          "es = replicate (len - Suc k) (ESys (RandomRead (length letters)))" by auto
      from take_Suc_update [OF p(2) len(2)] p(1) Suc.prems that
      have "take k p = take k p0" "p ! k \<in> set letters" by simp_all
      moreover have "p ! i \<in> set letters" if "i \<in> {k..<len}" for i
        using p(3) \<open>p ! k \<in> set letters\<close> that by (cases "i = k") auto
      ultimately show "length p = len \<and> take k p = take k p0 \<and> (\<forall>i\<in>{k..<len}. p ! i \<in> set letters) \<and>
          es = replicate (len - Suc k) (ESys (RandomRead (length letters)))" using p by blast
    qed
  qed (use Suc.hyps(2) Suc.prems k in auto)
  have rep: "replicate (len - k) x = x # replicate (len - Suc k) x" for x :: event
    using k by (simp add: Suc_diff_Suc flip: replicate_Suc)
  show ?case
    unfolding k(2) foldM.simps rep
    by (intro sat_bind, rule sat_mono [OF sat_random_letter]) (auto split: res.split intro!: sat_mono [OF IH])
qed

text \<open>
  A password is as long as asked for, consists of letters and digits, and each of them is drawn
  separately.
\<close>

lemma GenerateRandomPassword_result:
  "sat (GenerateRandomPassword E len) (\<lambda>res es. \<forall>p. res = Ok p \<longrightarrow>
     length p = len \<and> set p \<subseteq> set letters \<and> es = replicate len (ESys (RandomRead (length letters))))"
  unfolding GenerateRandomPassword_def
  by (rule sat_mono [OF password_loop [of 0]]) (auto simp: set_conv_nth)

end
