(* ===== verification/Ignition.thy ===== *)
theory Ignition
  imports Bmcutils
begin

text \<open>
  The default Ignition of \<^verbatim>\<open>internal/ignition/default.go\<close>: the template, rendered with
  \<^verbatim>\<open>text/template\<close>, whose only actions are the four fields of the configuration. The template is a
  constant that parses and the fields are strings, so rendering never fails.
\<close>

record Config =
  Config_Image :: string
  Config_Flags :: string
  Config_SSHPublicKey :: string
  Config_PasswordHash :: string

text \<open>The lines of the template, with each action replaced by the field it names.\<close>

definition defaultIgnitionTemplate :: "Config \<Rightarrow> string list" where
  "defaultIgnitionTemplate config =
     [''variant: fcos'',
      ''version: '' @ dq @ ''1.3.0'' @ dq,
      ''systemd:'',
      ''  units:'',
      ''    - name: docker-install.service'',
      ''      enabled: true'',
      ''      contents: |-'',
      ''        [Unit]'',
      ''        Description=Install Docker'',
      ''        Before=metalprobe.service'',
      ''        [Service]'',
      ''        Restart=on-failure'',
      ''        RestartSec=20'',
      ''        Type=oneshot'',
      ''        RemainAfterExit=yes'',
      ''        ExecStart=/usr/bin/apt-get update'',
      ''        ExecStart=/usr/bin/apt-get install docker.io -y'',
      ''        [Install]'',
      ''        WantedBy=multi-user.target'',
      ''    - name: docker.service'',
      ''      enabled: true'',
      ''    - name: metalprobe.service'',
      ''      enabled: true'',
      ''      contents: |-'',
      ''        [Unit]'',
      ''        Description=Run My Docker Container'',
      ''        [Service]'',
      ''        Restart=on-failure'',
      ''        RestartSec=20'',
      ''        ExecStartPre=-/usr/bin/docker stop metalprobe'',
      ''        ExecStartPre=-/usr/bin/docker rm metalprobe'',
      ''        ExecStartPre=/usr/bin/docker pull '' @ Config_Image config,
      ''        ExecStart=/usr/bin/docker run --network host --privileged --name metalprobe '' @ Config_Image config @ '' '' @ Config_Flags config,
      ''        ExecStop=/usr/bin/docker stop metalprobe'',
      ''        [Install]'',
      ''        WantedBy=multi-user.target'',
      ''storage:'',
      ''  files: []'',
      ''passwd:'',
      ''  users:'',
      ''    - name: metal'',
      ''      password_hash: '' @ Config_PasswordHash config,
      ''      groups: [ '' @ dq @ ''wheel'' @ dq @ '' ]'',
      ''      ssh_authorized_keys: [ '' @ Config_SSHPublicKey config @ '' ]'']"

definition GenerateDefaultIgnitionData :: "Config \<Rightarrow> string" where
  "GenerateDefaultIgnitionData config = concat (map (\<lambda>line. line @ [CHR 0x0A]) (defaultIgnitionTemplate config))"

text \<open>The line that starts the probe runs the image with exactly the flags given.\<close>

definition probe_line :: "string \<Rightarrow> string \<Rightarrow> string" where
  "probe_line img flags =
     ''        ExecStart=/usr/bin/docker run --network host --privileged --name metalprobe '' @ img @ '' '' @ flags"

lemma template_line_in_data:
  "line \<in> set (defaultIgnitionTemplate config) \<Longrightarrow>
   Contains (GenerateDefaultIgnitionData config) (line @ [CHR 0x0A])"
  unfolding GenerateDefaultIgnitionData_def Contains_iff
  by (metis (no_types, lifting) split_list concat.simps(2) concat_append list.simps(9) map_append)

lemma ignition_starts_probe:
  "Contains (GenerateDefaultIgnitionData config)
     (probe_line (Config_Image config) (Config_Flags config) @ [CHR 0x0A])"
  by (rule template_line_in_data) (simp add: defaultIgnitionTemplate_def probe_line_def)

end
