(* ===== verification/Server_Controller.thy ===== *)
theory Server_Controller
  imports Ignition
begin

text \<open>
  The server controller (\<^verbatim>\<open>internal/controller/server_controller.go\<close>): one definition per function of
  the file, from the small steps up to \<^verbatim>\<open>Reconcile\<close>. A function that updates the object behind its
  \<^verbatim>\<open>*Server\<close> argument returns the updated object; after a patch that is the API server's answer.
\<close>

section \<open>Configuration and constants\<close>

abbreviation DefaultIgnitionSecretKeyName :: string where "DefaultIgnitionSecretKeyName \<equiv> ''ignition''"
abbreviation DefaultIgnitionFormatKey :: string where "DefaultIgnitionFormatKey \<equiv> ''format''"
abbreviation DefaultIgnitionFormatValue :: string where "DefaultIgnitionFormatValue \<equiv> ''fcos''"
abbreviation SSHKeyPairSecretPrivateKeyName :: string where "SSHKeyPairSecretPrivateKeyName \<equiv> ''pem''"
abbreviation SSHKeyPairSecretPublicKeyName :: string where "SSHKeyPairSecretPublicKeyName \<equiv> ''pub''"
abbreviation SShKeyPairSecretPasswordKeyName :: string where "SShKeyPairSecretPasswordKeyName \<equiv> ''password''"
abbreviation ServerFinalizer :: string where "ServerFinalizer \<equiv> ''metal.ironcore.dev/server''"
abbreviation InternalAnnotationTypeKeyName :: string where
  "InternalAnnotationTypeKeyName \<equiv> ''metal.ironcore.dev/type''"
abbreviation InternalAnnotationTypeValue :: string where "InternalAnnotationTypeValue \<equiv> ''Internal''"

record ServerReconciler =
  SR_Insecure :: bool
  SR_ManagerNamespace :: string
  SR_ProbeImage :: string
  SR_RegistryURL :: string
  SR_ProbeOSImage :: string
  SR_RegistryResyncInterval :: int
  SR_EnforceFirstBoot :: bool
  SR_EnforcePowerOff :: bool
  SR_ResyncInterval :: int
  SR_BMCOptions :: BMCOptions
  SR_DiscoveryTimeout :: int

text \<open>The BMC client every function below asks for.\<close>

abbreviation serverBMCClient ::
  "'w env \<Rightarrow> ServerReconciler \<Rightarrow> Server \<Rightarrow> string \<Rightarrow> (BMCClient \<Rightarrow> ('w, 'a) M) \<Rightarrow> ('w, 'a) M" where
  "serverBMCClient E r \<equiv> withBMCClient E (SR_Insecure r) (SR_BMCOptions r)"

section \<open>State and power\<close>

definition patchServerState :: "'w env \<Rightarrow> Server \<Rightarrow> ServerState \<Rightarrow> ('w, bool \<times> Server) M" where
  "patchServerState E server state =
     (if srvState server = state then returnM (False, server)
      else bindM (wrapM ''failed to patch server state'' (PatchServerStatus E server (set_State state server)))
             (\<lambda>server. returnM (True, server)))"

datatype powerOp = powerOpOn | powerOpOff | powerOpNoOP

text \<open>The operation \<^verbatim>\<open>ensureServerPowerState\<close> chooses, from the desired and the observed power state.\<close>

definition choosePowerOp :: "Power \<Rightarrow> ServerPowerState \<Rightarrow> powerOp" where
  "choosePowerOp desired observed =
     (let op1 = (if observed \<noteq> ServerOnPowerState \<and> observed \<noteq> ServerPoweringOnPowerState \<and> desired = PowerOn
                 then powerOpOn else powerOpNoOP)
      in if observed \<noteq> ServerOffPowerState \<and> observed \<noteq> ServerPoweringOffPowerState \<and> desired = PowerOff
         then powerOpOff else op1)"

definition ensureServerPowerState :: "'w env \<Rightarrow> ServerReconciler \<Rightarrow> Server \<Rightarrow> ('w, unit) M" where
  "ensureServerPowerState E r server =
     (if srvPower server = '''' then returnM ()
      else case choosePowerOp (srvPower server) (srvPowerState server) of
        powerOpNoOP \<Rightarrow> returnM ()
      | powerOpOn \<Rightarrow>
          serverBMCClient E r server ''failed to get BMC client'' (\<lambda>bmcClient.
            bindM (wrapM ''failed to power on server'' (BMC_PowerOn E bmcClient (srvSystemUUID server))) (\<lambda>_.
            wrapM ''failed to wait for server power on server''
              (BMC_WaitForServerPowerState E bmcClient (srvSystemUUID server) OnPowerState)))
      | powerOpOff \<Rightarrow>
          serverBMCClient E r server ''failed to get BMC client'' (\<lambda>bmcClient.
            bindM (wrapM ''failed to power off server'' (BMC_PowerOff E bmcClient (srvSystemUUID server))) (\<lambda>_.
            catchM (BMC_WaitForServerPowerState E bmcClient (srvSystemUUID server) OffPowerState) (\<lambda>err.
              if SR_EnforcePowerOff r then
                bindM (wrapM ''failed to power off server''
                         (BMC_ForcePowerOff E bmcClient (srvSystemUUID server))) (\<lambda>_.
                wrapM ''failed to wait for server force power off''
                  (BMC_WaitForServerPowerState E bmcClient (srvSystemUUID server) OffPowerState))
              else errM (WrapError ''failed to wait for server power off'' err)))))"

definition setAndPatchServerPowerState ::
  "'w env \<Rightarrow> Server \<Rightarrow> Power \<Rightarrow> ('w, bool \<times> Server) M" where
  "setAndPatchServerPowerState E server powerState =
     bindM (wrapM ''failed to patch Server'' (CreateOrPatchServer E server (\<lambda>s. Ok (set_Power powerState s))))
       (\<lambda>(op, server). returnM (op = OperationResultUpdated, server))"

definition ensureInitialConditions ::
  "'w env \<Rightarrow> ServerReconciler \<Rightarrow> Server \<Rightarrow> ('w, bool \<times> Server) M" where
  "ensureInitialConditions E r server =
     bindM (if srvPower server = '''' \<and> srvPowerState server = ServerOffPowerState
            then wrapM ''failed to set server power state'' (setAndPatchServerPowerState E server PowerOff)
            else returnM (False, server)) (\<lambda>(requeue, server).
       if requeue then returnM (True, server)
       else if srvState server = ServerStateInitial \<and> srvPowerState server = ServerOnPowerState \<and>
               SR_EnforceFirstBoot r
       then wrapM ''failed to set server power state'' (setAndPatchServerPowerState E server PowerOff)
       else returnM (False, server))"

definition serverBootConfigurationIsReady :: "'w env \<Rightarrow> Server \<Rightarrow> ('w, bool) M" where
  "serverBootConfigurationIsReady E server =
     (case srvBootConfigurationRef server of
        None \<Rightarrow> returnM False
      | Some ref \<Rightarrow>
          bindM (GetSBC E (ObjectReference_Namespace ref) (ObjectReference_Name ref)) (\<lambda>config.
            returnM (SBC_State config = ServerBootConfigurationStateReady)))"

definition pxeBootServer :: "'w env \<Rightarrow> ServerReconciler \<Rightarrow> Server \<Rightarrow> ('w, unit) M" where
  "pxeBootServer E r server =
     (if srvBootConfigurationRef server = None then returnM ()
      else if srvBMCRef server = None \<and> srvBMC server = None
      then errM (OtherError ''can only PXE boot server with valid BMC ref or inline BMC configuration'')
      else serverBMCClient E r server ''failed to get BMC client'' (\<lambda>bmcClient.
             wrapM ''failed to set PXE boot one for server''
               (BMC_SetPXEBootOnce E bmcClient (srvSystemUUID server))))"

text \<open>\<^verbatim>\<open>ensureIndicatorLED\<close> is a stub in the source.\<close>

definition ensureIndicatorLED :: "Server \<Rightarrow> ('w, unit) M" where
  "ensureIndicatorLED server = returnM ()"

section \<open>Boot configuration and ignition for discovery\<close>

definition bootConfigRef :: "ServerBootConfiguration \<Rightarrow> ObjectReference" where
  "bootConfigRef config = \<lparr>ObjectReference_APIVersion = ''metal.ironcore.dev/v1alpha1'',
     ObjectReference_Kind = ''ServerBootConfiguration'',
     ObjectReference_Namespace = ObjectMeta_Namespace (SBC_Meta config),
     ObjectReference_Name = ObjectMeta_Name (SBC_Meta config),
     ObjectReference_UID = ObjectMeta_UID (SBC_Meta config)\<rparr>"

definition ensureServerBootConfigRef ::
  "'w env \<Rightarrow> Server \<Rightarrow> ServerBootConfiguration \<Rightarrow> ('w, Server) M" where
  "ensureServerBootConfigRef E server config =
     PatchServer E server (set_BootConfigurationRef (Some (bootConfigRef config)) server)"

definition RsaGenerateKey :: "'w env \<Rightarrow> ('w, string) M" where
  "RsaGenerateKey E = callM (s_rsaGenerateKey E 2048) (\<lambda>_. ESys (RandomRead 2048))"

definition BcryptGenerate :: "'w env \<Rightarrow> string \<Rightarrow> ('w, string) M" where
  "BcryptGenerate E password = callM (s_bcrypt E password) (\<lambda>_. ESys (RandomRead 16))"

definition generateSSHKeyPairAndPassword :: "'w env \<Rightarrow> ('w, string \<times> string \<times> string) M" where
  "generateSSHKeyPairAndPassword E =
     bindM (wrapM ''failed to generate private key'' (RsaGenerateKey E)) (\<lambda>privateKey.
     bindM (liftM (s_marshalPrivateKey E privateKey)) (\<lambda>privateKeyPem.
     bindM (wrapM ''failed to create SSH public key'' (liftM (s_newPublicKey E privateKey))) (\<lambda>publicKeyAuthorized.
     bindM (wrapM ''failed to generate password'' (GenerateRandomPassword E 20)) (\<lambda>password.
       returnM (privateKeyPem, publicKeyAuthorized, password)))))"

definition generateDefaultIgnitionDataForServer ::
  "'w env \<Rightarrow> ServerReconciler \<Rightarrow> string \<Rightarrow> string \<Rightarrow> string \<Rightarrow> ('w, string) M" where
  "generateDefaultIgnitionDataForServer E r flags sshPublicKey password =
     bindM (wrapM ''failed to generate password hash'' (BcryptGenerate E password)) (\<lambda>passwordHash.
       returnM (GenerateDefaultIgnitionData \<lparr>Config_Image = SR_ProbeImage r, Config_Flags = flags,
         Config_SSHPublicKey = sshPublicKey, Config_PasswordHash = passwordHash\<rparr>))"

definition probeFlags :: "string \<Rightarrow> Server \<Rightarrow> string" where
  "probeFlags regURL server =
     ''--registry-url='' @ regURL @ '' --server-uuid='' @ srvSystemUUID server"

text \<open>A secret named \<open>name\<close>, controlled by the boot configuration and applied on the API server.\<close>

definition applyOwnedSecret ::
  "'w env \<Rightarrow> ServerReconciler \<Rightarrow> ServerBootConfiguration \<Rightarrow> string \<Rightarrow> (string \<times> string) list \<Rightarrow> string
    \<Rightarrow> ('w, unit) M" where
  "applyOwnedSecret E r bootConfig name data msg =
     bindM (wrapM ''failed to set controller reference''
              (liftM (k_setControllerReference E ''ServerBootConfiguration'' (SBC_Meta bootConfig)
                 (empty_ObjectMeta\<lparr>ObjectMeta_Namespace := SR_ManagerNamespace r, ObjectMeta_Name := name\<rparr>))))
       (\<lambda>om. wrapM msg (ApplySecret E \<lparr>Secret_Meta = om, Secret_Data = data\<rparr>))"

definition applyDefaultIgnitionForServer ::
  "'w env \<Rightarrow> ServerReconciler \<Rightarrow> Server \<Rightarrow> ServerBootConfiguration \<Rightarrow> string \<Rightarrow> ('w, unit) M" where
  "applyDefaultIgnitionForServer E r server bootConfig regURL =
     bindM (wrapM ''failed to generate SSH keypair'' (generateSSHKeyPairAndPassword E))
       (\<lambda>(sshPrivateKey, sshPublicKey, password).
     bindM (applyOwnedSecret E r bootConfig (ObjectMeta_Name (SBC_Meta bootConfig) @ ''-ssh'')
              [(SSHKeyPairSecretPublicKeyName, sshPublicKey), (SSHKeyPairSecretPrivateKeyName, sshPrivateKey),
               (SShKeyPairSecretPasswordKeyName, password)]
              ''failed to apply default SSH keypair'') (\<lambda>_.
     bindM (wrapM ''failed to generate default ignitionSecret data''
              (generateDefaultIgnitionDataForServer E r (probeFlags regURL server) sshPublicKey password))
       (\<lambda>ignitionData.
     applyOwnedSecret E r bootConfig (ObjectMeta_Name (SBC_Meta bootConfig))
       [(DefaultIgnitionFormatKey, DefaultIgnitionFormatValue), (DefaultIgnitionSecretKeyName, ignitionData)]
       ''failed to apply default ignition secret'')))"

text \<open>The mutation \<^verbatim>\<open>CreateOrPatch\<close> runs on the discovery boot configuration.\<close>

definition discoveryBootConfig ::
  "ServerReconciler \<Rightarrow> Server \<Rightarrow> ServerBootConfiguration \<Rightarrow> ServerBootConfiguration res" where
  "discoveryBootConfig r server c =
     Ok (c\<lparr>SBC_Meta := (SBC_Meta c)\<lparr>ObjectMeta_Annotations :=
             AList.update InternalAnnotationTypeKeyName InternalAnnotationTypeValue
               (ObjectMeta_Annotations (SBC_Meta c))\<rparr>,
           SBC_Spec := \<lparr>SBCSpec_ServerRef = LocalObjectReference (srvName server),
             SBCSpec_Image = SR_ProbeOSImage r,
             SBCSpec_IgnitionSecretRef = Some (LocalObjectReference (srvName server))\<rparr>\<rparr>)"

definition empty_SBC :: "string \<Rightarrow> string \<Rightarrow> ServerBootConfiguration" where
  "empty_SBC ns n = \<lparr>SBC_Meta = empty_ObjectMeta\<lparr>ObjectMeta_Namespace := ns, ObjectMeta_Name := n\<rparr>,
     SBC_Spec = \<lparr>SBCSpec_ServerRef = LocalObjectReference '''', SBCSpec_Image = '''',
       SBCSpec_IgnitionSecretRef = None\<rparr>, SBC_State = ''''\<rparr>"

definition applyBootConfigurationAndIgnitionForDiscovery ::
  "'w env \<Rightarrow> ServerReconciler \<Rightarrow> Server \<Rightarrow> ('w, Server) M" where
  "applyBootConfigurationAndIgnitionForDiscovery E r server =
     bindM (wrapM ''failed to create or patch ServerBootConfiguration''
              (CreateOrPatchSBC E (empty_SBC (SR_ManagerNamespace r) (srvName server))
                 (discoveryBootConfig r server))) (\<lambda>(opResult, bootConfig).
     bindM (ensureServerBootConfigRef E server bootConfig) (\<lambda>server.
     bindM (applyDefaultIgnitionForServer E r server bootConfig (SR_RegistryURL r)) (\<lambda>_.
       returnM server)))"

definition ensureInitialBootConfigurationIsDeleted :: "'w env \<Rightarrow> Server \<Rightarrow> ('w, unit) M" where
  "ensureInitialBootConfigurationIsDeleted E server =
     (case srvBootConfigurationRef server of
        None \<Rightarrow> returnM ()
      | Some ref \<Rightarrow>
          bindM (GetSBC E (ObjectReference_Namespace ref) (ObjectReference_Name ref)) (\<lambda>config.
            if map_of (ObjectMeta_Annotations (SBC_Meta config)) InternalAnnotationTypeKeyName
                 \<noteq> Some InternalAnnotationTypeValue
            then returnM ()
            else bindM (DeleteSBC E (ObjectMeta_Namespace (SBC_Meta config)) (ObjectMeta_Name (SBC_Meta config)))
                   (\<lambda>_. bindM (PatchServer E server (set_BootConfigurationRef None server)) (\<lambda>_. returnM ()))))"

section \<open>Status, BIOS settings and boot order\<close>

definition set_BootOrder :: "BootOrder list \<Rightarrow> Server \<Rightarrow> Server" where
  "set_BootOrder b s = s\<lparr>Server_Spec := (Server_Spec s)\<lparr>ServerSpec_BootOrder := b\<rparr>\<rparr>"

text \<open>The fields \<^verbatim>\<open>updateServerStatus\<close> copies from the BMC.\<close>

definition status_from_info :: "SystemInfo \<Rightarrow> ServerStatus \<Rightarrow> ServerStatus" where
  "status_from_info info st = st\<lparr>ServerStatus_PowerState := SystemInfo_PowerState info,
     ServerStatus_SerialNumber := SystemInfo_SerialNumber info, ServerStatus_SKU := SystemInfo_SKU info,
     ServerStatus_Manufacturer := SystemInfo_Manufacturer info, ServerStatus_Model := SystemInfo_Model info,
     ServerStatus_IndicatorLED := SystemInfo_IndicatorLED info,
     ServerStatus_TotalSystemMemory := Some (SystemInfo_TotalSystemMemory info)\<rparr>"

definition updateServerStatus :: "'w env \<Rightarrow> ServerReconciler \<Rightarrow> Server \<Rightarrow> ('w, Server) M" where
  "updateServerStatus E r server =
     (if srvBMCRef server = None \<and> srvBMC server = None then returnM server
      else serverBMCClient E r server ''failed to create BMC client'' (\<lambda>bmcClient.
        bindM (wrapM ''failed to get system info for Server''
                 (BMC_GetSystemInfo E bmcClient (srvSystemUUID server))) (\<lambda>systemInfo.
        bindM (wrapM ''failed to load bios version''
                 (BMC_GetBiosVersion E bmcClient (srvSystemUUID server))) (\<lambda>currentBiosVersion.
        bindM (foldM (\<lambda>st bios.
                 if BIOSSettings_Version bios = currentBiosVersion
                 then bindM (wrapM ''failed load bios settings''
                               (BMC_GetBiosAttributeValues E bmcClient (srvSystemUUID server)
                                  (map fst (BIOSSettings_Settings bios)))) (\<lambda>attributes.
                        returnM (st\<lparr>ServerStatus_BIOS := \<lparr>BIOSSettings_Version = currentBiosVersion,
                                     BIOSSettings_Settings = attributes\<rparr>\<rparr>))
                 else returnM st) (status_from_info systemInfo (Server_Status server)) (srvBIOS server)) (\<lambda>st.
          wrapM ''failed to patch Server status''
            (PatchServerStatus E server (server\<lparr>Server_Status := st\<rparr>)))))))"

text \<open>The settings \<^verbatim>\<open>applyBiosSettings\<close> sends: those whose key the status does not hold.\<close>

definition biosDiff :: "(string \<times> string) list \<Rightarrow> (string \<times> string) list \<Rightarrow> (string \<times> string) list" where
  "biosDiff current settings =
     fold (\<lambda>(key, val) diff. case map_of current key of
             None \<Rightarrow> AList.update key val diff | Some _ \<Rightarrow> diff) settings []"

definition rebootNeeded :: Condition where
  "rebootNeeded = \<lparr>Condition_Type = ''Reboot needed'', Condition_Status = '''', Condition_Reason = '''',
     Condition_Message = ''''\<rparr>"

definition applyBiosSettings :: "'w env \<Rightarrow> ServerReconciler \<Rightarrow> Server \<Rightarrow> ('w, Server) M" where
  "applyBiosSettings E r server =
     (if srvBMCRef server = None \<and> srvBMC server = None then returnM server
      else serverBMCClient E r server ''failed to create BMC client'' (\<lambda>bmcClient.
        bindM (wrapM ''failed to create BMC client''
                 (BMC_GetBiosVersion E bmcClient (srvSystemUUID server))) (\<lambda>version.
          case List.find (\<lambda>bios. BIOSSettings_Version bios = version) (srvBIOS server) of
            None \<Rightarrow> returnM server
          | Some bios \<Rightarrow>
              bindM (BMC_SetBiosAttributes E bmcClient (srvSystemUUID server)
                       (biosDiff (BIOSSettings_Settings (ServerStatus_BIOS (Server_Status server)))
                          (BIOSSettings_Settings bios))) (\<lambda>reset.
                if reset then
                  (case k_setStatusCondition E (ServerStatus_Conditions (Server_Status server)) rebootNeeded of
                     (changed, conditions) \<Rightarrow>
                       let new = server\<lparr>Server_Status :=
                                   (Server_Status server)\<lparr>ServerStatus_Conditions := conditions\<rparr>\<rparr> in
                       if changed then wrapM ''failed to patch Server status'' (PatchServerStatus E server new)
                       else returnM new)
                else returnM server))))"

text \<open>
  The loop of \<^verbatim>\<open>applyBootOrder\<close> over the wanted order: whether some position differs. It indexes the
  BMC's order at each position, which panics past its end.
\<close>

fun bootOrderChange :: "string list \<Rightarrow> BootOrder list \<Rightarrow> bool res" where
  "bootOrderChange order [] = Ok False"
| "bootOrderChange [] (boot # bs) = Panic ''index out of range''"
| "bootOrderChange (d # order) (boot # bs) =
     (case bootOrderChange order bs of
        Ok change \<Rightarrow> Ok (d \<noteq> BootOrder_Device boot \<or> change) | Err e \<Rightarrow> Err e | Panic s \<Rightarrow> Panic s)"

definition applyBootOrder :: "'w env \<Rightarrow> ServerReconciler \<Rightarrow> Server \<Rightarrow> ('w, Server) M" where
  "applyBootOrder E r server =
     (if srvBMCRef server = None \<and> srvBMC server = None then returnM server
      else serverBMCClient E r server ''failed to create BMC client'' (\<lambda>bmcClient.
        bindM (wrapM ''failed to create BMC client''
                 (BMC_GetBootOrder E bmcClient (srvSystemUUID server))) (\<lambda>order.
        let wanted = s_sortBootOrder E (srvBootOrder server) in
        bindM (liftM (bootOrderChange order wanted)) (\<lambda>change.
        bindM (if change then BMC_SetBootOrder E bmcClient (srvSystemUUID server) (map BootOrder_Device wanted)
               else returnM ()) (\<lambda>_.
          returnM (set_BootOrder wanted server))))))"

definition remove_operation :: "Server \<Rightarrow> Server" where
  "remove_operation server = server\<lparr>Server_Meta := (Server_Meta server)\<lparr>ObjectMeta_Annotations :=
     AList.delete OperationAnnotation (srvAnnotations server)\<rparr>\<rparr>"

definition handleAnnotionOperations :: "'w env \<Rightarrow> ServerReconciler \<Rightarrow> Server \<Rightarrow> ('w, bool \<times> Server) M" where
  "handleAnnotionOperations E r server =
     (case map_of (srvAnnotations server) OperationAnnotation of
        None \<Rightarrow> returnM (False, server)
      | Some operation \<Rightarrow>
          serverBMCClient E r server ''failed to create BMC client'' (\<lambda>bmcClient.
            bindM (wrapM ''failed to reset server''
                     (BMC_Reset E bmcClient (srvSystemUUID server) operation)) (\<lambda>_.
            bindM (wrapM ''failed to patch server annotations''
                     (PatchServer E server (remove_operation server))) (\<lambda>server.
              returnM (True, server)))))"

section \<open>The registry\<close>

definition HttpGet :: "'w env \<Rightarrow> string \<Rightarrow> ('w, HttpResponse option \<times> error option) M" where
  "HttpGet E url = callM (s_httpGet E url) (\<lambda>r. ESys (HttpGot url r))"

definition HttpDelete :: "'w env \<Rightarrow> string \<Rightarrow> ('w, unit) M" where
  "HttpDelete E url = callM (s_httpDelete E url) (\<lambda>r. ESys (HttpDeleted url (is_ok r)))"

definition systemsURL :: "ServerReconciler \<Rightarrow> string \<Rightarrow> string" where
  "systemsURL r uuid = SR_RegistryURL r @ ''/systems/'' @ uuid"

definition deleteURL :: "ServerReconciler \<Rightarrow> string \<Rightarrow> string" where
  "deleteURL r uuid = SR_RegistryURL r @ ''/delete/'' @ uuid"

text \<open>\<^verbatim>\<open>MustParseIP\<close> panics on a text that is no address.\<close>

fun nics_of :: "RegistryNetworkInterface list \<Rightarrow> NetworkInterface list res" where
  "nics_of [] = Ok []"
| "nics_of (s # ss) =
     (case MustParseIP (RNI_IPAddress s) of
        Ok ip \<Rightarrow>
          (case nics_of ss of
             Ok nics \<Rightarrow> Ok (\<lparr>NetworkInterface_Name = RNI_Name s, NetworkInterface_IP = ip,
                           NetworkInterface_MACAddress = RNI_MACAddress s\<rparr> # nics)
           | Err e \<Rightarrow> Err e | Panic p \<Rightarrow> Panic p)
      | Err e \<Rightarrow> Err e | Panic p \<Rightarrow> Panic p)"

definition extractServerDetailsFromRegistry ::
  "'w env \<Rightarrow> ServerReconciler \<Rightarrow> Server \<Rightarrow> ('w, bool \<times> Server) M" where
  "extractServerDetailsFromRegistry E r server =
     bindM (HttpGet E (systemsURL r (srvSystemUUID server))) (\<lambda>(resp, err).
       case resp of
         None \<Rightarrow> errM (OtherError ''failed to find server information in registry'')
       | Some rsp \<Rightarrow>
           if HttpResponse_StatusCode rsp = 404 then returnM (False, server)
           else case err of
             Some e \<Rightarrow> errM (WrapError ''failed to fetch server details'' e)
           | None \<Rightarrow>
               (case HttpResponse_Body rsp of
                  None \<Rightarrow> errM (OtherError ''failed to decode server details'')
                | Some serverDetails \<Rightarrow>
                    bindM (liftM (nics_of (RegistryServer_NetworkInterfaces serverDetails))) (\<lambda>nics.
                    bindM (wrapM ''failed to patch server status''
                             (PatchServerStatus E server (server\<lparr>Server_Status :=
                                (Server_Status server)\<lparr>ServerStatus_NetworkInterfaces := nics\<rparr>\<rparr>))) (\<lambda>server.
                      returnM (True, server)))))"

definition invalidateRegistryEntryForServer :: "'w env \<Rightarrow> ServerReconciler \<Rightarrow> Server \<Rightarrow> ('w, unit) M" where
  "invalidateRegistryEntryForServer E r server =
     HttpDelete E (deleteURL r (srvSystemUUID server))"

text \<open>
  Whether the last write of the object, by its managed fields, updated the status longer than
  \<open>duration\<close> ago. Without managed fields the index is \<open>-1\<close>, and a missing time is a nil pointer: both
  panic.
\<close>

definition checkLastStatusUpdateAfter :: "'w env \<Rightarrow> int \<Rightarrow> Server \<Rightarrow> ('w, bool) M" where
  "checkLastStatusUpdateAfter E duration server = (\<lambda>w.
     (case rev (ObjectMeta_ManagedFields (Server_Meta server)) of
        [] \<Rightarrow> panicM ''index out of range''
      | f # _ \<Rightarrow>
          if ManagedFieldsEntry_Operation f = ''Update'' \<and> ManagedFieldsEntry_Subresource f = ''status''
          then (case ManagedFieldsEntry_Time f of
                  None \<Rightarrow> panicM ''nil pointer dereference''
                | Some t \<Rightarrow> returnM (t + duration < s_now E w))
          else returnM False) w)"

section \<open>The state handlers\<close>

definition metalStorage :: "BMCStorage \<Rightarrow> Storage" where
  "metalStorage storage = \<lparr>Storage_Name = BMCStorage_Name storage, Storage_State = BMCStorage_State storage,
     Storage_Volumes = map (\<lambda>v. \<lparr>StorageVolume_Name = Volume_Name v,
         StorageVolume_Capacity = Some (sint (Volume_SizeBytes v)), StorageVolume_State = Volume_State v,
         StorageVolume_RAIDType = Volume_RAIDType v, StorageVolume_VolumeUsage = Volume_VolumeUsage v\<rparr>)
       (BMCStorage_Volumes storage),
     Storage_Drives = map (\<lambda>d. \<lparr>StorageDrive_Name = Drive_Name d, StorageDrive_MediaType = Drive_MediaType d,
         StorageDrive_Type = Drive_Type d, StorageDrive_Capacity = Some (sint (Drive_SizeBytes d)),
         StorageDrive_Vendor = Drive_Vendor d, StorageDrive_Model = Drive_Model d,
         StorageDrive_State = Drive_State d\<rparr>) (BMCStorage_Drives storage)\<rparr>"

definition handleInitialState :: "'w env \<Rightarrow> ServerReconciler \<Rightarrow> Server \<Rightarrow> ('w, bool) M" where
  "handleInitialState E r server =
     bindM (ensureInitialConditions E r server) (\<lambda>(requeue, server).
       if requeue then returnM True
       else
         bindM (wrapM ''failed to ensure server power state'' (ensureServerPowerState E r server)) (\<lambda>_.
         bindM (wrapM ''failed to apply server boot configuration''
                  (applyBootConfigurationAndIgnitionForDiscovery E r server)) (\<lambda>server.
         bindM (wrapM ''failed to set PXE boot for server'' (pxeBootServer E r server)) (\<lambda>_.
         bindM (patchServerState E server ServerStateDiscovery) (\<lambda>_.
           returnM False)))))"

text \<open>The storages and the part after the server is powered on. The client is not logged out.\<close>

definition updateStorages :: "'w env \<Rightarrow> ServerReconciler \<Rightarrow> Server \<Rightarrow> Server \<Rightarrow> ('w, Server) M" where
  "updateStorages E r serverBase server =
     bindM (wrapM ''failed to create BMC client''
              (GetBMCClientForServer E server (SR_Insecure r) (SR_BMCOptions r))) (\<lambda>bmcClient.
     bindM (wrapM ''failed to get storages for Server''
              (BMC_GetStorages E bmcClient (srvSystemUUID server))) (\<lambda>storages.
       wrapM ''failed to patch Server status''
         (PatchServerStatus E serverBase (server\<lparr>Server_Status :=
            (Server_Status server)\<lparr>ServerStatus_Storages := map metalStorage storages\<rparr>\<rparr>))))"

definition finishDiscovery :: "'w env \<Rightarrow> ServerReconciler \<Rightarrow> Server \<Rightarrow> ('w, bool) M" where
  "finishDiscovery E r server =
     bindM (extractServerDetailsFromRegistry E r server) (\<lambda>(ready, server).
       if \<not> ready then returnM True
       else
         bindM (wrapM ''failed to invalidate registry entry for server''
                  (invalidateRegistryEntryForServer E r server)) (\<lambda>_.
         bindM (patchServerState E server ServerStateAvailable) (\<lambda>_.
           returnM False)))"

definition handleDiscoveryState :: "'w env \<Rightarrow> ServerReconciler \<Rightarrow> Server \<Rightarrow> ('w, bool) M" where
  "handleDiscoveryState E r server =
     bindM (serverBootConfigurationIsReady E server) (\<lambda>ready.
       if \<not> ready then returnM True
       else
         let serverBase = server in
         bindM (wrapM ''failed to update server power state''
                  (PatchServer E serverBase (set_Power PowerOn server))) (\<lambda>server.
         bindM (wrapM ''failed to ensure server power state'' (ensureServerPowerState E r server)) (\<lambda>_.
         bindM (updateStorages E r serverBase server) (\<lambda>server.
         bindM (checkLastStatusUpdateAfter E (SR_DiscoveryTimeout r) server) (\<lambda>late.
         bindM (if late then patchServerState E server ServerStateInitial
                else returnM (False, server)) (\<lambda>(modified, server).
           if modified then returnM False
           else finishDiscovery E r server))))))"

definition handleAvailableState :: "'w env \<Rightarrow> ServerReconciler \<Rightarrow> Server \<Rightarrow> ('w, bool) M" where
  "handleAvailableState E r server =
     bindM (if srvPowerState server \<noteq> ServerOffPowerState then
              bindM (wrapM ''failed to update server power state''
                       (PatchServer E server (set_Power PowerOff server))) (\<lambda>server.
              bindM (wrapM ''failed to ensure server power state'' (ensureServerPowerState E r server)) (\<lambda>_.
                returnM server))
            else returnM server) (\<lambda>server.
     bindM (wrapM ''failed to ensure server initial boot configuration is deleted''
              (ensureInitialBootConfigurationIsDeleted E server)) (\<lambda>_.
     bindM (wrapM ''failed to ensure server indicator led'' (ensureIndicatorLED server)) (\<lambda>_.
       returnM True)))"

definition handleReservedState :: "'w env \<Rightarrow> ServerReconciler \<Rightarrow> Server \<Rightarrow> ('w, bool) M" where
  "handleReservedState E r server =
     bindM (serverBootConfigurationIsReady E server) (\<lambda>ready.
       if \<not> ready then returnM True
       else
         bindM (if srvPowerState server = ServerOffPowerState
                then wrapM ''failed to boot server'' (pxeBootServer E r server) else returnM ()) (\<lambda>_.
         bindM (wrapM ''failed to ensure server power state'' (ensureServerPowerState E r server)) (\<lambda>_.
         bindM (wrapM ''failed to ensure server indicator led'' (ensureIndicatorLED server)) (\<lambda>_.
           returnM True))))"

definition ensureServerStateTransition :: "'w env \<Rightarrow> ServerReconciler \<Rightarrow> Server \<Rightarrow> ('w, bool) M" where
  "ensureServerStateTransition E r server =
     (if srvState server = ServerStateInitial then handleInitialState E r server
      else if srvState server = ServerStateDiscovery then handleDiscoveryState E r server
      else if srvState server = ServerStateAvailable then handleAvailableState E r server
      else if srvState server = ServerStateReserved then handleReservedState E r server
      else returnM False)"

section \<open>Reconcile\<close>

definition Server_delete :: "'w env \<Rightarrow> Server \<Rightarrow> ('w, Result) M" where
  "Server_delete E server =
     bindM (case srvBootConfigurationRef server of
              None \<Rightarrow> returnM ()
            | Some ref \<Rightarrow>
                catchM (DeleteSBC E (ObjectReference_Namespace ref) (ObjectReference_Name ref))
                  (\<lambda>err. if IsNotFound err then returnM ()
                         else errM (WrapError ''failed to delete server bootconfiguration'' err))) (\<lambda>_.
       ifUnmodified (PatchEnsureNoFinalizer_Server E server ServerFinalizer) (\<lambda>_. returnM emptyResult))"

text \<open>The transitions before the BMC is asked: a new server, a claimed one, a released one.\<close>

definition initializeState :: "'w env \<Rightarrow> Server \<Rightarrow> ('w, bool \<times> Server) M" where
  "initializeState E server =
     (if srvState server = '''' then patchServerState E server ServerStateInitial else returnM (False, server))"

definition reserveClaimed :: "'w env \<Rightarrow> Server \<Rightarrow> ('w, bool \<times> Server) M" where
  "reserveClaimed E server =
     (if srvClaimRef server \<noteq> None then patchServerState E server ServerStateReserved
      else returnM (False, server))"

definition releaseUnclaimed :: "'w env \<Rightarrow> Server \<Rightarrow> ('w, bool \<times> Server) M" where
  "releaseUnclaimed E server =
     (if srvClaimRef server = None \<and> srvState server = ServerStateReserved
      then patchServerState E server ServerStateAvailable else returnM (False, server))"

definition Server_reconcile :: "'w env \<Rightarrow> ServerReconciler \<Rightarrow> Server \<Rightarrow> ('w, Result) M" where
  "Server_reconcile E r server =
     (if shouldIgnoreReconciliation (Server_Meta server) then returnM emptyResult
      else
        ifUnmodified (initializeState E server) (\<lambda>server.
        ifUnmodified (handleAnnotionOperations E r server) (\<lambda>server.
        ifUnmodified (PatchEnsureFinalizer_Server E server ServerFinalizer) (\<lambda>server.
        ifUnmodified (reserveClaimed E server) (\<lambda>server.
        ifUnmodified (releaseUnclaimed E server) (\<lambda>server.
        bindM (wrapM ''failed to update server status'' (updateServerStatus E r server)) (\<lambda>server.
        bindM (wrapM ''failed to update server bios settings'' (applyBiosSettings E r server)) (\<lambda>server.
        bindM (wrapM ''failed to update server bios boot order'' (applyBootOrder E r server)) (\<lambda>server.
        bindM (catchM (ensureServerStateTransition E r server)
                 (\<lambda>err. if IsNotFound err then returnM False
                        else errM (WrapError ''failed to ensure server state transition'' err))) (\<lambda>requeue.
          returnM (if requeue then \<lparr>Result_Requeue = True, Result_RequeueAfter = SR_ResyncInterval r\<rparr>
                   else emptyResult)))))))))))"

definition Server_reconcileExists :: "'w env \<Rightarrow> ServerReconciler \<Rightarrow> Server \<Rightarrow> ('w, Result) M" where
  "Server_reconcileExists E r server =
     (if ObjectMeta_DeletionTimestamp (Server_Meta server) \<noteq> None then Server_delete E server
      else Server_reconcile E r server)"

definition Server_Reconcile :: "'w env \<Rightarrow> ServerReconciler \<Rightarrow> string \<Rightarrow> ('w, Result) M" where
  "Server_Reconcile E r name = reconcileObject (GetServer E name) (Server_reconcileExists E r)"

text \<open>A change of a boot configuration enqueues the server it refers to.\<close>

definition enqueueServerByServerBootConfiguration :: "ServerBootConfiguration \<Rightarrow> string list" where
  "enqueueServerByServerBootConfiguration config = [LocalObjectReference_Name (SBCSpec_ServerRef (SBC_Spec config))]"

section \<open>What each step may do\<close>

lemma emits_patchServerState:
  assumes "\<And>res. srvState s \<noteq> st \<Longrightarrow> P (EKube (PatchedServerStatus s (set_State st s) res))"
  shows "emits P (\<lambda>x. \<not> fst x \<longrightarrow> snd x = s \<and> srvState s = st) (patchServerState E s st)"
proof (cases "srvState s = st")
  case False
  then show ?thesis
    unfolding patchServerState_def
    by simp (rule emits_bind [where R' = "\<lambda>_. True"]; intro emits_intros; simp add: assms)
qed (simp add: patchServerState_def emits_return)

lemma emits_case_powerOp [emits_intros]:
  "(x = powerOpOn \<Longrightarrow> emits P R m1) \<Longrightarrow> (x = powerOpOff \<Longrightarrow> emits P R m2) \<Longrightarrow> (x = powerOpNoOP \<Longrightarrow> emits P R m3) \<Longrightarrow>
   emits P R (case x of powerOpOn \<Rightarrow> m1 | powerOpOff \<Rightarrow> m2 | powerOpNoOP \<Rightarrow> m3)"
  by (cases x) simp_all

lemma emits_ensureServerPowerState [emits_intros]:
  assumes "\<And>e. is_read e \<Longrightarrow> P e" and "\<And>e. is_session e \<Longrightarrow> P e"
    and "\<And>e. choosePowerOp (srvPower s) (srvPowerState s) = powerOpOn \<Longrightarrow> is_power_on e \<Longrightarrow> P e"
    and "\<And>e. choosePowerOp (srvPower s) (srvPowerState s) = powerOpOff \<Longrightarrow> is_power_off e \<Longrightarrow> P e"
  shows "emits P (\<lambda>_. True) (ensureServerPowerState E r s)"
  unfolding ensureServerPowerState_def
  by (intro emits_intros emits_withBMCClient; simp add: assms)

lemma emits_GenerateRandomPassword [emits_intros]:
  assumes "\<And>e. is_read e \<Longrightarrow> P e"
  shows "emits P (\<lambda>_. True) (GenerateRandomPassword E n)"
  unfolding GenerateRandomPassword_def random_letter_def
  by (intro emits_intros; simp add: assms)

lemma emits_keys [emits_intros]:
  assumes "\<And>e. is_read e \<Longrightarrow> P e"
  shows "emits P (\<lambda>_. True) (generateSSHKeyPairAndPassword E)"
    and "emits P (\<lambda>_. True) (generateDefaultIgnitionDataForServer E r fl k p)"
  unfolding generateSSHKeyPairAndPassword_def generateDefaultIgnitionDataForServer_def
    RsaGenerateKey_def BcryptGenerate_def
  by (intro emits_intros; simp add: assms)+

lemma emits_applyOwnedSecret [emits_intros]:
  assumes "\<And>s b. Secret_Data s = d \<Longrightarrow> P (EKube (AppliedSecret s b))"
  shows "emits P (\<lambda>_. True) (applyOwnedSecret E r c n d msg)"
  unfolding applyOwnedSecret_def by (intro emits_intros) (auto intro!: assms)

lemma emits_applyDefaultIgnition [emits_intros]:
  assumes "\<And>e. is_read e \<Longrightarrow> P e" and "\<And>s b. P (EKube (AppliedSecret s b))"
  shows "emits P (\<lambda>_. True) (applyDefaultIgnitionForServer E r s c u)"
  unfolding applyDefaultIgnitionForServer_def
  by (intro emits_intros; simp add: assms)

lemma emits_pxeBootServer [emits_intros]:
  assumes "\<And>e. is_read e \<Longrightarrow> P e" and "\<And>e. is_session e \<Longrightarrow> P e" and "\<And>e. is_netboot e \<Longrightarrow> P e"
  shows "emits P (\<lambda>_. True) (pxeBootServer E r s)"
  unfolding pxeBootServer_def
  by (intro emits_intros emits_withBMCClient; simp add: assms)

lemma emits_serverBootConfigurationIsReady [emits_intros]:
  assumes "\<And>e. is_read e \<Longrightarrow> P e"
  shows "emits P (\<lambda>_. True) (serverBootConfigurationIsReady E s)"
  unfolding serverBootConfigurationIsReady_def
  by (intro emits_intros; simp add: assms)

section \<open>A quiet API server\<close>

text \<open>
  The controllers' patches answer with the stored object. \<open>quiet E\<close>: nobody else changes the server
  between a read and the patches based on it, so that the answer has the name, the spec and the
  status that were sent; the rest of the metadata (managed fields, resource version) is the API
  server's.
\<close>

definition agrees :: "Server \<Rightarrow> Server \<Rightarrow> bool" where
  "agrees s s' \<longleftrightarrow>
     Server_Spec s' = Server_Spec s \<and> Server_Status s' = Server_Status s \<and> srvName s' = srvName s"

definition quiet :: "'w env \<Rightarrow> bool" where
  "quiet E \<longleftrightarrow>
     (\<forall>base new w s. fst (k_patchServer E base new w) = Ok s \<longrightarrow> agrees new s) \<and>
     (\<forall>base new w s. fst (k_patchServerStatus E base new w) = Ok s \<longrightarrow> agrees new s) \<and>
     (\<forall>s n w m s'. fst (k_ensureFinalizerServer E s n w) = Ok (m, s') \<longrightarrow> agrees s s') \<and>
     (\<forall>s f w m s'. fst (k_createOrPatchServer E s f w) = Ok (m, s') \<longrightarrow> (\<exists>s0. f s = Ok s0 \<and> agrees s0 s'))"

lemma agrees_refl [simp]: "agrees s s"
  by (simp add: agrees_def)

lemma emits_quiet_calls:
  assumes "quiet E"
  shows "(\<And>res. P (EKube (PatchedServer base new res))) \<Longrightarrow> emits P (agrees new) (PatchServer E base new)"
    and "(\<And>res. P (EKube (PatchedServerStatus base new res))) \<Longrightarrow> emits P (agrees new) (PatchServerStatus E base new)"
    and "(\<And>res. P (EKube (EnsuredFinalizer ''Server'' (srvName s) n res))) \<Longrightarrow>
           emits P (\<lambda>x. agrees s (snd x)) (PatchEnsureFinalizer_Server E s n)"
    and "(\<And>res. P (EKube (CreatedOrPatchedServer (srvName s) res))) \<Longrightarrow>
           emits P (\<lambda>x. \<exists>s0. f s = Ok s0 \<and> agrees s0 (snd x)) (CreateOrPatchServer E s f)"
  using assms unfolding quiet_def kube_call_defs
  by (auto intro!: emits_call_ok)

section \<open>The lifecycle\<close>

text \<open>
  The specification: the states a server goes through, for a server that is claimed or not. A claimed
  server only ever becomes reserved; discovery is entered from the initial state, left to the
  available state or, after the timeout, back to the initial one.
\<close>

inductive lifecycle :: "bool \<Rightarrow> ServerState \<Rightarrow> ServerState \<Rightarrow> bool" where
  created: "lifecycle claimed '''' ServerStateInitial"
| reserved: "lifecycle True st ServerStateReserved"
| released: "lifecycle False ServerStateReserved ServerStateAvailable"
| discover: "lifecycle False ServerStateInitial ServerStateDiscovery"
| timeout: "lifecycle False ServerStateDiscovery ServerStateInitial"
| discovered: "lifecycle False ServerStateDiscovery ServerStateAvailable"

inductive_simps lifecycle_simps [simp]: "lifecycle claimed st st'"

fun is_status_patch :: "event \<Rightarrow> bool" where
  "is_status_patch (EKube (PatchedServerStatus _ _ _)) = True"
| "is_status_patch _ = False"

text \<open>A patch of a server's status keeps its state or takes one step of the lifecycle.\<close>

fun follows_lifecycle :: "event \<Rightarrow> bool" where
  "follows_lifecycle (EKube (PatchedServerStatus base new res)) \<longleftrightarrow>
     srvState new = srvState base \<or> lifecycle (srvClaimRef base \<noteq> None) (srvState base) (srvState new)"
| "follows_lifecycle _ = True"

lemma follows_lifecycle_other: "\<not> is_status_patch e \<Longrightarrow> follows_lifecycle e"
  by (cases e rule: follows_lifecycle.cases) simp_all

lemma not_status_patch:
  "is_read e \<Longrightarrow> \<not> is_status_patch e" "is_session e \<Longrightarrow> \<not> is_status_patch e"
  "is_power_on e \<Longrightarrow> \<not> is_status_patch e" "is_power_off e \<Longrightarrow> \<not> is_status_patch e"
  "is_netboot e \<Longrightarrow> \<not> is_status_patch e"
  by (cases e rule: is_status_patch.cases; simp)+

lemmas lifecycle_intros = follows_lifecycle_other not_status_patch

text \<open>What the steps keep of a server on a quiet API server: its claim and its state.\<close>

definition keeps :: "Server \<Rightarrow> Server \<Rightarrow> bool" where
  "keeps s s' \<longleftrightarrow> srvClaimRef s' = srvClaimRef s \<and> srvState s' = srvState s"

lemma keeps_refl [simp]: "keeps s s"
  by (simp add: keeps_def)

lemma keeps_agrees: "agrees new s' \<Longrightarrow> keeps s new \<Longrightarrow> keeps s s'"
  by (simp add: keeps_def agrees_def)

lemma keeps_updates [simp]:
  "keeps s (set_Power p s)" "keeps s (set_BootConfigurationRef ref s)" "keeps s (set_BootOrder b s)"
  "srvState (s\<lparr>Server_Status := st\<rparr>) = srvState s \<Longrightarrow> keeps s (s\<lparr>Server_Status := st\<rparr>)"
  by (simp_all add: keeps_def set_BootOrder_def)

lemma keeps_PatchServer:
  "quiet E \<Longrightarrow> keeps s new \<Longrightarrow> emits follows_lifecycle (keeps s) (PatchServer E base new)"
  by (rule emits_weaken [OF emits_quiet_calls(1)]) (auto elim: keeps_agrees)

lemma keeps_PatchServerStatus:
  "quiet E \<Longrightarrow> keeps s new \<Longrightarrow> srvState new = srvState base \<Longrightarrow>
     emits follows_lifecycle (keeps s) (PatchServerStatus E base new)"
  by (rule emits_weaken [OF emits_quiet_calls(2)]) (auto elim: keeps_agrees)

lemma status_from_info_state [simp]: "ServerStatus_State (status_from_info i st) = ServerStatus_State st"
  by (simp add: status_from_info_def)

lemma keeps_fold_status:
  "emits follows_lifecycle (\<lambda>st. ServerStatus_State st = srvState s)
     (foldM (\<lambda>st bios.
        if BIOSSettings_Version bios = v
        then bindM (wrapM m (BMC_GetBiosAttributeValues E c u (map fst (BIOSSettings_Settings bios)))) (\<lambda>attributes.
               returnM (st\<lparr>ServerStatus_BIOS := \<lparr>BIOSSettings_Version = v, BIOSSettings_Settings = attributes\<rparr>\<rparr>))
        else returnM st) (status_from_info i (Server_Status s)) bs)"
  by (rule emits_foldM, (intro emits_intros; simp add: lifecycle_intros), simp)

lemma keeps_updateServerStatus:
  assumes "quiet E"
  shows "emits follows_lifecycle (keeps s) (updateServerStatus E r s)"
  unfolding updateServerStatus_def
  by (intro emits_if emits_withBMCClient emits_bind [OF keeps_fold_status] emits_then emits_wrap
      keeps_PatchServerStatus assms emits_reads emits_return; simp add: lifecycle_intros)

lemma keeps_applyBiosSettings:
  assumes "quiet E"
  shows "emits follows_lifecycle (keeps s) (applyBiosSettings E r s)"
  unfolding applyBiosSettings_def
  by (intro keeps_PatchServerStatus emits_intros emits_withBMCClient assms; simp add: lifecycle_intros)

lemma keeps_applyBootOrder: "emits follows_lifecycle (keeps s) (applyBootOrder E r s)"
  unfolding applyBootOrder_def Let_def
  by (intro emits_intros emits_withBMCClient; simp add: lifecycle_intros)

lemma keeps_setAndPatch:
  assumes "quiet E"
  shows "emits follows_lifecycle (\<lambda>x. keeps s (snd x)) (setAndPatchServerPowerState E s p)"
  unfolding setAndPatchServerPowerState_def
  by (rule emits_bind [OF emits_wrap [OF emits_quiet_calls(4) [OF assms]]])
    (auto intro!: emits_intros simp: keeps_def agrees_def)

lemma keeps_ensureInitialConditions:
  assumes "quiet E"
  shows "emits follows_lifecycle (\<lambda>x. keeps s (snd x)) (ensureInitialConditions E r s)"
proof -
  have 2: "emits follows_lifecycle (\<lambda>x. keeps s (snd x)) (setAndPatchServerPowerState E s' p)" if "keeps s s'" for s' p
    by (rule emits_weaken [OF keeps_setAndPatch [OF assms]]) (use that in \<open>simp add: keeps_def\<close>)
  show ?thesis
    unfolding ensureInitialConditions_def
    by (rule emits_bind [where R' = "\<lambda>x. keeps s (snd x)"])
      (auto intro!: emits_wrap emits_return emits_if 2)
qed


lemma keeps_patchServerState:
  assumes "lifecycle (srvClaimRef s \<noteq> None) (srvState s) st"
  shows "emits follows_lifecycle (\<lambda>x. \<not> fst x \<longrightarrow> snd x = s \<and> srvState s = st) (patchServerState E s st)"
  by (rule emits_patchServerState) (use assms in simp)

lemma keeps_applyBootConfiguration:
  assumes "quiet E"
  shows "emits follows_lifecycle (keeps s) (applyBootConfigurationAndIgnitionForDiscovery E r s)"
  unfolding applyBootConfigurationAndIgnitionForDiscovery_def
  by (intro emits_then [of _ "wrapM _ _"] emits_case_prod emits_wrap
      emits_bind [of _ "keeps s" "ensureServerBootConfigRef _ _ _"];
      (intro emits_intros)?; simp add: lifecycle_intros ensureServerBootConfigRef_def keeps_PatchServer assms)

lemma lifecycle_handleInitialState:
  assumes "quiet E" and "srvState s = ServerStateInitial" and "srvClaimRef s = None"
  shows "emits follows_lifecycle (\<lambda>_. True) (handleInitialState E r s)"
proof -
  have state: "emits follows_lifecycle (\<lambda>_. True) (patchServerState E s' ServerStateDiscovery)" if "keeps s s'" for s'
    by (rule emits_any [OF keeps_patchServerState]) (use that assms in \<open>simp add: keeps_def\<close>)
  have boot: "emits follows_lifecycle (keeps s) (applyBootConfigurationAndIgnitionForDiscovery E r s')"
    if "keeps s s'" for s'
    by (rule emits_weaken [OF keeps_applyBootConfiguration [OF assms(1)]]) (use that in \<open>simp add: keeps_def\<close>)
  show ?thesis
    unfolding handleInitialState_def
    apply (rule emits_bind [OF keeps_ensureInitialConditions [OF assms(1)]])
    apply (intro emits_bind [OF emits_wrap [OF boot]] emits_intros state; simp add: lifecycle_intros)
    done
qed


lemma keeps_extractServerDetails:
  assumes "quiet E"
  shows "emits follows_lifecycle (\<lambda>x. keeps s (snd x)) (extractServerDetailsFromRegistry E r s)"
  unfolding extractServerDetailsFromRegistry_def HttpGet_def
  by (intro emits_bind [OF emits_wrap [OF keeps_PatchServerStatus [OF assms, of s]]] emits_intros;
      simp add: lifecycle_intros)

lemma lifecycle_finishDiscovery:
  assumes "quiet E" and "srvState s = ServerStateDiscovery" and "srvClaimRef s = None"
  shows "emits follows_lifecycle (\<lambda>_. True) (finishDiscovery E r s)"
proof -
  have state: "emits follows_lifecycle (\<lambda>_. True) (patchServerState E s' ServerStateAvailable)" if "keeps s s'" for s'
    by (rule emits_any [OF keeps_patchServerState]) (use that assms in \<open>simp add: keeps_def\<close>)
  show ?thesis
    unfolding finishDiscovery_def invalidateRegistryEntryForServer_def HttpDelete_def
    by (rule emits_bind [OF keeps_extractServerDetails [OF assms(1)]])
      (intro emits_intros state; simp)
qed

lemma keeps_updateStorages:
  assumes "quiet E" and "keeps s s'"
  shows "emits follows_lifecycle (keeps s) (updateStorages E r s s')"
  unfolding updateStorages_def
  by (intro emits_wrap keeps_PatchServerStatus emits_intros assms(1); use assms(2) in \<open>simp add: lifecycle_intros keeps_def\<close>)

lemma emits_checkLastStatusUpdateAfter [emits_intros]:
  "emits P (\<lambda>_. True) (checkLastStatusUpdateAfter E d s)"
  by (auto simp: emits_def sat_def checkLastStatusUpdateAfter_def prog_defs split: list.splits option.splits)

lemma lifecycle_handleDiscoveryState:
  assumes "quiet E" and "srvState s = ServerStateDiscovery" and "srvClaimRef s = None"
  shows "emits follows_lifecycle (\<lambda>_. True) (handleDiscoveryState E r s)"
proof -
  have revert: "emits follows_lifecycle (\<lambda>x. \<not> fst x \<longrightarrow> keeps s (snd x))
      (if late then patchServerState E s' ServerStateInitial else returnM (False, s'))" if "keeps s s'" for s' late
    by (intro emits_if emits_weaken [OF keeps_patchServerState] emits_return)
      (use that assms in \<open>auto simp: keeps_def\<close>)
  have finish: "emits follows_lifecycle (\<lambda>_. True) (finishDiscovery E r s')" if "keeps s s'" for s'
    by (rule lifecycle_finishDiscovery) (use that assms in \<open>auto simp: keeps_def\<close>)
  show ?thesis
    unfolding handleDiscoveryState_def Let_def
    by (intro emits_bind [OF emits_wrap [OF keeps_PatchServer [OF assms(1), of s]]]
        emits_bind [OF keeps_updateStorages [OF assms(1)]] emits_bind [OF revert] finish emits_intros;
      simp add: lifecycle_intros)
qed

lemma lifecycle_handleAvailableState: "emits follows_lifecycle (\<lambda>_. True) (handleAvailableState E r s)"
  unfolding handleAvailableState_def ensureInitialBootConfigurationIsDeleted_def ensureIndicatorLED_def
  by (intro emits_intros; simp add: lifecycle_intros)

lemma lifecycle_handleReservedState: "emits follows_lifecycle (\<lambda>_. True) (handleReservedState E r s)"
  unfolding handleReservedState_def ensureIndicatorLED_def
  by (intro emits_intros; simp add: lifecycle_intros)

lemma lifecycle_transition:
  assumes "quiet E" and "srvClaimRef s \<noteq> None \<longrightarrow> srvState s = ServerStateReserved"
  shows "emits follows_lifecycle (\<lambda>_. True) (ensureServerStateTransition E r s)"
  unfolding ensureServerStateTransition_def
  by (intro emits_if lifecycle_handleInitialState lifecycle_handleDiscoveryState lifecycle_handleAvailableState
      lifecycle_handleReservedState emits_return assms(1); use assms(2) in auto)

lemma keeps_claimed:
  "keeps s s' \<Longrightarrow> srvClaimRef s \<noteq> None \<longrightarrow> srvState s = ServerStateReserved \<Longrightarrow>
   srvClaimRef s' \<noteq> None \<longrightarrow> srvState s' = ServerStateReserved"
  by (simp add: keeps_def)

lemma lifecycle_initializeState:
  "emits follows_lifecycle (\<lambda>_. True) (initializeState E s)"
  unfolding initializeState_def
  by (intro emits_if emits_any [OF keeps_patchServerState] emits_return; simp)

lemma lifecycle_reserveClaimed:
  "emits follows_lifecycle (\<lambda>x. \<not> fst x \<longrightarrow> (srvClaimRef (snd x) \<noteq> None \<longrightarrow> srvState (snd x) = ServerStateReserved))
     (reserveClaimed E s)"
  unfolding reserveClaimed_def
  by (intro emits_if emits_weaken [OF keeps_patchServerState] emits_return) auto

lemma lifecycle_releaseUnclaimed:
  assumes "srvClaimRef s \<noteq> None \<longrightarrow> srvState s = ServerStateReserved"
  shows "emits follows_lifecycle (\<lambda>x. \<not> fst x \<longrightarrow> (srvClaimRef (snd x) \<noteq> None \<longrightarrow> srvState (snd x) = ServerStateReserved))
     (releaseUnclaimed E s)"
  unfolding releaseUnclaimed_def
  by (intro emits_if emits_weaken [OF keeps_patchServerState] emits_return) (use assms in auto)

lemma lifecycle_handleAnnotionOperations:
  "emits follows_lifecycle (\<lambda>_. True) (handleAnnotionOperations E r s)"
  unfolding handleAnnotionOperations_def
  by (intro emits_intros emits_withBMCClient; simp add: lifecycle_intros)

lemma lifecycle_reconcile:
  assumes "quiet E"
  shows "emits follows_lifecycle (\<lambda>_. True) (Server_reconcile E r s)"
proof -
  have tail: "emits follows_lifecycle (\<lambda>_. True) (bindM (catchM (ensureServerStateTransition E r s')
                 (\<lambda>err. if IsNotFound err then returnM False else errM (WrapError m err))) k)"
    if "srvClaimRef s' \<noteq> None \<longrightarrow> srvState s' = ServerStateReserved" "\<And>b. emits follows_lifecycle (\<lambda>_. True) (k b)"
    for s' m and k :: "bool \<Rightarrow> ('a, Result) M"
    by (intro emits_then emits_catch lifecycle_transition assms that emits_if emits_return emits_err; simp)
  show ?thesis
    unfolding Server_reconcile_def
    by (intro emits_if emits_return emits_ifUnmodified_any [OF lifecycle_initializeState]
        emits_ifUnmodified_any [OF lifecycle_handleAnnotionOperations]
        emits_ifUnmodified_any [of _ "PatchEnsureFinalizer_Server _ _ _"]
        emits_ifUnmodified [OF lifecycle_reserveClaimed] emits_ifUnmodified [OF lifecycle_releaseUnclaimed]
        emits_bind [OF emits_wrap [OF keeps_updateServerStatus [OF assms]]]
        emits_bind [OF emits_wrap [OF keeps_applyBiosSettings [OF assms]]]
        emits_bind [OF emits_wrap [OF keeps_applyBootOrder]] tail emits_kube_calls;
       (elim keeps_claimed)?; simp)
qed

section \<open>Power\<close>

text \<open>Closing a session changes nothing of what the BMC has shown.\<close>

lemma found_in_logout [simp]: "found_in u s (es @ [EBmc (LoggedOut h)]) \<longleftrightarrow> found_in u s es"
  by (simp add: found_in_def last_listing_append)

lemma shows_power_logout [simp]: "shows_power u st (es @ [EBmc (LoggedOut h)]) \<longleftrightarrow> shows_power u st es"
  by (simp add: shows_power_def)

lemma shows_power_within: "shows_power u st es \<Longrightarrow> shows_power u st (pre @ es @ [EBmc (LoggedOut h)])"
  by (rule shows_power_append) simp

text \<open>What a body does with a client holds of the whole, after a prefix of reads and the connection.\<close>

lemma sat_withBMCClient:
  assumes "\<And>c. sat (body c) (\<lambda>res es. \<forall>pre h. Q res (pre @ es @ [EBmc (LoggedOut h)]))"
    and "\<And>res es. \<not> is_ok res \<Longrightarrow> (\<forall>e\<in>set es. is_read e \<or> is_session e) \<Longrightarrow> Q res es"
  shows "sat (withBMCClient E insecure opts s msg body) Q"
proof -
  have connect: "sat (GetBMCClientForServer E s insecure opts) (\<lambda>res es. \<forall>e\<in>set es. is_read e \<or> is_session e)"
    by (rule sat_mono [OF emits_GetBMCClientForServer [unfolded emits_def, of "\<lambda>e. is_read e \<or> is_session e"]]) auto
  have logout: "sat (deferM (BMC_Logout E c) (body c)) (\<lambda>res es. \<forall>pre. Q res (pre @ es))" for c
    unfolding RedfishBMC_Logout_def gofish_Logout_def
    by (intro sat_defer, rule sat_mono [OF assms(1)]) (auto intro!: sat_call_any)
  show ?thesis
    unfolding withBMCClient_def
    by (intro sat_bind sat_wrap, rule sat_mono [OF connect])
      (auto split: res.split intro: assms(2) intro!: sat_mono [OF logout])
qed

lemma ensureServerPowerState_reaches:
  "sat (ensureServerPowerState E r s) (\<lambda>res es. res = Ok () \<longrightarrow>
     (case choosePowerOp (srvPower s) (srvPowerState s) of
        powerOpOn \<Rightarrow> shows_power (srvSystemUUID s) OnPowerState es
      | powerOpOff \<Rightarrow> shows_power (srvSystemUUID s) OffPowerState es
      | powerOpNoOP \<Rightarrow> es = []))"
proof -
  have "choosePowerOp '''' p = powerOpNoOP" for p by (simp add: choosePowerOp_def)
  then show ?thesis
  unfolding ensureServerPowerState_def
  by (auto split: powerOp.split intro!: sat_withBMCClient
      sat_mono [OF bmc_client.switch_on_shows] sat_mono [OF bmc_client.switch_off_shows]
      shows_power_within simp: is_ok_iff)
qed


fun is_force_off :: "event \<Rightarrow> bool" where
  "is_force_off (EBmc (ResetSystem _ _ t _)) = (t = ForceOffResetType)"
| "is_force_off _ = False"

lemma no_force_other:
  "is_read e \<Longrightarrow> \<not> is_force_off e" "is_session e \<Longrightarrow> \<not> is_force_off e" "is_power_on e \<Longrightarrow> \<not> is_force_off e"
  by (cases e rule: is_force_off.cases; simp)+

lemma no_force_PowerOff: "emits (\<lambda>e. \<not> is_force_off e) (\<lambda>_. True) (BMC_PowerOff E c u)"
  by (cases c; simp add: RedfishBMC_PowerOff_def RedfishLocalBMC_PowerOff_def)
    (intro emits_intros; simp add: no_force_other)+

lemma no_force_ensureServerPowerState:
  assumes "\<not> SR_EnforcePowerOff r"
  shows "emits (\<lambda>e. \<not> is_force_off e) (\<lambda>_. True) (ensureServerPowerState E r s)"
  unfolding ensureServerPowerState_def
  by (intro emits_case_powerOp emits_if emits_withBMCClient emits_then emits_wrap emits_catch no_force_PowerOff
      emits_intros; simp add: no_force_other assms)

section \<open>Power only after a ready boot configuration\<close>

fun is_ready_read :: "event \<Rightarrow> bool" where
  "is_ready_read (EKube (GotSBC ns n (Ok c))) = (SBC_State c = ServerBootConfigurationStateReady)"
| "is_ready_read _ = False"

lemma sat_serverBootConfigurationIsReady:
  "sat (serverBootConfigurationIsReady E s) (\<lambda>res es.
     (\<forall>e\<in>set es. is_read e) \<and>
     (res = Ok True \<longrightarrow> (\<exists>ref c. srvBootConfigurationRef s = Some ref \<and>
        es = [EKube (GotSBC (ObjectReference_Namespace ref) (ObjectReference_Name ref) (Ok c))] \<and>
        SBC_State c = ServerBootConfigurationStateReady)))"
  unfolding serverBootConfigurationIsReady_def GetSBC_def
  by (auto split: option.split res.split intro!: sat_bind sat_call_any)

text \<open>
  A handler that first asks for the boot configuration does nothing but read before it has seen it
  ready.
\<close>

lemma guarded_by_ready:
  assumes "\<And>e. p e \<Longrightarrow> \<not> is_read e"
  shows "sat (bindM (serverBootConfigurationIsReady E s) (\<lambda>ready. if \<not> ready then returnM True else k))
     (\<lambda>_ es. guarded is_ready_read p es)"
proof -
  have none: "guarded is_ready_read p es" if "\<forall>e\<in>set es. is_read e" for es
    by (rule guarded_none) (use that assms in blast)
  show ?thesis
    by (rule sat_bind, rule sat_mono [OF sat_serverBootConfigurationIsReady])
      (auto split: res.split simp: none guarded_append, auto simp: sat_def)
qed

lemma changes_not_read:
  "is_power_on e \<Longrightarrow> \<not> is_read e" "is_power_off e \<Longrightarrow> \<not> is_read e" "is_netboot e \<Longrightarrow> \<not> is_read e"
  by (cases e rule: is_read.cases; simp)+

lemma reserved_guarded:
  "sat (handleReservedState E r s) (\<lambda>_ es. guarded is_ready_read (\<lambda>e. \<not> is_read e) es)"
  unfolding handleReservedState_def by (rule guarded_by_ready) simp

lemma discovery_guarded:
  "sat (handleDiscoveryState E r s) (\<lambda>_ es. guarded is_ready_read (\<lambda>e. \<not> is_read e) es)"
  unfolding handleDiscoveryState_def by (rule guarded_by_ready) simp

section \<open>Sessions\<close>

fun opened :: "event list \<Rightarrow> nat list" where
  "opened [] = []"
| "opened (EBmc (Connected c (Ok h)) # es) = h # opened es"
| "opened (_ # es) = opened es"

fun closed :: "event list \<Rightarrow> nat list" where
  "closed [] = []"
| "closed (EBmc (LoggedOut h) # es) = h # closed es"
| "closed (_ # es) = closed es"

text \<open>Every session opened is closed.\<close>

definition balanced :: "event list \<Rightarrow> bool" where
  "balanced es \<longleftrightarrow> mset (opened es) = mset (closed es)"

lemma opened_append [simp]: "opened (xs @ ys) = opened xs @ opened ys"
  by (induction xs rule: opened.induct) simp_all

lemma closed_append [simp]: "closed (xs @ ys) = closed xs @ closed ys"
  by (induction xs rule: closed.induct) simp_all

lemma balanced_append: "balanced xs \<Longrightarrow> balanced ys \<Longrightarrow> balanced (xs @ ys)"
  by (simp add: balanced_def)

lemma no_session: "\<forall>e\<in>set es. \<not> is_session e \<Longrightarrow> opened es = [] \<and> closed es = []"
proof (induction es)
  case (Cons e es)
  then show ?case by (cases "[e]" rule: opened.cases; cases "[e]" rule: closed.cases) auto
qed simp

lemma sat_NewRedfishBMCClient:
  "sat (NewRedfishBMCClient E opts) (\<lambda>res es. closed es = [] \<and>
     opened es = (case res of Ok c \<Rightarrow> [RedfishBMC_client c] | _ \<Rightarrow> []))"
  unfolding NewRedfishBMCClient_def ConnectContext_def
  by (intro sat_bind sat_wrap sat_call_any) (auto split: res.split)


definition connects :: "BMCClient res \<Rightarrow> event list \<Rightarrow> bool" where
  "connects res es \<longleftrightarrow> closed es = [] \<and>
     opened es = (case res of Ok c \<Rightarrow> [RedfishBMC_client (base_client c)] | _ \<Rightarrow> [])"

lemma no_session_other:
  "is_read e \<Longrightarrow> \<not> is_session e" "is_power_on e \<Longrightarrow> \<not> is_session e" "is_power_off e \<Longrightarrow> \<not> is_session e"
  "is_netboot e \<Longrightarrow> \<not> is_session e"
  by (cases e rule: is_session.cases; simp)+

lemma reads_no_session: "emits is_read (\<lambda>_. True) m \<Longrightarrow> sat m (\<lambda>_ es. opened es = [] \<and> closed es = [])"
  unfolding emits_def
  by (rule sat_mono, assumption, rule no_session) (auto dest: no_session_other)

lemma connects_after_reads:
  assumes "emits is_read (\<lambda>_. True) m" and "\<And>a. sat (f a) connects"
  shows "sat (bindM m f) connects"
  by (rule sat_bind, rule sat_mono [OF reads_no_session [OF assms(1)]])
    (auto split: res.split simp: connects_def intro!: sat_mono [OF assms(2)])

lemma connects_wrap: "sat m connects \<Longrightarrow> sat (wrapM msg m) connects"
  by (rule sat_wrap, erule sat_mono) (auto simp: connects_def split: res.split)

lemma connects_New:
  "sat (bindM (wrapM msg (NewRedfishBMCClient E opts)) (\<lambda>c. returnM (Redfish c))) connects"
  "sat (NewRedfishLocalBMCClient E opts) connects"
  "sat (NewRedfishKubeBMCClient E opts ns) connects"
  unfolding NewRedfishLocalBMCClient_def NewRedfishKubeBMCClient_def
  by (intro sat_bind sat_wrap sat_mono [OF sat_NewRedfishBMCClient];
      auto split: res.splits simp: connects_def)+

lemma connects_CreateBMCClient: "sat (CreateBMCClient E i pr a p s opts) connects"
proof -
  have lift: "sat (bindM (liftM x) f) connects"
    if "\<And>y. sat (f y) connects" for x and f :: "'x \<Rightarrow> ('a, BMCClient) M"
    by (rule connects_after_reads) (auto intro!: emits_lift that)
  have if_: "sat (if b then m else m') connects" if "sat m connects" "sat m' connects"
    for b and m m' :: "('a, BMCClient) M"
    using that by simp
  show ?thesis
    unfolding CreateBMCClient_def
    by (intro if_ lift connects_wrap connects_New) (simp add: connects_def)
qed

lemma connects_GetBMCClientFromBMC: "sat (GetBMCClientFromBMC E b i opts) connects"
  unfolding GetBMCClientFromBMC_def Let_def
  by (intro connects_after_reads connects_CreateBMCClient; intro emits_intros; simp)

lemma connects_GetBMCClientForServer: "sat (GetBMCClientForServer E s i opts) connects"
  unfolding GetBMCClientForServer_def
  by (auto split: option.split simp: connects_def [of "Err _"]
     intro!: connects_after_reads connects_CreateBMCClient connects_GetBMCClientFromBMC emits_intros)

lemma balanced_quiet: "emits (\<lambda>e. \<not> is_session e) R m \<Longrightarrow> sat m (\<lambda>_ es. balanced es)"
  unfolding emits_def by (erule sat_mono) (simp add: balanced_def no_session)

text \<open>A client that is logged out when its user is done.\<close>

lemma balanced_logout:
  assumes "sat body (\<lambda>_ es. balanced es)"
  shows "sat (deferM (BMC_Logout E c) body)
    (\<lambda>_ es. mset (closed es) = add_mset (RedfishBMC_client (base_client c)) (mset (opened es)))"
  unfolding RedfishBMC_Logout_def gofish_Logout_def
  by (rule sat_defer, rule sat_mono [OF assms]) (auto intro!: sat_call_any simp: balanced_def)

lemma balanced_bracket:
  assumes "sat get connects" and "\<And>c. sat (body c) (\<lambda>_ es. balanced es)"
  shows "sat (bindM (wrapM msg get) (\<lambda>c. deferM (BMC_Logout E c) (body c))) (\<lambda>_ es. balanced es)"
  by (intro sat_bind sat_wrap, rule sat_mono [OF assms(1)])
    (auto split: res.split simp: connects_def balanced_def
      intro!: sat_mono [OF balanced_logout [OF assms(2)]])

lemma balanced_withBMCClient:
  assumes "\<And>c. emits (\<lambda>e. \<not> is_session e) (\<lambda>_. True) (body c)"
  shows "sat (withBMCClient E i opts s msg body) (\<lambda>_ es. balanced es)"
  unfolding withBMCClient_def
  by (intro balanced_bracket connects_GetBMCClientForServer balanced_quiet [OF assms])

interpretation balanced: trace_invariant balanced
  by unfold_locales (auto simp: balanced_def)

lemma balanced_operations:
  "sat (ensureServerPowerState E r s) (\<lambda>_ es. balanced es)"
  "sat (pxeBootServer E r s) (\<lambda>_ es. balanced es)"
  "sat (updateServerStatus E r s) (\<lambda>_ es. balanced es)"
  "sat (applyBiosSettings E r s) (\<lambda>_ es. balanced es)"
  "sat (applyBootOrder E r s) (\<lambda>_ es. balanced es)"
  "sat (handleAnnotionOperations E r s) (\<lambda>_ es. balanced es)"
  unfolding ensureServerPowerState_def pxeBootServer_def updateServerStatus_def applyBiosSettings_def
    applyBootOrder_def handleAnnotionOperations_def Let_def
  by (auto split: powerOp.split option.split intro!: balanced_withBMCClient
      simp: balanced_def [of "[]"] intro!: emits_intros simp: no_session_other)


text \<open>The one exception: the storages are read, once a boot configuration is ready, without logging out.\<close>

definition sessions_closed :: "event list \<Rightarrow> bool" where
  "sessions_closed es \<longleftrightarrow> balanced es \<or> (\<exists>e\<in>set es. is_ready_read e)"

interpretation sessions: trace_invariant sessions_closed
  by unfold_locales (auto simp: sessions_closed_def intro: balanced.append balanced.nil)

lemma sessions_balanced: "sat m (\<lambda>_ es. balanced es) \<Longrightarrow> sat m (\<lambda>_ es. sessions_closed es)"
  by (erule sat_mono) (simp add: sessions_closed_def)

lemma sessions_events: "emits (\<lambda>e. \<not> is_session e) (\<lambda>_. True) m \<Longrightarrow> sat m (\<lambda>_ es. sessions_closed es)"
  by (rule sessions_balanced, erule balanced_quiet)

lemma sessions_handleDiscoveryState: "sat (handleDiscoveryState E r s) (\<lambda>_ es. sessions_closed es)"
  unfolding handleDiscoveryState_def
proof (rule sat_bind, rule sat_mono [OF sat_serverBootConfigurationIsReady], goal_cases)
  case (1 res es)
  then have "opened es = [] \<and> closed es = []" by (auto intro!: no_session dest: no_session_other)
  then have "sessions_closed es" by (simp add: sessions_closed_def balanced_def)
  with 1 show ?case
    by (auto split: res.split simp: sessions_closed_def, auto simp: sat_def)
qed

lemmas sessions_operations = balanced_operations [THEN sessions_balanced]

lemma sessions_handlers:
  "sat (handleInitialState E r s) (\<lambda>_ es. sessions_closed es)"
  "sat (handleAvailableState E r s) (\<lambda>_ es. sessions_closed es)"
  "sat (handleReservedState E r s) (\<lambda>_ es. sessions_closed es)"
proof -
  have other:
    "sat (ensureInitialConditions E r s) (\<lambda>_ es. sessions_closed es)"
    "sat (applyBootConfigurationAndIgnitionForDiscovery E r s) (\<lambda>_ es. sessions_closed es)"
    "sat (patchServerState E s st) (\<lambda>_ es. sessions_closed es)"
    "sat (serverBootConfigurationIsReady E s) (\<lambda>_ es. sessions_closed es)"
    "sat (PatchServer E s s') (\<lambda>_ es. sessions_closed es)"
    "sat (ensureInitialBootConfigurationIsDeleted E s) (\<lambda>_ es. sessions_closed es)" for s s' st
    unfolding ensureInitialConditions_def setAndPatchServerPowerState_def patchServerState_def
      applyBootConfigurationAndIgnitionForDiscovery_def ensureServerBootConfigRef_def
      ensureInitialBootConfigurationIsDeleted_def
    by (rule sessions_events, intro emits_intros; simp add: no_session_other)+
  show "sat (handleInitialState E r s) (\<lambda>_ es. sessions_closed es)"
    unfolding handleInitialState_def by (intro sessions.inv_rules sessions_operations other)
  show "sat (handleAvailableState E r s) (\<lambda>_ es. sessions_closed es)"
    unfolding handleAvailableState_def ensureIndicatorLED_def
    by (intro sessions.inv_rules sessions_operations other)
  show "sat (handleReservedState E r s) (\<lambda>_ es. sessions_closed es)"
    unfolding handleReservedState_def ensureIndicatorLED_def
    by (intro sessions.inv_rules sessions_operations other)
qed

lemma sessions_reconcile: "sat (Server_Reconcile E r n) (\<lambda>_ es. sessions_closed es)"
proof -
  have other:
    "sat (GetServer E n) (\<lambda>_ es. sessions_closed es)"
    "sat (Server_delete E s) (\<lambda>_ es. sessions_closed es)"
    "sat (initializeState E s) (\<lambda>_ es. sessions_closed es)"
    "sat (reserveClaimed E s) (\<lambda>_ es. sessions_closed es)"
    "sat (releaseUnclaimed E s) (\<lambda>_ es. sessions_closed es)"
    "sat (PatchEnsureFinalizer_Server E s f) (\<lambda>_ es. sessions_closed es)" for n s f
    unfolding Server_delete_def initializeState_def reserveClaimed_def releaseUnclaimed_def patchServerState_def
    by (rule sessions_events, intro emits_intros; simp add: no_session_other)+
  show ?thesis
    unfolding Server_Reconcile_def reconcileObject_def Server_reconcileExists_def Server_reconcile_def
      ifUnmodified_def ensureServerStateTransition_def
    by (intro sessions.inv_rules sessions_operations sessions_handlers sessions_handleDiscoveryState other)
qed

section \<open>Into discovery, and out of it\<close>

fun is_state_patch :: "ServerState \<Rightarrow> event \<Rightarrow> bool" where
  "is_state_patch st (EKube (PatchedServerStatus base new _)) = (srvState base \<noteq> st \<and> srvState new = st)"
| "is_state_patch _ _ = False"

fun is_boot_config :: "string \<Rightarrow> string \<Rightarrow> event \<Rightarrow> bool" where
  "is_boot_config ns n (EKube (CreatedOrPatchedSBC ns' n' (Ok _))) = (ns' = ns \<and> n' = n)"
| "is_boot_config _ _ _ = False"

fun is_netboot_done :: "event \<Rightarrow> bool" where
  "is_netboot_done (EBmc (SetBoot _ _ b ok)) = (Boot_BootSourceOverrideTarget b = ''Pxe'' \<and> ok)"
| "is_netboot_done _ = False"

text \<open>The ignition secret: its data starts the probe with the flags given.\<close>

definition ignites :: "string \<Rightarrow> string \<Rightarrow> Secret \<Rightarrow> bool" where
  "ignites img flags s \<longleftrightarrow> (\<exists>d. map_of (Secret_Data s) DefaultIgnitionSecretKeyName = Some d \<and>
     Contains d (probe_line img flags @ [CHR 0x0A]))"

fun is_ignition :: "string \<Rightarrow> string \<Rightarrow> event \<Rightarrow> bool" where
  "is_ignition img flags (EKube (AppliedSecret s ok)) = (ignites img flags s \<and> ok)"
| "is_ignition _ _ _ = False"

lemma not_state_patch: "\<not> is_status_patch e \<Longrightarrow> \<not> is_state_patch st e"
  by (cases "(st, e)" rule: is_state_patch.cases) simp_all

lemmas state_patch_intros = not_state_patch not_status_patch

lemma achieves_ApplySecret:
  "(\<And>om. is_ignition img flags (EKube (AppliedSecret \<lparr>Secret_Meta = om, Secret_Data = d\<rparr> True))) \<Longrightarrow>
     achieves (is_ignition img flags) (applyOwnedSecret E r c n d msg)"
  unfolding applyOwnedSecret_def ApplySecret_def
  by (rule achieves_then [OF emits_wrap [OF emits_lift]]) (auto intro!: achieves_wrap achieves_call)

lemma generateDefaultIgnitionData_probe:
  "emits (\<lambda>_. True) (\<lambda>d. Contains d (probe_line (SR_ProbeImage r) flags @ [CHR 0x0A]))
     (generateDefaultIgnitionDataForServer E r flags k p)"
  unfolding generateDefaultIgnitionDataForServer_def
  by (rule emits_then) (intro emits_intros, simp add: BcryptGenerate_def emits_call,
    use ignition_starts_probe [of "\<lparr>Config_Image = SR_ProbeImage r, Config_Flags = flags, Config_SSHPublicKey = _, Config_PasswordHash = _\<rparr>"]
    in \<open>auto intro!: emits_return\<close>)

lemma achieves_ignition:
  "achieves (is_ignition (SR_ProbeImage r) (probeFlags u s)) (applyDefaultIgnitionForServer E r s c u)"
  unfolding applyDefaultIgnitionForServer_def
  apply (rule achieves_then [where P = "\<lambda>_. True" and R = "\<lambda>_. True"])
   apply (intro emits_intros; simp)
  apply (auto split: prod.split)
  apply (rule achieves_then [where P = "\<lambda>_. True" and R = "\<lambda>_. True"])
   apply (intro emits_intros; simp)
  apply (rule achieves_then [OF emits_wrap [OF generateDefaultIgnitionData_probe]])
  apply (rule achieves_ApplySecret)
  apply (simp add: ignites_def)
  done


text \<open>The steps before the state is patched keep the name and the UUID of the server.\<close>

definition same_id :: "Server \<Rightarrow> Server \<Rightarrow> bool" where
  "same_id s s' \<longleftrightarrow> srvName s' = srvName s \<and> srvSystemUUID s' = srvSystemUUID s"

lemma same_id_simps [simp]: "same_id s s" "same_id s (set_Power p s)"
  "same_id s (set_BootConfigurationRef ref s)"
  by (simp_all add: same_id_def set_BootConfigurationRef_def)

lemma same_id_agrees: "agrees new s' \<Longrightarrow> same_id s new \<Longrightarrow> same_id s s'"
  by (simp add: same_id_def agrees_def)

lemma same_id_trans: "same_id s s' \<Longrightarrow> same_id s' s'' \<Longrightarrow> same_id s s''"
  by (simp add: same_id_def)

lemma same_id_setAndPatch:
  assumes "quiet E" and "\<And>n r. P (EKube (CreatedOrPatchedServer n r))"
  shows "emits P (\<lambda>x. same_id s (snd x)) (setAndPatchServerPowerState E s p)"
  unfolding setAndPatchServerPowerState_def
  by (rule emits_bind [OF emits_wrap [OF emits_quiet_calls(4) [OF assms(1)]]], rule assms(2))
    (auto intro!: emits_intros simp: agrees_def same_id_def)

lemma same_id_ensureInitialConditions:
  assumes "quiet E" and "\<And>n r. P (EKube (CreatedOrPatchedServer n r))"
  shows "emits P (\<lambda>x. same_id s (snd x)) (ensureInitialConditions E r s)"
proof -
  have 2: "emits P (\<lambda>x. same_id s (snd x)) (setAndPatchServerPowerState E s' p)" if "same_id s s'" for s' p
    by (rule emits_weaken [OF same_id_setAndPatch [OF assms(1)]], rule assms(2))
      (use that in \<open>auto intro: same_id_trans\<close>)
  show ?thesis
    unfolding ensureInitialConditions_def
    by (rule emits_bind [where R' = "\<lambda>x. same_id s (snd x)"])
      (auto intro!: emits_wrap emits_return emits_if 2)
qed

text \<open>After the boot configuration is applied the server refers to one.\<close>

lemma applyBootConfiguration_sets_ref:
  assumes "quiet E" and "\<And>e. \<not> is_status_patch e \<Longrightarrow> P e"
  shows "emits P (\<lambda>s'. same_id s s' \<and> srvBootConfigurationRef s' \<noteq> None)
    (applyBootConfigurationAndIgnitionForDiscovery E r s)"
proof -
  have ref: "emits P (\<lambda>s'. same_id s s' \<and> srvBootConfigurationRef s' \<noteq> None) (ensureServerBootConfigRef E s c)" for c
    unfolding ensureServerBootConfigRef_def
    by (rule emits_weaken [OF emits_quiet_calls(1) [OF assms(1)]])
      (auto simp: agrees_def same_id_def set_BootConfigurationRef_def assms(2))
  show ?thesis
    unfolding applyBootConfigurationAndIgnitionForDiscovery_def
    by (intro emits_then [of _ "wrapM _ _"] emits_case_prod emits_wrap emits_bind [OF ref];
      (intro emits_intros)?; simp add: assms(2) not_status_patch)
qed

lemma achieves_boot_config:
  "achieves (is_boot_config (SR_ManagerNamespace r) (srvName s)) (applyBootConfigurationAndIgnitionForDiscovery E r s)"
  unfolding applyBootConfigurationAndIgnitionForDiscovery_def CreateOrPatchSBC_def
  by (intro achieves_first achieves_wrap achieves_call) (simp add: empty_SBC_def)

lemma achieves_applied_ignition:
  assumes "quiet E"
  shows "achieves (is_ignition (SR_ProbeImage r) (probeFlags (SR_RegistryURL r) s))
    (applyBootConfigurationAndIgnitionForDiscovery E r s)"
proof -
  have ref: "emits (\<lambda>_. True) (same_id s) (ensureServerBootConfigRef E s c)" for c
    unfolding ensureServerBootConfigRef_def
    by (rule emits_weaken [OF emits_quiet_calls(1) [OF assms]]) (auto intro: same_id_agrees)
  have ign: "achieves (is_ignition (SR_ProbeImage r) (probeFlags (SR_RegistryURL r) s))
      (applyDefaultIgnitionForServer E r s' c (SR_RegistryURL r))" if "same_id s s'" for s' c
  proof -
    from that have "probeFlags (SR_RegistryURL r) s = probeFlags (SR_RegistryURL r) s'"
      by (simp add: probeFlags_def same_id_def)
    then show ?thesis by (simp add: achieves_ignition)
  qed
  have create: "emits (\<lambda>_. True) (\<lambda>_. True) (wrapM msg (CreateOrPatchSBC E c f))" for msg c f
    by (intro emits_intros; simp)
  show ?thesis
    unfolding applyBootConfigurationAndIgnitionForDiscovery_def
    by (rule achieves_then [OF create])
      (auto split: prod.split intro!: achieves_then [OF ref] intro!: achieves_first [of _ "applyDefaultIgnitionForServer _ _ _ _ _"] ign)
qed


lemma achieves_withBMCClient:
  "(\<And>c. achieves g (body c)) \<Longrightarrow> achieves g (withBMCClient E i opts s msg body)"
  unfolding withBMCClient_def
  by (rule achieves_then [where P = "\<lambda>_. True" and R = "\<lambda>_. True"]) (intro emits_intros achieves_defer; simp)+

lemma achieves_SetPXEBootOnce: "achieves is_netboot_done (BMC_SetPXEBootOnce E c u)"
proof -
  have sys: "emits (\<lambda>_. True) (\<lambda>_. True) (wrapM m (getSystemByUUID E r u))" for m r
    by (intro emits_intros; simp)
  have boot: "achieves is_netboot_done (System_SetBoot E h s (pxe_boot_for s))" for h s
    unfolding System_SetBoot_def by (rule achieves_call) simp
  show ?thesis
    by (cases c; simp add: RedfishBMC_SetPXEBootOnce_def RedfishKubeBMC_SetPXEBootOnce_def)
      (intro achieves_then [OF sys] achieves_wrap boot achieves_first)+
qed

lemma achieves_pxeBootServer:
  "srvBootConfigurationRef s \<noteq> None \<Longrightarrow> achieves is_netboot_done (pxeBootServer E r s)"
  unfolding pxeBootServer_def
  by (auto intro!: achieves_withBMCClient achieves_wrap achieves_SetPXEBootOnce)

text \<open>
  Before a server enters discovery: its boot configuration is applied, the ignition that starts the
  probe is, and the next boot goes over the network.
\<close>

lemma into_discovery:
  assumes "quiet E"
  shows "sat (handleInitialState E r s) (\<lambda>_ es.
       guarded (is_boot_config (SR_ManagerNamespace r) (srvName s)) (is_state_patch ServerStateDiscovery) es)"
    and "sat (handleInitialState E r s) (\<lambda>_ es.
       guarded (is_ignition (SR_ProbeImage r) (probeFlags (SR_RegistryURL r) s)) (is_state_patch ServerStateDiscovery) es)"
    and "sat (handleInitialState E r s) (\<lambda>_ es. guarded is_netboot_done (is_state_patch ServerStateDiscovery) es)"
proof -
  let ?p = "is_state_patch ServerStateDiscovery"
  note init = same_id_ensureInitialConditions [OF assms, of "\<lambda>e. \<not> ?p e"]
  have power: "emits (\<lambda>e. \<not> ?p e) (\<lambda>_. True) (wrapM m (ensureServerPowerState E r s'))" for m s'
    by (intro emits_intros; simp add: state_patch_intros)
  have boot: "emits (\<lambda>e. \<not> ?p e) (\<lambda>s''. same_id s' s'' \<and> srvBootConfigurationRef s'' \<noteq> None)
      (wrapM m (applyBootConfigurationAndIgnitionForDiscovery E r s'))" for m s'
    by (intro emits_wrap applyBootConfiguration_sets_ref [OF assms]) (simp add: not_state_patch)
  have pxe: "emits (\<lambda>e. \<not> ?p e) (\<lambda>_. True) (wrapM m (pxeBootServer E r s'))" for m s'
    by (intro emits_intros; simp add: state_patch_intros)
  have ret: "sat (returnM True) (\<lambda>_ es. guarded g ?p es)" for g
    by simp
  have id: "is_boot_config (SR_ManagerNamespace r) (srvName s) = is_boot_config (SR_ManagerNamespace r) (srvName s')"
    "is_ignition (SR_ProbeImage r) (probeFlags (SR_RegistryURL r) s) = is_ignition (SR_ProbeImage r) (probeFlags (SR_RegistryURL r) s')"
    if "same_id s s'" for s' using that by (simp_all add: same_id_def probeFlags_def)
  show "sat (handleInitialState E r s) (\<lambda>_ es. guarded (is_boot_config (SR_ManagerNamespace r) (srvName s)) ?p es)"
    unfolding handleInitialState_def
    by (rule guarded_bind [OF init])
      (auto simp: id simp del: is_boot_config.simps
        intro!: ret guarded_bind [OF power] guarded_after [OF boot] achieves_wrap achieves_boot_config)
  show "sat (handleInitialState E r s) (\<lambda>_ es.
       guarded (is_ignition (SR_ProbeImage r) (probeFlags (SR_RegistryURL r) s)) ?p es)"
    unfolding handleInitialState_def
    by (rule guarded_bind [OF init])
      (auto simp: id intro!: ret guarded_bind [OF power] guarded_after [OF boot] achieves_wrap
        achieves_applied_ignition assms)
  show "sat (handleInitialState E r s) (\<lambda>_ es. guarded is_netboot_done ?p es)"
    unfolding handleInitialState_def
    by (rule guarded_bind [OF init])
      (auto intro!: ret guarded_bind [OF power] guarded_bind [OF boot] guarded_after [OF pxe] achieves_wrap
        achieves_pxeBootServer)
qed

fun is_registry_data :: "string \<Rightarrow> event \<Rightarrow> bool" where
  "is_registry_data url (ESys (HttpGot u (Ok (Some rsp, None)))) \<longleftrightarrow>
     u = url \<and> HttpResponse_StatusCode rsp \<noteq> 404 \<and> HttpResponse_Body rsp \<noteq> None"
| "is_registry_data _ _ = False"

fun is_http_delete :: "string \<Rightarrow> event \<Rightarrow> bool" where
  "is_http_delete url (ESys (HttpDeleted u ok)) = (u = url \<and> ok)"
| "is_http_delete _ _ = False"

lemma sat_extractServerDetails:
  "sat (extractServerDetailsFromRegistry E r s) (\<lambda>res es. \<forall>s'. res = Ok (True, s') \<longrightarrow>
     (\<exists>e\<in>set es. is_registry_data (systemsURL r (srvSystemUUID s)) e))"
  unfolding extractServerDetailsFromRegistry_def HttpGet_def PatchServerStatus_def
  by (rule sat_bind, rule sat_call_any) (auto split: res.split option.split intro!: sat_bind sat_wrap sat_call_any)


lemma sat_bind_flag:
  assumes "sat m (\<lambda>res es. (\<forall>e\<in>set es. \<not> p e) \<and> (\<forall>s'. res = Ok (True, s') \<longrightarrow> (\<exists>e\<in>set es. g e)))"
  shows "sat (bindM m (\<lambda>(ready, s'). if \<not> ready then returnM b else k s')) (\<lambda>_ es. guarded g p es)"
  by (rule sat_bind, rule sat_mono [OF assms])
    (auto split: res.split simp: guarded_none guarded_append, auto simp: sat_def guarded_none guarded_append)

lemma same_id_extractServerDetails:
  assumes "quiet E"
  shows "emits (\<lambda>e. \<not> is_state_patch st e) (\<lambda>x. same_id s (snd x)) (extractServerDetailsFromRegistry E r s)"
proof -
  have patch: "emits (\<lambda>e. \<not> is_state_patch st e) (same_id s) (PatchServerStatus E s (s\<lparr>Server_Status :=
      (Server_Status s)\<lparr>ServerStatus_NetworkInterfaces := nics\<rparr>\<rparr>))" for nics
    by (rule emits_weaken [OF emits_quiet_calls(2) [OF assms]]) (auto simp: same_id_def agrees_def)
  show ?thesis
    unfolding extractServerDetailsFromRegistry_def HttpGet_def
    by (intro emits_bind [OF emits_wrap [OF patch]] emits_intros; simp)
qed

text \<open>
  A server leaves discovery for the available state only after the registry has handed out its data
  and the entry has been deleted.
\<close>

lemma finish_discovery:
  assumes "quiet E"
  shows "sat (finishDiscovery E r s) (\<lambda>_ es. guarded
       (is_registry_data (systemsURL r (srvSystemUUID s))) (is_state_patch ServerStateAvailable) es)"
    and "sat (finishDiscovery E r s) (\<lambda>_ es. guarded
       (is_http_delete (deleteURL r (srvSystemUUID s))) (is_state_patch ServerStateAvailable) es)"
proof -
  note details = same_id_extractServerDetails [OF assms, of ServerStateAvailable s r]
  show "sat (finishDiscovery E r s) (\<lambda>_ es. guarded
       (is_registry_data (systemsURL r (srvSystemUUID s))) (is_state_patch ServerStateAvailable) es)"
    unfolding finishDiscovery_def
    by (rule sat_bind_flag, rule sat_mono [OF sat_conj [OF details [unfolded emits_def] sat_extractServerDetails]]) blast
  have ach: "achieves (is_http_delete (deleteURL r (srvSystemUUID s)))
      (invalidateRegistryEntryForServer E r s')" if "same_id s s'" for s'
    unfolding invalidateRegistryEntryForServer_def HttpDelete_def
    by (rule achieves_call) (use that in \<open>simp add: same_id_def\<close>)
  have del: "emits (\<lambda>e. \<not> is_state_patch ServerStateAvailable e) (\<lambda>_. True)
      (wrapM m (invalidateRegistryEntryForServer E r s'))" for m s'
    unfolding invalidateRegistryEntryForServer_def HttpDelete_def by (intro emits_intros) simp
  show "sat (finishDiscovery E r s) (\<lambda>_ es. guarded
       (is_http_delete (deleteURL r (srvSystemUUID s))) (is_state_patch ServerStateAvailable) es)"
    unfolding finishDiscovery_def
    by (rule guarded_bind [OF details]) (auto intro!: guarded_after [OF del] achieves_wrap ach)
qed

definition same_id_state :: "Server \<Rightarrow> Server \<Rightarrow> bool" where
  "same_id_state s s' \<longleftrightarrow> same_id s s' \<and> srvState s' = srvState s"

lemma out_of_discovery:
  assumes "quiet E"
  shows "sat (handleDiscoveryState E r s) (\<lambda>_ es. guarded
       (is_registry_data (systemsURL r (srvSystemUUID s))) (is_state_patch ServerStateAvailable) es)"
    and "sat (handleDiscoveryState E r s) (\<lambda>_ es. guarded
       (is_http_delete (deleteURL r (srvSystemUUID s))) (is_state_patch ServerStateAvailable) es)"
proof -
  let ?p = "is_state_patch ServerStateAvailable"
  have ready: "emits (\<lambda>e. \<not> ?p e) (\<lambda>_. True) (serverBootConfigurationIsReady E s)"
    by (intro emits_intros; simp add: state_patch_intros)
  have on: "emits (\<lambda>e. \<not> ?p e) (same_id_state s) (wrapM m (PatchServer E s (set_Power PowerOn s)))" for m
    by (rule emits_wrap, rule emits_weaken [OF emits_quiet_calls(1) [OF assms]])
      (auto simp: same_id_state_def same_id_def agrees_def)
  have power: "emits (\<lambda>e. \<not> ?p e) (\<lambda>_. True) (wrapM m (ensureServerPowerState E r s'))" for m s'
    by (intro emits_intros; simp add: state_patch_intros)
  have storages: "emits (\<lambda>e. \<not> ?p e) (same_id_state s) (updateStorages E r s s')" if "same_id_state s s'" for s'
    unfolding updateStorages_def
    by (intro emits_wrap emits_weaken [OF emits_quiet_calls(2) [OF assms]] emits_then; (intro emits_intros)?;
      use that in \<open>auto simp: same_id_state_def same_id_def agrees_def state_patch_intros\<close>)
  have check: "emits (\<lambda>e. \<not> ?p e) (\<lambda>_. True) (checkLastStatusUpdateAfter E d s')" for d s'
    by (intro emits_intros)
  have revert: "emits (\<lambda>e. \<not> ?p e) (\<lambda>x. \<not> fst x \<longrightarrow> same_id s (snd x))
      (if late then patchServerState E s' ServerStateInitial else returnM (False, s'))"
    if "same_id_state s s'" for late s'
    by (intro emits_if emits_weaken [OF emits_patchServerState] emits_return)
      (use that in \<open>auto simp: same_id_state_def\<close>)
  have fin: "sat (finishDiscovery E r s') (\<lambda>_ es. guarded
       (is_registry_data (systemsURL r (srvSystemUUID s))) ?p es)"
    "sat (finishDiscovery E r s') (\<lambda>_ es. guarded
       (is_http_delete (deleteURL r (srvSystemUUID s))) ?p es)" if "same_id s s'" for s'
    using that finish_discovery [OF assms, of r s'] by (simp_all add: same_id_def)
  show "sat (handleDiscoveryState E r s) (\<lambda>_ es. guarded
       (is_registry_data (systemsURL r (srvSystemUUID s))) ?p es)"
    and "sat (handleDiscoveryState E r s) (\<lambda>_ es. guarded
       (is_http_delete (deleteURL r (srvSystemUUID s))) ?p es)"
    unfolding handleDiscoveryState_def Let_def
    by (rule guarded_bind [OF ready],
        auto intro!: guarded_bind [OF on] guarded_bind [OF power] guarded_bind [OF storages]
          guarded_bind [OF check] guarded_bind [OF revert] fin)
      (rule guarded_bind [OF ready],
        auto intro!: guarded_bind [OF on] guarded_bind [OF power] guarded_bind [OF storages]
          guarded_bind [OF check] guarded_bind [OF revert] fin)
qed

section \<open>The available state\<close>

lemma available_no_power_on:
  assumes "quiet E"
  shows "emits (\<lambda>e. \<not> is_power_on e) (\<lambda>_. True) (handleAvailableState E r s)"
proof -
  have other: "is_read e \<Longrightarrow> \<not> is_power_on e" "is_session e \<Longrightarrow> \<not> is_power_on e" "is_power_off e \<Longrightarrow> \<not> is_power_on e" for e
      apply (cases e rule: is_power_on.cases; simp)
     apply (cases e rule: is_power_on.cases; simp)
    apply (cases e rule: is_power_on.cases; auto)
    done
  have off: "emits (\<lambda>e. \<not> is_power_on e) (\<lambda>s'. srvPower s' = PowerOff) (PatchServer E s (set_Power PowerOff s))"
    by (rule emits_weaken [OF emits_quiet_calls(1) [OF assms]]) (auto simp: agrees_def)
  have op: "choosePowerOp PowerOff st \<noteq> powerOpOn" for st
    by (simp add: choosePowerOp_def)
  show ?thesis
    unfolding handleAvailableState_def ensureInitialBootConfigurationIsDeleted_def ensureIndicatorLED_def
    by (intro emits_bind [OF emits_wrap [OF off]] emits_intros; simp add: other op)
qed

fun is_internal_read :: "string \<Rightarrow> string \<Rightarrow> event \<Rightarrow> bool" where
  "is_internal_read ns n (EKube (GotSBC _ _ (Ok c))) \<longleftrightarrow>
     ObjectMeta_Namespace (SBC_Meta c) = ns \<and> ObjectMeta_Name (SBC_Meta c) = n \<and>
     map_of (ObjectMeta_Annotations (SBC_Meta c)) InternalAnnotationTypeKeyName = Some InternalAnnotationTypeValue"
| "is_internal_read _ _ _ = False"

fun is_sbc_delete :: "string \<Rightarrow> string \<Rightarrow> event \<Rightarrow> bool" where
  "is_sbc_delete ns n (EKube (DeletedSBC ns' n' _)) = (ns' = ns \<and> n' = n)"
| "is_sbc_delete _ _ _ = False"

text \<open>Only a boot configuration of discovery, marked as internal, is deleted.\<close>

lemma deletes_internal_only:
  "sat (ensureInitialBootConfigurationIsDeleted E s) (\<lambda>_ es. guarded (is_internal_read ns n) (is_sbc_delete ns n) es)"
  unfolding ensureInitialBootConfigurationIsDeleted_def GetSBC_def DeleteSBC_def PatchServer_def
  by (auto split: option.split res.split intro!: sat_bind sat_call_any)

section \<open>Deletion and annotations\<close>

fun is_gone :: "string \<Rightarrow> string \<Rightarrow> event \<Rightarrow> bool" where
  "is_gone ns n (EKube (DeletedSBC ns' n' (Ok _))) = (ns' = ns \<and> n' = n)"
| "is_gone ns n (EKube (DeletedSBC ns' n' (Err e))) = (ns' = ns \<and> n' = n \<and> IsNotFound e)"
| "is_gone _ _ _ = False"

fun is_unfinalize :: "event \<Rightarrow> bool" where
  "is_unfinalize (EKube (EnsuredNoFinalizer _ _ _ _)) = True"
| "is_unfinalize _ = False"

text \<open>The finalizer goes only after the boot configuration the server refers to is gone.\<close>

lemma delete_order:
  assumes "srvBootConfigurationRef s = Some ref"
  shows "sat (Server_delete E s) (\<lambda>_ es. guarded
    (is_gone (ObjectReference_Namespace ref) (ObjectReference_Name ref)) is_unfinalize es)"
  unfolding Server_delete_def DeleteSBC_def assms option.case
  apply (rule guarded_after [where R = "\<lambda>_. True"])
   apply (intro emits_intros; simp)
  apply (unfold achieves_def)
  apply (rule sat_catch, rule sat_call_any)
  apply (auto split: res.split)
  done

fun is_reset :: "string \<Rightarrow> event \<Rightarrow> bool" where
  "is_reset t (EBmc (ResetSystem _ _ t' ok)) = (t' = t \<and> ok)"
| "is_reset _ _ = False"

fun is_patch :: "event \<Rightarrow> bool" where
  "is_patch (EKube (PatchedServer _ _ _)) = True"
| "is_patch _ = False"

lemma not_patch: "is_read e \<Longrightarrow> \<not> is_patch e" "is_session e \<Longrightarrow> \<not> is_patch e"
  by (cases e rule: is_patch.cases; simp)+

text \<open>The annotation is removed only after the BMC has accepted the reset it asks for.\<close>

lemma annotation_order:
  assumes "map_of (srvAnnotations s) OperationAnnotation = Some op"
  shows "sat (handleAnnotionOperations E r s) (\<lambda>_ es. guarded (is_reset op) is_patch es)"
proof -
  have reset: "achieves (is_reset op) (RedfishBMC_Reset E c u op)" for c u
    unfolding RedfishBMC_Reset_def System_Reset_def
    by (rule achieves_then [where P = "\<lambda>_. True" and R = "\<lambda>_. True"])
      (intro emits_intros achieves_wrap achieves_call; simp)+
  have none: "emits (\<lambda>e. \<not> is_patch e) (\<lambda>_. True) (wrapM m (RedfishBMC_Reset E c u op))" for m c u
    by (intro emits_intros; simp add: not_patch)
  show ?thesis
    unfolding handleAnnotionOperations_def assms option.case
    by (rule guarded_withBMCClient) (auto intro!: guarded_after [OF none] achieves_wrap reset dest: not_patch)
qed

section \<open>Status from the BMC\<close>

lemma sat_GetSystemInfo:
  "sat (RedfishBMC_GetSystemInfo E r u) (\<lambda>res es. \<forall>i. res = Ok i \<longrightarrow>
     (\<exists>s. found_in u s es \<and> SystemInfo_PowerState i = CS_PowerState s \<and>
        SystemInfo_SerialNumber i = CS_SerialNumber s \<and> SystemInfo_Model i = CS_Model s))"
  unfolding RedfishBMC_GetSystemInfo_def
  by (intro sat_bind sat_wrap, rule sat_mono [OF sat_getSystemByUUID])
    (auto split: res.split intro!: sat_bind sat_wrap)


lemma found_in_listed: "found_in u s es \<Longrightarrow> \<exists>h ss. EBmc (ListedSystems h (Ok ss)) \<in> set es \<and> find_system u ss = Some s"
proof -
  have "last_listing es = Some ss \<Longrightarrow> \<exists>h. EBmc (ListedSystems h (Ok ss)) \<in> set es" for ss
    by (induction es) (auto split: option.splits event.splits bmc_event.splits res.splits)
  then show "found_in u s es \<Longrightarrow> ?thesis" unfolding found_in_def by blast
qed

definition status_shows :: "Server \<Rightarrow> ComputerSystem \<Rightarrow> bool" where
  "status_shows s sys \<longleftrightarrow> srvPowerState s = CS_PowerState sys \<and>
     ServerStatus_SerialNumber (Server_Status s) = CS_SerialNumber sys \<and>
     ServerStatus_Model (Server_Status s) = CS_Model sys"

fun lists_system :: "string \<Rightarrow> Server \<Rightarrow> event \<Rightarrow> bool" where
  "lists_system u s (EBmc (ListedSystems _ (Ok ss))) \<longleftrightarrow> (\<exists>sys. find_system u ss = Some sys \<and> status_shows s sys)"
| "lists_system _ _ _ = False"

lemma found_lists_system: "found_in u sys es \<Longrightarrow> status_shows s sys \<Longrightarrow> \<exists>e\<in>set es. lists_system u s e"
  by (drule found_in_listed) (auto intro!: bexI [rotated])

fun is_status_patch_to :: "Server \<Rightarrow> event \<Rightarrow> bool" where
  "is_status_patch_to s (EKube (PatchedServerStatus _ new _)) = (new = s)"
| "is_status_patch_to _ _ = False"

lemma not_status_patch_to: "\<not> is_status_patch e \<Longrightarrow> \<not> is_status_patch_to s e"
  by (cases "(s, e)" rule: is_status_patch_to.cases) simp_all

definition status_has :: "SystemInfo \<Rightarrow> ServerStatus \<Rightarrow> bool" where
  "status_has i st \<longleftrightarrow> ServerStatus_PowerState st = SystemInfo_PowerState i \<and>
     ServerStatus_SerialNumber st = SystemInfo_SerialNumber i \<and> ServerStatus_Model st = SystemInfo_Model i"

lemma status_has_simps [simp]:
  "status_has i (status_from_info i st)"
  "status_has i (st\<lparr>ServerStatus_BIOS := b\<rparr>) = status_has i st"
  by (simp_all add: status_has_def status_from_info_def)

lemma sat_SystemInfo_listed:
  "sat (RedfishBMC_GetSystemInfo E r u) (\<lambda>res es. (\<forall>e\<in>set es. \<not> is_status_patch_to new e) \<and>
     (\<forall>i. res = Ok i \<longrightarrow> status_has i (Server_Status new) \<longrightarrow> (\<exists>e\<in>set es. lists_system u new e)))"
proof -
  have reads: "emits (\<lambda>e. \<not> is_status_patch_to new e) (\<lambda>_. True) (RedfishBMC_GetSystemInfo E r u)"
    by (intro emits_intros) (simp add: not_status_patch_to not_status_patch)
  show ?thesis
    by (rule sat_mono [OF sat_conj [OF reads [unfolded emits_def] sat_GetSystemInfo]])
      (auto simp: status_has_def status_shows_def elim!: found_lists_system)
qed

text \<open>
  A status that \<^verbatim>\<open>updateServerStatus\<close> writes was reported by the BMC of the server's system, earlier in the
  run.
\<close>

lemma updateServerStatus_reports:
  "sat (updateServerStatus E r s) (\<lambda>_ es. guarded (lists_system (srvSystemUUID s) new) (is_status_patch_to new) es)"
proof -
  let ?p = "is_status_patch_to new"
  let ?ok = "\<lambda>i e. ?p e \<longrightarrow> status_has i (Server_Status new)"
  have fold: "emits (?ok i) (status_has i) (foldM (\<lambda>st bios.
        if BIOSSettings_Version bios = v
        then bindM (wrapM m (BMC_GetBiosAttributeValues E c u (map fst (BIOSSettings_Settings bios)))) (\<lambda>attributes.
               returnM (st\<lparr>ServerStatus_BIOS := \<lparr>BIOSSettings_Version = v, BIOSSettings_Settings = attributes\<rparr>\<rparr>))
        else returnM st) (status_from_info i (Server_Status s)) bs)" for i v m c u bs
    by (rule emits_foldM, (intro emits_intros; simp add: not_status_patch_to not_status_patch), simp)
  have info: "sat (bindM (wrapM m (BMC_GetSystemInfo E c (srvSystemUUID s))) k)
      (\<lambda>_ es. guarded (lists_system (srvSystemUUID s) new) ?p es)"
    if "\<And>i. emits (?ok i) (\<lambda>_. True) (k i)" for m c and k :: "SystemInfo \<Rightarrow> ('a, Server) M"
    by (rule guarded_cond [where C = "\<lambda>i. status_has i (Server_Status new)"], rule sat_wrap,
        rule sat_mono [OF sat_SystemInfo_listed [of _ _ _ new]])
      (auto split: res.split intro: that)
  show ?thesis
    unfolding updateServerStatus_def
    by (intro guarded_inv.inv_if guarded_inv.inv_pure guarded_withBMCClient info
        emits_bind [OF fold] emits_intros; auto simp: not_status_patch_to not_status_patch)
qed


section \<open>BIOS settings\<close>

lemma map_of_rev_distinct: "distinct (map fst xs) \<Longrightarrow> map_of (rev xs) = map_of xs"
  by (subst map_of_inject_set) (simp_all flip: rev_map)

lemma fold_biosDiff:
  "map_of (fold (\<lambda>(key, val) diff. case map_of current key of
       None \<Rightarrow> AList.update key val diff | Some _ \<Rightarrow> diff) settings d) k =
   (if map_of current k = None then (case map_of (rev settings) k of Some v \<Rightarrow> Some v | None \<Rightarrow> map_of d k)
    else map_of d k)"
  by (induction settings arbitrary: d) (auto simp: update_conv map_add_def split: option.split prod.split)

text \<open>
  With one value per key, the settings sent are those wanted whose key the status does not hold, and
  a key that the status does hold is never sent, whatever its value.
\<close>

lemma biosDiff_lookup:
  "distinct (map fst settings) \<Longrightarrow>
     map_of (biosDiff current settings) k = (if map_of current k = None then map_of settings k else None)"
  unfolding biosDiff_def fold_biosDiff
  by (simp add: map_of_rev_distinct split: option.split)

lemma biosDiff_known: "map_of current k \<noteq> None \<Longrightarrow> map_of (biosDiff current settings) k = None"
  unfolding biosDiff_def fold_biosDiff by auto

fun updates_bios :: "((string \<times> string) list \<Rightarrow> bool) \<Rightarrow> event \<Rightarrow> bool" where
  "updates_bios Q (EBmc (UpdatedBiosAttributes _ _ attrs _)) = Q attrs"
| "updates_bios Q _ = True"

lemma updates_bios_other:
  "is_read e \<Longrightarrow> updates_bios Q e" "is_session e \<Longrightarrow> updates_bios Q e"
  by (cases "(Q, e)" rule: updates_bios.cases; simp)+

lemma applyBiosSettings_sends:
  "emits (updates_bios (\<lambda>attrs. \<exists>bios\<in>set (srvBIOS s). attrs =
      biosDiff (BIOSSettings_Settings (ServerStatus_BIOS (Server_Status s))) (BIOSSettings_Settings bios)))
    (\<lambda>_. True) (applyBiosSettings E r s)"
  unfolding applyBiosSettings_def
  by (intro emits_intros emits_withBMCClient; auto simp: updates_bios_other find_Some_iff)

section \<open>Boot order\<close>

text \<open>What \<^verbatim>\<open>sort.Slice\<close> promises: a permutation, sorted by the comparison.\<close>

definition sorts_boot_order :: "'w env \<Rightarrow> bool" where
  "sorts_boot_order E \<longleftrightarrow> (\<forall>bs. mset (s_sortBootOrder E bs) = mset bs \<and>
     sorted (map BootOrder_Priority (s_sortBootOrder E bs)))"

fun sets_boot_order :: "(string list \<Rightarrow> bool) \<Rightarrow> event \<Rightarrow> bool" where
  "sets_boot_order Q (EBmc (SetBoot _ _ b _)) = Q (Boot_BootOrder b)"
| "sets_boot_order Q _ = True"

lemma sets_boot_order_other:
  "is_read e \<Longrightarrow> sets_boot_order Q e" "is_session e \<Longrightarrow> sets_boot_order Q e"
  by (cases "(Q, e)" rule: sets_boot_order.cases; simp)+

lemma applyBootOrder_sends:
  "emits (sets_boot_order (\<lambda>devices. devices = map BootOrder_Device (s_sortBootOrder E (srvBootOrder s))))
    (\<lambda>_. True) (applyBootOrder E r s)"
  unfolding applyBootOrder_def Let_def
  by (intro emits_intros emits_withBMCClient; simp add: sets_boot_order_other)

end
