(* ===== verification/BMC_Controller.thy ===== *)
theory BMC_Controller
  imports Server_Controller
begin

text \<open>
  The controllers around a BMC: endpoints become BMCs with their secrets
  (\<^verbatim>\<open>endpoint_controller.go\<close>, with the MAC prefix database of \<^verbatim>\<open>internal/api/macdb\<close>), BMCs become servers
  (\<^verbatim>\<open>bmc_controller.go\<close>); the controllers of boot configurations and of BMC secrets
  (\<^verbatim>\<open>serverbootconfiguration_controller.go\<close>, \<^verbatim>\<open>bmcsecret_controller.go\<close>).
\<close>

section \<open>bmc\_controller.go\<close>

abbreviation BMCFinalizer :: string where "BMCFinalizer \<equiv> ''metal.ironcore.dev/bmc''"

record BMCReconciler =
  BR_Insecure :: bool
  BR_BMCPollingOptions :: BMCOptions

abbreviation "bmcName b \<equiv> ObjectMeta_Name (BMC_Meta b)"

definition BMC_delete :: "'w env \<Rightarrow> BMC \<Rightarrow> ('w, Result) M" where
  "BMC_delete E bmcObj =
     bindM (PatchEnsureNoFinalizer_BMC E bmcObj BMCFinalizer) (\<lambda>_. returnM emptyResult)"

text \<open>
  The IP and MAC address of the BMC: those of the endpoint it refers to, replaced by the inline ones.
  \<open>None\<close> when the endpoint is gone, in which case the update stops.
\<close>

definition bmcAddresses :: "'w env \<Rightarrow> BMC \<Rightarrow> ('w, (IP \<times> string) option) M" where
  "bmcAddresses E bmcObj =
     bindM (case BMCSpec_EndpointRef (BMC_Spec bmcObj) of
              None \<Rightarrow> returnM (Some (ZeroIP, ''''))
            | Some ref \<Rightarrow>
                catchM (bindM (GetEndpoint E (LocalObjectReference_Name ref)) (\<lambda>endpoint.
                          returnM (Some (EndpointSpec_IP (Endpoint_Spec endpoint),
                                         EndpointSpec_MACAddress (Endpoint_Spec endpoint)))))
                  (\<lambda>err. if IsNotFound err then returnM None
                         else errM (WrapError ''failed to get Endpoints for BMC'' err))) (\<lambda>x.
       returnM (case x of
           None \<Rightarrow> None
         | Some a \<Rightarrow> (case BMCSpec_Endpoint (BMC_Spec bmcObj) of
                        None \<Rightarrow> Some a
                      | Some ep \<Rightarrow> Some (InlineEndpoint_IP ep, InlineEndpoint_MACAddress ep))))"

definition set_BMCAddresses :: "IP \<Rightarrow> string \<Rightarrow> BMC \<Rightarrow> BMC" where
  "set_BMCAddresses ip mac b = b\<lparr>BMC_Status := (BMC_Status b)\<lparr>BMCStatus_IP := ip, BMCStatus_MACAddress := mac\<rparr>\<rparr>"

definition set_BMCManager :: "Manager \<Rightarrow> BMC \<Rightarrow> BMC" where
  "set_BMCManager m b = b\<lparr>BMC_Status := (BMC_Status b)\<lparr>BMCStatus_Manufacturer := Manager_Manufacturer m,
     BMCStatus_State := Manager_State m, BMCStatus_PowerState := Manager_PowerState m,
     BMCStatus_FirmwareVersion := Manager_FirmwareVersion m, BMCStatus_SerialNumber := Manager_SerialNumber m,
     BMCStatus_SKU := Manager_SKU m, BMCStatus_Model := Manager_Model m\<rparr>\<rparr>"

definition updateBMCStatusDetails :: "'w env \<Rightarrow> BMCReconciler \<Rightarrow> BMC \<Rightarrow> ('w, BMC) M" where
  "updateBMCStatusDetails E r bmcObj =
     bindM (bmcAddresses E bmcObj) (\<lambda>x. case x of
         None \<Rightarrow> returnM bmcObj
       | Some (ip, macAddress) \<Rightarrow>
           bindM (wrapM ''failed to patch IP and MAC address status''
                    (PatchBMCStatus E bmcObj (set_BMCAddresses ip macAddress bmcObj))) (\<lambda>bmcObj.
           bindM (wrapM ''failed to create BMC client''
                    (GetBMCClientFromBMC E bmcObj (BR_Insecure r) (BR_BMCPollingOptions r))) (\<lambda>bmcClient.
           deferM (BMC_Logout E bmcClient)
             (bindM (wrapM ''failed to get manager details'' (BMC_GetManager E bmcClient)) (\<lambda>manager.
                case manager of
                  None \<Rightarrow> returnM bmcObj
                | Some m \<Rightarrow> PatchBMCStatus E bmcObj (set_BMCManager m bmcObj))))))"

text \<open>The mutation of the \<open>i\<close>-th server a BMC reports.\<close>

definition discoveredServer :: "'w env \<Rightarrow> BMC \<Rightarrow> BMCServer \<Rightarrow> Server \<Rightarrow> Server res" where
  "discoveredServer E bmcObj s server =
     (let om = (Server_Meta server)\<lparr>ObjectMeta_Labels :=
                 k_setLabels E (ObjectMeta_Labels (Server_Meta server)) (ObjectMeta_Labels (BMC_Meta bmcObj))\<rparr> in
      case k_setControllerReference E ''BMC'' (BMC_Meta bmcObj) om of
        Ok om' \<Rightarrow> Ok (server\<lparr>Server_Meta := om',
          Server_Spec := (Server_Spec server)\<lparr>ServerSpec_UUID := ToLower (BMCServer_UUID s),
            ServerSpec_SystemUUID := ToLower (BMCServer_UUID s),
            ServerSpec_BMCRef := Some (LocalObjectReference (bmcName bmcObj))\<rparr>\<rparr>)
      | Err e \<Rightarrow> Err e | Panic p \<Rightarrow> Panic p)"

definition discoverServers :: "'w env \<Rightarrow> BMCReconciler \<Rightarrow> BMC \<Rightarrow> ('w, unit) M" where
  "discoverServers E r bmcObj =
     bindM (wrapM ''failed to create BMC client''
              (GetBMCClientFromBMC E bmcObj (BR_Insecure r) (BR_BMCPollingOptions r))) (\<lambda>bmcClient.
     deferM (BMC_Logout E bmcClient)
       (bindM (wrapM ''failed to get Servers from BMC'' (BMC_GetSystems E bmcClient)) (\<lambda>servers.
          foldM (\<lambda>_ (i, s).
              bindM (wrapM ''failed to create or patch Server''
                       (CreateOrPatchServer E (named_Server (GetServerNameFromBMCandIndex i bmcObj))
                          (discoveredServer E bmcObj s))) (\<lambda>_. returnM ()))
            () (enumerate 0 servers))))"

definition BMC_reconcile :: "'w env \<Rightarrow> BMCReconciler \<Rightarrow> BMC \<Rightarrow> ('w, Result) M" where
  "BMC_reconcile E r bmcObj =
     (if shouldIgnoreReconciliation (BMC_Meta bmcObj) then returnM emptyResult
      else bindM (wrapM ''failed to get BMC details'' (updateBMCStatusDetails E r bmcObj)) (\<lambda>bmcObj.
           bindM (catchM (discoverServers E r bmcObj)
                    (\<lambda>err. if IsNotFound err then returnM ()
                           else errM (WrapError ''failed to discover servers'' err))) (\<lambda>_.
             returnM emptyResult)))"

definition BMC_Reconcile :: "'w env \<Rightarrow> BMCReconciler \<Rightarrow> string \<Rightarrow> ('w, Result) M" where
  "BMC_Reconcile E r name = reconcileObject (GetBMC E name) (\<lambda>bmcObj.
     if ObjectMeta_DeletionTimestamp (BMC_Meta bmcObj) \<noteq> None then BMC_delete E bmcObj
     else BMC_reconcile E r bmcObj)"

section \<open>endpoint\_controller.go and macdb\<close>

record MacConsole =
  MacConsole_Type :: string
  MacConsole_Port :: "32 word"

record Credential =
  Credential_Username :: string
  Credential_Password :: string

record MacPrefix =
  MacPrefix_MacPrefix :: string
  MacPrefix_Manufacturer :: string
  MacPrefix_Protocol :: string
  MacPrefix_Port :: "32 word"
  MacPrefix_Type :: string
  MacPrefix_DefaultCredentials :: "Credential list"
  MacPrefix_Console :: MacConsole

record EndpointReconciler =
  ER_MACPrefixes :: "MacPrefix list"
  ER_Insecure :: bool

abbreviation EndpointFinalizer :: string where "EndpointFinalizer \<equiv> ''metal.ironcore.dev/endpoint''"

abbreviation "epName e \<equiv> ObjectMeta_Name (Endpoint_Meta e)"

definition Endpoint_delete :: "'w env \<Rightarrow> Endpoint \<Rightarrow> ('w, Result) M" where
  "Endpoint_delete E endpoint =
     ifUnmodified (PatchEnsureNoFinalizer_Endpoint E endpoint EndpointFinalizer) (\<lambda>_. returnM emptyResult)"

definition empty_BMC :: "string \<Rightarrow> BMC" where
  "empty_BMC n = \<lparr>BMC_Meta = empty_ObjectMeta\<lparr>ObjectMeta_Name := n\<rparr>,
     BMC_Spec = \<lparr>BMCSpec_EndpointRef = None, BMCSpec_Endpoint = None,
       BMCSpec_BMCSecretRef = LocalObjectReference '''', BMCSpec_Protocol = \<lparr>Protocol_Name = '''', Protocol_Port = 0\<rparr>,
       BMCSpec_ConsoleProtocol = None\<rparr>,
     BMC_Status = \<lparr>BMCStatus_MACAddress = '''', BMCStatus_IP = ZeroIP, BMCStatus_Manufacturer = '''',
       BMCStatus_Model = '''', BMCStatus_SKU = '''', BMCStatus_SerialNumber = '''', BMCStatus_FirmwareVersion = '''',
       BMCStatus_State = '''', BMCStatus_PowerState = '''', BMCStatus_Conditions = []\<rparr>\<rparr>"

definition endpointBMC :: "'w env \<Rightarrow> Endpoint \<Rightarrow> BMCSecret \<Rightarrow> MacPrefix \<Rightarrow> BMC \<Rightarrow> BMC res" where
  "endpointBMC E endpoint secret m b =
     (case k_setControllerReference E ''Endpoint'' (Endpoint_Meta endpoint) (BMC_Meta b) of
        Ok om \<Rightarrow> Ok (b\<lparr>BMC_Meta := om,
          BMC_Spec := (BMC_Spec b)\<lparr>BMCSpec_EndpointRef := Some (LocalObjectReference (epName endpoint)),
            BMCSpec_BMCSecretRef := LocalObjectReference (ObjectMeta_Name (BMCSecret_Meta secret)),
            BMCSpec_Protocol := \<lparr>Protocol_Name = MacPrefix_Protocol m, Protocol_Port = MacPrefix_Port m\<rparr>,
            BMCSpec_ConsoleProtocol := Some \<lparr>ConsoleProtocol_Name = MacConsole_Type (MacPrefix_Console m),
              ConsoleProtocol_Port = MacConsole_Port (MacPrefix_Console m)\<rparr>\<rparr>\<rparr>)
      | Err e \<Rightarrow> Err e | Panic p \<Rightarrow> Panic p)"

definition applyBMC :: "'w env \<Rightarrow> Endpoint \<Rightarrow> BMCSecret \<Rightarrow> MacPrefix \<Rightarrow> ('w, unit) M" where
  "applyBMC E endpoint secret m =
     bindM (wrapM ''failed to create or patch BMC''
              (CreateOrPatchBMC E (empty_BMC (epName endpoint)) (endpointBMC E endpoint secret m)))
       (\<lambda>_. returnM ())"

definition empty_BMCSecret :: "string \<Rightarrow> BMCSecret" where
  "empty_BMCSecret n = \<lparr>BMCSecret_Meta = empty_ObjectMeta\<lparr>ObjectMeta_Name := n\<rparr>, BMCSecret_Immutable = None,
     BMCSecret_Data = [], BMCSecret_StringData = [], BMCSecret_Type = ''''\<rparr>"

definition endpointSecret :: "'w env \<Rightarrow> Endpoint \<Rightarrow> MacPrefix \<Rightarrow> BMCSecret \<Rightarrow> BMCSecret res" where
  "endpointSecret E endpoint m b =
     (case MacPrefix_DefaultCredentials m of
        [] \<Rightarrow> Panic ''index out of range''
      | c # _ \<Rightarrow>
          (case k_setControllerReference E ''Endpoint'' (Endpoint_Meta endpoint) (BMCSecret_Meta b) of
             Ok om \<Rightarrow> Ok (b\<lparr>BMCSecret_Meta := om,
               BMCSecret_Data := [(BMCSecretUsernameKeyName, Credential_Username c),
                                  (BMCSecretPasswordKeyName, Credential_Password c)]\<rparr>)
           | Err e \<Rightarrow> Err e | Panic p \<Rightarrow> Panic p))"

definition applyBMCSecret :: "'w env \<Rightarrow> Endpoint \<Rightarrow> MacPrefix \<Rightarrow> ('w, BMCSecret) M" where
  "applyBMCSecret E endpoint m =
     bindM (wrapM ''failed to create or patch BMCSecret''
              (CreateOrPatchBMCSecret E (empty_BMCSecret (epName endpoint)) (endpointSecret E endpoint m)))
       (\<lambda>(opResult, bmcSecret). returnM bmcSecret)"

text \<open>
  One prefix that matches: connect with its default credentials, then apply the secret and the BMC.
  \<^verbatim>\<open>defer\<close> logs the clients out when the whole reconciliation returns, the last one first: the rest of the
  loop runs inside the \<open>deferM\<close>.
\<close>

definition matchesBMC :: "Endpoint \<Rightarrow> MacPrefix \<Rightarrow> bool" where
  "matchesBMC endpoint m \<longleftrightarrow>
     HasPrefix (remove_colons (EndpointSpec_MACAddress (Endpoint_Spec endpoint))) (MacPrefix_MacPrefix m) \<and>
     MacPrefix_Type m = BMCType"

definition endpointOptions :: "EndpointReconciler \<Rightarrow> Endpoint \<Rightarrow> MacPrefix \<Rightarrow> Credential \<Rightarrow> BMCOptions" where
  "endpointOptions r endpoint m c = \<lparr>BMCOptions_Endpoint =
       bmc_endpoint (ER_Insecure r) (IP_String (EndpointSpec_IP (Endpoint_Spec endpoint))) (MacPrefix_Port m),
     BMCOptions_Username = Credential_Username c, BMCOptions_Password = Credential_Password c,
     BMCOptions_BasicAuth = True, BMCOptions_ResourcePollingInterval = 0, BMCOptions_ResourcePollingTimeout = 0,
     BMCOptions_PowerPollingInterval = 0, BMCOptions_PowerPollingTimeout = 0\<rparr>"

definition endpointClient ::
  "'w env \<Rightarrow> EndpointReconciler \<Rightarrow> Endpoint \<Rightarrow> MacPrefix \<Rightarrow> Credential \<Rightarrow> ('w, BMCClient option) M" where
  "endpointClient E r endpoint m c =
     (let opts = endpointOptions r endpoint m c in
      if MacPrefix_Protocol m = ProtocolRedfish
      then bindM (NewRedfishBMCClient E opts) (\<lambda>b. returnM (Some (Redfish b)))
      else if MacPrefix_Protocol m = ProtocolRedfishLocal
      then bindM (NewRedfishLocalBMCClient E opts) (\<lambda>b. returnM (Some b))
      else if MacPrefix_Protocol m = ProtocolRedfishKube
      then bindM (NewRedfishKubeBMCClient E opts DefaultKubeNamespace) (\<lambda>b. returnM (Some b))
      else returnM None)"

fun reconcilePrefixes :: "'w env \<Rightarrow> EndpointReconciler \<Rightarrow> Endpoint \<Rightarrow> MacPrefix list \<Rightarrow> ('w, unit) M" where
  "reconcilePrefixes E r endpoint [] = returnM ()"
| "reconcilePrefixes E r endpoint (m # ms) =
     (if \<not> matchesBMC endpoint m then reconcilePrefixes E r endpoint ms
      else case MacPrefix_DefaultCredentials m of
        [] \<Rightarrow> errM (OtherError (''no default credentials present for BMC '' @
                EndpointSpec_MACAddress (Endpoint_Spec endpoint)))
      | c # _ \<Rightarrow>
          bindM (wrapM ''failed to create BMC client'' (endpointClient E r endpoint m c)) (\<lambda>client.
            case client of
              None \<Rightarrow> reconcilePrefixes E r endpoint ms
            | Some bmcClient \<Rightarrow>
                deferM (BMC_Logout E bmcClient)
                  (bindM (wrapM ''failed to apply BMCSecret'' (applyBMCSecret E endpoint m)) (\<lambda>bmcSecret.
                   bindM (wrapM ''failed to apply BMC object'' (applyBMC E endpoint bmcSecret m)) (\<lambda>_.
                     reconcilePrefixes E r endpoint ms)))))"

definition Endpoint_reconcile :: "'w env \<Rightarrow> EndpointReconciler \<Rightarrow> Endpoint \<Rightarrow> ('w, Result) M" where
  "Endpoint_reconcile E r endpoint =
     (if shouldIgnoreReconciliation (Endpoint_Meta endpoint) then returnM emptyResult
      else bindM (reconcilePrefixes E r endpoint (ER_MACPrefixes r)) (\<lambda>_. returnM emptyResult))"

definition Endpoint_Reconcile :: "'w env \<Rightarrow> EndpointReconciler \<Rightarrow> string \<Rightarrow> ('w, Result) M" where
  "Endpoint_Reconcile E r name = reconcileObject (GetEndpoint E name) (\<lambda>endpoint.
     if ObjectMeta_DeletionTimestamp (Endpoint_Meta endpoint) \<noteq> None then Endpoint_delete E endpoint
     else Endpoint_reconcile E r endpoint)"

section \<open>serverbootconfiguration\_controller.go and bmcsecret\_controller.go\<close>

definition SBC_patchState ::
  "'w env \<Rightarrow> ServerBootConfiguration \<Rightarrow> string \<Rightarrow> ('w, bool \<times> ServerBootConfiguration) M" where
  "SBC_patchState E config state =
     (if SBC_State config = state then returnM (False, config)
      else bindM (PatchSBCStatus E config (config\<lparr>SBC_State := state\<rparr>)) (\<lambda>config. returnM (True, config)))"

definition SBC_reconcile :: "'w env \<Rightarrow> ServerBootConfiguration \<Rightarrow> ('w, Result) M" where
  "SBC_reconcile E config =
     ifUnmodified (if SBC_State config = ''''
                   then SBC_patchState E config ServerBootConfigurationStatePending
                   else returnM (False, config)) (\<lambda>_. returnM emptyResult)"

definition SBC_delete :: "ServerBootConfiguration \<Rightarrow> ('w, Result) M" where
  "SBC_delete config = returnM emptyResult"

definition SBC_reconcileExists :: "'w env \<Rightarrow> ServerBootConfiguration \<Rightarrow> ('w, Result) M" where
  "SBC_reconcileExists E config =
     (if ObjectMeta_DeletionTimestamp (SBC_Meta config) \<noteq> None then SBC_delete config else SBC_reconcile E config)"

definition SBC_Reconcile :: "'w env \<Rightarrow> string \<Rightarrow> string \<Rightarrow> ('w, Result) M" where
  "SBC_Reconcile E ns name = reconcileObject (GetSBC E ns name) (SBC_reconcileExists E)"

definition BMCSecret_Reconcile :: "'w env \<Rightarrow> string \<Rightarrow> ('w, Result) M" where
  "BMCSecret_Reconcile E name = returnM emptyResult"

section \<open>Servers found on a BMC\<close>

lemma discoveredServer_spec:
  assumes "discoveredServer E b s server = Ok server'"
  shows "srvSystemUUID server' = ToLower (BMCServer_UUID s)"
    and "srvBMCRef server' = Some (LocalObjectReference (bmcName b))"
    and "srvClaimRef server' = srvClaimRef server" and "srvPower server' = srvPower server"
    and "Server_Status server' = Server_Status server"
  using assms by (auto simp: discoveredServer_def Let_def split: res.splits)

lemma find_system_unique:
  assumes "s \<in> set ss" and "\<And>s'. s' \<in> set ss \<Longrightarrow> ToLower (CS_UUID s') = ToLower (CS_UUID s) \<Longrightarrow> s' = s"
  shows "find_system (ToLower (CS_UUID s)) ss = Some s"
  using assms
proof (cases "find_system (ToLower (CS_UUID s)) ss")
  case None
  then show ?thesis using assms(1) by (auto simp: find_system_None)
next
  case (Some s')
  with assms(2) [of s'] show ?thesis by (auto dest: find_system_Some)
qed

text \<open>The servers created for one BMC have distinct names, in the order of its systems.\<close>

fun created_server :: "event \<Rightarrow> string option" where
  "created_server (EKube (CreatedOrPatchedServer n _)) = Some n"
| "created_server _ = None"

lemma created_server_other: "is_read e \<Longrightarrow> created_server e = None" "is_session e \<Longrightarrow> created_server e = None"
  by (cases e rule: created_server.cases; simp)+

lemma map_filter_none: "\<forall>x\<in>set xs. f x = None \<Longrightarrow> List.map_filter f xs = []"
  by (induction xs) (auto simp: List.map_filter_def)

lemma map_filter_append: "List.map_filter f (xs @ ys) = List.map_filter f xs @ List.map_filter f ys"
  by (simp add: List.map_filter_def)

lemma created_by_loop:
  "sat (foldM (\<lambda>_ (i, s). bindM (wrapM m (CreateOrPatchServer E (named_Server (GetServerNameFromBMCandIndex i b)) (f s)))
       (\<lambda>_. returnM ())) () (enumerate k xs))
     (\<lambda>res es. \<exists>n\<le>length xs. List.map_filter created_server es =
        map (\<lambda>i. GetServerNameFromBMCandIndex i b) [k..<k + n] \<and> (res = Ok () \<longrightarrow> n = length xs))"
proof (induction xs arbitrary: k)
  case (Cons x xs)
  have one: "sat (wrapM m (CreateOrPatchServer E (named_Server n) (f x)))
      (\<lambda>res es. List.map_filter created_server es = [n])" for n
    unfolding CreateOrPatchServer_def
    by (intro sat_wrap sat_call_any) (auto split: res.split simp: List.map_filter_def named_Server_def)
  let ?name = "\<lambda>i. GetServerNameFromBMCandIndex i b"
  let ?loop = "foldM (\<lambda>_ (i, s). bindM (wrapM m (CreateOrPatchServer E (named_Server (?name i)) (f s)))
       (\<lambda>_. returnM ())) () (enumerate (Suc k) xs)"
  have shift: "map ?name [k..<k + Suc n] = ?name k # map ?name [Suc k..<Suc k + n]" for n
    by (simp add: upt_rec)
  have rest: "sat ?loop (\<lambda>res es'. \<exists>n\<le>Suc (length xs). ?name k # List.map_filter created_server es' =
        map ?name [k..<k + n] \<and> (res = Ok () \<longrightarrow> n = Suc (length xs)))"
  proof (rule sat_mono [OF Cons.IH [of "Suc k"]])
    fix res es'
    assume "\<exists>n\<le>length xs. List.map_filter created_server es' = map ?name [Suc k..<Suc k + n] \<and>
        (res = Ok () \<longrightarrow> n = length xs)"
    then show "\<exists>n\<le>Suc (length xs). ?name k # List.map_filter created_server es' = map ?name [k..<k + n] \<and>
        (res = Ok () \<longrightarrow> n = Suc (length xs))"
      by (metis shift Suc_le_mono)
  qed
  show ?case
    by (simp, intro sat_bind, rule sat_mono [OF one])
      (auto split: res.split simp: map_filter_append intro!: sat_mono [OF rest] exI [of _ 1])
qed simp


lemma discoverServers_names:
  "sat (discoverServers E r b) (\<lambda>_ es. \<exists>n. List.map_filter created_server es =
     map (\<lambda>i. GetServerNameFromBMCandIndex i b) [0..<n])"
proof -
  have nil: "\<exists>n. [] = map (\<lambda>i. GetServerNameFromBMCandIndex i b) [0..<n]"
    by (rule exI [of _ 0]) simp
  have none: "emits (\<lambda>e. created_server e = None) (\<lambda>_. True) m \<Longrightarrow>
      sat m (\<lambda>_ es. List.map_filter created_server es = [])" for m :: "('a, 'x) M"
    unfolding emits_def by (erule sat_mono) (simp add: map_filter_none)
  have client: "sat (GetBMCClientFromBMC E b i o1) (\<lambda>_ es. List.map_filter created_server es = [])" for i o1
    by (rule none) (intro emits_intros; simp add: created_server_other)
  have systems: "sat (RedfishBMC_GetSystems E c) (\<lambda>_ es. List.map_filter created_server es = [])" for c
    by (rule none) (intro emits_intros; simp add: created_server_other)
  have loop: "sat (foldM (\<lambda>_ (i, s). bindM (wrapM m (CreateOrPatchServer E (named_Server (GetServerNameFromBMCandIndex i b)) (f s)))
       (\<lambda>_. returnM ())) () (enumerate 0 xs))
     (\<lambda>_ es. \<exists>n. List.map_filter created_server es = map (\<lambda>i. GetServerNameFromBMCandIndex i b) [0..<n])" for m f xs
    by (rule sat_mono [OF created_by_loop]) auto
  show ?thesis
    unfolding discoverServers_def RedfishBMC_Logout_def gofish_Logout_def
    by (intro sat_bind sat_wrap, rule sat_mono [OF client])
      (auto split: res.split simp: map_filter_append nil
        intro!: sat_defer sat_bind sat_wrap sat_mono [OF systems] sat_mono [OF loop] sat_call_any,
        auto simp: List.map_filter_def intro: nil)
qed

lemma discoverServers_distinct: "sat (discoverServers E r b) (\<lambda>_ es. distinct (List.map_filter created_server es))"
  by (rule sat_mono [OF discoverServers_names]) (auto simp: distinct_map inj_on_def dest: GetServerName_inject)

section \<open>Endpoints\<close>

text \<open>The secret holds the credentials the client was connected with.\<close>

lemma endpointSecret_credentials:
  "endpointSecret E endpoint m b = Ok secret \<Longrightarrow> MacPrefix_DefaultCredentials m = c # cs \<Longrightarrow>
     GetBMCCredentialsFromSecret secret = Ok (Credential_Username c, Credential_Password c)"
  by (auto simp: endpointSecret_def GetBMCCredentialsFromSecret_def split: res.splits)

lemma endpointBMC_spec:
  assumes "endpointBMC E endpoint secret m b = Ok b'"
  shows "BMCSpec_EndpointRef (BMC_Spec b') = Some (LocalObjectReference (epName endpoint))"
    and "Protocol_Name (BMCSpec_Protocol (BMC_Spec b')) = MacPrefix_Protocol m"
    and "Protocol_Port (BMCSpec_Protocol (BMC_Spec b')) = MacPrefix_Port m"
    and "LocalObjectReference_Name (BMCSpec_BMCSecretRef (BMC_Spec b')) = ObjectMeta_Name (BMCSecret_Meta secret)"
  using assms by (auto simp: endpointBMC_def split: res.splits)

lemma reconcilePrefixes_no_match:
  "\<forall>m\<in>set ms. \<not> matchesBMC endpoint m \<Longrightarrow> reconcilePrefixes E r endpoint ms = returnM ()"
  by (induction ms) simp_all

fun is_bmc_created :: "event \<Rightarrow> bool" where
  "is_bmc_created (EKube (CreatedOrPatchedBMC _ _)) = True"
| "is_bmc_created _ = False"

fun is_connected :: "event \<Rightarrow> bool" where
  "is_connected (EBmc (Connected _ (Ok _))) = True"
| "is_connected _ = False"

fun is_secret_created :: "event \<Rightarrow> bool" where
  "is_secret_created (EKube (CreatedOrPatchedBMCSecret _ (Ok _))) = True"
| "is_secret_created _ = False"

lemma not_bmc_created: "is_session e \<Longrightarrow> \<not> is_bmc_created e"
  by (cases e rule: is_bmc_created.cases) simp_all

lemma emits_endpointClient:
  assumes "\<And>e. is_session e \<Longrightarrow> P e"
  shows "emits P (\<lambda>_. True) (endpointClient E r ep m c)"
  unfolding endpointClient_def Let_def by (intro emits_intros; simp add: assms)

lemma achieves_connected: "achieves is_connected (NewRedfishBMCClient E opts)"
  unfolding NewRedfishBMCClient_def ConnectContext_def
  by (intro achieves_first achieves_wrap achieves_call) simp

text \<open>
  A BMC is created only after its BMC has accepted the credentials, and after the secret that holds
  them.
\<close>

lemma bmc_after_connect:
  "sat (reconcilePrefixes E r ep ms) (\<lambda>_ es. guarded is_connected is_bmc_created es)"
proof (induction ms)
  case (Cons m ms)
  have client: "sat (wrapM msg (endpointClient E r ep m c)) (\<lambda>res es. (\<forall>e\<in>set es. \<not> is_bmc_created e) \<and>
      (\<forall>x. res = Ok x \<longrightarrow> x \<noteq> None \<longrightarrow> (\<exists>e\<in>set es. is_connected e)))" for msg c
  proof -
    have 1: "emits (\<lambda>e. \<not> is_bmc_created e) (\<lambda>_. True) (endpointClient E r ep m c)"
      by (rule emits_endpointClient) (rule not_bmc_created)
    have 2: "sat (endpointClient E r ep m c) (\<lambda>res es. \<forall>x. res = Ok x \<longrightarrow> x \<noteq> None \<longrightarrow> (\<exists>e\<in>set es. is_connected e))"
      unfolding endpointClient_def Let_def NewRedfishLocalBMCClient_def NewRedfishKubeBMCClient_def
      by (auto intro!: sat_bind sat_mono [OF achieves_connected [unfolded achieves_def]] split: res.split simp: is_ok_iff)
    show ?thesis
      by (rule sat_wrap, rule sat_mono [OF sat_conj [OF 1 [unfolded emits_def] 2]]) (auto split: res.split)
  qed
  have run: "sat (bindM (wrapM msg (endpointClient E r ep m c)) k) (\<lambda>_ es. guarded is_connected is_bmc_created es)"
    if "k None = reconcilePrefixes E r ep ms" for msg c and k :: "BMCClient option \<Rightarrow> ('a, unit) M"
  proof (rule sat_bind, rule sat_mono [OF client [of msg c]])
    fix res :: "BMCClient option res" and es
    assume *: "(\<forall>e\<in>set es. \<not> is_bmc_created e) \<and> (\<forall>x. res = Ok x \<longrightarrow> x \<noteq> None \<longrightarrow> (\<exists>e\<in>set es. is_connected e))"
    then have "sat (k x) (\<lambda>_ es'. guarded is_connected is_bmc_created (es @ es'))" if "res = Ok x" for x
      using that Cons.IH \<open>k None = _\<close>
      by (cases x) (auto simp: guarded_append guarded_none elim!: sat_mono, auto simp: sat_def guarded_append guarded_none)
    with * show "case res of Ok a \<Rightarrow> sat (k a) (\<lambda>r' es'. guarded is_connected is_bmc_created (es @ es'))
      | Err e \<Rightarrow> guarded is_connected is_bmc_created es | Panic s \<Rightarrow> guarded is_connected is_bmc_created es"
      by (auto split: res.split intro: guarded_none)
  qed
  show ?case
    using Cons.IH by (auto split: list.split intro!: run)
qed simp


section \<open>Sessions\<close>

lemma balanced_updateBMCStatusDetails: "sat (updateBMCStatusDetails E r b) (\<lambda>_ es. balanced es)"
  unfolding updateBMCStatusDetails_def bmcAddresses_def
  by (intro balanced.inv_rules balanced_bracket connects_GetBMCClientFromBMC;
      (rule balanced_quiet [where R = "\<lambda>_. True"])?; (intro emits_intros)?; simp add: no_session_other)

lemma balanced_discoverServers: "sat (discoverServers E r b) (\<lambda>_ es. balanced es)"
  unfolding discoverServers_def
  by (intro balanced_bracket connects_GetBMCClientFromBMC balanced_quiet [where R = "\<lambda>_. True"] emits_intros;
      simp add: no_session_other)

lemma balanced_BMC_Reconcile: "sat (BMC_Reconcile E r n) (\<lambda>_ es. balanced es)"
proof -
  have other: "sat (GetBMC E n) (\<lambda>_ es. balanced es)" "sat (BMC_delete E b) (\<lambda>_ es. balanced es)" for n b
    unfolding BMC_delete_def
    by (rule balanced_quiet [where R = "\<lambda>_. True"], intro emits_intros; simp add: no_session_other)+
  show ?thesis
    unfolding BMC_Reconcile_def reconcileObject_def BMC_reconcile_def
    by (intro balanced.inv_rules other balanced_updateBMCStatusDetails balanced_discoverServers)
qed

lemma connects_endpointClient:
  "sat (endpointClient E r ep m c) (\<lambda>res es. closed es = [] \<and>
     opened es = (case res of Ok (Some c) \<Rightarrow> [RedfishBMC_client (base_client c)] | _ \<Rightarrow> []))"
  unfolding endpointClient_def Let_def NewRedfishLocalBMCClient_def NewRedfishKubeBMCClient_def
  by (auto intro!: sat_bind sat_mono [OF sat_NewRedfishBMCClient] split: res.split)

lemma balanced_reconcilePrefixes: "sat (reconcilePrefixes E r ep ms) (\<lambda>_ es. balanced es)"
proof (induction ms)
  case (Cons m ms)
  have apply_m: "sat (applyBMCSecret E ep m) (\<lambda>_ es. balanced es)" "sat (applyBMC E ep s m) (\<lambda>_ es. balanced es)" for s
    unfolding applyBMCSecret_def applyBMC_def
    by (rule balanced_quiet [where R = "\<lambda>_. True"], intro emits_intros; simp)+
  have body: "sat (bindM (wrapM m1 (applyBMCSecret E ep m)) (\<lambda>s. bindM (wrapM m2 (applyBMC E ep s m)) (\<lambda>_.
      reconcilePrefixes E r ep ms))) (\<lambda>_ es. balanced es)" for m1 m2
    by (intro balanced.inv_rules apply_m Cons.IH)
  show ?case
    using Cons.IH
    by (auto split: list.split intro!: sat_bind sat_wrap sat_mono [OF connects_endpointClient] balanced.nil)
      (auto split: res.split option.split simp: balanced_def intro!: sat_mono [OF balanced_logout [OF body]]
        elim!: sat_mono)
qed (simp add: balanced.nil)

end
