(* ===== verification/Claim_Controller.thy ===== *)
theory Claim_Controller
  imports Server_Controller
begin

text \<open>
  The claim controller (\<^verbatim>\<open>internal/controller/serverclaim_controller.go\<close>): how a claim finds a server,
  binds it, gives it a boot configuration and releases it again. The three ways to choose a server
  share one contract, the locale \<open>server_chooser\<close>, which is interpreted on each of them.
\<close>

section \<open>Definitions\<close>

abbreviation ServerClaimFinalizer :: string where "ServerClaimFinalizer \<equiv> ''metal.ironcore.dev/serverclaim''"

abbreviation "clmName c \<equiv> ObjectMeta_Name (ServerClaim_Meta c)"
abbreviation "clmNamespace c \<equiv> ObjectMeta_Namespace (ServerClaim_Meta c)"
abbreviation "clmUID c \<equiv> ObjectMeta_UID (ServerClaim_Meta c)"
abbreviation "clmServerRef c \<equiv> ServerClaimSpec_ServerRef (ServerClaim_Spec c)"

definition claimObjectRef :: "ServerClaim \<Rightarrow> ObjectReference" where
  "claimObjectRef claim = \<lparr>ObjectReference_APIVersion = ''metal.ironcore.dev/v1alpha1'',
     ObjectReference_Kind = ''ServerClaim'', ObjectReference_Namespace = clmNamespace claim,
     ObjectReference_Name = clmName claim, ObjectReference_UID = clmUID claim\<rparr>"

definition ensureObjectRefForServer :: "'w env \<Rightarrow> ServerClaim \<Rightarrow> Server \<Rightarrow> ('w, bool \<times> Server) M" where
  "ensureObjectRefForServer E claim server =
     (if srvClaimRef server \<noteq> None then returnM (False, server)
      else bindM (wrapM ''failed to patch claim ref for server''
                    (PatchServer E server (set_ServerClaimRef (Some (claimObjectRef claim)) server)))
             (\<lambda>server. returnM (True, server)))"

definition ensurePowerStateForServer :: "'w env \<Rightarrow> ServerClaim \<Rightarrow> Server \<Rightarrow> ('w, bool \<times> Server) M" where
  "ensurePowerStateForServer E claim server =
     (if srvPower server = ServerClaimSpec_Power (ServerClaim_Spec claim) then returnM (False, server)
      else bindM (if srvClaimRef server \<noteq> None
                  then wrapM ''failed to patch power for server''
                         (PatchServer E server (set_Power (ServerClaimSpec_Power (ServerClaim_Spec claim)) server))
                  else returnM server)
             (\<lambda>server. returnM (True, server)))"

definition patchServerClaimPhase :: "'w env \<Rightarrow> ServerClaim \<Rightarrow> string \<Rightarrow> ('w, bool \<times> ServerClaim) M" where
  "patchServerClaimPhase E claim phase =
     (if ServerClaim_Phase claim = phase then returnM (False, claim)
      else bindM (wrapM ''failed to patch server claim phase''
                    (PatchClaimStatus E claim (claim\<lparr>ServerClaim_Phase := phase\<rparr>)))
             (\<lambda>claim. returnM (True, claim)))"

definition patchServerRef :: "'w env \<Rightarrow> ServerClaim \<Rightarrow> Server \<Rightarrow> ('w, bool \<times> ServerClaim) M" where
  "patchServerRef E claim server =
     (case clmServerRef claim of
        None \<Rightarrow>
          bindM (PatchClaim E claim (claim\<lparr>ServerClaim_Spec :=
                   (ServerClaim_Spec claim)\<lparr>ServerClaimSpec_ServerRef :=
                     Some (LocalObjectReference (srvName server))\<rparr>\<rparr>))
            (\<lambda>claim. returnM (True, claim))
      | Some ref \<Rightarrow>
          if LocalObjectReference_Name ref = srvName server then returnM (False, claim)
          else errM (OtherError ''failed to patch server ref for claim: server reference is immutable''))"

text \<open>
  The mutation of the claim's boot configuration. \<^verbatim>\<open>*claim.Spec.ServerRef\<close> panics on nil.
\<close>

definition claimBootConfig ::
  "'w env \<Rightarrow> ServerClaim \<Rightarrow> ServerBootConfiguration \<Rightarrow> ServerBootConfiguration res" where
  "claimBootConfig E claim c =
     (case clmServerRef claim of
        None \<Rightarrow> Panic ''nil pointer dereference''
      | Some ref \<Rightarrow>
          (case k_setControllerReference E ''ServerClaim'' (ServerClaim_Meta claim) (SBC_Meta c) of
             Ok om \<Rightarrow> Ok (c\<lparr>SBC_Meta := om,
               SBC_Spec := \<lparr>SBCSpec_ServerRef = ref,
                 SBCSpec_Image = ServerClaimSpec_Image (ServerClaim_Spec claim),
                 SBCSpec_IgnitionSecretRef = ServerClaimSpec_IgnitionSecretRef (ServerClaim_Spec claim)\<rparr>\<rparr>)
           | Err e \<Rightarrow> Err e | Panic s \<Rightarrow> Panic s))"

definition applyBootConfiguration :: "'w env \<Rightarrow> Server \<Rightarrow> ServerClaim \<Rightarrow> ('w, Server) M" where
  "applyBootConfiguration E server claim =
     bindM (wrapM ''failed to create or patch ServerBootConfiguration''
              (CreateOrPatchSBC E (empty_SBC (clmNamespace claim) (clmName claim)) (claimBootConfig E claim)))
       (\<lambda>(opResult, config).
          PatchServer E server (set_BootConfigurationRef (Some (bootConfigRef config)) server))"

definition removeClaimRefFromServer :: "'w env \<Rightarrow> Server \<Rightarrow> ('w, Server) M" where
  "removeClaimRefFromServer E server = PatchServer E server (set_ServerClaimRef None server)"

definition removeBootConfigRefFromServerAndPowerOff ::
  "'w env \<Rightarrow> ServerBootConfiguration \<Rightarrow> Server \<Rightarrow> ('w, unit) M" where
  "removeBootConfigRefFromServerAndPowerOff E config server =
     (if (case srvBootConfigurationRef server of
            None \<Rightarrow> True
          | Some ref \<Rightarrow> ObjectReference_Name ref \<noteq> ObjectMeta_Name (SBC_Meta config) \<and>
                        ObjectReference_Namespace ref \<noteq> ObjectMeta_Namespace (SBC_Meta config))
      then returnM ()
      else catchM (bindM (PatchServer E server (set_Power PowerOff (set_BootConfigurationRef None server)))
                     (\<lambda>_. returnM ()))
             (\<lambda>err. if IsNotFound err then returnM () else errM err))"

subsection \<open>Choosing a server\<close>

definition claimServerByReference :: "'w env \<Rightarrow> ServerClaim \<Rightarrow> ('w, Server option) M" where
  "claimServerByReference E claim =
     (case clmServerRef claim of
        None \<Rightarrow> panicM ''nil pointer dereference''
      | Some ref \<Rightarrow>
          bindM (GetServer E (LocalObjectReference_Name ref)) (\<lambda>server.
            if (case srvClaimRef server of
                  None \<Rightarrow> False | Some claimRef \<Rightarrow> ObjectReference_UID claimRef \<noteq> clmUID claim)
            then returnM None
            else if srvState server \<noteq> ServerStateAvailable \<and> srvState server \<noteq> ServerStateReserved
            then returnM None
            else if srvPowerState server \<noteq> ServerOffPowerState then returnM None
            else case ServerClaimSpec_ServerSelector (ServerClaim_Spec claim) of
              None \<Rightarrow> returnM (Some server)
            | Some sel \<Rightarrow>
                bindM (liftM (k_labelSelectorAsSelector E sel)) (\<lambda>selector.
                  if \<not> selector (ObjectMeta_Labels (Server_Meta server)) then returnM None
                  else returnM (Some server))))"

text \<open>The loop of \<^verbatim>\<open>claimServerBySelector\<close>: the first server that is free, claimable and powered off.\<close>

definition selectable :: "ServerClaim \<Rightarrow> Server \<Rightarrow> bool" where
  "selectable claim server \<longleftrightarrow>
     \<not> (case srvClaimRef server of
          None \<Rightarrow> False | Some claimRef \<Rightarrow> ObjectReference_UID claimRef \<noteq> clmUID claim) \<and>
     \<not> (srvState server \<noteq> ServerStateAvailable \<and> srvState server \<noteq> ServerStateReserved) \<and>
     \<not> srvPowerState server \<noteq> ServerOffPowerState"

definition claimServerBySelector :: "'w env \<Rightarrow> ServerClaim \<Rightarrow> ('w, Server option) M" where
  "claimServerBySelector E claim =
     (case ServerClaimSpec_ServerSelector (ServerClaim_Spec claim) of
        None \<Rightarrow> panicM ''nil pointer dereference''
      | Some sel \<Rightarrow>
          bindM (liftM (k_labelSelectorAsSelector E sel)) (\<lambda>selector.
          bindM (ListServers E (Some selector)) (\<lambda>servers.
            returnM (List.find (selectable claim) servers))))"

definition checkForPrevUsedServer :: "Server list \<Rightarrow> ServerClaim \<Rightarrow> Server option" where
  "checkForPrevUsedServer servers claim =
     List.find (\<lambda>server. case srvClaimRef server of
         None \<Rightarrow> False
       | Some ref \<Rightarrow> ObjectReference_UID ref = clmUID claim \<and> ObjectReference_Name ref = clmName claim \<and>
                     ObjectReference_Namespace ref = clmNamespace claim) servers"

definition claimFirstBestServer :: "'w env \<Rightarrow> ServerClaim \<Rightarrow> ('w, Server option) M" where
  "claimFirstBestServer E claim =
     bindM (ListServers E None) (\<lambda>servers.
       case checkForPrevUsedServer servers claim of
         Some server \<Rightarrow> returnM (Some server)
       | None \<Rightarrow> returnM (List.find (\<lambda>server. srvClaimRef server = None \<and>
                                       srvState server = ServerStateAvailable) servers))"

definition claimChosen ::
  "'w env \<Rightarrow> ServerClaim \<Rightarrow> ('w, Server option) M \<Rightarrow> ('w, bool \<times> Server option) M" where
  "claimChosen E claim chosen =
     bindM chosen (\<lambda>x. case x of
         None \<Rightarrow> returnM (False, None)
       | Some server \<Rightarrow>
           bindM (ensureObjectRefForServer E claim server) (\<lambda>(modified, server).
             returnM (modified, Some server)))"

definition claimServer :: "'w env \<Rightarrow> ServerClaim \<Rightarrow> ('w, bool \<times> Server option) M" where
  "claimServer E claim =
     (if clmServerRef claim \<noteq> None then claimChosen E claim (claimServerByReference E claim)
      else if ServerClaimSpec_ServerSelector (ServerClaim_Spec claim) \<noteq> None
      then claimChosen E claim (claimServerBySelector E claim)
      else claimChosen E claim (claimFirstBestServer E claim))"

subsection \<open>Reconcile\<close>

definition empty_Server :: Server where
  "empty_Server = named_Server ''''"

text \<open>The server of a claim that is deleted; one that is gone counts as an empty object.\<close>

definition getServerOrEmpty :: "'w env \<Rightarrow> string \<Rightarrow> ('w, Server) M" where
  "getServerOrEmpty E name = catchM (GetServer E name)
     (\<lambda>err. if IsNotFound err then returnM empty_Server else errM (WrapError ''failed to get server'' err))"

definition cleanupAndShutdownServer :: "'w env \<Rightarrow> ServerClaim \<Rightarrow> ('w, unit) M" where
  "cleanupAndShutdownServer E claim =
     (case clmServerRef claim of
        None \<Rightarrow> returnM ()
      | Some ref \<Rightarrow>
          bindM (getServerOrEmpty E (LocalObjectReference_Name ref)) (\<lambda>server.
          bindM (if srvClaimRef server \<noteq> None
                 then wrapM ''failed to remove claim ref from server'' (removeClaimRefFromServer E server)
                 else returnM server) (\<lambda>server.
          bindM (catchM (DeleteSBC E (clmNamespace claim) (clmName claim))
                   (\<lambda>err. if IsNotFound err then returnM ()
                          else errM (WrapError ''failed to delete serverbootconfig'' err))) (\<lambda>_.
            wrapM ''failed to remove boot config ref from server''
              (removeBootConfigRefFromServerAndPowerOff E (empty_SBC (clmNamespace claim) (clmName claim)) server)))))"

definition Claim_delete :: "'w env \<Rightarrow> ServerClaim \<Rightarrow> ('w, Result) M" where
  "Claim_delete E claim =
     (if ServerClaimFinalizer \<notin> set (ObjectMeta_Finalizers (ServerClaim_Meta claim)) then returnM emptyResult
      else bindM (cleanupAndShutdownServer E claim) (\<lambda>_.
           catchM (bindM (PatchEnsureNoFinalizer_Claim E claim ServerClaimFinalizer) (\<lambda>_. returnM emptyResult))
             (\<lambda>err. if IsNotFound err then returnM emptyResult else errM err)))"

definition Claim_reconcile :: "'w env \<Rightarrow> ServerClaim \<Rightarrow> ('w, Result) M" where
  "Claim_reconcile E claim =
     (if shouldIgnoreReconciliation (ServerClaim_Meta claim) then returnM emptyResult
      else
        ifUnmodified (if ServerClaim_Phase claim = '''' then patchServerClaimPhase E claim PhaseUnbound
                      else returnM (False, claim)) (\<lambda>claim.
        ifUnmodified (PatchEnsureFinalizer_Claim E claim ServerClaimFinalizer) (\<lambda>claim.
        bindM (claimServer E claim) (\<lambda>(modified, found).
          if modified then returnM \<lparr>Result_Requeue = True, Result_RequeueAfter = 0\<rparr>
          else case found of
            None \<Rightarrow> returnM emptyResult
          | Some server \<Rightarrow>
              ifUnmodified (patchServerRef E claim server) (\<lambda>claim.
              bindM (wrapM ''failed to apply boot configuration'' (applyBootConfiguration E server claim)) (\<lambda>server.
              ifUnmodified (patchServerClaimPhase E claim PhaseBound) (\<lambda>claim.
              ifUnmodified (ensurePowerStateForServer E claim server) (\<lambda>_.
                returnM emptyResult))))))))"

definition Claim_reconcileExists :: "'w env \<Rightarrow> ServerClaim \<Rightarrow> ('w, Result) M" where
  "Claim_reconcileExists E claim =
     (if ObjectMeta_DeletionTimestamp (ServerClaim_Meta claim) \<noteq> None then Claim_delete E claim
      else Claim_reconcile E claim)"

definition Claim_Reconcile :: "'w env \<Rightarrow> string \<Rightarrow> string \<Rightarrow> ('w, Result) M" where
  "Claim_Reconcile E ns name = reconcileObject (GetClaim E ns name) (Claim_reconcileExists E)"

text \<open>The watch on servers: the requests a change of \<open>host\<close> enqueues.\<close>

fun enqueueServerClaimByRefs_loop :: "Server \<Rightarrow> ServerClaim list \<Rightarrow> (string \<times> string) list" where
  "enqueueServerClaimByRefs_loop host [] = []"
| "enqueueServerClaimByRefs_loop host (claim # claims) =
     (case clmServerRef claim of
        Some ref \<Rightarrow> if LocalObjectReference_Name ref = srvName host then [(clmNamespace claim, clmName claim)]
                    else enqueueServerClaimByRefs_loop host claims
      | None \<Rightarrow> [(clmNamespace claim, clmName claim)])"

definition enqueueServerClaimByRefs :: "'w env \<Rightarrow> Server \<Rightarrow> ('w, (string \<times> string) list) M" where
  "enqueueServerClaimByRefs E host =
     catchM (bindM (ListClaims E) (\<lambda>claims. returnM (enqueueServerClaimByRefs_loop host claims)))
       (\<lambda>_. returnM [])"

section \<open>The contract of choosing\<close>

text \<open>
  A server that may be given to a claim: one that carries this claim's reference already, by its UID,
  or one that carries none and is available or reserved.
\<close>

definition owned_by :: "ServerClaim \<Rightarrow> Server \<Rightarrow> bool" where
  "owned_by claim s \<longleftrightarrow> (\<exists>ref. srvClaimRef s = Some ref \<and> ObjectReference_UID ref = clmUID claim)"

definition free_for :: "ServerClaim \<Rightarrow> Server \<Rightarrow> bool" where
  "free_for claim s \<longleftrightarrow> owned_by claim s \<or>
     srvClaimRef s = None \<and> (srvState s = ServerStateAvailable \<or> srvState s = ServerStateReserved)"

text \<open>
  What a reconciliation of a claim may do to servers: take a free one for itself, or change one it
  owns without touching the reference.
\<close>

fun respects_claims :: "ServerClaim \<Rightarrow> event \<Rightarrow> bool" where
  "respects_claims claim (EKube (PatchedServer base new _)) \<longleftrightarrow>
     free_for claim base \<and>
     (srvClaimRef base = None \<and> new = set_ServerClaimRef (Some (claimObjectRef claim)) base \<or>
      owned_by claim base \<and> srvClaimRef new = srvClaimRef base)"
| "respects_claims _ _ = True"

lemma respects_claims_read: "is_read e \<Longrightarrow> respects_claims claim e"
  by (cases "(claim, e)" rule: respects_claims.cases) simp_all

locale server_chooser =
  fixes pick :: "ServerClaim \<Rightarrow> ('w, Server option) M"
  assumes pick_free: "emits is_read (\<lambda>x. \<forall>s. x = Some s \<longrightarrow> free_for claim s) (pick claim)"
begin

text \<open>Binding the server chosen: what is left unmodified is a server that is owned already.\<close>

lemma binds_only_free:
  "emits (respects_claims claim) (\<lambda>x. \<not> fst x \<longrightarrow> (\<forall>s. snd x = Some s \<longrightarrow> owned_by claim s))
     (claimChosen E claim (pick claim))"
proof -
  have bind: "emits (respects_claims claim) (\<lambda>x. \<not> fst x \<longrightarrow> owned_by claim (snd x))
      (ensureObjectRefForServer E claim s)" if "free_for claim s" for s
    unfolding ensureObjectRefForServer_def
    by (intro emits_if emits_then emits_intros) (use that in \<open>auto simp: free_for_def owned_by_def\<close>)
  have choice: "emits (respects_claims claim) (\<lambda>x. \<forall>s. x = Some s \<longrightarrow> free_for claim s) (pick claim)"
    by (rule emits_mono [OF pick_free]) (simp_all add: respects_claims_read)
  show ?thesis
    unfolding claimChosen_def
    by (rule emits_bind [OF choice]) (auto intro!: emits_case_option emits_bind [OF bind] emits_return split: prod.split)
qed

end

lemma find_Some_prop: "List.find P xs = Some x \<Longrightarrow> P x"
  by (auto simp: find_Some_iff)

interpretation by_reference: server_chooser "claimServerByReference E" for E :: "'w env"
  by unfold_locales
    (auto simp: claimServerByReference_def free_for_def owned_by_def
      intro!: emits_intros split: option.splits if_splits)

interpretation by_selector: server_chooser "claimServerBySelector E" for E :: "'w env"
  by unfold_locales
    (auto simp: claimServerBySelector_def free_for_def owned_by_def selectable_def
      intro!: emits_intros dest!: find_Some_prop split: option.splits)

interpretation first_best: server_chooser "claimFirstBestServer E" for E :: "'w env"
  by unfold_locales
    (auto simp: claimFirstBestServer_def checkForPrevUsedServer_def free_for_def owned_by_def
      intro!: emits_intros dest!: find_Some_prop split: option.splits)

lemma claimServer_binds_only_free:
  "emits (respects_claims claim) (\<lambda>x. \<not> fst x \<longrightarrow> (\<forall>s. snd x = Some s \<longrightarrow> owned_by claim s)) (claimServer E claim)"
  unfolding claimServer_def
  by (intro emits_if by_reference.binds_only_free by_selector.binds_only_free first_best.binds_only_free)

section \<open>A claim leaves other claims' servers alone\<close>

definition same_claim :: "ServerClaim \<Rightarrow> ServerClaim \<Rightarrow> bool" where
  "same_claim c c' \<longleftrightarrow> ServerClaim_Spec c' = ServerClaim_Spec c \<and> clmUID c' = clmUID c \<and>
     clmName c' = clmName c \<and> clmNamespace c' = clmNamespace c"

text \<open>Adding the finalizer changes neither the identity nor the spec of the claim.\<close>

definition quiet_claims :: "'w env \<Rightarrow> bool" where
  "quiet_claims E \<longleftrightarrow> (\<forall>c f w m c'. fst (k_ensureFinalizerClaim E c f w) = Ok (m, c') \<longrightarrow> same_claim c c')"

lemma same_claim_refl [simp]: "same_claim c c"
  by (simp add: same_claim_def)

lemma emits_ensureFinalizer_Claim:
  assumes "quiet_claims E" and "\<And>k n f b. P (EKube (EnsuredFinalizer k n f b))"
  shows "emits P (\<lambda>x. same_claim c (snd x)) (PatchEnsureFinalizer_Claim E c f)"
  using assms unfolding quiet_claims_def PatchEnsureFinalizer_Claim_def
  by (auto intro!: emits_call_ok)

lemma respects_same_claim: "same_claim c c' \<Longrightarrow> respects_claims c' = respects_claims c"
proof (rule ext)
  fix e
  assume "same_claim c c'"
  then show "respects_claims c' e = respects_claims c e"
    by (cases "(c, e)" rule: respects_claims.cases)
      (simp_all add: same_claim_def free_for_def owned_by_def claimObjectRef_def)
qed

lemma emits_patchServerClaimPhase:
  assumes "\<And>b n r. P (EKube (PatchedClaimStatus b n r))"
  shows "emits P (\<lambda>x. \<not> fst x \<longrightarrow> snd x = c) (patchServerClaimPhase E c ph)"
  unfolding patchServerClaimPhase_def
  by (intro emits_if emits_then emits_intros) (auto simp: assms)

lemma emits_patchServerRef:
  assumes "\<And>b n r. P (EKube (PatchedClaim b n r))"
  shows "emits P (\<lambda>x. \<not> fst x \<longrightarrow> snd x = c) (patchServerRef E c s)"
  unfolding patchServerRef_def
  by (intro emits_case_option emits_if emits_then emits_intros) (auto simp: assms)

lemma owned_applyBootConfiguration:
  assumes "quiet E" and "owned_by claim s"
  shows "emits (respects_claims claim) (owned_by claim) (applyBootConfiguration E s c)"
proof -
  have patch: "emits (respects_claims claim) (owned_by claim) (PatchServer E s (set_BootConfigurationRef ref s))" for ref
    by (rule emits_weaken [OF emits_quiet_calls(1) [OF assms(1)]])
      (use assms(2) in \<open>auto simp: owned_by_def free_for_def agrees_def\<close>)
  show ?thesis
    unfolding applyBootConfiguration_def
    by (intro emits_then patch emits_intros; simp)
qed

lemma owned_ensurePowerState:
  "owned_by claim s \<Longrightarrow> emits (respects_claims claim) (\<lambda>_. True) (ensurePowerStateForServer E c s)"
  unfolding ensurePowerStateForServer_def
  by (intro emits_intros) (auto simp: free_for_def)

lemma reconcile_respects_claims:
  assumes "quiet E" and "quiet_claims E"
  shows "emits (respects_claims claim) (\<lambda>_. True) (Claim_reconcile E claim)"
proof -
  have bound: "emits (respects_claims claim) (\<lambda>x. \<not> fst x \<longrightarrow> (\<forall>s. snd x = Some s \<longrightarrow> owned_by claim s)) (claimServer E c)"
    if "same_claim claim c" for c
    using claimServer_binds_only_free [of c E] that
    by (simp add: respects_same_claim [OF that] owned_by_def same_claim_def)
  have init: "emits (respects_claims claim) (\<lambda>x. \<not> fst x \<longrightarrow> snd x = claim)
      (if ServerClaim_Phase claim = '''' then patchServerClaimPhase E claim PhaseUnbound else returnM (False, claim))"
    by (intro emits_if emits_patchServerClaimPhase emits_return) simp_all
  have fin: "emits (respects_claims claim) (\<lambda>x. \<not> fst x \<longrightarrow> same_claim c (snd x)) (PatchEnsureFinalizer_Claim E c f)" for c f
    by (rule emits_weaken [OF emits_ensureFinalizer_Claim [OF assms(2)]]) simp_all
  show ?thesis
    unfolding Claim_reconcile_def
    apply (intro emits_if emits_return emits_ifUnmodified [OF init])
      apply simp_all
    apply (intro emits_ifUnmodified [OF fin] emits_bind [OF bound] emits_case_prod emits_if emits_return
        emits_case_option emits_ifUnmodified [OF emits_patchServerRef]
        emits_bind [OF emits_wrap [OF owned_applyBootConfiguration [OF assms(1)]]]
        emits_ifUnmodified [OF emits_patchServerClaimPhase] emits_ifUnmodified_any [OF owned_ensurePowerState])
             apply auto
    done
qed

section \<open>Bound only with a boot configuration\<close>

fun is_bound_patch :: "event \<Rightarrow> bool" where
  "is_bound_patch (EKube (PatchedClaimStatus base new _)) = (ServerClaim_Phase new = PhaseBound)"
| "is_bound_patch _ = False"

fun is_boot_ref_patch :: "event \<Rightarrow> bool" where
  "is_boot_ref_patch (EKube (PatchedServer base new (Ok _))) \<longleftrightarrow>
     (\<exists>c. srvBootConfigurationRef new = Some (bootConfigRef c))"
| "is_boot_ref_patch _ = False"

lemma not_bound_patch: "is_read e \<Longrightarrow> \<not> is_bound_patch e"
  by (cases e rule: is_bound_patch.cases) simp_all

lemma emits_claimServer [emits_intros]:
  assumes "\<And>e. is_read e \<Longrightarrow> P e" and "\<And>b n r. P (EKube (PatchedServer b n r))"
  shows "emits P (\<lambda>_. True) (claimServer E c)"
  unfolding claimServer_def claimChosen_def ensureObjectRefForServer_def claimServerByReference_def
    claimServerBySelector_def claimFirstBestServer_def
  by (intro emits_intros; simp add: assms)

lemma achieves_applyBootConfiguration:
  "achieves (is_boot_config (clmNamespace c) (clmName c)) (applyBootConfiguration E s c)"
  "achieves is_boot_ref_patch (applyBootConfiguration E s c)"
proof -
  show "achieves (is_boot_config (clmNamespace c) (clmName c)) (applyBootConfiguration E s c)"
    unfolding applyBootConfiguration_def CreateOrPatchSBC_def
    by (intro achieves_first achieves_wrap achieves_call) (simp add: empty_SBC_def)
  have create: "emits (\<lambda>_. True) (\<lambda>_. True) (wrapM msg (CreateOrPatchSBC E o1 f))" for msg o1 f
    by (intro emits_intros; simp)
  show "achieves is_boot_ref_patch (applyBootConfiguration E s c)"
    unfolding applyBootConfiguration_def PatchServer_def
    by (rule achieves_then [OF create]) (auto split: prod.split intro!: achieves_call)
qed

lemma bound_after:
  assumes "quiet_claims E"
    and "\<And>c s. same_claim claim c \<Longrightarrow> achieves g (applyBootConfiguration E s c)"
  shows "sat (Claim_reconcile E claim) (\<lambda>_ es. guarded g is_bound_patch es)"
proof -
  let ?np = "\<lambda>e. \<not> is_bound_patch e"
  have init: "emits ?np (\<lambda>x. \<not> fst x \<longrightarrow> same_claim claim (snd x))
      (if ServerClaim_Phase claim = '''' then patchServerClaimPhase E claim PhaseUnbound else returnM (False, claim))"
    unfolding patchServerClaimPhase_def
    by (intro emits_if emits_then emits_intros) simp_all
  have fin: "emits ?np (\<lambda>x. same_claim c (snd x)) (PatchEnsureFinalizer_Claim E c f)" for c f
    by (rule emits_ensureFinalizer_Claim [OF assms(1)]) simp
  have srv: "emits ?np (\<lambda>_. True) (claimServer E c)" for c
    by (intro emits_intros; simp add: not_bound_patch)
  have ref: "emits ?np (\<lambda>x. \<not> fst x \<longrightarrow> snd x = c) (patchServerRef E c s)" for c s
    by (rule emits_patchServerRef) simp
  have boot: "emits ?np (\<lambda>_. True) (wrapM m (applyBootConfiguration E s c))" for m s c
    unfolding applyBootConfiguration_def by (intro emits_intros; simp)
  show ?thesis
    unfolding Claim_reconcile_def ifUnmodified_def
    by (rule guarded_inv.inv_if [OF guarded_inv.inv_pure(1) guarded_bind [OF init]])
      (auto intro!: guarded_bind [OF fin] guarded_bind [OF srv] guarded_bind [OF ref] guarded_after [OF boot]
        achieves_wrap assms(2) split: option.split, simp add: same_claim_def)
qed

section \<open>Deletion of a claim\<close>

lemma delete_cleans_up_first:
  assumes "clmServerRef claim = Some ref"
  shows "sat (Claim_delete E claim) (\<lambda>_ es. guarded (is_gone (clmNamespace claim) (clmName claim)) is_unfinalize es)"
proof -
  have sbc: "achieves (is_gone ns n) (catchM (DeleteSBC E ns n)
      (\<lambda>err. if IsNotFound err then returnM () else errM (WrapError m err)))" for ns n m
    unfolding achieves_def DeleteSBC_def
    by (rule sat_catch, rule sat_call_any) (auto split: res.split)
  have get: "emits (\<lambda>_. True) (\<lambda>_. True) (getServerOrEmpty E n)" for n
    unfolding getServerOrEmpty_def by (intro emits_intros; simp)
  have rm: "emits (\<lambda>_. True) (\<lambda>_. True) (if b then wrapM m (removeClaimRefFromServer E s) else returnM s)" for b m s
    unfolding removeClaimRefFromServer_def by (intro emits_intros; simp)
  have ach: "achieves (is_gone (clmNamespace claim) (clmName claim)) (cleanupAndShutdownServer E claim)"
    unfolding cleanupAndShutdownServer_def assms option.case
    by (intro achieves_then [OF get] achieves_then [OF rm] achieves_first sbc)
  have none: "emits (\<lambda>e. \<not> is_unfinalize e) (\<lambda>_. True) (cleanupAndShutdownServer E claim)"
    unfolding cleanupAndShutdownServer_def getServerOrEmpty_def removeClaimRefFromServer_def
      removeBootConfigRefFromServerAndPowerOff_def
    by (intro emits_intros; simp)
  show ?thesis
    unfolding Claim_delete_def
    by (intro guarded_inv.inv_if guarded_inv.inv_pure guarded_after [OF none ach])
qed

text \<open>A successful cleanup has removed the claim reference from the server it found.\<close>

lemma cleanup_releases:
  "sat (cleanupAndShutdownServer E claim) (\<lambda>res es. \<forall>n s. res = Ok () \<longrightarrow>
     EKube (GotServer n (Ok s)) \<in> set es \<longrightarrow> srvClaimRef s \<noteq> None \<longrightarrow>
     (\<exists>ans. EKube (PatchedServer s (set_ServerClaimRef None s) (Ok ans)) \<in> set es))"
proof -
  have rest: "emits (\<lambda>e. \<forall>n s. e \<noteq> EKube (GotServer n (Ok s))) (\<lambda>_. True)
     (bindM (catchM (DeleteSBC E ns n) (\<lambda>err. if IsNotFound err then returnM () else errM (WrapError m err)))
       (\<lambda>_. wrapM m' (removeBootConfigRefFromServerAndPowerOff E c s)))" for ns n m m' c s
    unfolding removeBootConfigRefFromServerAndPowerOff_def by (intro emits_intros; simp)
  show ?thesis
    unfolding cleanupAndShutdownServer_def getServerOrEmpty_def GetServer_def removeClaimRefFromServer_def PatchServer_def
    by (auto split: option.split res.split
        intro!: sat_bind sat_catch sat_wrap sat_call_any sat_mono [OF rest [unfolded emits_def]]) blast+
qed

text \<open>
  The release does not compare UIDs: a claim that is deleted takes the reference off the server it
  names even when another claim holds it. Likewise a boot configuration of the same namespace but
  another name is taken off the server.
\<close>

lemma cleanup_ignores_owner:
  assumes "clmServerRef claim = Some (LocalObjectReference n)" and "k_getServer E n w = (Ok s, w')"
    and "srvClaimRef s = Some ref"
  shows "\<exists>ans. EKube (PatchedServer s (set_ServerClaimRef None s) ans) \<in>
    set (events_of (cleanupAndShutdownServer E claim w))"
  using assms
  by (simp add: cleanupAndShutdownServer_def getServerOrEmpty_def GetServer_def removeClaimRefFromServer_def
      PatchServer_def bindM_def catchM_def wrapM_def callM_def events_of_def split: prod.split res.split) auto

lemma removeBootConfigRef_namespace_suffices:
  assumes "srvBootConfigurationRef s = Some ref" and "ObjectReference_Namespace ref = ns"
  shows "\<exists>ans. events_of (removeBootConfigRefFromServerAndPowerOff E (empty_SBC ns n) s w) =
    [EKube (PatchedServer s (set_Power PowerOff (set_BootConfigurationRef None s)) ans)]"
  using assms
  by (simp add: removeBootConfigRefFromServerAndPowerOff_def empty_SBC_def PatchServer_def prog_defs
      split: prod.split res.split)

text \<open>A reference to a server, once set, never changes.\<close>

lemma patchServerRef_result:
  "sat (patchServerRef E claim server) (\<lambda>res es.
     case clmServerRef claim of
       None \<Rightarrow> (\<exists>ans new. es = [EKube (PatchedClaim claim new ans)] \<and>
                  clmServerRef new = Some (LocalObjectReference (srvName server)))
     | Some ref \<Rightarrow> es = [] \<and>
                  (if LocalObjectReference_Name ref = srvName server then res = Ok (False, claim) else \<not> is_ok res))"
  unfolding patchServerRef_def PatchClaim_def
  by (auto split: option.split res.split intro!: sat_bind sat_call_any)

end
