(* ===== verification/Registry.thy ===== *)
theory Registry
  imports Server_Controller
begin

text \<open>
  Discovery data on its way: the probe that runs on a server (\<^verbatim>\<open>internal/probe\<close>) collects its network
  interfaces and posts them to the registry (\<^verbatim>\<open>internal/registry/server.go\<close>), where the server
  controller fetches and then deletes them. The registry's HTTP interface satisfies the contract of a
  store, the locale \<open>system_store\<close>.
\<close>

section \<open>internal/registry/server.go\<close>

text \<open>
  The systems store is a \<^verbatim>\<open>sync.Map\<close> from UUIDs to \<^verbatim>\<open>registry.Server\<close> values: it only ever holds such
  values, so the type assertion of \<^verbatim>\<open>systemsHandler\<close> succeeds. A request's body is the payload it
  decodes to, \<open>None\<close> when it does not decode; paths are clean, as \<^verbatim>\<open>http.ServeMux\<close> makes them.
\<close>

type_synonym systems_store = "string \<rightharpoonup> RegistryServer"

record HttpRequest =
  Req_Method :: string
  Req_Path :: string
  Req_Body :: "RegistrationPayload option"

definition status_only :: "int \<Rightarrow> HttpResponse" where
  "status_only code = \<lparr>HttpResponse_StatusCode = code, HttpResponse_Body = None\<rparr>"

abbreviation StatusOK :: int where "StatusOK \<equiv> 200"
abbreviation StatusCreated :: int where "StatusCreated \<equiv> 201"
abbreviation StatusMovedPermanently :: int where "StatusMovedPermanently \<equiv> 301"
abbreviation StatusBadRequest :: int where "StatusBadRequest \<equiv> 400"
abbreviation StatusNotFound :: int where "StatusNotFound \<equiv> 404"
abbreviation StatusMethodNotAllowed :: int where "StatusMethodNotAllowed \<equiv> 405"

definition registerHandler :: "systems_store \<Rightarrow> HttpRequest \<Rightarrow> HttpResponse \<times> systems_store" where
  "registerHandler s r =
     (if Req_Method r \<noteq> ''POST'' then (status_only StatusMethodNotAllowed, s)
      else case Req_Body r of
        None \<Rightarrow> (status_only StatusBadRequest, s)
      | Some reg \<Rightarrow> (status_only StatusCreated,
                    s(RegistrationPayload_SystemUUID reg \<mapsto> RegistrationPayload_Data reg)))"

definition systemsHandler :: "systems_store \<Rightarrow> HttpRequest \<Rightarrow> HttpResponse \<times> systems_store" where
  "systemsHandler s r =
     (if Req_Method r \<noteq> ''GET'' then (status_only StatusMethodNotAllowed, s)
      else let uuid = drop (length ''/systems/'') (Req_Path r) in
           case s uuid of
             Some server \<Rightarrow> (\<lparr>HttpResponse_StatusCode = StatusOK, HttpResponse_Body = Some server\<rparr>, s)
           | None \<Rightarrow> (status_only StatusNotFound, s))"

definition deleteHandler :: "systems_store \<Rightarrow> HttpRequest \<Rightarrow> HttpResponse \<times> systems_store" where
  "deleteHandler s r =
     (if Req_Method r \<noteq> ''DELETE'' then (status_only StatusMethodNotAllowed, s)
      else let uuid = drop (length ''/delete/'') (Req_Path r) in
           case s uuid of
             None \<Rightarrow> (status_only StatusNotFound, s)
           | Some _ \<Rightarrow> (status_only StatusOK, s(uuid := None)))"

text \<open>
  The routes. A path ending in a slash is a subtree, and the multiplexer redirects to it from the
  path without the slash.
\<close>

definition ServeHTTP :: "systems_store \<Rightarrow> HttpRequest \<Rightarrow> HttpResponse \<times> systems_store" where
  "ServeHTTP s r =
     (if Req_Path r = ''/register'' then registerHandler s r
      else if HasPrefix (Req_Path r) ''/delete/'' then deleteHandler s r
      else if HasPrefix (Req_Path r) ''/systems/'' then systemsHandler s r
      else if Req_Path r = ''/delete'' \<or> Req_Path r = ''/systems'' then (status_only StatusMovedPermanently, s)
      else (status_only StatusNotFound, s))"

text \<open>The server: its address and its store, empty at first.\<close>

record RegistryHttpServer =
  RHS_addr :: string
  RHS_systemsStore :: systems_store

definition NewServer :: "string \<Rightarrow> RegistryHttpServer" where
  "NewServer addr = \<lparr>RHS_addr = addr, RHS_systemsStore = Map.empty\<rparr>"

section \<open>internal/probe\<close>

text \<open>The parts of \<^verbatim>\<open>net.Interface\<close>, \<^verbatim>\<open>net.Addr\<close> and \<^verbatim>\<open>net.IP\<close> that are read.\<close>

record NetIP =
  NetIP_String :: string
  NetIP_IsLoopback :: bool
  NetIP_To4 :: bool

datatype NetAddr = IPNet "NetIP option" | IPAddr "NetIP option" | OtherAddr

record NetInterface =
  NetInterface_Name :: string
  NetInterface_HardwareAddr :: string
  NetInterface_Flags :: "64 word"
  NetInterface_Addrs :: "NetAddr list res"

definition FlagUp :: "64 word" where "FlagUp = 1"
definition FlagLoopback :: "64 word" where "FlagLoopback = 4"

definition IsSLAAC :: "string \<Rightarrow> bool" where
  "IsSLAAC ip = Contains ip ''ff:fe''"

unbundle bit_operations_syntax

definition skipInterface :: "NetInterface \<Rightarrow> bool" where
  "skipInterface iface \<longleftrightarrow>
     NetInterface_Flags iface AND FlagLoopback \<noteq> 0 \<or>
     NetInterface_HardwareAddr iface = '''' \<or>
     HasPrefix (NetInterface_Name iface) ''tun'' \<or>
     HasPrefix (NetInterface_Name iface) ''docker0'' \<or>
     NetInterface_Flags iface AND FlagUp = 0"

fun addr_ip :: "NetAddr \<Rightarrow> NetIP option" where
  "addr_ip (IPNet ip) = ip"
| "addr_ip (IPAddr ip) = ip"
| "addr_ip OtherAddr = None"

fun collectAddrs :: "NetInterface \<Rightarrow> NetAddr list \<Rightarrow> RegistryNetworkInterface list \<Rightarrow> RegistryNetworkInterface list" where
  "collectAddrs iface [] acc = acc"
| "collectAddrs iface (addr # addrs) acc =
     (case addr_ip addr of
        None \<Rightarrow> collectAddrs iface addrs acc
      | Some ip \<Rightarrow>
          if NetIP_IsLoopback ip then collectAddrs iface addrs acc
          else if \<not> NetIP_To4 ip \<and> IsSLAAC (NetIP_String ip) then collectAddrs iface addrs acc
          else collectAddrs iface addrs (acc @ [\<lparr>RNI_Name = NetInterface_Name iface,
                 RNI_IPAddress = NetIP_String ip, RNI_MACAddress = NetInterface_HardwareAddr iface\<rparr>]))"

fun collectInterfaces :: "NetInterface list \<Rightarrow> RegistryNetworkInterface list \<Rightarrow> RegistryNetworkInterface list res" where
  "collectInterfaces [] acc = Ok acc"
| "collectInterfaces (iface # ifaces) acc =
     (if skipInterface iface then collectInterfaces ifaces acc
      else case NetInterface_Addrs iface of
        Ok addrs \<Rightarrow> collectInterfaces ifaces (collectAddrs iface addrs acc)
      | Err e \<Rightarrow> Err e
      | Panic p \<Rightarrow> Panic p)"

definition collectNetworkData :: "NetInterface list res \<Rightarrow> RegistryNetworkInterface list res" where
  "collectNetworkData interfaces =
     (case interfaces of Ok ifaces \<Rightarrow> collectInterfaces ifaces [] | Err e \<Rightarrow> Err e | Panic p \<Rightarrow> Panic p)"

record Agent =
  Agent_SystemUUID :: string
  Agent_RegistryURL :: string
  Agent_Duration :: int
  Agent_Server :: "RegistryServer option"

definition NewAgent :: "string \<Rightarrow> string \<Rightarrow> int \<Rightarrow> Agent" where
  "NewAgent systemUUID url duration = \<lparr>Agent_SystemUUID = systemUUID, Agent_RegistryURL = url,
     Agent_Duration = duration, Agent_Server = None\<rparr>"

definition Agent_Init :: "NetInterface list res \<Rightarrow> Agent \<Rightarrow> Agent res" where
  "Agent_Init interfaces a =
     (case collectNetworkData interfaces of
        Ok ifs \<Rightarrow> Ok (a\<lparr>Agent_Server := Some \<lparr>RegistryServer_NetworkInterfaces = ifs\<rparr>\<rparr>)
      | Err e \<Rightarrow> Err e | Panic p \<Rightarrow> Panic p)"

definition HttpPostRegister :: "'w env \<Rightarrow> string \<Rightarrow> RegistrationPayload \<Rightarrow> ('w, int) M" where
  "HttpPostRegister E url p = callM (s_httpPostRegister E url p) (\<lambda>r. ESys (HttpPostedRegister url p (is_ok r)))"

text \<open>
  \<^verbatim>\<open>wait.ExponentialBackoffWithContext\<close>: the condition at most \<open>steps\<close> times, until it is done or
  fails; then the error of a timed-out wait. The sleeps between the steps are not observable.
\<close>

fun ExponentialBackoff :: "nat \<Rightarrow> ('w, bool) M \<Rightarrow> ('w, unit) M" where
  "ExponentialBackoff 0 cond = errM (OtherError ''timed out waiting for the condition'')"
| "ExponentialBackoff (Suc n) cond =
     bindM cond (\<lambda>done. if done then returnM () else ExponentialBackoff n cond)"

definition registerServer :: "'w env \<Rightarrow> Agent \<Rightarrow> ('w, unit) M" where
  "registerServer E a =
     (case Agent_Server a of
        None \<Rightarrow> panicM ''nil pointer dereference''
      | Some server \<Rightarrow>
          ExponentialBackoff 1
            (catchM (bindM (HttpPostRegister E (Agent_RegistryURL a @ ''/register'')
                       \<lparr>RegistrationPayload_SystemUUID = Agent_SystemUUID a, RegistrationPayload_Data = server\<rparr>)
                     (\<lambda>code. returnM (code = StatusOK \<or> code = StatusCreated)))
               (\<lambda>_. returnM False)))"

text \<open>\<^verbatim>\<open>Start\<close>, for a run in which the ticker fires \<open>ticks\<close> times before the context is done.\<close>

definition Agent_Start :: "'w env \<Rightarrow> NetInterface list res \<Rightarrow> nat \<Rightarrow> Agent \<Rightarrow> ('w, unit) M" where
  "Agent_Start E interfaces ticks a =
     bindM (liftM (if Agent_Server a = None then Agent_Init interfaces a else Ok a)) (\<lambda>a.
     bindM (registerServer E a) (\<lambda>_.
       foldM (\<lambda>_ _. catchM (registerServer E a) (\<lambda>_. returnM ())) () [0..<ticks]))"

section \<open>The contract of the store\<close>

text \<open>What its clients do: register a system, delete its entry.\<close>

datatype registry_op = Register string RegistryServer | Unregister string

fun op_uuid :: "registry_op \<Rightarrow> string" where
  "op_uuid (Register u _) = u"
| "op_uuid (Unregister u) = u"

fun op_data :: "registry_op \<Rightarrow> RegistryServer option" where
  "op_data (Register _ d) = Some d"
| "op_data (Unregister _) = None"

locale system_store =
  fixes register :: "'s \<Rightarrow> string \<Rightarrow> RegistryServer \<Rightarrow> 's"
    and unregister :: "'s \<Rightarrow> string \<Rightarrow> 's"
    and lookup :: "'s \<Rightarrow> string \<Rightarrow> RegistryServer option"
  assumes lookup_register: "lookup (register s u d) v = (if v = u then Some d else lookup s v)"
    and lookup_unregister: "lookup (unregister s u) v = (if v = u then None else lookup s v)"
begin

fun perform :: "registry_op \<Rightarrow> 's \<Rightarrow> 's" where
  "perform (Register u d) s = register s u d"
| "perform (Unregister u) s = unregister s u"

lemma lookup_perform: "lookup (perform p s) v = (if op_uuid p = v then op_data p else lookup s v)"
  by (cases p) (simp_all add: lookup_register lookup_unregister)

text \<open>After any sequence of operations, a lookup gives what the last operation on that UUID left.\<close>

lemma lookup_run:
  "lookup (fold perform ps s) v =
     (case List.find (\<lambda>p. op_uuid p = v) (rev ps) of None \<Rightarrow> lookup s v | Some p \<Rightarrow> op_data p)"
proof (induction ps rule: rev_induct)
  case (snoc p ps)
  then show ?case by (simp add: lookup_perform)
qed simp

end

subsection \<open>The registry's HTTP interface is such a store\<close>

definition http_request :: "string \<Rightarrow> string \<Rightarrow> RegistrationPayload option \<Rightarrow> HttpRequest" where
  "http_request meth path body = \<lparr>Req_Method = meth, Req_Path = path, Req_Body = body\<rparr>"

definition http_register :: "systems_store \<Rightarrow> string \<Rightarrow> RegistryServer \<Rightarrow> systems_store" where
  "http_register s u d = snd (ServeHTTP s (http_request ''POST'' ''/register''
     (Some \<lparr>RegistrationPayload_SystemUUID = u, RegistrationPayload_Data = d\<rparr>)))"

definition http_unregister :: "systems_store \<Rightarrow> string \<Rightarrow> systems_store" where
  "http_unregister s u = snd (ServeHTTP s (http_request ''DELETE'' (''/delete/'' @ u) None))"

definition http_lookup :: "systems_store \<Rightarrow> string \<Rightarrow> RegistryServer option" where
  "http_lookup s u = HttpResponse_Body (fst (ServeHTTP s (http_request ''GET'' (''/systems/'' @ u) None)))"

lemma ServeHTTP_register:
  "ServeHTTP s (http_request ''POST'' ''/register'' (Some p)) =
     (status_only StatusCreated, s(RegistrationPayload_SystemUUID p \<mapsto> RegistrationPayload_Data p))"
  by (simp add: ServeHTTP_def registerHandler_def http_request_def)

lemma ServeHTTP_delete:
  "ServeHTTP s (http_request ''DELETE'' (''/delete/'' @ u) b) =
     (status_only (if s u = None then StatusNotFound else StatusOK), s(u := None))"
  by (auto simp: ServeHTTP_def deleteHandler_def http_request_def Let_def split: option.split)

lemma ServeHTTP_systems:
  "ServeHTTP s (http_request ''GET'' (''/systems/'' @ u) b) =
     (case s u of
        None \<Rightarrow> (status_only StatusNotFound, s)
      | Some d \<Rightarrow> (\<lparr>HttpResponse_StatusCode = StatusOK, HttpResponse_Body = Some d\<rparr>, s))"
  by (auto simp: ServeHTTP_def systemsHandler_def http_request_def Let_def split: option.split)

lemma http_lookup_eq: "http_lookup s u = s u"
  unfolding http_lookup_def ServeHTTP_systems by (simp add: status_only_def split: option.split)

interpretation registry: system_store http_register http_unregister http_lookup
  by unfold_locales
    (unfold http_lookup_eq http_register_def http_unregister_def ServeHTTP_register ServeHTTP_delete, simp_all)

text \<open>A request that the registry does not accept changes nothing.\<close>

lemma ServeHTTP_rejects:
  "HttpResponse_StatusCode (fst (ServeHTTP s r)) \<notin> {StatusOK, StatusCreated} \<Longrightarrow> snd (ServeHTTP s r) = s"
  by (auto simp: ServeHTTP_def registerHandler_def deleteHandler_def systemsHandler_def status_only_def Let_def
      split: option.splits if_splits)

section \<open>What the probe collects\<close>

definition usable_addr :: "NetAddr \<Rightarrow> NetIP option" where
  "usable_addr a = (case addr_ip a of
     Some ip \<Rightarrow> if NetIP_IsLoopback ip \<or> \<not> NetIP_To4 ip \<and> IsSLAAC (NetIP_String ip) then None else Some ip
   | None \<Rightarrow> None)"

definition nic_of :: "NetInterface \<Rightarrow> NetIP \<Rightarrow> RegistryNetworkInterface" where
  "nic_of iface ip = \<lparr>RNI_Name = NetInterface_Name iface, RNI_IPAddress = NetIP_String ip,
     RNI_MACAddress = NetInterface_HardwareAddr iface\<rparr>"

lemma collectAddrs_eq: "collectAddrs iface addrs acc = acc @ map (nic_of iface) (List.map_filter usable_addr addrs)"
  by (induction addrs arbitrary: acc)
    (auto simp: usable_addr_def nic_of_def List.map_filter_def split: option.split)

text \<open>
  The interfaces collected, in order: for each interface that is not skipped, one per usable address;
  an error as soon as the addresses of one cannot be read.
\<close>

lemma collectInterfaces_eq:
  assumes "\<forall>i\<in>set ifaces. \<not> skipInterface i \<longrightarrow> NetInterface_Addrs i = Ok (addrs i)"
  shows "collectInterfaces ifaces acc = Ok (acc @ concat (map (\<lambda>i. map (nic_of i) (List.map_filter usable_addr (addrs i)))
     (filter (\<lambda>i. \<not> skipInterface i) ifaces)))"
  using assms by (induction ifaces arbitrary: acc) (auto simp: collectAddrs_eq)

lemma collectInterfaces_error:
  "collectInterfaces ifaces acc = Err e \<Longrightarrow> \<exists>i\<in>set ifaces. \<not> skipInterface i \<and> NetInterface_Addrs i = Err e"
  by (induction ifaces arbitrary: acc) (auto split: if_splits res.splits)

section \<open>From the probe to the controller\<close>

text \<open>
  The HTTP calls of the probe and of the controller are answered by the registry server: \<open>store w\<close>
  is its systems store.
\<close>

definition serves_registry :: "'w env \<Rightarrow> string \<Rightarrow> ('w \<Rightarrow> systems_store) \<Rightarrow> bool" where
  "serves_registry E url store \<longleftrightarrow>
     (\<forall>p w. let a = ServeHTTP (store w) (http_request ''POST'' ''/register'' (Some p)) in
        fst (s_httpPostRegister E (url @ ''/register'') p w) = Ok (HttpResponse_StatusCode (fst a)) \<and>
        store (snd (s_httpPostRegister E (url @ ''/register'') p w)) = snd a) \<and>
     (\<forall>u w. let a = ServeHTTP (store w) (http_request ''GET'' (''/systems/'' @ u) None) in
        fst (s_httpGet E (url @ ''/systems/'' @ u) w) = Ok (Some (fst a), None) \<and>
        store (snd (s_httpGet E (url @ ''/systems/'' @ u) w)) = snd a) \<and>
     (\<forall>u w. let a = ServeHTTP (store w) (http_request ''DELETE'' (''/delete/'' @ u) None) in
        fst (s_httpDelete E (url @ ''/delete/'' @ u) w) = Ok () \<and>
        store (snd (s_httpDelete E (url @ ''/delete/'' @ u) w)) = snd a)"

lemma serves_registryD:
  assumes "serves_registry E url store"
  shows "fst (s_httpPostRegister E (url @ ''/register'') p w) = Ok StatusCreated"
    and "store (snd (s_httpPostRegister E (url @ ''/register'') p w)) =
      (store w)(RegistrationPayload_SystemUUID p \<mapsto> RegistrationPayload_Data p)"
    and "fst (s_httpGet E (url @ ''/systems/'' @ u) w) = Ok (Some (case store w u of
        None \<Rightarrow> status_only StatusNotFound
      | Some d \<Rightarrow> \<lparr>HttpResponse_StatusCode = StatusOK, HttpResponse_Body = Some d\<rparr>), None)"
    and "store (snd (s_httpGet E (url @ ''/systems/'' @ u) w)) = store w"
    and "fst (s_httpDelete E (url @ ''/delete/'' @ u) w) = Ok ()"
    and "store (snd (s_httpDelete E (url @ ''/delete/'' @ u) w)) = (store w)(u := None)"
proof -
  note D = assms [unfolded serves_registry_def Let_def ServeHTTP_register ServeHTTP_systems ServeHTTP_delete]
  from D show "fst (s_httpPostRegister E (url @ ''/register'') p w) = Ok StatusCreated"
    by (simp add: status_only_def)
  from D show "store (snd (s_httpPostRegister E (url @ ''/register'') p w)) =
      (store w)(RegistrationPayload_SystemUUID p \<mapsto> RegistrationPayload_Data p)" by simp
  from D show "fst (s_httpGet E (url @ ''/systems/'' @ u) w) = Ok (Some (case store w u of
        None \<Rightarrow> status_only StatusNotFound
      | Some d \<Rightarrow> \<lparr>HttpResponse_StatusCode = StatusOK, HttpResponse_Body = Some d\<rparr>), None)"
    by (simp split: option.split)
  from D show "store (snd (s_httpGet E (url @ ''/systems/'' @ u) w)) = store w" by (simp split: option.split)
  from D show "fst (s_httpDelete E (url @ ''/delete/'' @ u) w) = Ok ()" by simp
  from D show "store (snd (s_httpDelete E (url @ ''/delete/'' @ u) w)) = (store w)(u := None)" by simp
qed

lemma registerServer_stores:
  assumes "serves_registry E (Agent_RegistryURL a) store" and "Agent_Server a = Some d"
  shows "result_of (registerServer E a w) = Ok ()"
    and "store (world_of (registerServer E a w)) = (store w)(Agent_SystemUUID a \<mapsto> d)"
proof -
  let ?p = "\<lparr>RegistrationPayload_SystemUUID = Agent_SystemUUID a, RegistrationPayload_Data = d\<rparr>"
  obtain w' where "s_httpPostRegister E (Agent_RegistryURL a @ ''/register'') ?p w = (Ok StatusCreated, w')"
    by (metis serves_registryD(1) [OF assms(1)] prod.collapse)
  with serves_registryD(2) [OF assms(1), of ?p w] assms(2)
  show "result_of (registerServer E a w) = Ok ()"
    and "store (world_of (registerServer E a w)) = (store w)(Agent_SystemUUID a \<mapsto> d)"
    by (simp_all add: registerServer_def HttpPostRegister_def prog_defs)
qed

text \<open>
  What the controller finds in the registry once the probe with the same UUID has registered: exactly
  the interfaces the probe collected. They go into the server's status in one patch.
\<close>

lemma extract_finds_registered:
  assumes "serves_registry E (SR_RegistryURL r) store" and "store w (srvSystemUUID s) = Some d"
    and "nics_of (RegistryServer_NetworkInterfaces d) = Ok nics"
  shows "\<exists>ans. filter is_status_patch (events_of (extractServerDetailsFromRegistry E r s w)) =
    [EKube (PatchedServerStatus s (s\<lparr>Server_Status := (Server_Status s)\<lparr>ServerStatus_NetworkInterfaces := nics\<rparr>\<rparr>) ans)]"
proof -
  obtain w' where "s_httpGet E (SR_RegistryURL r @ ''/systems/'' @ srvSystemUUID s) w =
      (Ok (Some \<lparr>HttpResponse_StatusCode = StatusOK, HttpResponse_Body = Some d\<rparr>, None), w')"
    using serves_registryD(3) [OF assms(1), of "srvSystemUUID s" w] assms(2)
    by (metis option.simps(5) prod.collapse)
  with assms(3) show ?thesis
    by (auto simp: extractServerDetailsFromRegistry_def systemsURL_def HttpGet_def PatchServerStatus_def prog_defs
        split: prod.split res.split)
qed

lemma extract_waits:
  assumes "serves_registry E (SR_RegistryURL r) store" and "store w (srvSystemUUID s) = None"
  shows "result_of (extractServerDetailsFromRegistry E r s w) = Ok (False, s)"
    and "filter is_status_patch (events_of (extractServerDetailsFromRegistry E r s w)) = []"
proof -
  obtain w' where "s_httpGet E (SR_RegistryURL r @ ''/systems/'' @ srvSystemUUID s) w =
      (Ok (Some (status_only StatusNotFound), None), w')"
    using serves_registryD(3) [OF assms(1), of "srvSystemUUID s" w] assms(2)
    by (metis option.simps(4) prod.collapse)
  then show "result_of (extractServerDetailsFromRegistry E r s w) = Ok (False, s)"
    and "filter is_status_patch (events_of (extractServerDetailsFromRegistry E r s w)) = []"
    by (simp_all add: extractServerDetailsFromRegistry_def systemsURL_def HttpGet_def status_only_def prog_defs)
qed

end
