(* ===== verification/Endpoint_Webhook.thy ===== *)
theory Endpoint_Webhook
  imports Environment
begin

text \<open>
  The validating webhook of endpoints (\<^verbatim>\<open>internal/webhook/v1alpha1/endpoint_webhook.go\<close>): a MAC address
  belongs to one endpoint. The second part admits creations and updates through the webhook, one after
  the other, and shows that the addresses of the stored endpoints stay distinct.
\<close>

section \<open>endpoint\_webhook.go\<close>

datatype field_error = FieldInternalError error | FieldDuplicate string

abbreviation "epMAC e \<equiv> EndpointSpec_MACAddress (Endpoint_Spec e)"
abbreviation "epKey e \<equiv> ObjectMeta_Name (Endpoint_Meta e)"

text \<open>A failed listing is an error of its own and leaves an empty list to compare with.\<close>

definition listOrError :: "'w env \<Rightarrow> ('w, field_error list \<times> Endpoint list) M" where
  "listOrError E = catchM (bindM (ListEndpoints E) (\<lambda>items. returnM ([], items)))
     (\<lambda>err. returnM ([FieldInternalError (WrapError ''failed to list Endpoints'' err)], []))"

definition ValidateMACAddressCreate :: "'w env \<Rightarrow> EndpointSpec \<Rightarrow> ('w, field_error list) M" where
  "ValidateMACAddressCreate E spec =
     bindM (listOrError E) (\<lambda>(allErrs, endpoints).
       returnM (allErrs @ map (\<lambda>e. FieldDuplicate (epMAC e))
         (filter (\<lambda>e. epMAC e = EndpointSpec_MACAddress spec) endpoints)))"

definition ValidateMACAddressUpdate :: "'w env \<Rightarrow> Endpoint \<Rightarrow> ('w, field_error list) M" where
  "ValidateMACAddressUpdate E updatedEndpoint =
     bindM (listOrError E) (\<lambda>(allErrs, endpoints).
       returnM (allErrs @ map (\<lambda>e. FieldDuplicate (epMAC e))
         (filter (\<lambda>e. epMAC e = epMAC updatedEndpoint \<and> epKey e \<noteq> epKey updatedEndpoint) endpoints)))"

definition reject_if :: "field_error list \<Rightarrow> ('w, unit) M" where
  "reject_if allErrs = (if allErrs \<noteq> [] then errM (OtherError ''Invalid'') else returnM ())"

definition ValidateCreate :: "'w env \<Rightarrow> Endpoint \<Rightarrow> ('w, unit) M" where
  "ValidateCreate E endpoint = bindM (ValidateMACAddressCreate E (Endpoint_Spec endpoint)) reject_if"

definition ValidateUpdate :: "'w env \<Rightarrow> Endpoint \<Rightarrow> ('w, unit) M" where
  "ValidateUpdate E newObj = bindM (ValidateMACAddressUpdate E newObj) reject_if"

definition ValidateDelete :: "'w env \<Rightarrow> Endpoint \<Rightarrow> ('w, unit) M" where
  "ValidateDelete E endpoint = returnM ()"

section \<open>What is accepted\<close>

lemma ValidateCreate_accepts:
  "k_listEndpoints E w = (Ok eps, w') \<Longrightarrow>
     result_of (ValidateCreate E e w) = Ok () \<longleftrightarrow> (\<forall>e'\<in>set eps. epMAC e' \<noteq> epMAC e)"
  by (auto simp: ValidateCreate_def ValidateMACAddressCreate_def listOrError_def ListEndpoints_def reject_if_def
      prog_defs filter_empty_conv)

lemma ValidateUpdate_accepts:
  "k_listEndpoints E w = (Ok eps, w') \<Longrightarrow>
     result_of (ValidateUpdate E e w) = Ok () \<longleftrightarrow>
       (\<forall>e'\<in>set eps. epKey e' \<noteq> epKey e \<longrightarrow> epMAC e' \<noteq> epMAC e)"
  by (auto simp: ValidateUpdate_def ValidateMACAddressUpdate_def listOrError_def ListEndpoints_def reject_if_def
      prog_defs filter_empty_conv)

lemma Validate_rejects_without_list:
  "k_listEndpoints E w = (Err x, w') \<Longrightarrow> \<not> is_ok (result_of (ValidateCreate E e w))"
  "k_listEndpoints E w = (Err x, w') \<Longrightarrow> \<not> is_ok (result_of (ValidateUpdate E e w))"
  by (simp_all add: ValidateCreate_def ValidateMACAddressCreate_def ValidateUpdate_def ValidateMACAddressUpdate_def
      listOrError_def ListEndpoints_def reject_if_def prog_defs)

section \<open>Admission\<close>

text \<open>
  The stored endpoints, each under its name, change only through admitted requests, one at a time,
  and the webhook lists what is stored. \<open>stored\<close> reads the store off the world.
\<close>

definition serves_list :: "'w env \<Rightarrow> ('w \<Rightarrow> Endpoint list) \<Rightarrow> bool" where
  "serves_list E stored \<longleftrightarrow> (\<forall>w. fst (k_listEndpoints E w) = Ok (stored w))"

definition replace_endpoint :: "Endpoint \<Rightarrow> Endpoint list \<Rightarrow> Endpoint list" where
  "replace_endpoint e eps = map (\<lambda>e'. if epKey e' = epKey e then e else e') eps"

inductive admission :: "'w env \<Rightarrow> ('w \<Rightarrow> Endpoint list) \<Rightarrow> 'w \<Rightarrow> 'w \<Rightarrow> bool"
  for E stored where
  create: "result_of (ValidateCreate E e w) = Ok () \<Longrightarrow> epKey e \<notin> epKey ` set (stored w) \<Longrightarrow>
     stored w' = stored w @ [e] \<Longrightarrow> admission E stored w w'"
| update: "result_of (ValidateUpdate E e w) = Ok () \<Longrightarrow> stored w' = replace_endpoint e (stored w) \<Longrightarrow>
     admission E stored w w'"
| delete: "result_of (ValidateDelete E e w) = Ok () \<Longrightarrow> stored w' = filter (\<lambda>e'. epKey e' \<noteq> epKey e) (stored w) \<Longrightarrow>
     admission E stored w w'"

definition unique_endpoints :: "Endpoint list \<Rightarrow> bool" where
  "unique_endpoints eps \<longleftrightarrow> distinct (map epKey eps) \<and> distinct (map epMAC eps)"

lemma replace_unique:
  assumes "unique_endpoints eps" and "\<forall>e'\<in>set eps. epKey e' \<noteq> epKey e \<longrightarrow> epMAC e' \<noteq> epMAC e"
  shows "unique_endpoints (replace_endpoint e eps)"
  using assms
proof (induction eps)
  case (Cons a eps)
  have keys: "map epKey (replace_endpoint e xs) = map epKey xs" for xs
    by (induction xs) (auto simp: replace_endpoint_def)
  have macs: "epMAC ` set (replace_endpoint e eps) \<subseteq> insert (epMAC e) (epMAC ` set eps)"
    by (auto simp: replace_endpoint_def)
  have other: "epKey a \<notin> epKey ` set eps" "epMAC a \<notin> epMAC ` set eps"
    using Cons.prems(1) by (auto simp: unique_endpoints_def)
  have same: "replace_endpoint e eps = eps" if "epKey a = epKey e"
    using other(1) that by (auto simp: replace_endpoint_def image_iff intro!: map_idI)
  from Cons have IH: "unique_endpoints (replace_endpoint e eps)"
    by (simp add: unique_endpoints_def)
  show ?case
  proof (cases "epKey a = epKey e")
    case True
    with other(1) Cons.prems(2) have "epMAC e \<notin> epMAC ` set eps" by (fastforce simp: image_iff)
    moreover have "replace_endpoint e (a # eps) = e # eps" using True same by (simp add: replace_endpoint_def)
    ultimately show ?thesis using Cons.prems(1) True by (simp add: unique_endpoints_def)
  next
    case False
    with Cons.prems(2) have "epMAC a \<noteq> epMAC e" by simp
    with macs other(2) have "epMAC a \<notin> epMAC ` set (replace_endpoint e eps)" by blast
    moreover have "replace_endpoint e (a # eps) = a # replace_endpoint e eps" using False by (simp add: replace_endpoint_def)
    moreover have "epKey a \<notin> epKey ` set (replace_endpoint e eps)" using other(1) keys [of eps] by (metis set_map)
    ultimately show ?thesis using IH by (simp add: unique_endpoints_def)
  qed
qed (simp add: replace_endpoint_def)

lemma admission_unique:
  assumes "admission E stored w w'" and "serves_list E stored" and "unique_endpoints (stored w)"
  shows "unique_endpoints (stored w')"
proof -
  from assms(2) obtain w1 where ls: "k_listEndpoints E w = (Ok (stored w), w1)"
    by (metis serves_list_def prod.collapse)
  from assms(1) show ?thesis
  proof cases
    case (create e)
    with ValidateCreate_accepts [OF ls] assms(3) show ?thesis
      by (auto simp: unique_endpoints_def)
  next
    case (update e)
    with ValidateUpdate_accepts [OF ls] replace_unique [OF assms(3)] show ?thesis by auto
  next
    case (delete e)
    with assms(3) show ?thesis
      by (auto simp: unique_endpoints_def distinct_map_filter)
  qed
qed

lemma reachable_unique:
  assumes "(admission E stored)\<^sup>*\<^sup>* w w'" and "serves_list E stored" and "unique_endpoints (stored w)"
  shows "unique_endpoints (stored w')"
  using assms by (induction rule: rtranclp_induct) (auto intro: admission_unique)

end
