(* ===== verification/Example_World.thy ===== *)
theory Example_World
  imports BMC_Controller Claim_Controller Registry Endpoint_Webhook
begin

text \<open>
  A small world with one server, its BMC, its boot configuration, the registry and a list of
  endpoints, and an environment over it: an API server that stores what it is sent, a BMC that does
  what it is told, HTTP answered by the registry. It shows that the laws the properties assume of an
  environment can hold together, and it is where the witnesses run.
\<close>

record world =
  w_server :: Server
  w_claims :: "ServerClaim list"
  w_sbc :: ServerBootConfiguration
  w_power :: string
  w_store :: systems_store
  w_endpoints :: "Endpoint list"

definition ex_url :: string where "ex_url = ''http://registry''"

definition ex_system :: "world \<Rightarrow> ComputerSystem" where
  "ex_system w = \<lparr>CS_ID = ''1'', CS_UUID = ''38-AB'', CS_Model = ''M'', CS_Manufacturer = ''F'',
     CS_PowerState = w_power w, CS_SerialNumber = ''S1'', CS_SKU = '''', CS_IndicatorLED = ''Off'',
     CS_Status = ''Enabled'', CS_TotalSystemMemoryGiB = 4, CS_BIOSVersion = ''1.0'',
     CS_Boot = \<lparr>Boot_BootSourceOverrideEnabled = ''Disabled'', Boot_BootSourceOverrideMode = ''UEFI'',
       Boot_BootSourceOverrideTarget = ''None'', Boot_BootOrder = [''pxe'', ''disk'']\<rparr>\<rparr>"

definition ex_secret :: BMCSecret where
  "ex_secret = \<lparr>BMCSecret_Meta = empty_ObjectMeta\<lparr>ObjectMeta_Name := ''s''\<rparr>, BMCSecret_Immutable = None,
     BMCSecret_Data = [(''username'', ''u''), (''password'', ''p'')], BMCSecret_StringData = [],
     BMCSecret_Type = ''''\<rparr>"

definition set_meta :: "string \<Rightarrow> ObjectMeta \<Rightarrow> ObjectMeta \<Rightarrow> ObjectMeta res" where
  "set_meta kind owner om = Ok (om\<lparr>ObjectMeta_OwnerReferences := [\<lparr>OwnerReference_Kind = kind,
     OwnerReference_Name = ObjectMeta_Name owner, OwnerReference_UID = ObjectMeta_UID owner,
     OwnerReference_Controller = True\<rparr>]\<rparr>)"

definition ex_http :: "string \<Rightarrow> string \<Rightarrow> RegistrationPayload option \<Rightarrow> world \<Rightarrow> HttpResponse \<times> world" where
  "ex_http meth url body w =
     (case ServeHTTP (w_store w) (http_request meth (drop (length ex_url) url) body) of
        (a, s) \<Rightarrow> (a, w\<lparr>w_store := s\<rparr>))"

definition ex_env :: "world env" where
  "ex_env = \<lparr>
     k_getServer = \<lambda>n w. (if n = srvName (w_server w) then Ok (w_server w) else Err NotFoundError, w),
     k_getBMC = \<lambda>_ w. (Err NotFoundError, w),
     k_getBMCSecret = \<lambda>_ w. (Ok ex_secret, w),
     k_getEndpoint = \<lambda>_ w. (Err NotFoundError, w),
     k_getSBC = \<lambda>_ _ w. (Ok (w_sbc w), w),
     k_getClaim = \<lambda>ns n w. (case List.find (\<lambda>c. clmNamespace c = ns \<and> clmName c = n) (w_claims w) of
                               Some c \<Rightarrow> Ok c | None \<Rightarrow> Err NotFoundError, w),
     k_listServers = \<lambda>sel w. (Ok (filter (\<lambda>s. case sel of None \<Rightarrow> True | Some f \<Rightarrow>
                                f (ObjectMeta_Labels (Server_Meta s))) [w_server w]), w),
     k_listClaims = \<lambda>w. (Ok (w_claims w), w),
     k_listEndpoints = \<lambda>w. (Ok (w_endpoints w), w),
     k_listJobs = \<lambda>_ _ w. (Ok 0, w),
     k_patchServer = \<lambda>_ new w. (Ok new, w\<lparr>w_server := new\<rparr>),
     k_patchServerStatus = \<lambda>_ new w. (Ok new, w\<lparr>w_server := new\<rparr>),
     k_patchClaim = \<lambda>_ new w. (Ok new, w),
     k_patchClaimStatus = \<lambda>_ new w. (Ok new, w),
     k_patchSBCStatus = \<lambda>_ new w. (Ok new, w\<lparr>w_sbc := new\<rparr>),
     k_patchBMCStatus = \<lambda>_ new w. (Ok new, w),
     k_applySecret = \<lambda>_ w. (Ok (), w),
     k_deleteSBC = \<lambda>_ _ w. (Ok (), w),
     k_createJob = \<lambda>_ w. (Ok (), w),
     k_createOrPatchServer = \<lambda>s f w. (case f s of
         Ok s' \<Rightarrow> (Ok (OperationResultUpdated, s'), w\<lparr>w_server := s'\<rparr>)
       | Err e \<Rightarrow> (Err e, w) | Panic p \<Rightarrow> (Panic p, w)),
     k_createOrPatchSBC = \<lambda>c f w. (case f c of
         Ok c' \<Rightarrow> (Ok (OperationResultCreated, c'), w\<lparr>w_sbc := c'\<rparr>)
       | Err e \<Rightarrow> (Err e, w) | Panic p \<Rightarrow> (Panic p, w)),
     k_createOrPatchBMC = \<lambda>b f w. (case f b of
         Ok b' \<Rightarrow> (Ok (OperationResultCreated, b'), w) | Err e \<Rightarrow> (Err e, w) | Panic p \<Rightarrow> (Panic p, w)),
     k_createOrPatchBMCSecret = \<lambda>b f w. (case f b of
         Ok b' \<Rightarrow> (Ok (OperationResultCreated, b'), w) | Err e \<Rightarrow> (Err e, w) | Panic p \<Rightarrow> (Panic p, w)),
     k_ensureFinalizerServer = \<lambda>s _ w. (Ok (False, s), w),
     k_ensureNoFinalizerServer = \<lambda>s _ w. (Ok (True, s), w),
     k_ensureFinalizerClaim = \<lambda>c _ w. (Ok (False, c), w),
     k_ensureNoFinalizerClaim = \<lambda>c _ w. (Ok (True, c), w),
     k_ensureNoFinalizerBMC = \<lambda>b _ w. (Ok (True, b), w),
     k_ensureNoFinalizerEndpoint = \<lambda>e _ w. (Ok (True, e), w),
     k_setControllerReference = set_meta,
     k_setLabels = \<lambda>_ ls. ls,
     k_setStatusCondition = \<lambda>cs c. (True, cs @ [c]),
     k_labelSelectorAsSelector = \<lambda>sel. Ok (\<lambda>ls. \<forall>kv\<in>set (LabelSelector_MatchLabels sel). kv \<in> set ls),
     g_connect = \<lambda>_ w. (Ok 7, w),
     g_logout = \<lambda>_ w. (Ok (), w),
     g_systems = \<lambda>_ w. (Ok [ex_system w], w),
     g_reset = \<lambda>_ _ t w. (Ok (), w\<lparr>w_power := if t = ''On'' then ''On'' else ''Off''\<rparr>),
     g_setBoot = \<lambda>_ _ _ w. (Ok (), w),
     g_patchSystem = \<lambda>_ _ s w. (Ok (), w\<lparr>w_power := CS_PowerState s\<rparr>),
     g_managers = \<lambda>_ w. (Ok [], w),
     g_registries = \<lambda>_ w. (Ok ([], None), w),
     g_registryGet = \<lambda>_ _ w. (Ok [], w),
     g_bios = \<lambda>_ _ w. (Ok (\<lambda>_. ''''), w),
     g_updateBiosAttributes = \<lambda>_ _ _ w. (Ok (), w),
     g_storage = \<lambda>_ _ w. (Ok [], w),
     g_volumes = \<lambda>_ _ w. (Ok [], w),
     g_drives = \<lambda>_ _ w. (Ok [], w),
     g_simpleStorages = \<lambda>_ _ w. (Ok [], w),
     g_parseQuantity = \<lambda>_. Ok 4,
     s_polls = \<lambda>_ _ _. 0,
     s_httpGet = \<lambda>url w. (case ex_http ''GET'' url None w of (a, w') \<Rightarrow> (Ok (Some a, None), w')),
     s_httpDelete = \<lambda>url w. (case ex_http ''DELETE'' url None w of (a, w') \<Rightarrow> (Ok (), w')),
     s_httpPostRegister = \<lambda>url p w. (case ex_http ''POST'' url (Some p) w of
                                        (a, w') \<Rightarrow> (Ok (HttpResponse_StatusCode a), w')),
     s_now = \<lambda>_. 0,
     s_sortBootOrder = sort_key BootOrder_Priority,
     s_rsaGenerateKey = \<lambda>_ w. (Ok ''key'', w),
     s_marshalPrivateKey = \<lambda>k. Ok k,
     s_newPublicKey = \<lambda>k. Ok k,
     s_randInt = \<lambda>n w. (Ok (n div 2), w),
     s_bcrypt = \<lambda>s w. (Ok s, w)\<rparr>"

section \<open>The laws hold of it\<close>

lemma ex_quiet: "quiet ex_env"
  by (auto simp: quiet_def ex_env_def split: res.splits)

lemma ex_quiet_claims: "quiet_claims ex_env"
  by (auto simp: quiet_claims_def ex_env_def)

lemma ex_sorts: "sorts_boot_order ex_env"
  by (simp add: sorts_boot_order_def ex_env_def)

lemma ex_serves_list: "serves_list ex_env w_endpoints"
  by (simp add: serves_list_def ex_env_def)

lemma ex_serves_registry: "serves_registry ex_env ex_url w_store"
  by (auto simp: serves_registry_def ex_env_def ex_http_def Let_def split: prod.split)

section \<open>Objects\<close>

definition ex_access :: BMCAccess where
  "ex_access = \<lparr>BMCAccess_Protocol = \<lparr>Protocol_Name = ''Redfish'', Protocol_Port = 443\<rparr>,
     BMCAccess_Address = ''10.0.0.1'', BMCAccess_BMCSecretRef = LocalObjectReference ''s''\<rparr>"

text \<open>A server named \<^verbatim>\<open>srv\<close> in the given lifecycle and power state, reached through inline access data.\<close>

definition ex_server :: "ServerState \<Rightarrow> Power \<Rightarrow> ServerPowerState \<Rightarrow> Server" where
  "ex_server st p ps = (named_Server ''srv'')\<lparr>
     Server_Spec := (Server_Spec (named_Server ''srv''))\<lparr>ServerSpec_SystemUUID := ''38-ab'', ServerSpec_Power := p,
       ServerSpec_BMC := Some ex_access\<rparr>,
     Server_Status := (Server_Status (named_Server ''srv''))\<lparr>ServerStatus_State := st, ServerStatus_PowerState := ps\<rparr>\<rparr>"

definition ex_options :: BMCOptions where
  "ex_options = \<lparr>BMCOptions_Endpoint = '''', BMCOptions_Username = '''', BMCOptions_Password = '''',
     BMCOptions_BasicAuth = False, BMCOptions_ResourcePollingInterval = 0, BMCOptions_ResourcePollingTimeout = 0,
     BMCOptions_PowerPollingInterval = 0, BMCOptions_PowerPollingTimeout = 0\<rparr>"

definition ex_reconciler :: ServerReconciler where
  "ex_reconciler = \<lparr>SR_Insecure = False, SR_ManagerNamespace = ''metal'', SR_ProbeImage = ''probe'',
     SR_RegistryURL = ex_url, SR_ProbeOSImage = ''os'', SR_RegistryResyncInterval = 10, SR_EnforceFirstBoot = False, SR_EnforcePowerOff = False,
     SR_ResyncInterval = 60, SR_BMCOptions = ex_options, SR_DiscoveryTimeout = 1800\<rparr>"

definition ex_world :: "Server \<Rightarrow> world" where
  "ex_world s = \<lparr>w_server = s, w_claims = [], w_sbc = empty_SBC ''metal'' ''srv'',
     w_power = srvPowerState s, w_store = Map.empty, w_endpoints = []\<rparr>"

definition ex_claim :: ServerClaim where
  "ex_claim = \<lparr>ServerClaim_Meta = empty_ObjectMeta\<lparr>ObjectMeta_Name := ''c'', ObjectMeta_Namespace := ''ns'',
       ObjectMeta_UID := ''uid-c'', ObjectMeta_Finalizers := [ServerClaimFinalizer]\<rparr>,
     ServerClaim_Spec = \<lparr>ServerClaimSpec_Power = PowerOn, ServerClaimSpec_ServerRef = Some (LocalObjectReference ''srv''),
       ServerClaimSpec_ServerSelector = None, ServerClaimSpec_IgnitionSecretRef = None,
       ServerClaimSpec_Image = ''image''\<rparr>,
     ServerClaim_Phase = PhaseUnbound\<rparr>"

end
