(* ===== verification/Server_Properties.thy ===== *)
theory Server_Properties
  imports Example_World
begin

text \<open>
  The properties of the server controller and of the BMC clients below it, each with a witness where
  it has a hypothesis. The lemmas they rest on are those of \<^verbatim>\<open>Server_Controller\<close>, \<^verbatim>\<open>Redfish\<close> and
  \<^verbatim>\<open>Bmcutils\<close>.
\<close>

section \<open>The lifecycle\<close>

lemma lifecycle_Server_Reconcile:
  assumes "quiet E"
  shows "emits follows_lifecycle (\<lambda>_. True) (Server_Reconcile E r n)"
  unfolding Server_Reconcile_def Server_reconcileExists_def Server_delete_def
  by (intro emits_intros lifecycle_reconcile assms; simp)


definition ex_new :: Server where "ex_new = ex_server '''' '''' ''Off''"

lemma ex_new_run:
  "EKube (PatchedServerStatus ex_new (set_State ''Initial'' ex_new) (Ok (set_State ''Initial'' ex_new))) \<in>
     set (events_of (Server_Reconcile ex_env ex_reconciler ''srv'' (ex_world ex_new)))"
  by code_simp



definition ex_initial :: Server where "ex_initial = ex_server ''Initial'' ''Off'' ''Off''"



definition ex_managed :: "Server \<Rightarrow> Server" where
  "ex_managed s = s\<lparr>Server_Meta := (Server_Meta s)\<lparr>ObjectMeta_ManagedFields :=
     [\<lparr>ManagedFieldsEntry_Operation = ''Apply'', ManagedFieldsEntry_Subresource = '''', ManagedFieldsEntry_Time = None\<rparr>]\<rparr>\<rparr>"

definition ex_discovery :: Server where
  "ex_discovery = set_BootConfigurationRef (Some (bootConfigRef (empty_SBC ''metal'' ''srv'')))
     (ex_managed (ex_server ''Discovery'' ''On'' ''On''))"

definition ex_registered :: world where
  "ex_registered = (ex_world ex_discovery)\<lparr>
     w_sbc := (empty_SBC ''metal'' ''srv'')\<lparr>SBC_State := ServerBootConfigurationStateReady\<rparr>,
     w_store := [''38-ab'' \<mapsto> \<lparr>RegistryServer_NetworkInterfaces =
       [\<lparr>RNI_Name = ''eth0'', RNI_IPAddress = ''10.0.0.2'', RNI_MACAddress = ''aa''\<rparr>]\<rparr>]\<rparr>"


section \<open>Power\<close>

text \<open>
  C22. In the reserved and in the discovery state nothing but reading happens before the server's boot
  configuration has been read and found ready: no power operation, no network boot and no patch.
\<close>

theorem changes_after_ready_boot_configuration:
  "sat (handleReservedState E r s) (\<lambda>_ es. guarded is_ready_read (\<lambda>e. \<not> is_read e) es) \<and>
   sat (handleDiscoveryState E r s) (\<lambda>_ es. guarded is_ready_read (\<lambda>e. \<not> is_read e) es)"
  by (intro conjI reserved_guarded discovery_guarded)


definition ex_off :: Server where "ex_off = ex_server ''Reserved'' ''On'' ''Off''"


text \<open>A server in the available state is never powered on.\<close>

theorem available_is_never_powered_on:
  assumes "quiet E" and "e \<in> set (events_of (handleAvailableState E r s w))"
  shows "\<not> is_power_on e"
proof -
  obtain res es w' where run: "handleAvailableState E r s w = (res, es, w')" by (metis prod_cases3)
  with emitsD(1) [OF available_no_power_on [OF assms(1)] run] assms(2) show ?thesis
    by (auto simp: events_of_def)
qed

definition ex_available :: Server where "ex_available = ex_server ''Available'' ''On'' ''On''"

theorem available_is_never_powered_on_witness:
  "\<exists>e. e \<in> set (events_of (handleAvailableState ex_env ex_reconciler ex_available (ex_world ex_available))) \<and>
     is_power_off e \<and> \<not> is_power_on e"
proof -
  have "EBmc (ResetSystem 7 ''38-AB'' GracefulShutdownResetType True) \<in>
      set (events_of (handleAvailableState ex_env ex_reconciler ex_available (ex_world ex_available)))" by code_simp
  from this available_is_never_powered_on [OF ex_quiet this] show ?thesis
    by (intro exI conjI) (assumption, simp)
qed

text \<open>A server is switched off by force only when the controller is configured to enforce it.\<close>

theorem force_only_if_enforced:
  assumes "\<not> SR_EnforcePowerOff r"
  shows "emits (\<lambda>e. \<not> is_force_off e) (\<lambda>_. True) (ensureServerPowerState E r s)"
  by (rule no_force_ensureServerPowerState [OF assms])

theorem force_only_if_enforced_witness:
  "\<not> SR_EnforcePowerOff ex_reconciler \<and>
   emits (\<lambda>e. \<not> is_force_off e) (\<lambda>_. True) (ensureServerPowerState ex_env ex_reconciler ex_available)"
proof -
  have "\<not> SR_EnforcePowerOff ex_reconciler" by (simp add: ex_reconciler_def)
  with force_only_if_enforced [OF this] show ?thesis by blast
qed

section \<open>Deletion, annotations, sessions\<close>

text \<open>
  C24. When a server is deleted, its finalizer is removed only after the boot configuration it refers to
  has been deleted or was not found.
\<close>

theorem finalizer_after_boot_configuration:
  assumes "srvBootConfigurationRef s = Some ref"
  shows "sat (Server_delete E s) (\<lambda>_ es. guarded
    (is_gone (ObjectReference_Namespace ref) (ObjectReference_Name ref)) is_unfinalize es)"
  by (rule delete_order [OF assms])

theorem finalizer_after_boot_configuration_witness:
  "(\<exists>e\<in>set (events_of (Server_delete ex_env ex_discovery ex_registered)). is_unfinalize e) \<and>
   guarded (is_gone ''metal'' ''srv'') is_unfinalize (events_of (Server_delete ex_env ex_discovery ex_registered))"
proof
  show "\<exists>e\<in>set (events_of (Server_delete ex_env ex_discovery ex_registered)). is_unfinalize e" by code_simp
  have "srvBootConfigurationRef ex_discovery = Some (bootConfigRef (empty_SBC ''metal'' ''srv''))"
    by (simp add: ex_discovery_def)
  from finalizer_after_boot_configuration [OF this, of ex_env]
  show "guarded (is_gone ''metal'' ''srv'') is_unfinalize (events_of (Server_delete ex_env ex_discovery ex_registered))"
    by (simp add: sat_def bootConfigRef_def empty_SBC_def)
qed

text \<open>
  The reset that an operation annotation asks for is sent before the annotation is removed: a reset
  the BMC did not accept is asked for again.
\<close>

theorem annotation_kept_until_reset:
  assumes "map_of (srvAnnotations s) OperationAnnotation = Some op"
  shows "sat (handleAnnotionOperations E r s) (\<lambda>_ es. guarded (is_reset op) is_patch es)"
  by (rule annotation_order [OF assms])

definition ex_annotated :: Server where
  "ex_annotated = (ex_server ''Available'' '''' ''On'')\<lparr>Server_Meta :=
     empty_ObjectMeta\<lparr>ObjectMeta_Annotations := [(OperationAnnotation, ''GracefulRestart'')]\<rparr>\<rparr>"

theorem annotation_kept_until_reset_witness:
  "(\<exists>e\<in>set (events_of (handleAnnotionOperations ex_env ex_reconciler ex_annotated (ex_world ex_annotated))). is_patch e) \<and>
   guarded (is_reset ''GracefulRestart'') is_patch
     (events_of (handleAnnotionOperations ex_env ex_reconciler ex_annotated (ex_world ex_annotated)))"
proof
  show "\<exists>e\<in>set (events_of (handleAnnotionOperations ex_env ex_reconciler ex_annotated (ex_world ex_annotated))). is_patch e"
    by code_simp
  have "map_of (srvAnnotations ex_annotated) OperationAnnotation = Some ''GracefulRestart''"
    by (simp add: ex_annotated_def)
  from annotation_kept_until_reset [OF this, of ex_env ex_reconciler]
  show "guarded (is_reset ''GracefulRestart'') is_patch
     (events_of (handleAnnotionOperations ex_env ex_reconciler ex_annotated (ex_world ex_annotated)))"
    by (simp add: sat_def)
qed

text \<open>
  C23. A reconciliation of a server closes every BMC session it opens, unless it has read a boot
  configuration that is ready.
\<close>

theorem server_sessions_are_closed:
  "sat (Server_Reconcile E r n) (\<lambda>_ es. balanced es \<or> (\<exists>e\<in>set es. is_ready_read e))"
  using sessions_reconcile [of E r n] by (simp add: sessions_closed_def)

text \<open>
  The exception is real: in the discovery state the session opened to read the storages is never
  closed.
\<close>

theorem discovery_leaves_session_open:
  "opened (events_of (handleDiscoveryState ex_env ex_reconciler ex_discovery ex_registered)) = [7] \<and>
   closed (events_of (handleDiscoveryState ex_env ex_reconciler ex_discovery ex_registered)) = []"
  by code_simp

section \<open>BIOS settings, boot order, status\<close>

text \<open>
  \<^verbatim>\<open>applyBiosSettings\<close> sends only settings of the spec whose key the status does not hold: the
  attributes of an update are, key by key, those of one of the spec's BIOS versions, less the keys that
  the status has.
\<close>

theorem bios_update_is_missing_settings:
  assumes "\<forall>bios\<in>set (srvBIOS s). distinct (map fst (BIOSSettings_Settings bios))"
    and "EBmc (UpdatedBiosAttributes h u attrs ok) \<in> set (events_of (applyBiosSettings E r s w))"
  shows "\<exists>bios\<in>set (srvBIOS s). \<forall>k. map_of attrs k =
     (if map_of (BIOSSettings_Settings (ServerStatus_BIOS (Server_Status s))) k = None
      then map_of (BIOSSettings_Settings bios) k else None)"
proof -
  obtain res es w' where run: "applyBiosSettings E r s w = (res, es, w')" by (metis prod_cases3)
  with emitsD(1) [OF applyBiosSettings_sends run] assms(2)
  have "updates_bios (\<lambda>attrs. \<exists>bios\<in>set (srvBIOS s). attrs =
      biosDiff (BIOSSettings_Settings (ServerStatus_BIOS (Server_Status s))) (BIOSSettings_Settings bios))
     (EBmc (UpdatedBiosAttributes h u attrs ok))" by (auto simp: events_of_def)
  with assms(1) show ?thesis by (auto simp: biosDiff_lookup)
qed

text \<open>A server whose spec wants one setting that its status has, with another value, and none it lacks.\<close>

definition ex_bios :: Server where
  "ex_bios = (let s = ex_server ''Available'' '''' ''Off'' in
     s\<lparr>Server_Spec := (Server_Spec s)\<lparr>ServerSpec_BIOS :=
         [\<lparr>BIOSSettings_Version = ''1.0'', BIOSSettings_Settings = [(''fan'', ''high'')]\<rparr>]\<rparr>,
       Server_Status := (Server_Status s)\<lparr>ServerStatus_BIOS :=
         \<lparr>BIOSSettings_Version = ''1.0'', BIOSSettings_Settings = [(''fan'', ''low'')]\<rparr>\<rparr>\<rparr>)"

theorem bios_update_is_missing_settings_witness:
  "EBmc (UpdatedBiosAttributes 7 ''38-AB'' [] True) \<in>
     set (events_of (applyBiosSettings ex_env ex_reconciler ex_bios (ex_world ex_bios))) \<and>
   (\<exists>bios\<in>set (srvBIOS ex_bios). \<forall>k. map_of [] k =
     (if map_of (BIOSSettings_Settings (ServerStatus_BIOS (Server_Status ex_bios))) k = None
      then map_of (BIOSSettings_Settings bios) k else None))"
proof
  show sent: "EBmc (UpdatedBiosAttributes 7 ''38-AB'' [] True) \<in>
     set (events_of (applyBiosSettings ex_env ex_reconciler ex_bios (ex_world ex_bios)))" by code_simp
  have "\<forall>bios\<in>set (srvBIOS ex_bios). distinct (map fst (BIOSSettings_Settings bios))"
    by (simp add: ex_bios_def Let_def)
  from bios_update_is_missing_settings [OF this sent]
  show "\<exists>bios\<in>set (srvBIOS ex_bios). \<forall>k. map_of [] k =
     (if map_of (BIOSSettings_Settings (ServerStatus_BIOS (Server_Status ex_bios))) k = None
      then map_of (BIOSSettings_Settings bios) k else None)" .
qed

text \<open>
  A boot order that \<^verbatim>\<open>applyBootOrder\<close> sends to the BMC has exactly the devices of the spec, in the
  order of their priorities.
\<close>

theorem boot_order_is_by_priority:
  assumes "sorts_boot_order E"
    and "EBmc (SetBoot h u b ok) \<in> set (events_of (applyBootOrder E r s w))"
  shows "\<exists>bs. Boot_BootOrder b = map BootOrder_Device bs \<and> mset bs = mset (srvBootOrder s) \<and>
    sorted (map BootOrder_Priority bs)"
proof -
  obtain res es w' where run: "applyBootOrder E r s w = (res, es, w')" by (metis prod_cases3)
  with emitsD(1) [OF applyBootOrder_sends run] assms(2)
  have "sets_boot_order (\<lambda>devices. devices = map BootOrder_Device (s_sortBootOrder E (srvBootOrder s)))
     (EBmc (SetBoot h u b ok))" by (auto simp: events_of_def)
  with assms(1) show ?thesis by (auto simp: sorts_boot_order_def)
qed

definition ex_boot_order :: Server where
  "ex_boot_order = set_BootOrder [\<lparr>BootOrder_Name = ''a'', BootOrder_Priority = 2, BootOrder_Device = ''pxe''\<rparr>,
     \<lparr>BootOrder_Name = ''b'', BootOrder_Priority = 1, BootOrder_Device = ''disk''\<rparr>]
     (ex_server ''Available'' '''' ''Off'')"

definition ex_boot :: Boot where
  "ex_boot = \<lparr>Boot_BootSourceOverrideEnabled = ''Continuous'', Boot_BootSourceOverrideMode = '''',
     Boot_BootSourceOverrideTarget = ''None'', Boot_BootOrder = [''disk'', ''pxe'']\<rparr>"

theorem boot_order_is_by_priority_witness:
  "EBmc (SetBoot 7 ''38-AB'' ex_boot True) \<in>
     set (events_of (applyBootOrder ex_env ex_reconciler ex_boot_order (ex_world ex_boot_order))) \<and>
   (\<exists>bs. Boot_BootOrder ex_boot = map BootOrder_Device bs \<and> mset bs = mset (srvBootOrder ex_boot_order) \<and>
     sorted (map BootOrder_Priority bs))"
proof
  show sent: "EBmc (SetBoot 7 ''38-AB'' ex_boot True) \<in>
     set (events_of (applyBootOrder ex_env ex_reconciler ex_boot_order (ex_world ex_boot_order)))" by code_simp
  from boot_order_is_by_priority [OF ex_sorts sent]
  show "\<exists>bs. Boot_BootOrder ex_boot = map BootOrder_Device bs \<and> mset bs = mset (srvBootOrder ex_boot_order) \<and>
     sorted (map BootOrder_Priority bs)" .
qed

text \<open>
  The comparison of \<^verbatim>\<open>applyBootOrder\<close> is that of the wanted devices with the prefix of the BMC's boot
  order of that length; it panics when the BMC's order is shorter.
\<close>

theorem boot_order_comparison:
  "bootOrderChange order wanted =
     (if length wanted \<le> length order
      then Ok (take (length wanted) order \<noteq> map BootOrder_Device wanted)
      else Panic ''index out of range'')"
  by (induction order wanted rule: bootOrderChange.induct) auto

text \<open>
  A status that \<^verbatim>\<open>updateServerStatus\<close> writes has been reported, earlier in the run, by the BMC for the
  system with the server's UUID: power state, serial number and model.
\<close>

theorem status_is_reported_by_bmc:
  "sat (updateServerStatus E r s) (\<lambda>_ es. guarded (lists_system (srvSystemUUID s) new) (is_status_patch_to new) es)"
  by (rule updateServerStatus_reports)

text \<open>A server marked to be ignored is read and left alone.\<close>

theorem ignored_server_is_left_alone:
  assumes "map_of (srvAnnotations s) OperationAnnotation = Some OperationAnnotationIgnore"
    and "ObjectMeta_DeletionTimestamp (Server_Meta s) = None" and "k_getServer E n w = (Ok s, w')"
  shows "Server_Reconcile E r n w = (Ok emptyResult, [EKube (GotServer n (Ok s))], w')"
  using assms by (simp add: Server_Reconcile_def reconcileObject_def Server_reconcileExists_def
      Server_reconcile_def shouldIgnoreReconciliation_def GetServer_def prog_defs)

definition ex_ignored :: Server where
  "ex_ignored = (ex_server ''Available'' '''' ''On'')\<lparr>Server_Meta := empty_ObjectMeta\<lparr>ObjectMeta_Name := ''srv'',
     ObjectMeta_Annotations := [(OperationAnnotation, OperationAnnotationIgnore)]\<rparr>\<rparr>"

theorem ignored_server_is_left_alone_witness:
  "Server_Reconcile ex_env ex_reconciler ''srv'' (ex_world ex_ignored) =
     (Ok emptyResult, [EKube (GotServer ''srv'' (Ok ex_ignored))], ex_world ex_ignored)"
proof (rule ignored_server_is_left_alone)
  show "map_of (srvAnnotations ex_ignored) OperationAnnotation = Some OperationAnnotationIgnore"
    and "ObjectMeta_DeletionTimestamp (Server_Meta ex_ignored) = None"
    by (simp_all add: ex_ignored_def empty_ObjectMeta_def)
  show "k_getServer ex_env ''srv'' (ex_world ex_ignored) = (Ok ex_ignored, ex_world ex_ignored)"
    by (simp add: ex_env_def ex_world_def ex_ignored_def)
qed

end
