(* ===== verification/Redfish_Properties.thy ===== *)
theory Redfish_Properties
  imports Example_World
begin

text \<open>
  The properties of the Redfish client and of the helpers that connect to a BMC. The lemmas they rest on
  are those of \<^verbatim>\<open>Redfish\<close> and \<^verbatim>\<open>Bmcutils\<close>.
\<close>

section \<open>Polling\<close>

text \<open>
  A poll whose condition is not done in its first \<open>k\<close> runs and is done in the next one returns the value of
  that run, when the time allows that many runs; the condition is evaluated \<open>k + 1\<close> times.
\<close>

definition after_runs :: "('e, 'w, 'a) prog \<Rightarrow> nat \<Rightarrow> 'w \<Rightarrow> 'w" where
  "after_runs c i = (\<lambda>w. world_of (c w)) ^^ i"

lemma after_runs_Suc: "after_runs c (Suc i) w = after_runs c i (world_of (c w))"
  unfolding after_runs_def funpow_Suc_right by simp

lemma poll_loop_done:
  assumes "\<forall>i<k. result_of (c (after_runs c i w)) = Ok None \<and> length (events_of (c (after_runs c i w))) = 1"
    and "result_of (c (after_runs c k w)) = Ok (Some v)" and "length (events_of (c (after_runs c k w))) = 1"
    and "k \<le> n"
  shows "result_of (poll_loop n c w) = Ok v \<and> length (events_of (poll_loop n c w)) = Suc k"
  using assms
proof (induction k arbitrary: n w)
  case 0
  then show ?case
    by (cases n) (auto simp: bindM_def returnM_def after_runs_def result_of_def events_of_def split: prod.splits)
next
  case (Suc k)
  from Suc.prems(4) obtain m where n: "n = Suc m" and "k \<le> m" by (cases n) auto
  obtain r es w' where run: "c w = (r, es, w')" by (metis prod_cases3)
  with Suc.prems(1) [rule_format, of 0] have r: "r = Ok None" "length es = 1"
    by (simp_all add: after_runs_def result_of_def events_of_def)
  have w': "after_runs c (Suc i) w = after_runs c i w'" for i
    by (simp add: after_runs_Suc run world_of_def)
  have "result_of (poll_loop m c w') = Ok v \<and> length (events_of (poll_loop m c w')) = Suc k"
    by (rule Suc.IH) (use Suc.prems \<open>k \<le> m\<close> in \<open>auto simp flip: w'\<close>)
  then show ?case
    by (auto simp: n run r bindM_def result_of_def events_of_def split: prod.splits)
qed

lemma poll_loop_timeout:
  assumes "\<forall>i\<le>n. result_of (c (after_runs c i w)) = Ok None"
  shows "result_of (poll_loop n c w) = Err (OtherError ''context deadline exceeded'')"
  using assms
proof (induction n arbitrary: w)
  case 0
  then show ?case
    by (auto simp: bindM_def errM_def after_runs_def result_of_def split: prod.splits)
next
  case (Suc n)
  obtain r es w' where run: "c w = (r, es, w')" by (metis prod_cases3)
  with Suc.prems [rule_format, of 0] have r: "r = Ok None" by (simp add: after_runs_def result_of_def)
  have w': "after_runs c (Suc i) w = after_runs c i w'" for i
    by (simp add: after_runs_Suc run world_of_def)
  have "result_of (poll_loop n c w') = Err (OtherError ''context deadline exceeded'')"
    by (rule Suc.IH) (use Suc.prems in \<open>auto simp flip: w'\<close>)
  then show ?case
    by (auto simp: run r bindM_def result_of_def split: prod.splits)
qed

text \<open>The condition of \<^verbatim>\<open>getSystemByUUID\<close>'s poll, and the worlds its runs leave.\<close>

definition list_condition :: "'w env \<Rightarrow> nat \<Rightarrow> ('w, ComputerSystem list option) M" where
  "list_condition E h = catchM (bindM (Systems E h) (\<lambda>ss. returnM (Some ss))) (\<lambda>_. returnM None)"

lemma list_condition_run:
  "g_systems E h w = (Ok ss, w') \<Longrightarrow> list_condition E h w = (Ok (Some ss), [EBmc (ListedSystems h (Ok ss))], w')"
  "g_systems E h w = (Err e, w') \<Longrightarrow> list_condition E h w = (Ok None, [EBmc (ListedSystems h (Err e))], w')"
  by (simp_all add: list_condition_def Systems_def prog_defs)

definition world_after_listings :: "'w env \<Rightarrow> nat \<Rightarrow> nat \<Rightarrow> 'w \<Rightarrow> 'w" where
  "world_after_listings E h i = (\<lambda>w. snd (g_systems E h w)) ^^ i"

definition not_listed :: "'w env \<Rightarrow> nat \<Rightarrow> 'w \<Rightarrow> bool" where
  "not_listed E h w \<longleftrightarrow> (\<exists>e. fst (g_systems E h w) = Err e)"

lemma list_condition_world:
  assumes "\<forall>i<k. not_listed E h (world_after_listings E h i w)" and "i \<le> k"
  shows "after_runs (list_condition E h) i w = world_after_listings E h i w"
  using assms(2)
proof (induction i)
  case (Suc i)
  then have ih: "after_runs (list_condition E h) i w = world_after_listings E h i w" by simp
  from assms(1) Suc.prems obtain e w' where
    run: "g_systems E h (world_after_listings E h i w) = (Err e, w')"
    unfolding not_listed_def by (metis Suc_le_lessD prod.collapse)
  with ih show ?case
    by (simp add: after_runs_def world_after_listings_def list_condition_run world_of_def)
qed (simp add: after_runs_def world_after_listings_def)

text \<open>
  C29. Looking up a system retries a BMC that does not answer: if the first \<open>k\<close> listings fail and the next
  one succeeds within the time of the poll, the lookup lists \<open>k + 1\<close> times and returns the first system whose UUID
  in lower case is the one asked for, or the error that there is none.
\<close>

theorem lookup_retries_listing:
  assumes "\<forall>i<k. not_listed E (RedfishBMC_client r) (world_after_listings E (RedfishBMC_client r) i w)"
    and "g_systems E (RedfishBMC_client r) (world_after_listings E (RedfishBMC_client r) k w) = (Ok ss, w')"
    and "k \<le> s_polls E (BMCOptions_ResourcePollingInterval (RedfishBMC_options r))
                        (BMCOptions_ResourcePollingTimeout (RedfishBMC_options r)) w"
  shows "result_of (getSystemByUUID E r u w) =
      (case find_system u ss of Some s \<Rightarrow> Ok s | None \<Rightarrow> Err (OtherError ''no system found'')) \<and>
    length (events_of (getSystemByUUID E r u w)) = Suc k"
proof -
  let ?h = "RedfishBMC_client r" and ?c = "list_condition E (RedfishBMC_client r)"
  let ?n = "s_polls E (BMCOptions_ResourcePollingInterval (RedfishBMC_options r))
                      (BMCOptions_ResourcePollingTimeout (RedfishBMC_options r)) w"
  have world: "i \<le> k \<Longrightarrow> after_runs ?c i w = world_after_listings E ?h i w" for i
    by (rule list_condition_world [OF assms(1)])
  have fails: "result_of (?c (after_runs ?c i w)) = Ok None \<and> length (events_of (?c (after_runs ?c i w))) = 1"
    if "i < k" for i
  proof -
    from assms(1) that obtain e w1 where "g_systems E ?h (world_after_listings E ?h i w) = (Err e, w1)"
      unfolding not_listed_def by (metis prod.collapse)
    with that show ?thesis by (simp add: world list_condition_run result_of_def events_of_def)
  qed
  have poll: "result_of (poll_loop ?n ?c w) = Ok ss \<and> length (events_of (poll_loop ?n ?c w)) = Suc k"
    by (rule poll_loop_done) (use fails assms(2,3) in \<open>auto simp: world list_condition_run result_of_def events_of_def\<close>)
  have unfold: "getSystemByUUID E r u w = bindM (wrapM ''failed to wait for for server systems to be ready'' (poll_loop ?n ?c))
       (\<lambda>systems. case find_system u systems of Some s \<Rightarrow> returnM s | None \<Rightarrow> errM (OtherError ''no system found'')) w"
    by (simp add: getSystemByUUID_def PollUntilContextTimeout_def list_condition_def bindM_def wrapM_def)
  obtain es w2 where "poll_loop ?n ?c w = (Ok ss, es, w2)" and "length es = Suc k"
    using poll by (metis result_of_def events_of_def prod.collapse fst_conv snd_conv)
  then show ?thesis
    unfolding unfold by (simp_all add: bindM_def wrapM_def returnM_def errM_def result_of_def events_of_def split: option.split)
qed

text \<open>A BMC that is busy at first: the listing fails once and then succeeds.\<close>

definition ex_busy_env :: "world env" where
  "ex_busy_env = ex_env\<lparr>
     g_systems := \<lambda>_ w. if w_power w = ''Unknown'' then (Err (OtherError ''busy''), w\<lparr>w_power := ''Off''\<rparr>)
                        else (Ok [ex_system w], w),
     s_polls := \<lambda>_ _ _. 3\<rparr>"

definition ex_client :: RedfishBMC where
  "ex_client = \<lparr>RedfishBMC_client = 7, RedfishBMC_options = ex_options\<rparr>"

definition ex_busy :: world where
  "ex_busy = (ex_world (ex_server ''Initial'' ''Off'' ''Off''))\<lparr>w_power := ''Unknown''\<rparr>"

theorem lookup_retries_listing_witness:
  "result_of (getSystemByUUID ex_busy_env ex_client ''38-ab'' ex_busy) =
     Ok (ex_system (ex_busy\<lparr>w_power := ''Off''\<rparr>)) \<and>
   length (events_of (getSystemByUUID ex_busy_env ex_client ''38-ab'' ex_busy)) = 2"
proof -
  let ?w = "ex_busy\<lparr>w_power := ''Off''\<rparr>"
  have first: "\<forall>i<Suc 0. not_listed ex_busy_env (RedfishBMC_client ex_client)
      (world_after_listings ex_busy_env (RedfishBMC_client ex_client) i ex_busy)"
    by (simp add: not_listed_def world_after_listings_def ex_busy_env_def ex_busy_def)
  have second: "g_systems ex_busy_env (RedfishBMC_client ex_client)
      (world_after_listings ex_busy_env (RedfishBMC_client ex_client) (Suc 0) ex_busy) = (Ok [ex_system ?w], ?w)"
    by (simp add: world_after_listings_def ex_busy_env_def ex_busy_def)
  have polls: "Suc 0 \<le> s_polls ex_busy_env (BMCOptions_ResourcePollingInterval (RedfishBMC_options ex_client))
      (BMCOptions_ResourcePollingTimeout (RedfishBMC_options ex_client)) ex_busy"
    by (simp add: ex_busy_env_def)
  have "find_system ''38-ab'' [ex_system ?w] = Some (ex_system ?w)" by code_simp
  with lookup_retries_listing [OF first second polls, of "''38-ab''"] show ?thesis by simp
qed

section \<open>Power and boot\<close>

text \<open>
  Powering on lists the systems and then resets the system with that UUID, of type \<^verbatim>\<open>On\<close> and once, when
  and only when it is not reported as on; it succeeds only if the system was found.
\<close>

theorem power_on_resets_only_if_off: "sat (RedfishBMC_PowerOn E r u) (power_on_trace r u)"
  by (rule sat_PowerOn)

text \<open>
  A successful \<^verbatim>\<open>SetPXEBootOnce\<close> ends in one accepted boot override of the system with that UUID: for
  the next boot only, from PXE, in UEFI mode.
\<close>

theorem network_boot_is_once_and_uefi: "sat (RedfishBMC_SetPXEBootOnce E r u) (pxe_trace r u)"
  by (rule sat_SetPXEBootOnce)

section \<open>BIOS attributes\<close>

text \<open>The entry of the BIOS registry for an attribute that may be set: the last one that is not immutable,
  read-only or hidden.\<close>

definition listed :: "RegistryEntryAttributes list \<Rightarrow> string \<Rightarrow> RegistryEntryAttributes option" where
  "listed entries n = List.find (\<lambda>a. Attr_AttributeName a = n)
     (rev (filter (\<lambda>a. \<not> Attr_Immutable a \<and> \<not> Attr_ReadOnly a \<and> \<not> Attr_Hidden a) entries))"

definition fits :: "RegistryEntryAttributes \<Rightarrow> string \<Rightarrow> bool" where
  "fits a v \<longleftrightarrow> ToLower (Attr_Type a) = ''integer'' \<and> Atoi v \<noteq> None \<or> ToLower (Attr_Type a) = ''string''"

lemma filtered_listed: "map_of (filter_attributes False False entries) = listed entries"
  by (rule ext) (simp add: filter_attributes_lookup listed_def)

lemma settable_listed:
  "settable (filter_attributes False False entries) nv \<longleftrightarrow> (\<exists>a. listed entries (fst nv) = Some a \<and> fits a (snd nv))"
  "needs_reset (filter_attributes False False entries) nv \<longleftrightarrow>
     (\<exists>a. listed entries (fst nv) = Some a \<and> Attr_ResetRequired a)"
  by (auto simp: settable_def needs_reset_def filtered_listed fits_def)

text \<open>
  With one BIOS attribute registry on the BMC, the check accepts attributes exactly if the registry
  lists each of them as neither hidden nor immutable nor read-only, with a type its value fits; then it
  reports that a reset is needed exactly if one of them needs it.
\<close>

theorem bios_attribute_check:
  assumes "g_registries E (RedfishBMC_client r) w = (Ok ([reg], None), w1)"
    and "Contains (GRegistry_ID reg) ''BiosAttributeRegistry''" and "GRegistry_Location reg = uri # uris"
    and "g_registryGet E (RedfishBMC_client r) uri w1 = (Ok entries, w2)"
  shows "result_of (checkBiosAttributes E r attrs w) = Ok reset \<longleftrightarrow>
     (\<forall>(n, v)\<in>set attrs. \<exists>a. listed entries n = Some a \<and> fits a v) \<and>
     (reset \<longleftrightarrow> (\<exists>(n, v)\<in>set attrs. \<exists>a. listed entries n = Some a \<and> Attr_ResetRequired a))"
proof -
  let ?filtered = "filter_attributes False False entries"
  obtain rr errs where c: "check_attributes ?filtered attrs False [] = (rr, errs)" by fastforce
  from check_attributes_iff [OF c] have iff: "errs = [] \<longleftrightarrow> (\<forall>nv\<in>set attrs. settable ?filtered nv)"
    "rr \<longleftrightarrow> (\<exists>nv\<in>set attrs. needs_reset ?filtered nv)" by simp_all
  have "result_of (checkBiosAttributes E r attrs w) =
      (if errs = [] then Ok rr else Err (OtherError (join_lines errs)))"
    using assms c by (simp add: checkBiosAttributes_def getFilteredBiosRegistryAttributes_def Registries_def
        Registry_Get_def prog_defs result_of_def)
  then show ?thesis by (simp add: iff settable_listed case_prod_beta) blast
qed

definition ex_bios_env :: "world env" where
  "ex_bios_env = ex_env\<lparr>
     g_registries := \<lambda>_ w. (Ok ([\<lparr>GRegistry_ID = ''BiosAttributeRegistry.v1'', GRegistry_Location = [''/bios'']\<rparr>], None), w),
     g_registryGet := \<lambda>_ _ w. (Ok [\<lparr>Attr_AttributeName = ''fan'', Attr_Hidden = False, Attr_Immutable = False,
        Attr_ReadOnly = False, Attr_ResetRequired = True, Attr_Type = ''Integer''\<rparr>], w)\<rparr>"

theorem bios_attribute_check_witness:
  "result_of (checkBiosAttributes ex_bios_env ex_client [(''fan'', ''-12'')] ex_busy) = Ok True \<and>
   result_of (checkBiosAttributes ex_bios_env ex_client [(''fan'', ''high'')] ex_busy) \<noteq> Ok True"
proof -
  let ?fan = "\<lparr>Attr_AttributeName = ''fan'', Attr_Hidden = False, Attr_Immutable = False,
        Attr_ReadOnly = False, Attr_ResetRequired = True, Attr_Type = ''Integer''\<rparr>"
  let ?reg = "\<lparr>GRegistry_ID = ''BiosAttributeRegistry.v1'', GRegistry_Location = [''/bios'']\<rparr>"
  have 1: "g_registries ex_bios_env (RedfishBMC_client ex_client) ex_busy = (Ok ([?reg], None), ex_busy)"
    and 4: "g_registryGet ex_bios_env (RedfishBMC_client ex_client) ''/bios'' ex_busy = (Ok [?fan], ex_busy)"
    by (simp_all add: ex_bios_env_def)
  have 2: "Contains (GRegistry_ID ?reg) ''BiosAttributeRegistry''" by code_simp
  have 3: "GRegistry_Location ?reg = ''/bios'' # []" by simp
  have listed: "listed [?fan] ''fan'' = Some ?fan" by (simp add: listed_def)
  have fits: "fits ?fan ''-12''" and unfit: "\<not> fits ?fan ''high''" by code_simp+
  show ?thesis
    using bios_attribute_check [OF 1 2 3 4, of _ True] by (simp add: listed fits unfit)
qed

section \<open>Connecting\<close>

text \<open>
  Every connection that \<^verbatim>\<open>CreateBMCClient\<close> opens goes to the address and port it is given, over TLS
  unless it is told to be insecure, with the credentials of the secret it is given.
\<close>

theorem client_connects_as_asked:
  "emits (connects_to (\<lambda>cfg. ClientConfig_Endpoint cfg =
        (if insecure then ''http'' else ''https'') @ ''://'' @ JoinHostPort address (itoa (sint port)) \<and>
       GetBMCCredentialsFromSecret secret = Ok (ClientConfig_Username cfg, ClientConfig_Password cfg)))
     (\<lambda>_. True) (CreateBMCClient E insecure protocol address port secret opts)"
  using CreateBMCClient_config [of insecure address port secret E protocol opts] by (simp add: bmc_endpoint_def)

end
