(* ===== verification/Claim_Properties.thy ===== *)
theory Claim_Properties
  imports Example_World
begin

text \<open>
  The properties of the server claim controller, each with a witness where it has a hypothesis. The
  lemmas they rest on are those of \<^verbatim>\<open>Claim_Controller\<close>.
\<close>

section \<open>Claiming\<close>


definition ex_free :: Server where "ex_free = ex_server ''Available'' ''Off'' ''Off''"



definition ex_owned :: Server where
  "ex_owned = set_ServerClaimRef (Some (claimObjectRef ex_claim)) (ex_server ''Reserved'' ''Off'' ''Off'')"


text \<open>
  A claim's reference to a server is set once: without one, the claim is patched to refer to the server;
  with one, nothing is written, and a server of another name is an error.
\<close>

theorem server_ref_is_immutable:
  "sat (patchServerRef E claim server) (\<lambda>res es.
     case clmServerRef claim of
       None \<Rightarrow> (\<exists>ans new. es = [EKube (PatchedClaim claim new ans)] \<and>
                  clmServerRef new = Some (LocalObjectReference (srvName server)))
     | Some ref \<Rightarrow> es = [] \<and>
                  (if LocalObjectReference_Name ref = srvName server then res = Ok (False, claim) else \<not> is_ok res))"
  by (rule patchServerRef_result)

section \<open>Releasing\<close>

text \<open>
  C25. When a claim that refers to a server is deleted, its finalizer is removed only after its boot
  configuration has been deleted or was not found.
\<close>

theorem deletion_releases_first:
  assumes "clmServerRef claim = Some ref"
  shows "sat (Claim_delete E claim) (\<lambda>_ es. guarded (is_gone (clmNamespace claim) (clmName claim)) is_unfinalize es)"
  by (rule delete_cleans_up_first [OF assms])

theorem deletion_releases_first_witness:
  "(\<exists>e\<in>set (events_of (Claim_delete ex_env ex_claim (ex_world ex_owned))). is_unfinalize e) \<and>
   guarded (is_gone ''ns'' ''c'') is_unfinalize (events_of (Claim_delete ex_env ex_claim (ex_world ex_owned)))"
proof
  show "\<exists>e\<in>set (events_of (Claim_delete ex_env ex_claim (ex_world ex_owned))). is_unfinalize e" by code_simp
  have "clmServerRef ex_claim = Some (LocalObjectReference ''srv'')" by (simp add: ex_claim_def)
  from deletion_releases_first [OF this, of ex_env]
  show "guarded (is_gone ''ns'' ''c'') is_unfinalize (events_of (Claim_delete ex_env ex_claim (ex_world ex_owned)))"
    by (simp add: sat_def ex_claim_def empty_ObjectMeta_def)
qed

text \<open>
  A cleanup that succeeds has taken the claim reference off the server it found.
\<close>

theorem cleanup_releases_server:
  assumes "result_of (cleanupAndShutdownServer E claim w) = Ok ()"
    and "EKube (GotServer n (Ok s)) \<in> set (events_of (cleanupAndShutdownServer E claim w))"
    and "srvClaimRef s \<noteq> None"
  shows "\<exists>ans. EKube (PatchedServer s (set_ServerClaimRef None s) (Ok ans)) \<in>
    set (events_of (cleanupAndShutdownServer E claim w))"
  using cleanup_releases [of E claim, unfolded sat_def, rule_format] assms by blast

theorem cleanup_releases_server_witness:
  "\<exists>ans. EKube (PatchedServer ex_owned (set_ServerClaimRef None ex_owned) (Ok ans)) \<in>
    set (events_of (cleanupAndShutdownServer ex_env ex_claim (ex_world ex_owned)))"
proof (rule cleanup_releases_server)
  show "result_of (cleanupAndShutdownServer ex_env ex_claim (ex_world ex_owned)) = Ok ()" by code_simp
  show "EKube (GotServer ''srv'' (Ok ex_owned)) \<in>
      set (events_of (cleanupAndShutdownServer ex_env ex_claim (ex_world ex_owned)))" by code_simp
  show "srvClaimRef ex_owned \<noteq> None" by (simp add: ex_owned_def set_ServerClaimRef_def)
qed

text \<open>
  The cleanup does not compare UIDs: a claim that is deleted takes the reference off the server it names
  even when that is the reference of another claim.
\<close>

theorem cleanup_takes_reference_of_other_claim:
  assumes "clmServerRef claim = Some (LocalObjectReference n)" and "k_getServer E n w = (Ok s, w')"
    and "srvClaimRef s = Some ref" and "ObjectReference_UID ref \<noteq> clmUID claim"
  shows "\<exists>ans. EKube (PatchedServer s (set_ServerClaimRef None s) ans) \<in>
    set (events_of (cleanupAndShutdownServer E claim w))"
  by (rule cleanup_ignores_owner [OF assms(1-3)])

definition ex_foreign :: Server where
  "ex_foreign = set_ServerClaimRef (Some ((claimObjectRef ex_claim)\<lparr>ObjectReference_UID := ''uid-d''\<rparr>))
     (ex_server ''Reserved'' ''Off'' ''Off'')"

theorem cleanup_takes_reference_of_other_claim_witness:
  "\<exists>ans. EKube (PatchedServer ex_foreign (set_ServerClaimRef None ex_foreign) ans) \<in>
    set (events_of (cleanupAndShutdownServer ex_env ex_claim (ex_world ex_foreign)))"
proof (rule cleanup_takes_reference_of_other_claim)
  show "clmServerRef ex_claim = Some (LocalObjectReference ''srv'')" by (simp add: ex_claim_def)
  show "k_getServer ex_env ''srv'' (ex_world ex_foreign) = (Ok ex_foreign, ex_world ex_foreign)"
    by (simp add: ex_env_def ex_world_def ex_foreign_def set_ServerClaimRef_def ex_server_def named_Server_def)
  show "srvClaimRef ex_foreign = Some ((claimObjectRef ex_claim)\<lparr>ObjectReference_UID := ''uid-d''\<rparr>)"
    by (simp add: ex_foreign_def set_ServerClaimRef_def)
  show "ObjectReference_UID ((claimObjectRef ex_claim)\<lparr>ObjectReference_UID := ''uid-d''\<rparr>) \<noteq> clmUID ex_claim"
    by (simp add: ex_claim_def)
qed

text \<open>
  The guard of \<^verbatim>\<open>removeBootConfigRefFromServerAndPowerOff\<close> asks for both the name and the namespace to
  differ: a server that refers to a boot configuration of the same namespace but another name loses the
  reference and is asked to power off.
\<close>

theorem boot_configuration_of_other_name_is_removed:
  assumes "srvBootConfigurationRef s = Some ref" and "ObjectReference_Namespace ref = ns"
    and "ObjectReference_Name ref \<noteq> n"
  shows "\<exists>ans. events_of (removeBootConfigRefFromServerAndPowerOff E (empty_SBC ns n) s w) =
    [EKube (PatchedServer s (set_Power PowerOff (set_BootConfigurationRef None s)) ans)]"
  by (rule removeBootConfigRef_namespace_suffices [OF assms(1,2)])

definition ex_other_config :: Server where
  "ex_other_config = set_BootConfigurationRef (Some (bootConfigRef (empty_SBC ''ns'' ''other''))) ex_foreign"

theorem boot_configuration_of_other_name_is_removed_witness:
  "\<exists>ans. events_of (removeBootConfigRefFromServerAndPowerOff ex_env (empty_SBC ''ns'' ''c'') ex_other_config
      (ex_world ex_other_config)) =
    [EKube (PatchedServer ex_other_config (set_Power PowerOff (set_BootConfigurationRef None ex_other_config)) ans)]"
  by (rule boot_configuration_of_other_name_is_removed [where ref = "bootConfigRef (empty_SBC ''ns'' ''other'')"])
    (simp_all add: ex_other_config_def set_BootConfigurationRef_def bootConfigRef_def empty_SBC_def)

text \<open>
  A change of a server enqueues at most one claim: the first one of the list that refers to the server or
  refers to none. A later claim that refers to the server is not enqueued when an earlier one has no
  reference.
\<close>

theorem server_change_enqueues_first_claim:
  "enqueueServerClaimByRefs_loop host claims =
     (case List.find (\<lambda>c. case clmServerRef c of None \<Rightarrow> True | Some ref \<Rightarrow> LocalObjectReference_Name ref = srvName host)
        claims of
        None \<Rightarrow> [] | Some c \<Rightarrow> [(clmNamespace c, clmName c)])"
  by (induction claims) (auto split: option.split)

end
