(* ===== verification/Discovery_Properties.thy ===== *)
theory Discovery_Properties
  imports Example_World
begin

text \<open>
  The properties of what finds servers and describes them: the endpoint and BMC controllers, the
  endpoint webhook, the probe and the registry. The lemmas they rest on are those of
  \<^verbatim>\<open>BMC_Controller\<close>, \<^verbatim>\<open>Endpoint_Webhook\<close> and \<^verbatim>\<open>Registry\<close>.
\<close>

section \<open>From an endpoint to its BMC\<close>

text \<open>
  C26. The UUID that discovery stores leads back to the system it came from: for every system that a BMC
  reports, the lookup by the UUID in the server made for it returns that system, when the UUIDs differ
  by more than the case of letters.
\<close>

theorem discovered_uuid_leads_back:
  assumes "\<And>w. fst (g_systems E (RedfishBMC_client r) w) = Ok ss" and "distinct (map (\<lambda>s. ToLower (CS_UUID s)) ss)"
    and "result_of (RedfishBMC_GetSystems E r w) = Ok servers" and "i < length servers"
    and "discoveredServer E b (servers ! i) server = Ok server'"
  shows "result_of (getSystemByUUID E r (srvSystemUUID server') w') = Ok (ss ! i)"
proof -
  obtain w1 where "g_systems E (RedfishBMC_client r) w = (Ok ss, w1)" by (metis assms(1) prod.collapse)
  with assms(3) have servers: "map BMCServer_UUID servers = map CS_UUID ss"
    by (auto simp: RedfishBMC_GetSystems_def Systems_def prog_defs)
  then have "length servers = length ss" by (metis length_map)
  with assms(4) have i: "i < length ss" by simp
  with servers assms(4) have "BMCServer_UUID (servers ! i) = CS_UUID (ss ! i)" by (metis nth_map)
  with discoveredServer_spec(1) [OF assms(5)] have uuid: "srvSystemUUID server' = ToLower (CS_UUID (ss ! i))" by simp
  have "find_system (srvSystemUUID server') ss = Some (ss ! i)"
    unfolding uuid using i assms(2) by (intro find_system_unique) (auto simp: distinct_map inj_on_def)
  moreover obtain w2 where "g_systems E (RedfishBMC_client r) w' = (Ok ss, w2)" by (metis assms(1) prod.collapse)
  ultimately show ?thesis by (simp add: getSystemByUUID_run result_of_def)
qed

definition ex_blade :: "string \<Rightarrow> ComputerSystem" where
  "ex_blade u = (ex_system (ex_world (ex_server '''' '''' ''Off'')))\<lparr>CS_UUID := u\<rparr>"

definition ex_chassis_env :: "world env" where
  "ex_chassis_env = ex_env\<lparr>g_systems := \<lambda>_ w. (Ok [ex_blade ''38-AB'', ex_blade ''39-AB''], w)\<rparr>"

definition ex_rclient :: RedfishBMC where
  "ex_rclient = \<lparr>RedfishBMC_client = 7, RedfishBMC_options = ex_options\<rparr>"

definition ex_blades :: "BMCServer list" where
  "ex_blades = map (\<lambda>u. \<lparr>BMCServer_UUID = u, BMCServer_Model = ''M'', BMCServer_Manufacturer = ''F'',
     BMCServer_PowerState = ''Off'', BMCServer_SerialNumber = ''S1''\<rparr>) [''38-AB'', ''39-AB'']"

definition ex_found :: Server where
  "ex_found = (case discoveredServer ex_chassis_env (empty_BMC ''b'') (ex_blades ! 1) (named_Server ''b-system-1'') of
     Ok s \<Rightarrow> s | _ \<Rightarrow> empty_Server)"

theorem discovered_uuid_leads_back_witness:
  "srvSystemUUID ex_found = ''39-ab'' \<and>
   result_of (getSystemByUUID ex_chassis_env ex_rclient (srvSystemUUID ex_found) (ex_world empty_Server)) =
     Ok (ex_blade ''39-AB'')"
proof
  show "srvSystemUUID ex_found = ''39-ab''" by code_simp
  have "result_of (getSystemByUUID ex_chassis_env ex_rclient (srvSystemUUID ex_found) (ex_world empty_Server)) =
      Ok ([ex_blade ''38-AB'', ex_blade ''39-AB''] ! 1)"
  proof (rule discovered_uuid_leads_back [where servers = ex_blades and w = "ex_world empty_Server" and b = "empty_BMC ''b''"
        and server = "named_Server ''b-system-1''"])
    show "fst (g_systems ex_chassis_env (RedfishBMC_client ex_rclient) w) =
        Ok [ex_blade ''38-AB'', ex_blade ''39-AB'']" for w
      by (simp add: ex_chassis_env_def)
    show "distinct (map (\<lambda>s. ToLower (CS_UUID s)) [ex_blade ''38-AB'', ex_blade ''39-AB''])" by code_simp
    show "result_of (RedfishBMC_GetSystems ex_chassis_env ex_rclient (ex_world empty_Server)) = Ok ex_blades" by code_simp
    show "1 < length ex_blades" by (simp add: ex_blades_def)
    show "discoveredServer ex_chassis_env (empty_BMC ''b'') (ex_blades ! 1) (named_Server ''b-system-1'') = Ok ex_found"
      by code_simp
  qed
  then show "result_of (getSystemByUUID ex_chassis_env ex_rclient (srvSystemUUID ex_found) (ex_world empty_Server)) =
     Ok (ex_blade ''39-AB'')" by simp
qed

text \<open>
  The servers that discovery creates for one BMC have distinct names, and servers of different BMCs
  never share a name.
\<close>

theorem discovered_names_are_distinct:
  "sat (discoverServers E r b) (\<lambda>_ es. distinct (List.map_filter created_server es)) \<and>
   (GetServerNameFromBMCandIndex i b = GetServerNameFromBMCandIndex j c \<longleftrightarrow> bmcName b = bmcName c \<and> i = j)"
proof (intro conjI discoverServers_distinct iffI)
  assume "GetServerNameFromBMCandIndex i b = GetServerNameFromBMCandIndex j c"
  from GetServerName_inject [OF this] show "bmcName b = bmcName c" and "i = j" by simp_all
qed (simp add: GetServerNameFromBMCandIndex_def)

text \<open>
  C36. An endpoint's BMC is reached as the endpoint controller reached it: every connection that the BMC
  made for an endpoint is used for goes to the address and port, and has the credentials, with which the
  endpoint controller connected before it created the BMC.
\<close>

theorem bmc_of_endpoint_is_reached_the_same_way:
  assumes "MacPrefix_DefaultCredentials m = c # cs" and "endpointSecret E ep m s0 = Ok secret"
    and "endpointBMC E ep secret m b0 = Ok b" and "BMCSpec_Endpoint (BMC_Spec b0) = None"
    and "k_getEndpoint E (epName ep) w = (Ok ep, w1)"
    and "k_getBMCSecret E (ObjectMeta_Name (BMCSecret_Meta secret)) w1 = (Ok secret, w2)"
    and "EBmc (Connected cfg res) \<in> set (events_of (GetBMCClientFromBMC E b (ER_Insecure r) opts w))"
  shows "ClientConfig_Endpoint cfg = BMCOptions_Endpoint (endpointOptions r ep m c) \<and>
    ClientConfig_Username cfg = BMCOptions_Username (endpointOptions r ep m c) \<and>
    ClientConfig_Password cfg = BMCOptions_Password (endpointOptions r ep m c)"
proof -
  let ?address = "IP_String (EndpointSpec_IP (Endpoint_Spec ep))"
  let ?create = "CreateBMCClient E (ER_Insecure r) (MacPrefix_Protocol m) ?address (MacPrefix_Port m) secret opts"
  note b = endpointBMC_spec [OF assms(3)]
  have inline: "BMCSpec_Endpoint (BMC_Spec b) = None"
    using assms(3,4) by (auto simp: endpointBMC_def split: res.splits)
  have "events_of (GetBMCClientFromBMC E b (ER_Insecure r) opts w) =
      EKube (GotObject ''Endpoint'' (epName ep) True) # EKube (GotObject ''BMCSecret'' (ObjectMeta_Name (BMCSecret_Meta secret)) True) #
      events_of (?create w2)"
    using assms(5,6) by (simp add: GetBMCClientFromBMC_def b inline GetEndpoint_def GetBMCSecret_def Let_def
        prog_defs split: prod.split)
  with assms(7) have "EBmc (Connected cfg res) \<in> set (events_of (?create w2))" by simp
  moreover obtain cr es w3 where run: "?create w2 = (cr, es, w3)" by (metis prod_cases3)
  ultimately have "ClientConfig_Endpoint cfg = bmc_endpoint (ER_Insecure r) ?address (MacPrefix_Port m) \<and>
      GetBMCCredentialsFromSecret secret = Ok (ClientConfig_Username cfg, ClientConfig_Password cfg)"
    using emitsD(1) [OF CreateBMCClient_config run] by (auto simp: events_of_def)
  with endpointSecret_credentials [OF assms(2,1)] show ?thesis by (simp add: endpointOptions_def)
qed


definition ex_endpoint :: Endpoint where
  "ex_endpoint = \<lparr>Endpoint_Meta = empty_ObjectMeta\<lparr>ObjectMeta_Name := ''ep''\<rparr>,
     Endpoint_Spec = \<lparr>EndpointSpec_MACAddress = ''23:11:8A:33'', EndpointSpec_IP = IP (Addr4 [10, 0, 0, 9])\<rparr>\<rparr>"

definition ex_prefix :: MacPrefix where
  "ex_prefix = \<lparr>MacPrefix_MacPrefix = ''23'', MacPrefix_Manufacturer = ''F'', MacPrefix_Protocol = ''Redfish'',
     MacPrefix_Port = 80, MacPrefix_Type = ''bmc'',
     MacPrefix_DefaultCredentials = [\<lparr>Credential_Username = ''foo'', Credential_Password = ''bar''\<rparr>],
     MacPrefix_Console = \<lparr>MacConsole_Type = ''ssh'', MacConsole_Port = 22\<rparr>\<rparr>"

definition ex_ep_reconciler :: EndpointReconciler where
  "ex_ep_reconciler = \<lparr>ER_MACPrefixes = [ex_prefix], ER_Insecure = True\<rparr>"

definition ex_ep_secret :: BMCSecret where
  "ex_ep_secret = (case endpointSecret ex_env ex_endpoint ex_prefix (empty_BMCSecret ''ep'') of Ok s \<Rightarrow> s | _ \<Rightarrow> ex_secret)"

definition ex_ep_bmc :: BMC where
  "ex_ep_bmc = (case endpointBMC ex_env ex_endpoint ex_ep_secret ex_prefix (empty_BMC ''ep'') of
     Ok b \<Rightarrow> b | _ \<Rightarrow> empty_BMC '''')"

definition ex_ep_env :: "world env" where
  "ex_ep_env = ex_env\<lparr>k_getEndpoint := \<lambda>_ w. (Ok ex_endpoint, w), k_getBMCSecret := \<lambda>_ w. (Ok ex_ep_secret, w)\<rparr>"

definition ex_config :: ClientConfig where
  "ex_config = \<lparr>ClientConfig_Endpoint = ''http://10.0.0.9:80'', ClientConfig_Username = ''foo'',
     ClientConfig_Password = ''bar'', ClientConfig_Insecure = True, ClientConfig_BasicAuth = False\<rparr>"

theorem bmc_of_endpoint_is_reached_the_same_way_witness:
  "EBmc (Connected ex_config (Ok 7)) \<in>
     set (events_of (GetBMCClientFromBMC ex_ep_env ex_ep_bmc (ER_Insecure ex_ep_reconciler) ex_options (ex_world empty_Server))) \<and>
   BMCOptions_Endpoint (endpointOptions ex_ep_reconciler ex_endpoint ex_prefix
     \<lparr>Credential_Username = ''foo'', Credential_Password = ''bar''\<rparr>) = ''http://10.0.0.9:80''"
proof
  let ?w = "ex_world empty_Server"
  show conn: "EBmc (Connected ex_config (Ok 7)) \<in>
     set (events_of (GetBMCClientFromBMC ex_ep_env ex_ep_bmc (ER_Insecure ex_ep_reconciler) ex_options ?w))" by code_simp
  have 1: "MacPrefix_DefaultCredentials ex_prefix = \<lparr>Credential_Username = ''foo'', Credential_Password = ''bar''\<rparr> # []"
    by (simp add: ex_prefix_def)
  have 2: "endpointSecret ex_ep_env ex_endpoint ex_prefix (empty_BMCSecret ''ep'') = Ok ex_ep_secret" by code_simp
  have 3: "endpointBMC ex_ep_env ex_endpoint ex_ep_secret ex_prefix (empty_BMC ''ep'') = Ok ex_ep_bmc" by code_simp
  have 4: "BMCSpec_Endpoint (BMC_Spec (empty_BMC ''ep'')) = None" by (simp add: empty_BMC_def)
  have 5: "k_getEndpoint ex_ep_env (epName ex_endpoint) ?w = (Ok ex_endpoint, ?w)"
    and 6: "k_getBMCSecret ex_ep_env (ObjectMeta_Name (BMCSecret_Meta ex_ep_secret)) ?w = (Ok ex_ep_secret, ?w)"
    by (simp_all add: ex_ep_env_def)
  from bmc_of_endpoint_is_reached_the_same_way [OF 1 2 3 4 5 6 conn]
  show "BMCOptions_Endpoint (endpointOptions ex_ep_reconciler ex_endpoint ex_prefix
     \<lparr>Credential_Username = ''foo'', Credential_Password = ''bar''\<rparr>) = ''http://10.0.0.9:80''"
    by (simp add: ex_config_def)
qed

text \<open>
  C37. The endpoint controller creates a BMC only after a connection with the credentials of its prefix has
  been accepted; and the endpoint and BMC controllers close every BMC session they open.
\<close>

theorem bmc_created_after_connection_and_sessions_closed:
  "sat (reconcilePrefixes E r ep ms) (\<lambda>_ es. guarded is_connected is_bmc_created es \<and> balanced es) \<and>
   sat (BMC_Reconcile E br n) (\<lambda>_ es. balanced es)"
  by (intro conjI sat_conj bmc_after_connect balanced_reconcilePrefixes balanced_BMC_Reconcile)

section \<open>The endpoint webhook\<close>



text \<open>
  C38. The webhook accepts a creation exactly if no stored endpoint has the MAC address, and an update exactly
  if no endpoint of another name has it; it rejects both when it cannot list the endpoints.
\<close>

theorem webhook_decision:
  "(result_of (ValidateCreate E e w) = Ok () \<longleftrightarrow>
     (\<exists>eps. fst (k_listEndpoints E w) = Ok eps \<and> (\<forall>e'\<in>set eps. epMAC e' \<noteq> epMAC e))) \<and>
   (result_of (ValidateUpdate E e w) = Ok () \<longleftrightarrow>
     (\<exists>eps. fst (k_listEndpoints E w) = Ok eps \<and> (\<forall>e'\<in>set eps. epKey e' \<noteq> epKey e \<longrightarrow> epMAC e' \<noteq> epMAC e)))"
proof -
  obtain res w' where run: "k_listEndpoints E w = (res, w')" by fastforce
  show ?thesis
  proof (cases res)
    case (Ok eps)
    with run show ?thesis by (simp add: ValidateCreate_accepts ValidateUpdate_accepts)
  next
    case (Err x)
    with run Validate_rejects_without_list [of E w x w' e] show ?thesis by auto
  next
    case (Panic p)
    with run show ?thesis
      by (simp add: ValidateCreate_def ValidateMACAddressCreate_def ValidateUpdate_def ValidateMACAddressUpdate_def
          listOrError_def ListEndpoints_def reject_if_def prog_defs)
  qed
qed

theorem webhook_decision_witness:
  "result_of (ValidateCreate ex_env ex_endpoint (ex_world empty_Server)) = Ok () \<and>
   result_of (ValidateCreate ex_env ex_endpoint ((ex_world empty_Server)\<lparr>w_endpoints := [ex_endpoint]\<rparr>)) \<noteq> Ok ()"
  using webhook_decision [of ex_env ex_endpoint "ex_world empty_Server"]
    webhook_decision [of ex_env ex_endpoint "(ex_world empty_Server)\<lparr>w_endpoints := [ex_endpoint]\<rparr>"]
  by (simp add: ex_env_def ex_world_def)

section \<open>The registry and the probe\<close>

text \<open>
  C12. The registry's HTTP interface is a store of systems: after any sequence of registrations and
  deletions, \<^verbatim>\<open>GET /systems/{uuid}\<close> answers with what the last request for that UUID left, and with what was
  stored before if there was none.
\<close>

theorem registry_answers_last_registration:
  "http_lookup (fold registry.perform ps s) u =
     (case List.find (\<lambda>p. op_uuid p = u) (rev ps) of None \<Rightarrow> http_lookup s u | Some p \<Rightarrow> op_data p)"
  by (rule registry.lookup_run)

text \<open>
  What the probe registers reaches the server's status: once the probe agent of a server has registered,
  the controller's next look at the registry patches the server's status once, with the interfaces that
  the probe collected and nothing else changed.
\<close>

theorem probe_data_reaches_status:
  assumes "serves_registry E (SR_RegistryURL r) store"
    and "Agent_RegistryURL a = SR_RegistryURL r" and "Agent_SystemUUID a = srvSystemUUID s"
    and "Agent_Server a = Some d" and "nics_of (RegistryServer_NetworkInterfaces d) = Ok nics"
  shows "result_of (registerServer E a w) = Ok () \<and>
    (\<exists>ans. filter is_status_patch (events_of (extractServerDetailsFromRegistry E r s (world_of (registerServer E a w)))) =
      [EKube (PatchedServerStatus s (s\<lparr>Server_Status := (Server_Status s)\<lparr>ServerStatus_NetworkInterfaces := nics\<rparr>\<rparr>) ans)])"
proof -
  from assms(1,2) have serves: "serves_registry E (Agent_RegistryURL a) store" by simp
  note reg = registerServer_stores [OF serves assms(4), of w]
  then have "store (world_of (registerServer E a w)) (srvSystemUUID s) = Some d" by (simp add: assms(3))
  from reg(1) extract_finds_registered [OF assms(1) this assms(5)] show ?thesis by simp
qed

definition ex_nics :: "RegistryNetworkInterface list" where
  "ex_nics = [\<lparr>RNI_Name = ''eth0'', RNI_IPAddress = ''10.0.0.2'', RNI_MACAddress = ''aa''\<rparr>]"

definition ex_agent :: Agent where
  "ex_agent = \<lparr>Agent_SystemUUID = ''38-ab'', Agent_RegistryURL = ex_url, Agent_Duration = 5,
     Agent_Server = Some \<lparr>RegistryServer_NetworkInterfaces = ex_nics\<rparr>\<rparr>"

theorem probe_data_reaches_status_witness:
  "let s = ex_server ''Discovery'' ''On'' ''On'' in
   \<exists>ans. filter is_status_patch (events_of (extractServerDetailsFromRegistry ex_env ex_reconciler s
      (world_of (registerServer ex_env ex_agent (ex_world s))))) =
     [EKube (PatchedServerStatus s (s\<lparr>Server_Status := (Server_Status s)\<lparr>ServerStatus_NetworkInterfaces :=
        [\<lparr>NetworkInterface_Name = ''eth0'', NetworkInterface_IP = IP (Addr4 [10, 0, 0, 2]), NetworkInterface_MACAddress = ''aa''\<rparr>]\<rparr>\<rparr>) ans)]"
proof -
  let ?s = "ex_server ''Discovery'' ''On'' ''On''"
  have 1: "serves_registry ex_env (SR_RegistryURL ex_reconciler) w_store"
    using ex_serves_registry by (simp add: ex_reconciler_def)
  have 2: "Agent_RegistryURL ex_agent = SR_RegistryURL ex_reconciler" "Agent_SystemUUID ex_agent = srvSystemUUID ?s"
    "Agent_Server ex_agent = Some \<lparr>RegistryServer_NetworkInterfaces = ex_nics\<rparr>"
    by (simp_all add: ex_agent_def ex_reconciler_def ex_server_def)
  have 3: "nics_of (RegistryServer_NetworkInterfaces \<lparr>RegistryServer_NetworkInterfaces = ex_nics\<rparr>) =
      Ok [\<lparr>NetworkInterface_Name = ''eth0'', NetworkInterface_IP = IP (Addr4 [10, 0, 0, 2]), NetworkInterface_MACAddress = ''aa''\<rparr>]"
    by code_simp
  from probe_data_reaches_status [OF 1 2 3, of "ex_world ?s"] show ?thesis by (simp add: Let_def)
qed

text \<open>
  The probe collects, in order, one entry per usable address of each interface that is up, has a MAC
  address and is not a loopback, tunnel or docker device; an address is usable if it is not a loopback
  address and not an IPv6 address made by SLAAC.
\<close>

theorem probe_collects_usable_addresses:
  assumes "\<forall>i\<in>set ifaces. \<not> skipInterface i \<longrightarrow> NetInterface_Addrs i = Ok (addrs i)"
  shows "collectNetworkData (Ok ifaces) = Ok (concat (map (\<lambda>i. map (nic_of i) (List.map_filter usable_addr (addrs i)))
     (filter (\<lambda>i. \<not> skipInterface i) ifaces)))"
  using collectInterfaces_eq [OF assms, of "[]"] by (simp add: collectNetworkData_def)

definition ex_iface :: NetInterface where
  "ex_iface = \<lparr>NetInterface_Name = ''eth0'', NetInterface_HardwareAddr = ''aa'', NetInterface_Flags = FlagUp,
     NetInterface_Addrs = Ok [IPNet (Some \<lparr>NetIP_String = ''10.0.0.2'', NetIP_IsLoopback = False, NetIP_To4 = True\<rparr>),
       IPNet (Some \<lparr>NetIP_String = ''fe80::2ff:fe01'', NetIP_IsLoopback = False, NetIP_To4 = False\<rparr>)]\<rparr>"

theorem probe_collects_usable_addresses_witness:
  "collectNetworkData (Ok [ex_iface]) = Ok ex_nics"
proof -
  define addrs where "addrs i = (case NetInterface_Addrs i of Ok as \<Rightarrow> as | _ \<Rightarrow> [])" for i :: NetInterface
  have "\<forall>i\<in>set [ex_iface]. \<not> skipInterface i \<longrightarrow> NetInterface_Addrs i = Ok (addrs i)"
    by (simp add: ex_iface_def addrs_def)
  note probe_collects_usable_addresses [OF this]
  also have "concat (map (\<lambda>i. map (nic_of i) (List.map_filter usable_addr (addrs i)))
      (filter (\<lambda>i. \<not> skipInterface i) [ex_iface])) = ex_nics"
    unfolding addrs_def by code_simp
  finally show ?thesis .
qed

end
