(* ===== verification/Progress.thy ===== *)
theory Progress
  imports Server_Properties Claim_Properties
begin

text \<open>
  Progress: under laws that say the environment does what it is asked, the controllers get where they
  are meant to. Each law is a definition over the environment, so that a theorem names what it relies
  on; the judgements \<open>returns\<close> and \<open>does\<close> of \<^verbatim>\<open>Prelude\<close> carry them through the code, one lemma per
  function on the way.
\<close>

section \<open>Laws\<close>

text \<open>
  An environment that does what it is asked: the API server accepts the writes of the server controller,
  keys and random numbers can be drawn, the BMC accepts connections and lists a system with UUID \<open>u\<close>.
\<close>

definition accepts_writes :: "'w env \<Rightarrow> bool" where
  "accepts_writes E \<longleftrightarrow>
     (\<forall>base new w. is_ok (fst (k_patchServer E base new w))) \<and>
     (\<forall>base new w. is_ok (fst (k_patchServerStatus E base new w))) \<and>
     (\<forall>s w. is_ok (fst (k_applySecret E s w))) \<and>
     (\<forall>c f w. (\<forall>c'. is_ok (f c')) \<longrightarrow> is_ok (fst (k_createOrPatchSBC E c f w))) \<and>
     (\<forall>k owner om. is_ok (k_setControllerReference E k owner om))"

definition draws_keys :: "'w env \<Rightarrow> bool" where
  "draws_keys E \<longleftrightarrow>
     (\<forall>n w. is_ok (fst (s_rsaGenerateKey E n w))) \<and> (\<forall>k. is_ok (s_marshalPrivateKey E k)) \<and>
     (\<forall>k. is_ok (s_newPublicKey E k)) \<and> (\<forall>p w. is_ok (fst (s_bcrypt E p w))) \<and>
     (\<forall>n w. 0 < n \<longrightarrow> (\<exists>m. fst (s_randInt E n w) = Ok m \<and> m < n))"

definition bmc_answers :: "'w env \<Rightarrow> string \<Rightarrow> bool" where
  "bmc_answers E u \<longleftrightarrow>
     (\<forall>c w. is_ok (fst (g_connect E c w))) \<and>
     (\<forall>h w. is_ok (fst (g_systems E h w))) \<and>
     (\<forall>h w ss. fst (g_systems E h w) = Ok ss \<longrightarrow> find_system u ss \<noteq> None) \<and>
     (\<forall>h s b w. is_ok (fst (g_setBoot E h s b w)))"

text \<open>A server that is reached over Redfish with inline access data whose secret holds credentials.\<close>

definition has_access :: "'w env \<Rightarrow> Server \<Rightarrow> bool" where
  "has_access E s \<longleftrightarrow> srvBMCRef s = None \<and>
     (\<exists>acc. srvBMC s = Some acc \<and> Protocol_Name (BMCAccess_Protocol acc) = ProtocolRedfish \<and>
       (\<forall>w. is_ok (fst (k_getBMCSecret E (LocalObjectReference_Name (BMCAccess_BMCSecretRef acc)) w))) \<and>
       (\<forall>w secret. fst (k_getBMCSecret E (LocalObjectReference_Name (BMCAccess_BMCSecretRef acc)) w) = Ok secret \<longrightarrow>
          is_ok (GetBMCCredentialsFromSecret secret)))"

lemma has_access_spec: "Server_Spec s' = Server_Spec s \<Longrightarrow> has_access E s' = has_access E s"
  by (simp add: has_access_def)

section \<open>What succeeds\<close>

lemma returns_poll:
  assumes "returns (\<lambda>x. \<exists>v. x = Some v \<and> R v) c"
  shows "returns R (PollUntilContextTimeout E i t c)"
proof -
  have "returns R (poll_loop n c)" for n
    by (cases n; simp, rule returns_bind [OF assms]) (auto intro: returns_return)
  then show ?thesis
    unfolding PollUntilContextTimeout_def returns_def sat_def by simp
qed

lemma returns_getSystemByUUID:
  assumes "bmc_answers E u"
  shows "returns (\<lambda>_. True) (getSystemByUUID E r u)"
  unfolding getSystemByUUID_def Systems_def
proof (rule returns_bind [where R' = "\<lambda>ss. find_system u ss \<noteq> None"])
  show "returns (\<lambda>ss. find_system u ss \<noteq> None)
     (wrapM ''failed to wait for for server systems to be ready''
       (PollUntilContextTimeout E (BMCOptions_ResourcePollingInterval (RedfishBMC_options r))
         (BMCOptions_ResourcePollingTimeout (RedfishBMC_options r))
         (catchM (bindM (callM (g_systems E (RedfishBMC_client r)) (\<lambda>ra. EBmc (ListedSystems (RedfishBMC_client r) ra)))
            (\<lambda>ss. returnM (Some ss))) (\<lambda>_. returnM None))))"
    by (intro returns_wrap returns_poll returns_catch returns_bind [where R' = "\<lambda>ss. find_system u ss \<noteq> None"]
        returns_call returns_return) (use assms in \<open>auto simp: bmc_answers_def\<close>)
qed (auto split: option.split intro: returns_return)

lemma returns_NewRedfishBMCClient:
  "bmc_answers E u \<Longrightarrow> returns (\<lambda>_. True) (NewRedfishBMCClient E opts)"
  unfolding NewRedfishBMCClient_def ConnectContext_def
  by (intro returns_bind [where R' = "\<lambda>_. True"] returns_wrap returns_call returns_return)
    (auto simp: bmc_answers_def)

lemma returns_client:
  assumes "bmc_answers E u" and "has_access E s"
  shows "returns (\<lambda>c. \<exists>b. c = Redfish b) (GetBMCClientForServer E s i opts)"
proof -
  from assms(2) obtain acc where acc: "srvBMCRef s = None" "srvBMC s = Some acc"
    "Protocol_Name (BMCAccess_Protocol acc) = ProtocolRedfish"
    "\<And>w. is_ok (fst (k_getBMCSecret E (LocalObjectReference_Name (BMCAccess_BMCSecretRef acc)) w))"
    "\<And>w secret. fst (k_getBMCSecret E (LocalObjectReference_Name (BMCAccess_BMCSecretRef acc)) w) = Ok secret \<Longrightarrow>
          is_ok (GetBMCCredentialsFromSecret secret)"
    by (auto simp: has_access_def)
  show ?thesis
    unfolding GetBMCClientForServer_def acc option.case GetBMCSecret_def CreateBMCClient_def
    by (simp, intro returns_bind [where R' = "\<lambda>secret. is_ok (GetBMCCredentialsFromSecret secret)"] returns_wrap
        returns_call acc(4,5))
      (auto simp: is_ok_iff with_credentials_def
        intro!: returns_bind [where R' = "\<lambda>_. True"] returns_lift returns_return returns_wrap
          returns_NewRedfishBMCClient [OF assms(1)])
qed

lemma returns_withBMCClient:
  assumes "bmc_answers E u" and "has_access E s" and "\<And>b. returns R (body (Redfish b))"
  shows "returns R (withBMCClient E i opts s msg body)"
  unfolding withBMCClient_def
  by (rule returns_bind [OF returns_wrap [OF returns_client [OF assms(1,2)]]])
    (auto intro: returns_defer assms(3))

lemma returns_pxeBootServer:
  assumes "bmc_answers E (srvSystemUUID s)" and "has_access E s"
  shows "returns (\<lambda>_. True) (pxeBootServer E r s)"
proof -
  have "returns (\<lambda>_. True) (BMC_SetPXEBootOnce E (Redfish b) (srvSystemUUID s))" for b
    by (simp add: RedfishBMC_SetPXEBootOnce_def System_SetBoot_def,
        intro returns_bind [OF returns_wrap [OF returns_getSystemByUUID [OF assms(1)]]] returns_wrap returns_call)
      (use assms(1) in \<open>simp_all add: bmc_answers_def\<close>)
  moreover have "\<not> (srvBMCRef s = None \<and> srvBMC s = None)" using assms(2) by (auto simp: has_access_def)
  ultimately show ?thesis
    unfolding pxeBootServer_def
    by (auto intro!: returns_return returns_withBMCClient [OF assms] returns_wrap)
qed


lemma returns_random_letter: "draws_keys E \<Longrightarrow> returns (\<lambda>_. True) (random_letter E)"
proof -
  assume "draws_keys E"
  moreover have "0 < length letters" by (simp add: letters_def)
  ultimately show ?thesis
    unfolding random_letter_def RandInt_def draws_keys_def
    by (intro returns_bind [where R' = "\<lambda>n. n < length letters", OF returns_wrap [OF returns_answer]])
      (auto intro: returns_return)
qed

lemma returns_keys:
  assumes "draws_keys E"
  shows "returns (\<lambda>_. True) (generateSSHKeyPairAndPassword E)"
    and "returns (\<lambda>_. True) (generateDefaultIgnitionDataForServer E r f k p)"
proof -
  have password: "returns (\<lambda>_. True) (GenerateRandomPassword E n)" for n
    unfolding GenerateRandomPassword_def
    by (intro returns_foldM returns_bind [OF returns_random_letter [OF assms]] returns_return) simp_all
  from assms show "returns (\<lambda>_. True) (generateSSHKeyPairAndPassword E)"
    unfolding generateSSHKeyPairAndPassword_def RsaGenerateKey_def draws_keys_def
    by (intro returns_bind [where R' = "\<lambda>_. True"] returns_wrap returns_call password returns_return)
      (auto intro!: returns_wrap returns_lift)
  from assms show "returns (\<lambda>_. True) (generateDefaultIgnitionDataForServer E r f k p)"
    unfolding generateDefaultIgnitionDataForServer_def BcryptGenerate_def draws_keys_def
    by (intro returns_bind [where R' = "\<lambda>_. True"] returns_wrap returns_call returns_return) auto
qed

lemma returns_applyOwnedSecret: "accepts_writes E \<Longrightarrow> returns (\<lambda>_. True) (applyOwnedSecret E r c n d m)"
  unfolding applyOwnedSecret_def ApplySecret_def accepts_writes_def
  by (rule returns_bind [where R' = "\<lambda>_. True"])
    (auto intro!: returns_wrap returns_call returns_lift)

lemma returns_applyDefaultIgnition:
  "accepts_writes E \<Longrightarrow> draws_keys E \<Longrightarrow> returns (\<lambda>_. True) (applyDefaultIgnitionForServer E r s c u)"
  unfolding applyDefaultIgnitionForServer_def
  by (rule returns_bind [OF returns_wrap [OF returns_keys(1)]])
    (auto intro!: returns_bind [where R' = "\<lambda>_. True"] returns_applyOwnedSecret returns_wrap returns_keys(2))

lemma returns_patch:
  assumes "accepts_writes E" and "quiet E"
  shows "returns (agrees new) (PatchServer E base new)" and "returns (agrees new) (PatchServerStatus E base new)"
  using assms unfolding PatchServer_def PatchServerStatus_def accepts_writes_def quiet_def
  by (auto intro!: returns_call)

lemma returns_applyBootConfiguration:
  assumes "accepts_writes E" and "draws_keys E" and "quiet E"
  shows "returns (\<lambda>s'. \<exists>c. agrees (set_BootConfigurationRef (Some (bootConfigRef c)) s) s')
    (applyBootConfigurationAndIgnitionForDiscovery E r s)"
  unfolding applyBootConfigurationAndIgnitionForDiscovery_def ensureServerBootConfigRef_def CreateOrPatchSBC_def
proof (rule returns_bind [where R' = "\<lambda>_. True"])
  show "returns (\<lambda>_. True) (wrapM ''failed to create or patch ServerBootConfiguration''
     (callM (k_createOrPatchSBC E (empty_SBC (SR_ManagerNamespace r) (srvName s)) (discoveryBootConfig r s))
       (\<lambda>ra. EKube (CreatedOrPatchedSBC (ObjectMeta_Namespace (SBC_Meta (empty_SBC (SR_ManagerNamespace r) (srvName s))))
          (ObjectMeta_Name (SBC_Meta (empty_SBC (SR_ManagerNamespace r) (srvName s)))) ra))))"
    using assms(1) unfolding accepts_writes_def
    by (intro returns_wrap returns_call) (simp_all add: discoveryBootConfig_def)
  fix x :: "OperationResult \<times> ServerBootConfiguration"
  obtain op c where x: "x = (op, c)" by fastforce
  show "returns (\<lambda>s'. \<exists>c. agrees (set_BootConfigurationRef (Some (bootConfigRef c)) s) s')
     (case x of (opResult, bootConfig) \<Rightarrow>
        bindM (PatchServer E s (set_BootConfigurationRef (Some (bootConfigRef bootConfig)) s))
          (\<lambda>server. bindM (applyDefaultIgnitionForServer E r server bootConfig (SR_RegistryURL r))
             (\<lambda>_. returnM server)))"
    unfolding x prod.case
    by (rule returns_bind [OF returns_patch(1) [OF assms(1,3)]],
        rule returns_bind [OF returns_applyDefaultIgnition [OF assms(1,2)]], rule returns_return) blast
qed

lemma does_patchServerState:
  assumes "accepts_writes E" and "quiet E" and "srvState s \<noteq> st"
  shows "does (is_state_patch st) (\<lambda>x. fst x) (patchServerState E s st)"
proof (rule doesI)
  show "returns (\<lambda>x. fst x) (patchServerState E s st)"
    unfolding patchServerState_def using assms(3)
    by (auto intro!: returns_bind [OF returns_wrap [OF returns_patch(2) [OF assms(1,2)]]] returns_return)
  show "achieves (is_state_patch st) (patchServerState E s st)"
    unfolding patchServerState_def PatchServerStatus_def using assms(3)
    by (auto intro!: achieves_first achieves_wrap achieves_call simp: set_State_def)
qed

section \<open>Initial to discovery\<close>



section \<open>Power\<close>

text \<open>The system \<open>u\<close> is listed with power state \<open>st\<close>.\<close>

definition powered :: "'w env \<Rightarrow> string \<Rightarrow> nat \<Rightarrow> string \<Rightarrow> 'w \<Rightarrow> bool" where
  "powered E u h st w \<longleftrightarrow> (\<exists>ss s. fst (g_systems E h w) = Ok ss \<and> find_system u ss = Some s \<and> CS_PowerState s = st)"

text \<open>A BMC that obeys: it accepts a reset and then lists the system in the state asked for; listing changes nothing.\<close>

definition obeys_resets :: "'w env \<Rightarrow> string \<Rightarrow> bool" where
  "obeys_resets E u \<longleftrightarrow>
     (\<forall>h s t w. is_ok (fst (g_reset E h s t w))) \<and>
     (\<forall>h s w. powered E u h OnPowerState (snd (g_reset E h s OnResetType w))) \<and>
     (\<forall>h s w. powered E u h OffPowerState (snd (g_reset E h s GracefulShutdownResetType w))) \<and>
     (\<forall>h st w. powered E u h st w \<longrightarrow> powered E u h st (snd (g_systems E h w)))"

lemma wait_done:
  assumes "powered E u (RedfishBMC_client r) st w"
  shows "result_of (RedfishBMC_WaitForServerPowerState E r u st w) = Ok ()"
proof -
  from assms obtain ss s w' where "g_systems E (RedfishBMC_client r) w = (Ok ss, w')" "find_system u ss = Some s" "CS_PowerState s = st"
    unfolding powered_def by (metis prod.collapse)
  then have "bindM (wrapM ''failed to get system info'' (getSystemByUUID E r u))
      (\<lambda>sysInfo. returnM (if CS_PowerState sysInfo = st then Some () else None)) w =
      (Ok (Some ()), [EBmc (ListedSystems (RedfishBMC_client r) (Ok ss))], w')"
    by (simp add: getSystemByUUID_run bindM_def wrapM_def returnM_def)
  then show ?thesis
    by (simp add: RedfishBMC_WaitForServerPowerState_def PollUntilContextTimeout_def wrapM_def poll_loop_first result_of_def)
qed

lemma listing:
  assumes "bmc_answers E u"
  obtains ss s w' where "g_systems E h w = (Ok ss, w')" and "find_system u ss = Some s"
  using assms unfolding bmc_answers_def is_ok_iff by (metis not_None_eq prod.collapse)

lemma reset_obeyed:
  assumes "obeys_resets E u" and "g_reset E h s t w = (res, w')"
  shows "res = Ok ()" and "t = OnResetType \<Longrightarrow> powered E u h OnPowerState w'"
    and "t = GracefulShutdownResetType \<Longrightarrow> powered E u h OffPowerState w'"
proof -
  from assms have "is_ok res" unfolding obeys_resets_def by (metis fst_conv)
  then show "res = Ok ()" by (simp add: is_ok_iff)
  show "t = OnResetType \<Longrightarrow> powered E u h OnPowerState w'"
    using assms unfolding obeys_resets_def by (metis snd_conv)
  show "t = GracefulShutdownResetType \<Longrightarrow> powered E u h OffPowerState w'"
    using assms unfolding obeys_resets_def by (metis snd_conv)
qed

lemma power_on_run:
  assumes "bmc_answers E u" and "obeys_resets E u"
  shows "\<exists>es w'. RedfishBMC_PowerOn E r u w = (Ok (), es, w') \<and> powered E u (RedfishBMC_client r) OnPowerState w'"
proof -
  let ?h = "RedfishBMC_client r"
  obtain ss s w1 where ls: "g_systems E ?h w = (Ok ss, w1)" "find_system u ss = Some s"
    by (rule listing [OF assms(1)])
  note run = getSystemByUUID_run [OF ls(1)]
  show ?thesis
  proof (cases "CS_PowerState s = OnPowerState")
    case True
    with ls have "powered E u ?h OnPowerState w" by (simp add: powered_def)
    with assms(2) have "powered E u ?h OnPowerState (snd (g_systems E ?h w))"
      unfolding obeys_resets_def by blast
    with True ls show ?thesis
      by (simp add: RedfishBMC_PowerOn_def run bindM_def wrapM_def returnM_def)
  next
    case False
    obtain res w2 where reset: "g_reset E ?h s OnResetType w1 = (res, w2)" by fastforce
    from reset reset_obeyed(1,2) [OF assms(2) reset] False ls show ?thesis
      by (simp add: RedfishBMC_PowerOn_def run bindM_def wrapM_def System_Reset_def callM_def)
  qed
qed

lemma power_off_run:
  assumes "bmc_answers E u" and "obeys_resets E u"
  shows "\<exists>es w'. RedfishBMC_PowerOff E r u w = (Ok (), es, w') \<and> powered E u (RedfishBMC_client r) OffPowerState w'"
proof -
  let ?h = "RedfishBMC_client r"
  obtain ss s w1 where ls: "g_systems E ?h w = (Ok ss, w1)" "find_system u ss = Some s"
    by (rule listing [OF assms(1)])
  obtain res w2 where reset: "g_reset E ?h s GracefulShutdownResetType w1 = (res, w2)" by fastforce
  from reset reset_obeyed(1,3) [OF assms(2) reset] ls show ?thesis
    by (simp add: RedfishBMC_PowerOff_def getSystemByUUID_run [OF ls(1)] bindM_def wrapM_def System_Reset_def callM_def)
qed

lemma returns_switch:
  assumes "\<And>w. \<exists>es w'. m w = (Ok (), es, w') \<and> powered E u (RedfishBMC_client r) st w'"
    and "\<And>w'. powered E u (RedfishBMC_client r) st w' \<Longrightarrow> result_of (k w') = Ok ()"
  shows "returns (\<lambda>_. True) (bindM (wrapM msg m) (\<lambda>_. k))"
  unfolding returns_def sat_def
proof
  fix w
  obtain es w' where "m w = (Ok (), es, w')" "powered E u (RedfishBMC_client r) st w'" using assms(1) by blast
  with assms(2) [of w'] show "\<exists>a. result_of (bindM (wrapM msg m) (\<lambda>_. k) w) = Ok a \<and> True"
    by (auto simp: bindM_def wrapM_def result_of_def split: prod.splits)
qed

lemma returns_ensureServerPowerState:
  assumes "bmc_answers E (srvSystemUUID s)" and "obeys_resets E (srvSystemUUID s)" and "has_access E s"
  shows "returns (\<lambda>_. True) (ensureServerPowerState E r s)"
proof -
  have on: "returns (\<lambda>_. True) (bindM (wrapM m1 (RedfishBMC_PowerOn E b (srvSystemUUID s)))
      (\<lambda>_. wrapM m2 (RedfishBMC_WaitForServerPowerState E b (srvSystemUUID s) OnPowerState)))" for m1 m2 b
    by (rule returns_switch [OF power_on_run [OF assms(1,2)]])
      (auto dest: wait_done simp: wrapM_def result_of_def split: prod.splits)
  have off: "returns (\<lambda>_. True) (bindM (wrapM m1 (RedfishBMC_PowerOff E b (srvSystemUUID s)))
      (\<lambda>_. catchM (RedfishBMC_WaitForServerPowerState E b (srvSystemUUID s) OffPowerState) h))" for m1 b h
    by (rule returns_switch [OF power_off_run [OF assms(1,2)]])
      (auto dest: wait_done simp: catchM_def result_of_def split: prod.splits)
  show ?thesis
    unfolding ensureServerPowerState_def
    by (auto split: powerOp.split intro!: returns_return returns_withBMCClient [OF assms(1,3)] on off)
qed


section \<open>Discovery to available\<close>

text \<open>The BMC lists storages, volumes, drives and simple storages.\<close>

definition lists_storages :: "'w env \<Rightarrow> bool" where
  "lists_storages E \<longleftrightarrow>
     (\<forall>h s w. is_ok (fst (g_storage E h s w))) \<and> (\<forall>h s w. is_ok (fst (g_volumes E h s w))) \<and>
     (\<forall>h s w. is_ok (fst (g_drives E h s w))) \<and> (\<forall>h s w. is_ok (fst (g_simpleStorages E h s w)))"

text \<open>The server's boot configuration is there and ready.\<close>

definition boot_ready :: "'w env \<Rightarrow> Server \<Rightarrow> bool" where
  "boot_ready E s \<longleftrightarrow> (\<exists>ref. srvBootConfigurationRef s = Some ref \<and>
     (\<forall>w. \<exists>c. fst (k_getSBC E (ObjectReference_Namespace ref) (ObjectReference_Name ref) w) = Ok c \<and>
        SBC_State c = ServerBootConfigurationStateReady))"

text \<open>The probe's data for the UUID is in the registry, with addresses that can be parsed, and can be deleted.\<close>

definition probe_registered :: "'w env \<Rightarrow> ServerReconciler \<Rightarrow> string \<Rightarrow> bool" where
  "probe_registered E r u \<longleftrightarrow>
     (\<forall>w. \<exists>rsp d. fst (s_httpGet E (systemsURL r u) w) = Ok (Some rsp, None) \<and> HttpResponse_StatusCode rsp \<noteq> 404 \<and>
        HttpResponse_Body rsp = Some d \<and> is_ok (nics_of (RegistryServer_NetworkInterfaces d))) \<and>
     (\<forall>w. is_ok (fst (s_httpDelete E (deleteURL r u) w)))"

text \<open>
  The answer to a status patch carries the patch as its last managed field, and the discovery timeout
  does not pass within the reconciliation.
\<close>

definition in_time :: "'w env \<Rightarrow> int \<Rightarrow> bool" where
  "in_time E d \<longleftrightarrow> (\<forall>base new w s. fst (k_patchServerStatus E base new w) = Ok s \<longrightarrow>
     (\<exists>fs f t. ObjectMeta_ManagedFields (Server_Meta s) = fs @ [f] \<and> ManagedFieldsEntry_Time f = Some t \<and>
       (\<forall>w'. s_now E w' \<le> t + d)))"

lemma returns_GetStorages:
  assumes "bmc_answers E u" and "lists_storages E"
  shows "returns (\<lambda>_. True) (RedfishBMC_GetStorages E r u)"
proof -
  have storage: "returns (\<lambda>x. \<exists>v. x = Some v \<and> True)
      (catchM (bindM (System_Storage E h s) (\<lambda>ss. returnM (Some ss))) (\<lambda>_. returnM None))" for h s
    unfolding System_Storage_def
    by (intro returns_catch returns_bind [where R' = "\<lambda>_. True"] returns_call returns_return)
      (use assms(2) in \<open>simp_all add: lists_storages_def\<close>)
  have volumes: "returns (\<lambda>_. True) (Storage_GVolumes E h s)"
    and drives: "returns (\<lambda>_. True) (Storage_GDrives E h s)" for h s
    unfolding Storage_GVolumes_def Storage_GDrives_def
    using assms(2) by (auto intro!: returns_call simp: lists_storages_def)
  have simple: "returns (\<lambda>_. True) (System_SimpleStorages E h s)" for h s
    unfolding System_SimpleStorages_def using assms(2) by (auto intro!: returns_call simp: lists_storages_def)
  show ?thesis
    unfolding RedfishBMC_GetStorages_def
    by (rule returns_bind [OF returns_getSystemByUUID [OF assms(1)]],
        rule returns_bind [OF returns_wrap [OF returns_poll [OF storage]]],
        rule returns_bind [OF returns_foldM [where I = "\<lambda>_. True"]])
      (auto intro!: returns_return returns_bind [OF volumes] returns_bind [OF drives] returns_bind [OF simple])
qed

text \<open>What the first half of a discovery run keeps of the server.\<close>

definition same_server :: "Server \<Rightarrow> Server \<Rightarrow> bool" where
  "same_server s s' \<longleftrightarrow> srvSystemUUID s' = srvSystemUUID s \<and> srvState s' = srvState s \<and>
     srvBMCRef s' = srvBMCRef s \<and> srvBMC s' = srvBMC s"

lemma same_server_access: "same_server s s' \<Longrightarrow> has_access E s' = has_access E s"
  by (simp add: has_access_def same_server_def)

lemma returns_updateStorages:
  assumes "quiet E" and "accepts_writes E" and "bmc_answers E (srvSystemUUID s)" and "has_access E s"
    and "lists_storages E" and "in_time E d"
  shows "returns (\<lambda>s'. same_server s s' \<and> (\<exists>fs f t. ObjectMeta_ManagedFields (Server_Meta s') = fs @ [f] \<and>
      ManagedFieldsEntry_Time f = Some t \<and> (\<forall>w. s_now E w \<le> t + d))) (updateStorages E r base s)"
proof -
  have patch: "returns (\<lambda>s'. agrees new s' \<and> (\<exists>fs f t. ObjectMeta_ManagedFields (Server_Meta s') = fs @ [f] \<and>
      ManagedFieldsEntry_Time f = Some t \<and> (\<forall>w. s_now E w \<le> t + d))) (PatchServerStatus E base new)" for new
    unfolding PatchServerStatus_def
    by (rule returns_call) (use assms(1,2,6) in \<open>auto simp: quiet_def accepts_writes_def in_time_def\<close>)
  show ?thesis
    unfolding updateStorages_def
    by (intro returns_bind [OF returns_wrap [OF returns_client [OF assms(3,4)]]]
        returns_bind [OF returns_wrap [OF returns_GetStorages [OF assms(3,5)]]] returns_wrap returns_mono [OF patch])
      (auto simp: agrees_def same_server_def)
qed

lemma returns_not_late:
  assumes "ObjectMeta_ManagedFields (Server_Meta s) = fs @ [f]" and "ManagedFieldsEntry_Time f = Some t"
    and "\<forall>w. s_now E w \<le> t + d"
  shows "returns (\<lambda>late. \<not> late) (checkLastStatusUpdateAfter E d s)"
  unfolding returns_def sat_def
proof
  fix w
  have "s_now E w \<le> t + d" using assms(3) by blast
  then show "\<exists>late. result_of (checkLastStatusUpdateAfter E d s w) = Ok late \<and> \<not> late"
    using assms(1,2) by (auto simp: checkLastStatusUpdateAfter_def returnM_def result_of_def)
qed

lemma does_finishDiscovery:
  assumes "quiet E" and "accepts_writes E" and "probe_registered E r (srvSystemUUID s)"
    and "srvState s = ServerStateDiscovery"
  shows "does (is_state_patch ServerStateAvailable) (\<lambda>x. x = False) (finishDiscovery E r s)"
proof -
  let ?good = "\<lambda>(resp, err). err = None \<and> (\<exists>rsp d. resp = Some rsp \<and> HttpResponse_StatusCode rsp \<noteq> 404 \<and>
      HttpResponse_Body rsp = Some d \<and> is_ok (nics_of (RegistryServer_NetworkInterfaces d)))"
  have get: "returns ?good (HttpGet E (systemsURL r (srvSystemUUID s)))"
    unfolding HttpGet_def
    by (rule returns_answer) (use assms(3) in \<open>fastforce simp: probe_registered_def\<close>)
  have extract_details: "returns (\<lambda>(ready, s'). ready \<and> srvSystemUUID s' = srvSystemUUID s \<and> srvState s' = srvState s)
      (extractServerDetailsFromRegistry E r s)"
    unfolding extractServerDetailsFromRegistry_def
    by (rule returns_bind [OF get])
      (auto simp: is_ok_iff agrees_def
        intro!: returns_bind [OF returns_lift] returns_bind [OF returns_wrap [OF returns_patch(2) [OF assms(2,1)]]]
          returns_return)
  have delete: "returns (\<lambda>_. True) (wrapM m (invalidateRegistryEntryForServer E r s'))"
    if "srvSystemUUID s' = srvSystemUUID s" for m s'
    unfolding invalidateRegistryEntryForServer_def HttpDelete_def that
    by (intro returns_wrap returns_call) (use assms(3) in \<open>simp_all add: probe_registered_def\<close>)
  have patch: "does (is_state_patch ServerStateAvailable) (\<lambda>x. fst x) (patchServerState E s' ServerStateAvailable)"
    if "srvState s' = srvState s" for s'
    by (rule does_patchServerState [OF assms(2,1)]) (simp add: that assms(4))
  show ?thesis
    unfolding finishDiscovery_def
    by (rule does_then [OF extract_details])
      (auto intro!: does_then [OF delete] does_first [OF patch] returns_return)
qed


section \<open>Claims\<close>

text \<open>
  The API server answers for the claim controller: the claim has its finalizer, its status can be
  patched, and the server the claim refers to is the given one.
\<close>

definition answers_claim :: "'w env \<Rightarrow> ServerClaim \<Rightarrow> Server \<Rightarrow> bool" where
  "answers_claim E claim s \<longleftrightarrow> clmServerRef claim = Some (LocalObjectReference (srvName s)) \<and>
     (\<forall>w. fst (k_ensureFinalizerClaim E claim ServerClaimFinalizer w) = Ok (False, claim)) \<and>
     (\<forall>base new w. is_ok (fst (k_patchClaimStatus E base new w))) \<and>
     (\<forall>w. fst (k_getServer E (srvName s) w) = Ok s)"

definition is_claim_of :: "ServerClaim \<Rightarrow> event \<Rightarrow> bool" where
  "is_claim_of claim e \<longleftrightarrow> (\<exists>base new ans. e = EKube (PatchedServer base new (Ok ans)) \<and> srvClaimRef base = None \<and>
     srvClaimRef new = Some (claimObjectRef claim))"

definition is_bound_patch :: "ServerClaim \<Rightarrow> event \<Rightarrow> bool" where
  "is_bound_patch claim e \<longleftrightarrow>
     (\<exists>ans. e = EKube (PatchedClaimStatus claim (claim\<lparr>ServerClaim_Phase := PhaseBound\<rparr>) (Ok ans)))"

lemma does_ifUnmodified:
  "returns (\<lambda>x. x = (False, a)) m \<Longrightarrow> does g R (k a) \<Longrightarrow> does g R (ifUnmodified m k)"
  unfolding ifUnmodified_def by (erule does_then) auto

lemma does_Claim_reconcile:
  assumes "answers_claim E claim s" and "\<not> shouldIgnoreReconciliation (ServerClaim_Meta claim)"
    and "ServerClaim_Phase claim \<noteq> ''''"
    and "does g R (bindM (claimServer E claim) (\<lambda>(modified, found).
          if modified then returnM \<lparr>Result_Requeue = True, Result_RequeueAfter = 0\<rparr>
          else case found of
            None \<Rightarrow> returnM emptyResult
          | Some server \<Rightarrow>
              ifUnmodified (patchServerRef E claim server) (\<lambda>claim.
              bindM (wrapM ''failed to apply boot configuration'' (applyBootConfiguration E server claim)) (\<lambda>server.
              ifUnmodified (patchServerClaimPhase E claim PhaseBound) (\<lambda>claim.
              ifUnmodified (ensurePowerStateForServer E claim server) (\<lambda>_.
                returnM emptyResult))))))"
  shows "does g R (Claim_reconcile E claim)"
proof -
  have fin: "returns (\<lambda>x. x = (False, claim)) (PatchEnsureFinalizer_Claim E claim ServerClaimFinalizer)"
    unfolding PatchEnsureFinalizer_Claim_def
    by (rule returns_answer) (use assms(1) in \<open>simp add: answers_claim_def\<close>)
  show ?thesis
    unfolding Claim_reconcile_def using assms(2,3)
    by (auto intro!: does_ifUnmodified [OF returns_return] does_ifUnmodified [OF fin] assms(4))
qed

lemma returns_claimServerByReference:
  assumes "answers_claim E claim s" and "srvState s = ServerStateAvailable \<or> srvState s = ServerStateReserved"
    and "srvPowerState s = ServerOffPowerState" and "ServerClaimSpec_ServerSelector (ServerClaim_Spec claim) = None"
    and "srvClaimRef s = None \<or> owned_by claim s"
  shows "returns (\<lambda>x. x = Some s) (claimServerByReference E claim)"
proof -
  have ref: "clmServerRef claim = Some (LocalObjectReference (srvName s))" using assms(1) by (simp add: answers_claim_def)
  have "returns (\<lambda>x. x = s) (GetServer E (srvName s))"
    unfolding GetServer_def by (rule returns_answer) (use assms(1) in \<open>simp add: answers_claim_def\<close>)
  then show ?thesis
    unfolding claimServerByReference_def ref option.case LocalObjectReference.sel assms(4)
    by (rule returns_bind) (use assms(2,3,5) in \<open>auto simp: owned_by_def intro!: returns_return\<close>)
qed



section \<open>Witnesses\<close>

lemma ex_accepts_writes: "accepts_writes ex_env"
  by (auto simp: accepts_writes_def ex_env_def set_meta_def is_ok_iff split: res.split) (metis res.distinct)+

lemma ex_draws_keys: "draws_keys ex_env"
  by (simp add: draws_keys_def ex_env_def)

lemma ex_bmc_answers: "bmc_answers ex_env ''38-ab''"
  by (simp add: bmc_answers_def ex_env_def ex_system_def) code_simp

lemma ex_obeys_resets: "obeys_resets ex_env ''38-ab''"
proof -
  have "ToLower ''38-AB'' = ''38-ab''" by code_simp
  then show ?thesis by (simp add: obeys_resets_def powered_def ex_env_def ex_system_def)
qed

lemma ex_has_access: "has_access ex_env (ex_server st p ps)"
proof -
  have "is_ok (GetBMCCredentialsFromSecret ex_secret)" by code_simp
  then show ?thesis
    by (simp add: has_access_def ex_server_def ex_access_def ex_env_def named_Server_def)
qed

lemma ex_server_fields [simp]:
  "srvSystemUUID (ex_server st p ps) = ''38-ab''" "srvState (ex_server st p ps) = st"
  "srvPower (ex_server st p ps) = p" "srvPowerState (ex_server st p ps) = ps"
  "srvClaimRef (ex_server st p ps) = None" "srvName (ex_server st p ps) = ''srv''"
  by (simp_all add: ex_server_def named_Server_def)



text \<open>An API server that records its writes in the managed fields, a ready boot configuration, a registered probe.\<close>

definition ex_ready_env :: "world env" where
  "ex_ready_env = ex_env\<lparr>
     k_patchServerStatus := \<lambda>_ new w. (Ok (new\<lparr>Server_Meta := (Server_Meta new)\<lparr>ObjectMeta_ManagedFields :=
       [\<lparr>ManagedFieldsEntry_Operation = ''Update'', ManagedFieldsEntry_Subresource = ''status'',
         ManagedFieldsEntry_Time = Some 0\<rparr>]\<rparr>\<rparr>), w),
     k_getSBC := \<lambda>ns n w. (Ok ((empty_SBC ns n)\<lparr>SBC_State := ServerBootConfigurationStateReady\<rparr>), w),
     s_httpGet := \<lambda>_ w. (Ok (Some \<lparr>HttpResponse_StatusCode = 200,
       HttpResponse_Body = Some \<lparr>RegistryServer_NetworkInterfaces = [\<lparr>RNI_Name = ''eth0'', RNI_IPAddress = ''10.0.0.9'',
         RNI_MACAddress = ''aa''\<rparr>]\<rparr>\<rparr>, None), w)\<rparr>"

definition ex_discovered :: Server where
  "ex_discovered = set_BootConfigurationRef (Some (bootConfigRef (empty_SBC ''metal'' ''srv'')))
     (ex_server ServerStateDiscovery PowerOff ServerOffPowerState)"

lemma ex_discovered_fields [simp]:
  "srvSystemUUID ex_discovered = ''38-ab''" "srvState ex_discovered = ServerStateDiscovery"
  by (simp_all add: ex_discovered_def set_BootConfigurationRef_def ex_server_def)

lemma ex_address: "MustParseIP ''10.0.0.9'' = Ok (IP (Addr4 [10, 0, 0, 9]))"
  by code_simp

lemma ex_ready_laws:
  "quiet ex_ready_env" "accepts_writes ex_ready_env" "bmc_answers ex_ready_env ''38-ab''"
  "obeys_resets ex_ready_env ''38-ab''" "has_access ex_ready_env ex_discovered" "lists_storages ex_ready_env"
  "in_time ex_ready_env 1800" "boot_ready ex_ready_env ex_discovered" "probe_registered ex_ready_env ex_reconciler u"
proof -
  show "quiet ex_ready_env"
    using ex_quiet by (auto simp: quiet_def ex_ready_env_def agrees_def)
  show "accepts_writes ex_ready_env"
    using ex_accepts_writes by (simp add: accepts_writes_def ex_ready_env_def)
  show "bmc_answers ex_ready_env ''38-ab''"
    using ex_bmc_answers by (simp add: bmc_answers_def ex_ready_env_def)
  show "obeys_resets ex_ready_env ''38-ab''"
    using ex_obeys_resets by (simp add: obeys_resets_def powered_def ex_ready_env_def)
  show "has_access ex_ready_env ex_discovered"
    using ex_has_access by (simp add: has_access_def ex_ready_env_def ex_discovered_def set_BootConfigurationRef_def)
  show "lists_storages ex_ready_env"
    by (simp add: lists_storages_def ex_ready_env_def ex_env_def)
  show "in_time ex_ready_env 1800"
    by (auto simp: in_time_def ex_ready_env_def ex_env_def)
  show "boot_ready ex_ready_env ex_discovered"
    by (simp add: boot_ready_def ex_ready_env_def ex_discovered_def set_BootConfigurationRef_def)
  show "probe_registered ex_ready_env ex_reconciler u"
    using ex_address by (simp add: probe_registered_def ex_ready_env_def ex_env_def ex_http_def split: prod.split)
qed


definition ex_claimable :: "bool \<Rightarrow> Server" where
  "ex_claimable owned = set_ServerClaimRef (if owned then Some (claimObjectRef ex_claim) else None)
     (ex_server ServerStateAvailable PowerOff ServerOffPowerState)"

definition ex_claim_env :: "bool \<Rightarrow> world env" where
  "ex_claim_env owned = ex_env\<lparr>k_getServer := \<lambda>_ w. (Ok (ex_claimable owned), w)\<rparr>"

lemma ex_claim_laws:
  "quiet (ex_claim_env b)" "accepts_writes (ex_claim_env b)" "answers_claim (ex_claim_env b) ex_claim (ex_claimable b)"
  "\<not> shouldIgnoreReconciliation (ServerClaim_Meta ex_claim)" "ServerClaim_Phase ex_claim = PhaseUnbound"
  "ServerClaimSpec_ServerSelector (ServerClaim_Spec ex_claim) = None"
proof -
  show "quiet (ex_claim_env b)" using ex_quiet by (simp add: quiet_def ex_claim_env_def)
  show "accepts_writes (ex_claim_env b)" using ex_accepts_writes by (simp add: accepts_writes_def ex_claim_env_def)
  show "answers_claim (ex_claim_env b) ex_claim (ex_claimable b)"
    by (simp add: answers_claim_def ex_claim_env_def ex_claimable_def ex_env_def ex_claim_def set_ServerClaimRef_def)
  show "\<not> shouldIgnoreReconciliation (ServerClaim_Meta ex_claim)" by code_simp
qed (simp_all add: ex_claim_def)



end
