(* ===== verification/Move.thy ===== *)
theory Move
  imports Api_Types
begin

text \<open>
  Moving the custom resources from one cluster to another: \<^verbatim>\<open>cmdutils/\<close> and the command that calls it,
  \<^verbatim>\<open>cmd/metalctl/app/move.go\<close>. The two clusters are an environment of their own, \<open>move_env\<close>, whose
  calls leave their own events. The lemmas show what the owner trees contain and what a move creates,
  in which order, and deletes again when it fails.
\<close>

section \<open>Unstructured objects\<close>

text \<open>
  A decoded JSON value. The fields of an object are listed by key, so that equal maps are equal lists.
\<close>

datatype json = JNull | JBool bool | JNumber int | JString string | JArray "json list"
  | JObject "(string \<times> json) list"

record GroupVersionKind =
  GVK_Group :: string
  GVK_Version :: string
  GVK_Kind :: string

text \<open>
  An \<^verbatim>\<open>unstructured.Unstructured\<close>: its kind, the metadata fields that the code reads, sets or deletes, the
  rest of the metadata, the field \<^verbatim>\<open>status\<close> and the rest of the object. \<open>None\<close> is a field that is not there.
\<close>

record Unstructured =
  CR_GVK :: GroupVersionKind
  CR_Namespace :: string
  CR_Name :: string
  CR_UID :: "string option"
  CR_ResourceVersion :: "string option"
  CR_CreationTimestamp :: "string option"
  CR_Generation :: "int option"
  CR_ManagedFields :: "json option"
  CR_OwnerReferences :: "OwnerReference list"
  CR_Metadata :: "(string \<times> json) list"
  CR_Status :: "json option"
  CR_Content :: "(string \<times> json) list"

definition GetUID :: "Unstructured \<Rightarrow> string" where
  "GetUID cr = (case CR_UID cr of None \<Rightarrow> '''' | Some u \<Rightarrow> u)"

text \<open>The key that identifies an object of a cluster to its client.\<close>

datatype object_key = ObjectKey GroupVersionKind string string

definition ObjectKeyFromObject :: "Unstructured \<Rightarrow> object_key" where
  "ObjectKeyFromObject cr = ObjectKey (CR_GVK cr) (CR_Namespace cr) (CR_Name cr)"

record CustomResourceDefinition =
  CRD_Group :: string
  CRD_Versions :: "string list"
  CRD_Kind :: string

section \<open>The clusters\<close>

text \<open>
  The clients of the source and the target cluster, as far as the code uses them; \<open>m_polls\<close> is how often
  the poll interval fits into the poll timeout by the clock.
\<close>

record 'w move_env =
  m_buildConfig :: "string \<Rightarrow> 'w \<Rightarrow> unit res \<times> 'w"
  m_newClient :: "string \<Rightarrow> 'w \<Rightarrow> unit res \<times> 'w"
  m_listCRDs :: "'w \<Rightarrow> CustomResourceDefinition list res \<times> 'w"
  m_list :: "GroupVersionKind \<Rightarrow> string \<Rightarrow> 'w \<Rightarrow> Unstructured list res \<times> 'w"
  m_get :: "object_key \<Rightarrow> 'w \<Rightarrow> Unstructured res \<times> 'w"
  m_create :: "Unstructured \<Rightarrow> 'w \<Rightarrow> Unstructured res \<times> 'w"
  m_statusUpdate :: "Unstructured \<Rightarrow> 'w \<Rightarrow> Unstructured res \<times> 'w"
  m_delete :: "object_key \<Rightarrow> 'w \<Rightarrow> unit res \<times> 'w"
  m_polls :: "int \<Rightarrow> int \<Rightarrow> 'w \<Rightarrow> nat"

datatype move_event =
    MRead string bool
  | MListed GroupVersionKind string "Unstructured list res"
  | MGot object_key "Unstructured res"
  | MCreated Unstructured "Unstructured res"
  | MStatusUpdated Unstructured "Unstructured res"
  | MDeleted object_key bool

type_synonym ('w, 'a) MM = "(move_event, 'w, 'a) prog"

definition target_Get :: "'w move_env \<Rightarrow> object_key \<Rightarrow> ('w, Unstructured) MM" where
  "target_Get E k = callM (m_get E k) (\<lambda>r. MGot k r)"

definition target_Create :: "'w move_env \<Rightarrow> Unstructured \<Rightarrow> ('w, Unstructured) MM" where
  "target_Create E cr = callM (m_create E cr) (\<lambda>r. MCreated cr r)"

definition target_StatusUpdate :: "'w move_env \<Rightarrow> Unstructured \<Rightarrow> ('w, Unstructured) MM" where
  "target_StatusUpdate E cr = callM (m_statusUpdate E cr) (\<lambda>r. MStatusUpdated cr r)"

definition target_Delete :: "'w move_env \<Rightarrow> object_key \<Rightarrow> ('w, unit) MM" where
  "target_Delete E k = callM (m_delete E k) (\<lambda>r. MDeleted k (is_ok r))"

definition source_List :: "'w move_env \<Rightarrow> GroupVersionKind \<Rightarrow> string \<Rightarrow> ('w, Unstructured list) MM" where
  "source_List E g ns = callM (m_list E g ns) (\<lambda>r. MListed g ns r)"

lemmas move_call_defs = target_Get_def target_Create_def target_StatusUpdate_def target_Delete_def source_List_def

section \<open>utils.go\<close>

definition transform :: "'a list \<Rightarrow> ('a \<Rightarrow> 'b) \<Rightarrow> 'b list" where
  "transform xs f = map f xs"

definition crName :: "Unstructured \<Rightarrow> string" where
  "crName cr = GVK_Kind (CR_GVK cr) @ '':'' @ CR_Namespace cr @ ''/'' @ CR_Name cr"

section \<open>move.go\<close>

text \<open>Durations are nanoseconds, as in \<^verbatim>\<open>time.Duration\<close>.\<close>

definition pollInterval :: int where "pollInterval = 1000000000 div 10"

definition pollTimeout :: int where "pollTimeout = 30 * 1000000000"

definition getCrs :: "'w move_env \<Rightarrow> GroupVersionKind list \<Rightarrow> string \<Rightarrow> ('w, Unstructured list) MM" where
  "getCrs E crsGvk namespace =
     foldM (\<lambda>crs crGvk. bindM (wrapM ''couldn't list CRs'' (source_List E crGvk namespace)) (\<lambda>items.
       returnM (crs @ items))) [] crsGvk"

text \<open>
  \<^verbatim>\<open>clearFields\<close> deletes fields of the object's own content, which nothing reads afterwards. A failing type
  assertion is a panic.
\<close>

definition clearCondition :: "json \<Rightarrow> json res" where
  "clearCondition c =
     (case c of
        JObject fs \<Rightarrow> Ok (JObject (AList.delete ''lastTransitionTime'' fs))
      | _ \<Rightarrow> Panic ''interface conversion'')"

fun clearConditions :: "json list \<Rightarrow> json list res" where
  "clearConditions [] = Ok []"
| "clearConditions (c # cs) =
     (case clearCondition c of
        Ok c' \<Rightarrow> (case clearConditions cs of Ok cs' \<Rightarrow> Ok (c' # cs') | Err e \<Rightarrow> Err e | Panic p \<Rightarrow> Panic p)
      | Err e \<Rightarrow> Err e | Panic p \<Rightarrow> Panic p)"

text \<open>A null field compares equal to nil, like an absent one.\<close>

definition clearStatus :: "json \<Rightarrow> json res" where
  "clearStatus status =
     (case status of
        JNull \<Rightarrow> Ok JNull
      | JObject fs \<Rightarrow>
          (case map_of fs ''conditions'' of
             None \<Rightarrow> Ok (JObject fs)
           | Some JNull \<Rightarrow> Ok (JObject fs)
           | Some (JArray cs) \<Rightarrow>
               (case clearConditions cs of
                  Ok cs' \<Rightarrow> Ok (JObject (AList.update ''conditions'' (JArray cs') fs))
                | Err e \<Rightarrow> Err e | Panic p \<Rightarrow> Panic p)
           | Some _ \<Rightarrow> Panic ''interface conversion'')
      | _ \<Rightarrow> Panic ''interface conversion'')"

definition clearFields :: "Unstructured \<Rightarrow> Unstructured res" where
  "clearFields obj =
     (let so = obj\<lparr>CR_CreationTimestamp := None, CR_ResourceVersion := None, CR_UID := None,
                   CR_Generation := None, CR_ManagedFields := None\<rparr> in
      case CR_Status so of
        None \<Rightarrow> Ok so
      | Some status \<Rightarrow>
          (case clearStatus status of
             Ok status' \<Rightarrow> Ok (so\<lparr>CR_Status := Some status'\<rparr>)
           | Err e \<Rightarrow> Err e | Panic p \<Rightarrow> Panic p))"

definition alreadyExists :: "Unstructured \<Rightarrow> error" where
  "alreadyExists cr = OtherError (''a CR '' @ CR_Namespace cr @ ''/'' @ CR_Name cr @
     '' already exists in the target cluster and is different then in the source cluster'')"

definition getCrsToBeMoved :: "'w move_env \<Rightarrow> Unstructured list \<Rightarrow> ('w, Unstructured list) MM" where
  "getCrsToBeMoved E sourceCrs =
     foldM (\<lambda>crsToMove sourceCr.
       bindM (catchM (bindM (target_Get E (ObjectKeyFromObject sourceCr)) (\<lambda>targetCr. returnM (Some targetCr)))
                (\<lambda>err. if IsNotFound err then returnM None
                       else errM (WrapError ''failed to check CR existence in the target cluster'' err))) (\<lambda>x.
         case x of
           None \<Rightarrow> returnM (crsToMove @ [sourceCr])
         | Some targetCr \<Rightarrow>
             bindM (liftM (clearFields sourceCr)) (\<lambda>so.
             bindM (liftM (clearFields targetCr)) (\<lambda>ta.
               if so = ta then returnM crsToMove else errM (alreadyExists sourceCr))))) [] sourceCrs"

datatype Node = Node (Node_Cr: Unstructured) (Node_Children: "Node list")

text \<open>
  The nodes while they are built: a pointer to a node is the UID under which \<^verbatim>\<open>nodeMap\<close> has it. The first
  loop makes one node per UID; the second appends a node to the children of the node of its first owner,
  or to the roots if it has no owner or the owner is not in the map.
\<close>

type_synonym nodes = "string \<rightharpoonup> Unstructured \<times> string list"

definition nodeMap :: "Unstructured list \<Rightarrow> nodes" where
  "nodeMap crs = fold (\<lambda>cr m. m(GetUID cr \<mapsto> (cr, []))) crs Map.empty"

definition linkNode :: "Unstructured \<Rightarrow> string list \<times> nodes \<Rightarrow> string list \<times> nodes" where
  "linkNode cr x = (case x of (roots, m) \<Rightarrow>
     (case CR_OwnerReferences cr of
        [] \<Rightarrow> (roots @ [GetUID cr], m)
      | ref # _ \<Rightarrow>
          (case m (OwnerReference_UID ref) of
             None \<Rightarrow> (roots @ [GetUID cr], m)
           | Some (owner, children) \<Rightarrow>
               (roots, m(OwnerReference_UID ref \<mapsto> (owner, children @ [GetUID cr]))))))"

text \<open>The tree below a pointer. \<open>None\<close> would be a pointer that leads nowhere or a chain longer than the fuel.\<close>

fun tree_of :: "nat \<Rightarrow> nodes \<Rightarrow> string \<Rightarrow> Node option" where
  "tree_of 0 m u = None"
| "tree_of (Suc n) m u =
     (case m u of
        None \<Rightarrow> None
      | Some (cr, children) \<Rightarrow> map_option (Node cr) (those (map (tree_of n m) children)))"

definition trees_of :: "Unstructured list \<Rightarrow> Node list option" where
  "trees_of crs = (case fold linkNode crs ([], nodeMap crs) of
     (roots, m) \<Rightarrow> those (map (tree_of (length crs) m) roots))"

definition crsOwnerReferenceTrees :: "Unstructured list \<Rightarrow> Node list" where
  "crsOwnerReferenceTrees crs = (case trees_of crs of Some ts \<Rightarrow> ts | None \<Rightarrow> [])"

text \<open>\<^verbatim>\<open>errors.Join\<close>: nil errors are dropped, and nothing is left of no error.\<close>

definition errors_Join :: "error option list \<Rightarrow> error option" where
  "errors_Join es = (case List.map_filter id es of [] \<Rightarrow> None | es' \<Rightarrow> Some (JoinError es'))"

definition cleanup :: "'w move_env \<Rightarrow> Unstructured list \<Rightarrow> ('w, error option) MM" where
  "cleanup E crs =
     bindM (foldM (\<lambda>cleanupErrs cr.
       bindM (catchM (bindM (target_Delete E (ObjectKeyFromObject cr)) (\<lambda>_. returnM None)) (\<lambda>err. returnM (Some err)))
         (\<lambda>err. returnM (case err of None \<Rightarrow> cleanupErrs | Some e \<Rightarrow> cleanupErrs @ [Some e]))) [] crs)
     (\<lambda>cleanupErrs. returnM (errors_Join cleanupErrs))"

text \<open>\<^verbatim>\<open>unstructured.NestedMap\<close> fails on a status that is no map; the field of an object can always be set.\<close>

definition copyStatus :: "'w move_env \<Rightarrow> Unstructured \<Rightarrow> Unstructured \<Rightarrow> ('w, Unstructured) MM" where
  "copyStatus E sourceCr targetCr =
     (case CR_Status sourceCr of
        None \<Rightarrow> returnM targetCr
      | Some (JObject status) \<Rightarrow> target_StatusUpdate E (targetCr\<lparr>CR_Status := Some (JObject status)\<rparr>)
      | Some _ \<Rightarrow> errM (OtherError ''accessor error: expected map[string]interface{}''))"

text \<open>The object that is created for a node, below an owner with the given UID or at the top.\<close>

definition crToCreate :: "string option \<Rightarrow> Unstructured \<Rightarrow> Unstructured" where
  "crToCreate ownerUid cr =
     (case (CR_OwnerReferences cr, ownerUid) of
        ([ref], Some uid) \<Rightarrow> cr\<lparr>CR_OwnerReferences := [ref\<lparr>OwnerReference_UID := uid\<rparr>], CR_ResourceVersion := None\<rparr>
      | _ \<Rightarrow> cr\<lparr>CR_ResourceVersion := None\<rparr>)"

text \<open>
  \<^verbatim>\<open>moveCrs\<close> returns what it has created together with an error. Its first loop creates the objects of the
  trees' tops.
\<close>

fun createCrs :: "'w move_env \<Rightarrow> Node list \<Rightarrow> string option \<Rightarrow> Unstructured list \<Rightarrow>
    ('w, Unstructured list \<times> error option) MM" where
  "createCrs E [] ownerUid movedCrs = returnM (movedCrs, None)"
| "createCrs E (crsTree # crsTrees) ownerUid movedCrs =
     (let cr = crToCreate ownerUid (Node_Cr crsTree) in
      bindM (catchM (bindM (target_Create E cr) (\<lambda>cr'. returnM (Inr cr'))) (\<lambda>err. returnM (Inl err))) (\<lambda>x.
        case x of
          Inl err \<Rightarrow> returnM (movedCrs, Some (WrapError
                       (''CR '' @ crName cr @ '' couldn't be created in the target cluster'') err))
        | Inr cr' \<Rightarrow> createCrs E crsTrees ownerUid (movedCrs @ [cr'])))"

text \<open>
  The condition that the second loop polls: the object of the tree is read back, its status is copied and
  its children are moved. It is done, with what was created and an error, or to be tried again because
  the object is not there yet.
\<close>

definition moveCondition :: "'w move_env \<Rightarrow> Unstructured \<Rightarrow>
    (string \<Rightarrow> ('w, Unstructured list \<times> error option) MM) \<Rightarrow>
    ('w, (Unstructured list \<times> error option) option) MM" where
  "moveCondition E cr moveChildren =
     catchM (bindM (catchM (bindM (target_Get E (ObjectKeyFromObject cr)) (\<lambda>t. returnM (Some t)))
                      (\<lambda>err. if IsNotFound err then returnM None else errM err)) (\<lambda>x.
               case x of
                 None \<Rightarrow> returnM None
               | Some target \<Rightarrow>
                   bindM (copyStatus E cr target) (\<lambda>target'.
                   bindM (moveChildren (GetUID target')) (\<lambda>res. returnM (Some res)))))
       (\<lambda>err. returnM (Some ([], Some err)))"

definition pollMove :: "'w move_env \<Rightarrow> ('w, (Unstructured list \<times> error option) option) MM \<Rightarrow>
    ('w, Unstructured list \<times> error option) MM" where
  "pollMove E c =
     catchM (\<lambda>w. poll_loop (m_polls E pollInterval pollTimeout w) c w) (\<lambda>err. returnM ([], Some err))"

fun moveCrs :: "'w move_env \<Rightarrow> Node list \<Rightarrow> string option \<Rightarrow> ('w, Unstructured list \<times> error option) MM"
  and moveTrees :: "'w move_env \<Rightarrow> Node list \<Rightarrow> Unstructured list \<Rightarrow> ('w, Unstructured list \<times> error option) MM" where
  "moveCrs E crsTrees ownerUid =
     bindM (createCrs E crsTrees ownerUid []) (\<lambda>(movedCrs, err).
       case err of
         Some e \<Rightarrow> returnM (movedCrs, Some e)
       | None \<Rightarrow> moveTrees E crsTrees movedCrs)"
| "moveTrees E [] movedCrs = returnM (movedCrs, None)"
| "moveTrees E (Node cr children # crsTrees) movedCrs =
     bindM (pollMove E (moveCondition E cr (\<lambda>uid. moveCrs E children (Some uid)))) (\<lambda>(movedChildrenCrs, err).
       case err of
         Some e \<Rightarrow> returnM (movedCrs @ movedChildrenCrs, Some e)
       | None \<Rightarrow> moveTrees E crsTrees (movedCrs @ movedChildrenCrs))"

definition cleanupReport :: "error option \<Rightarrow> error" where
  "cleanupReport cleanupErr =
     (let msg = ''clean up of CRs was performed to restore a target cluster's state with error result: '' in
      case cleanupErr of Some e \<Rightarrow> WrapError msg e | None \<Rightarrow> OtherError (msg @ ''%!w(<nil>)''))"

definition Move :: "'w move_env \<Rightarrow> GroupVersionKind list \<Rightarrow> string \<Rightarrow> bool \<Rightarrow> ('w, unit) MM" where
  "Move E crsGvk namespace dryRun =
     bindM (getCrs E crsGvk namespace) (\<lambda>sourceCrs.
     bindM (getCrsToBeMoved E sourceCrs) (\<lambda>crsToMove.
       if \<not> dryRun then
         bindM (moveCrs E (crsOwnerReferenceTrees crsToMove) None) (\<lambda>(movedCrs, err).
           case err of
             Some e \<Rightarrow>
               bindM (cleanup E movedCrs) (\<lambda>cleanupErr.
                 case errors_Join [Some e, Some (cleanupReport cleanupErr)] of
                   Some e' \<Rightarrow> errM e' | None \<Rightarrow> returnM ())
           | None \<Rightarrow> returnM ())
       else returnM ()))"

section \<open>The command\<close>

abbreviation GroupVersion_Group :: string where "GroupVersion_Group \<equiv> ''metal.ironcore.dev''"

fun crsSchema :: "CustomResourceDefinition list \<Rightarrow> GroupVersionKind list res" where
  "crsSchema [] = Ok []"
| "crsSchema (crd # crds) =
     (if CRD_Group crd = GroupVersion_Group then
        (case CRD_Versions crd of
           [] \<Rightarrow> Panic ''index out of range''
         | v # _ \<Rightarrow>
             (case crsSchema crds of
                Ok gs \<Rightarrow> Ok (\<lparr>GVK_Group = CRD_Group crd, GVK_Version = v, GVK_Kind = CRD_Kind crd\<rparr> # gs)
              | Err e \<Rightarrow> Err e | Panic p \<Rightarrow> Panic p))
      else crsSchema crds)"

text \<open>The client of a cluster, named by its kubeconfig.\<close>

definition makeClient :: "'w move_env \<Rightarrow> string \<Rightarrow> ('w, unit) MM" where
  "makeClient E kubeconfig =
     bindM (wrapM ''failed to load cluster kubeconfig''
              (callM (m_buildConfig E kubeconfig) (\<lambda>r. MRead kubeconfig (is_ok r)))) (\<lambda>_.
     callM (m_newClient E kubeconfig) (\<lambda>r. MRead kubeconfig (is_ok r)))"

definition makeClients :: "'w move_env \<Rightarrow> string \<Rightarrow> string \<Rightarrow> ('w, unit) MM" where
  "makeClients E sourceKubeconfig targetKubeconfig =
     bindM (wrapM ''failed to construct a source cluster client'' (makeClient E sourceKubeconfig)) (\<lambda>_.
     wrapM ''failed to construct a target cluster client'' (makeClient E targetKubeconfig))"

definition runMove :: "'w move_env \<Rightarrow> string \<Rightarrow> string \<Rightarrow> string \<Rightarrow> bool \<Rightarrow> ('w, unit) MM" where
  "runMove E sourceKubeconfig targetKubeconfig namespace dryRun =
     bindM (makeClients E sourceKubeconfig targetKubeconfig) (\<lambda>_.
     bindM (callM (m_listCRDs E) (\<lambda>r. MRead ''CustomResourceDefinition'' (is_ok r))) (\<lambda>crds.
     bindM (liftM (crsSchema crds)) (\<lambda>crsGvk.
       Move E crsGvk namespace dryRun)))"

lemma crToCreate_key [simp]: "ObjectKeyFromObject (crToCreate o1 cr) = ObjectKeyFromObject cr"
  by (auto simp: crToCreate_def ObjectKeyFromObject_def split: list.split option.split)

end
