(* ===== verification/Owner_Trees.thy ===== *)
theory Owner_Trees
  imports Move
begin

text \<open>
  The trees that \<^verbatim>\<open>crsOwnerReferenceTrees\<close> builds. The locale \<open>parent_function\<close> is about chains in any
  forest; it is interpreted on the owner references of the objects to be moved. \<open>owner_trees\<close> collects
  the result.
\<close>

section \<open>Chains in a forest\<close>

text \<open>The element that \<open>n\<close> steps of a partial parent function lead to, and the number of steps to an end.\<close>

fun up :: "('a \<Rightarrow> 'a option) \<Rightarrow> nat \<Rightarrow> 'a \<Rightarrow> 'a option" where
  "up parent 0 u = Some u"
| "up parent (Suc n) u = Option.bind (parent u) (up parent n)"

definition depth :: "('a \<Rightarrow> 'a option) \<Rightarrow> 'a \<Rightarrow> nat \<Rightarrow> bool" where
  "depth parent u n \<longleftrightarrow> (\<exists>r. up parent n u = Some r \<and> parent r = None)"

text \<open>
  On a finite set that is closed under the function, following it from an element either ends after fewer
  steps than the set has elements or goes round a cycle for ever.
\<close>

locale parent_function =
  fixes parent :: "'a \<Rightarrow> 'a option" and elements :: "'a set"
  assumes finite_elements: "finite elements"
    and parent_closed: "u \<in> elements \<Longrightarrow> parent u = Some v \<Longrightarrow> v \<in> elements"
begin

lemma up_add: "up parent (m + n) u = Option.bind (up parent m u) (up parent n)"
  by (induction m arbitrary: u) (auto simp: bind_assoc split: bind_splits)

lemma depth_0 [simp]: "depth parent u 0 \<longleftrightarrow> parent u = None"
  by (simp add: depth_def)

lemma depth_child: "parent v = Some u \<Longrightarrow> depth parent v (Suc n) \<longleftrightarrow> depth parent u n"
  by (simp add: depth_def)

lemma depth_unique: "depth parent u m \<Longrightarrow> depth parent u n \<Longrightarrow> m = n"
proof (induction m arbitrary: u n)
  case 0
  then show ?case by (cases n) (auto simp: depth_def)
next
  case (Suc m)
  then obtain v where v: "parent u = Some v" by (auto simp: depth_def split: bind_splits)
  with Suc.prems obtain n' where "n = Suc n'" by (cases n) auto
  with v Suc show ?case by (auto simp: depth_child)
qed

lemma depth_up: "depth parent u (k + n) \<Longrightarrow> up parent k u = Some v \<Longrightarrow> depth parent v n"
  by (auto simp: depth_def up_add)

lemma depth_below: "up parent k u = Some v \<Longrightarrow> depth parent v n \<Longrightarrow> depth parent u (k + n)"
  by (auto simp: depth_def up_add)

lemma up_parent: "up parent k u = Some v \<Longrightarrow> parent v = Some w \<Longrightarrow> up parent (Suc k) u = Some w"
  using up_add [of k 1 u] by (simp del: up.simps(2) add: up.simps(2) [of _ 0])

lemma up_closed: "u \<in> elements \<Longrightarrow> up parent n u = Some v \<Longrightarrow> v \<in> elements"
  by (induction n arbitrary: u) (auto split: bind_splits intro: parent_closed)

lemma depth_bound:
  assumes "depth parent u n" and "u \<in> elements"
  shows "n < card elements"
proof -
  have up: "\<exists>v. up parent k u = Some v \<and> depth parent v (n - k) \<and> v \<in> elements" if "k \<le> n" for k
  proof -
    have "up parent (k + (n - k)) u \<noteq> None" using assms(1) that by (auto simp: depth_def)
    then obtain v where v: "up parent k u = Some v" unfolding up_add by (auto split: bind_splits)
    moreover have "depth parent v (n - k)" using depth_up [of u k "n - k" v] assms(1) that v by simp
    ultimately show ?thesis using up_closed [OF assms(2)] by blast
  qed
  have "inj_on (\<lambda>k. the (up parent k u)) {..n}"
  proof (rule inj_onI)
    fix j k
    assume jk: "j \<in> {..n}" "k \<in> {..n}" "the (up parent j u) = the (up parent k u)"
    with up [of j] up [of k] have "n - j = n - k" by (auto dest: depth_unique)
    with jk show "j = k" by auto
  qed
  moreover have "(\<lambda>k. the (up parent k u)) ` {..n} \<subseteq> elements" using up by fastforce
  ultimately have "card {..n} \<le> card elements" by (metis card_image card_mono finite_elements)
  then show ?thesis by simp
qed

text \<open>An element is below at most one of several elements of the same depth.\<close>

lemma above_unique:
  assumes "up parent j v = Some a" and "up parent k v = Some b" and "depth parent a n" and "depth parent b n"
  shows "a = b"
proof -
  from assms have "depth parent v (j + n)" "depth parent v (k + n)" by (auto simp: depth_def up_add)
  then have "j = k" by (auto dest: depth_unique)
  with assms show ?thesis by simp
qed

end

section \<open>Owners\<close>

text \<open>
  The owner of an object among the objects to be moved: the object whose UID its first owner reference
  names.
\<close>

definition owner_uid :: "Unstructured list \<Rightarrow> Unstructured \<Rightarrow> string option" where
  "owner_uid crs cr = (case CR_OwnerReferences cr of
     [] \<Rightarrow> None
   | ref # _ \<Rightarrow> if OwnerReference_UID ref \<in> GetUID ` set crs then Some (OwnerReference_UID ref) else None)"

definition children_uids :: "Unstructured list \<Rightarrow> string \<Rightarrow> string list" where
  "children_uids crs u = map GetUID (filter (\<lambda>c. owner_uid crs c = Some u) crs)"

text \<open>The map and the roots after both loops.\<close>

lemma nodeMap_dom: "dom (fold (\<lambda>cr m. m(GetUID cr \<mapsto> (cr, []))) crs m) = GetUID ` set crs \<union> dom m"
  by (induction crs arbitrary: m) auto

lemma nodeMap_other:
  "u \<notin> GetUID ` set crs \<Longrightarrow> fold (\<lambda>cr m. m(GetUID cr \<mapsto> (cr, []))) crs m u = m u"
  by (induction crs arbitrary: m) auto

lemma nodeMap_lookup:
  "distinct (map GetUID crs) \<Longrightarrow> cr \<in> set crs \<Longrightarrow> nodeMap crs (GetUID cr) = Some (cr, [])"
proof -
  have "fold (\<lambda>cr m. m(GetUID cr \<mapsto> (cr, []))) crs m (GetUID cr) = Some (cr, [])"
    if "distinct (map GetUID crs)" "cr \<in> set crs" for m
    using that by (induction crs arbitrary: m) (auto simp: nodeMap_other)
  then show "distinct (map GetUID crs) \<Longrightarrow> cr \<in> set crs \<Longrightarrow> nodeMap crs (GetUID cr) = Some (cr, [])"
    by (simp add: nodeMap_def)
qed

text \<open>The state of the second loop after the objects \<open>done_crs\<close>.\<close>

definition linked :: "Unstructured list \<Rightarrow> Unstructured list \<Rightarrow> string list \<times> nodes" where
  "linked crs done_crs =
     (map GetUID (filter (\<lambda>c. owner_uid crs c = None) done_crs),
      \<lambda>u. map_option (\<lambda>(cr, _). (cr, map GetUID (filter (\<lambda>c. owner_uid crs c = Some u) done_crs))) (nodeMap crs u))"

lemma nodeMap_None: "nodeMap crs u = None \<longleftrightarrow> u \<notin> GetUID ` set crs"
  using nodeMap_dom [of crs Map.empty] unfolding nodeMap_def by (auto simp: domIff)

lemma nodeMap_fresh: "nodeMap crs u = Some (cr, ch) \<Longrightarrow> ch = []"
proof -
  have "fold (\<lambda>cr m. m(GetUID cr \<mapsto> (cr, []))) crs m u = Some (cr, ch) \<Longrightarrow>
      (\<And>u cr ch. m u = Some (cr, ch) \<Longrightarrow> ch = []) \<Longrightarrow> ch = []" for m
  proof (induction crs arbitrary: m)
    case (Cons a crs)
    show ?case by (rule Cons.IH [of "m(GetUID a \<mapsto> (a, []))"]) (use Cons.prems in \<open>auto split: if_splits\<close>)
  qed auto
  then show "nodeMap crs u = Some (cr, ch) \<Longrightarrow> ch = []" unfolding nodeMap_def by fastforce
qed

lemma linkNode_step: "linkNode cr (linked crs done_crs) = linked crs (done_crs @ [cr])"
proof (cases "owner_uid crs cr")
  case None
  have "snd (linked crs done_crs) (OwnerReference_UID ref) = None"
    if "CR_OwnerReferences cr = ref # refs" for ref refs
    using None that by (auto simp: linked_def owner_uid_def nodeMap_None [THEN iffD2] split: if_splits)
  then have "linkNode cr (linked crs done_crs) = (fst (linked crs done_crs) @ [GetUID cr], snd (linked crs done_crs))"
    by (auto simp: linkNode_def case_prod_beta split: list.split)
  with None show ?thesis by (simp add: linked_def fun_eq_iff)
next
  case (Some u)
  then obtain ref refs where refs: "CR_OwnerReferences cr = ref # refs" "OwnerReference_UID ref = u"
    and u: "u \<in> GetUID ` set crs"
    by (auto simp: owner_uid_def split: list.splits if_splits)
  from u obtain o1 ch where "nodeMap crs u = Some (o1, ch)" by (cases "nodeMap crs u") (auto simp: nodeMap_None)
  with Some refs show ?thesis by (auto simp: linkNode_def linked_def fun_eq_iff split: option.splits)
qed

lemma fold_linkNode: "fold linkNode xs (linked crs done_crs) = linked crs (done_crs @ xs)"
  by (induction xs arbitrary: done_crs) (simp_all add: linkNode_step)

lemma linked_start: "linked crs [] = ([], nodeMap crs)"
proof -
  have "map_option (\<lambda>(cr, _). (cr, [])) (nodeMap crs u) = nodeMap crs u" for u
    by (cases "nodeMap crs u") (auto dest: nodeMap_fresh)
  then show ?thesis by (simp add: linked_def fun_eq_iff)
qed

lemma trees_of_linked: "trees_of crs = those (map (tree_of (length crs) (snd (linked crs crs))) (fst (linked crs crs)))"
  unfolding trees_of_def using fold_linkNode [of crs crs "[]"] by (simp add: linked_start case_prod_beta)

section \<open>The trees\<close>

text \<open>The owner's UID by the object's UID; a chain of owners stays among the objects.\<close>

definition owner_of :: "Unstructured list \<Rightarrow> string \<Rightarrow> string option" where
  "owner_of crs u = Option.bind (nodeMap crs u) (\<lambda>(cr, _). owner_uid crs cr)"

interpretation owners: parent_function "owner_of crs" "GetUID ` set crs" for crs
  by unfold_locales
    (auto simp: owner_of_def owner_uid_def split: bind_splits list.splits if_splits)

lemma owner_of_uid: "distinct (map GetUID crs) \<Longrightarrow> cr \<in> set crs \<Longrightarrow> owner_of crs (GetUID cr) = owner_uid crs cr"
  by (simp add: owner_of_def nodeMap_lookup)

text \<open>The objects of a tree, and that the children of each node are the objects it owns, in order.\<close>

fun tree_crs :: "Node \<Rightarrow> Unstructured list" where
  "tree_crs (Node cr children) = cr # concat (map tree_crs children)"

lemma tree_members_sel:
  assumes "t \<in> set ts"
  shows "Node_Cr t \<in> set (concat (map tree_crs ts))"
    and "c \<in> set (concat (map tree_crs (Node_Children t))) \<Longrightarrow> c \<in> set (concat (map tree_crs ts))"
proof -
  obtain cr children where t: "t = Node cr children" by (cases t)
  have "set (tree_crs t) \<subseteq> set (concat (map tree_crs ts))" using assms by auto
  then show "Node_Cr t \<in> set (concat (map tree_crs ts))"
    and "c \<in> set (concat (map tree_crs (Node_Children t))) \<Longrightarrow> c \<in> set (concat (map tree_crs ts))"
    unfolding t by auto
qed

fun follows_owners :: "Unstructured list \<Rightarrow> Node \<Rightarrow> bool" where
  "follows_owners crs (Node cr children) \<longleftrightarrow>
     map Node_Cr children = filter (\<lambda>c. owner_uid crs c = Some (GetUID cr)) crs \<and>
     list_all (follows_owners crs) children"

lemma those_map: "(\<And>x. x \<in> set xs \<Longrightarrow> f x = Some (g x)) \<Longrightarrow> those (map f xs) = Some (map g xs)"
  by (induction xs) auto

text \<open>The tree below an object is built when the fuel covers the objects that are deeper.\<close>

lemma tree_built:
  assumes "distinct (map GetUID crs)"
  shows "cr \<in> set crs \<Longrightarrow> depth (owner_of crs) (GetUID cr) d \<Longrightarrow> length crs \<le> n + d \<Longrightarrow>
    \<exists>t. tree_of n (snd (linked crs crs)) (GetUID cr) = Some t \<and> Node_Cr t = cr \<and> follows_owners crs t"
proof (induction n arbitrary: cr d)
  case 0
  then have "d < card (GetUID ` set crs)" by (intro owners.depth_bound) auto
  also have "\<dots> \<le> length crs" by (metis assms distinct_card length_map list.set_map order_refl)
  finally show ?case using 0 by simp
next
  case (Suc n)
  let ?m = "snd (linked crs crs)"
  let ?kids = "filter (\<lambda>c. owner_uid crs c = Some (GetUID cr)) crs"
  have node: "?m (GetUID cr) = Some (cr, map GetUID ?kids)"
    using Suc.prems(1) assms by (simp add: linked_def nodeMap_lookup)
  have "\<exists>t. tree_of n ?m (GetUID c) = Some t \<and> Node_Cr t = c \<and> follows_owners crs t" if "c \<in> set ?kids" for c
  proof (rule Suc.IH [where d = "Suc d"])
    show "c \<in> set crs" using that by simp
    then show "depth (owner_of crs) (GetUID c) (Suc d)"
      using that Suc.prems(2) by (simp add: owners.depth_child [of _ _ "GetUID cr"] owner_of_uid [OF assms])
  qed (use Suc.prems in simp)
  then obtain t where t: "\<And>c. c \<in> set ?kids \<Longrightarrow>
      tree_of n ?m (GetUID c) = Some (t c) \<and> Node_Cr (t c) = c \<and> follows_owners crs (t c)" by metis
  then have "those (map (tree_of n ?m) (map GetUID ?kids)) = Some (map t ?kids)"
    unfolding map_map by (intro those_map) auto
  with node t show ?case by (auto simp: list_all_iff intro!: map_idI)
qed

text \<open>The objects of a tree are those that lead up to its top.\<close>

lemma follows_owners_kid:
  assumes "follows_owners crs (Node cr children)" and "t \<in> set children"
  shows "follows_owners crs t" and "Node_Cr t \<in> set crs" and "owner_uid crs (Node_Cr t) = Some (GetUID cr)"
proof -
  from assms(2) have "Node_Cr t \<in> set (map Node_Cr children)" by simp
  also have "map Node_Cr children = filter (\<lambda>c. owner_uid crs c = Some (GetUID cr)) crs" using assms(1) by simp
  finally show "Node_Cr t \<in> set crs" and "owner_uid crs (Node_Cr t) = Some (GetUID cr)" by simp_all
  show "follows_owners crs t" using assms by (simp add: list_all_iff)
qed

text \<open>A chain of owners that ends in the top of a tree passes, before it, the top of one of the children.\<close>

lemma up_through_kid:
  assumes "distinct (map GetUID crs)" and "follows_owners crs (Node cr children)" and "c \<in> set crs"
    and "up (owner_of crs) (Suc j) (GetUID c) = Some (GetUID cr)"
  obtains t where "t \<in> set children" and "up (owner_of crs) j (GetUID c) = Some (GetUID (Node_Cr t))"
proof -
  have "up (owner_of crs) (j + 1) (GetUID c) = Some (GetUID cr)" using assms(4) by simp
  then obtain v where v: "up (owner_of crs) j (GetUID c) = Some v" "owner_of crs v = Some (GetUID cr)"
    unfolding owners.up_add by (auto split: bind_splits)
  with assms(3) have "v \<in> GetUID ` set crs" using owners.up_closed by blast
  then obtain c' where c': "c' \<in> set crs" "v = GetUID c'" by auto
  with v have "c' \<in> set (filter (\<lambda>c. owner_uid crs c = Some (GetUID cr)) crs)" by (simp add: owner_of_uid [OF assms(1)])
  also have "filter (\<lambda>c. owner_uid crs c = Some (GetUID cr)) crs = map Node_Cr children" using assms(2) by simp
  finally obtain t where "t \<in> set children" "Node_Cr t = c'" by auto
  with v c' that show thesis by blast
qed

lemma tree_members:
  assumes "distinct (map GetUID crs)" and "follows_owners crs t" and "Node_Cr t \<in> set crs"
  shows "c \<in> set (tree_crs t) \<longleftrightarrow> c \<in> set crs \<and> (\<exists>k. up (owner_of crs) k (GetUID c) = Some (GetUID (Node_Cr t)))"
    (is "_ \<longleftrightarrow> ?leads c t")
  using assms(2,3)
proof (induction t arbitrary: c)
  case (Node cr children)
  note kid = follows_owners_kid [OF Node.prems(1)]
  have IH: "c \<in> set (tree_crs t) \<longleftrightarrow> ?leads c t" if "t \<in> set children" for t
    using Node.IH kid(1,2) that by blast
  show ?case
  proof
    assume "c \<in> set (tree_crs (Node cr children))"
    then consider "c = cr" | t where "t \<in> set children" "?leads c t" using IH by auto
    then show "?leads c (Node cr children)"
    proof cases
      case 1
      with Node.prems show ?thesis by (auto intro: exI [of _ 0])
    next
      case (2 t)
      moreover have "owner_of crs (GetUID (Node_Cr t)) = Some (GetUID cr)"
        using kid 2 by (simp add: owner_of_uid [OF assms(1)])
      ultimately show ?thesis by (metis Node.sel(1) owners.up_parent)
    qed
  next
    assume "?leads c (Node cr children)"
    then obtain k where c: "c \<in> set crs" and k: "up (owner_of crs) k (GetUID c) = Some (GetUID cr)" by auto
    show "c \<in> set (tree_crs (Node cr children))"
    proof (cases k)
      case 0
      with k c Node.prems(2) assms(1) show ?thesis by (auto simp: distinct_map inj_on_def)
    next
      case (Suc j)
      with k obtain t where "t \<in> set children" "?leads c t"
        using up_through_kid [OF assms(1) Node.prems(1) c] c by blast
      with IH show ?thesis by auto
    qed
  qed
qed

lemma trees_distinct:
  assumes "distinct (map GetUID crs)" and "list_all (follows_owners crs) ts" and "distinct (map Node_Cr ts)"
    and "\<And>t. t \<in> set ts \<Longrightarrow> Node_Cr t \<in> set crs \<and> depth (owner_of crs) (GetUID (Node_Cr t)) n"
    and "\<And>t. t \<in> set ts \<Longrightarrow> distinct (tree_crs t)"
  shows "distinct (concat (map tree_crs ts))"
  using assms(2-5)
proof (induction ts)
  case (Cons t ts)
  have "set (tree_crs t) \<inter> set (tree_crs t') = {}" if "t' \<in> set ts" for t'
  proof (rule ccontr)
    assume "set (tree_crs t) \<inter> set (tree_crs t') \<noteq> {}"
    then obtain c where "c \<in> set (tree_crs t)" "c \<in> set (tree_crs t')" by blast
    moreover have t: "follows_owners crs t" "Node_Cr t \<in> set crs" "depth (owner_of crs) (GetUID (Node_Cr t)) n"
      and t': "follows_owners crs t'" "Node_Cr t' \<in> set crs" "depth (owner_of crs) (GetUID (Node_Cr t')) n"
      using Cons.prems that by (auto simp: list_all_iff)
    ultimately obtain j k where "up (owner_of crs) j (GetUID c) = Some (GetUID (Node_Cr t))"
      "up (owner_of crs) k (GetUID c) = Some (GetUID (Node_Cr t'))"
      using tree_members [OF assms(1)] by blast
    then have "GetUID (Node_Cr t) = GetUID (Node_Cr t')" by (rule owners.above_unique) (use t t' in auto)
    with t t' assms(1) have "Node_Cr t = Node_Cr t'" by (auto simp: distinct_map inj_on_def)
    with Cons.prems that show False by (metis distinct.simps(2) image_eqI list.map(2) list.set_map)
  qed
  with Cons show ?case by auto
qed simp

lemma tree_distinct:
  assumes "distinct (map GetUID crs)"
  shows "follows_owners crs t \<Longrightarrow> Node_Cr t \<in> set crs \<Longrightarrow> depth (owner_of crs) (GetUID (Node_Cr t)) n \<Longrightarrow>
    distinct (tree_crs t)"
proof (induction t arbitrary: n)
  case (Node cr children)
  have kids: "map Node_Cr children = filter (\<lambda>c. owner_uid crs c = Some (GetUID cr)) crs"
    and below: "list_all (follows_owners crs) children"
    using Node.prems by auto
  have kid: "Node_Cr t \<in> set crs \<and> depth (owner_of crs) (GetUID (Node_Cr t)) (Suc n)" if "t \<in> set children" for t
  proof -
    from that have "Node_Cr t \<in> set (map Node_Cr children)" by simp
    then have *: "Node_Cr t \<in> set crs" "owner_uid crs (Node_Cr t) = Some (GetUID cr)" unfolding kids by auto
    then have "owner_of crs (GetUID (Node_Cr t)) = Some (GetUID cr)" by (simp add: owner_of_uid [OF assms])
    with Node.prems(3) * show ?thesis by (simp add: owners.depth_child)
  qed
  have "distinct (concat (map tree_crs children))"
  proof (rule trees_distinct [OF assms below])
    show "distinct (map Node_Cr children)" unfolding kids using assms by (simp add: distinct_map)
    show "distinct (tree_crs t)" if "t \<in> set children" for t
      using Node.IH [OF that] kid [OF that] below that by (auto simp: list_all_iff)
  qed (use kid in blast)
  moreover have "cr \<notin> set (tree_crs t)" if t: "t \<in> set children" for t
  proof
    assume "cr \<in> set (tree_crs t)"
    with tree_members [OF assms] below kid [OF t] t obtain k where
      "up (owner_of crs) k (GetUID cr) = Some (GetUID (Node_Cr t))" by (auto simp: list_all_iff)
    with kid [OF t] have "depth (owner_of crs) (GetUID cr) (k + Suc n)" by (blast intro: owners.depth_below)
    with Node.prems(3) show False by (auto dest: owners.depth_unique)
  qed
  ultimately show ?case by auto
qed

text \<open>
  The forest: its tops are the objects without an owner among them, every node's children are the objects
  it owns, and it holds exactly the objects whose chain of owners ends, each once. The fuel is enough.
\<close>

text \<open>An object has a depth exactly when its owners lead up to an object that has no owner.\<close>

lemma depth_root:
  assumes "distinct (map GetUID crs)" and "c \<in> set crs"
  shows "(\<exists>r\<in>set crs. owner_uid crs r = None \<and> (\<exists>k. up (owner_of crs) k (GetUID c) = Some (GetUID r))) \<longleftrightarrow>
      (\<exists>n. depth (owner_of crs) (GetUID c) n)" (is "?lhs \<longleftrightarrow> ?rhs")
proof
  assume ?rhs
  then obtain n u where u: "up (owner_of crs) n (GetUID c) = Some u" "owner_of crs u = None" by (auto simp: depth_def)
  then have "u \<in> GetUID ` set crs" using owners.up_closed assms(2) by blast
  with u show ?lhs by (auto simp: owner_of_uid [OF assms(1)])
qed (use owner_of_uid [OF assms(1)] in \<open>fastforce simp: depth_def\<close>)

text \<open>One tree is built for each object that has no owner.\<close>

lemma trees_of_roots:
  assumes "distinct (map GetUID crs)"
  obtains t where "trees_of crs = Some (map t (filter (\<lambda>c. owner_uid crs c = None) crs))"
    and "\<And>c. c \<in> set crs \<Longrightarrow> owner_uid crs c = None \<Longrightarrow> Node_Cr (t c) = c \<and> follows_owners crs (t c)"
proof -
  let ?roots = "filter (\<lambda>c. owner_uid crs c = None) crs"
  have "\<exists>t. tree_of (length crs) (snd (linked crs crs)) (GetUID c) = Some t \<and> Node_Cr t = c \<and> follows_owners crs t"
    if "c \<in> set ?roots" for c
    using tree_built [OF assms, of c 0 "length crs"] that by (simp add: owner_of_uid [OF assms])
  then obtain t where t: "\<And>c. c \<in> set ?roots \<Longrightarrow>
      tree_of (length crs) (snd (linked crs crs)) (GetUID c) = Some (t c) \<and> Node_Cr (t c) = c \<and> follows_owners crs (t c)"
    by metis
  have "trees_of crs = Some (map t ?roots)"
    unfolding trees_of_linked linked_def fst_conv map_map
    by (rule those_map) (use t in \<open>simp add: linked_def\<close>)
  then show thesis by (rule that) (use t in auto)
qed

lemma owner_trees:
  assumes "distinct (map GetUID crs)"
  shows "trees_of crs \<noteq> None"
    and "map Node_Cr (crsOwnerReferenceTrees crs) = filter (\<lambda>c. owner_uid crs c = None) crs"
    and "list_all (follows_owners crs) (crsOwnerReferenceTrees crs)"
    and "distinct (concat (map tree_crs (crsOwnerReferenceTrees crs)))"
    and "set (concat (map tree_crs (crsOwnerReferenceTrees crs))) =
      {c \<in> set crs. \<exists>n. depth (owner_of crs) (GetUID c) n}"
proof -
  let ?roots = "filter (\<lambda>c. owner_uid crs c = None) crs"
  obtain t where trees: "trees_of crs = Some (map t ?roots)"
    and t: "\<And>c. c \<in> set crs \<Longrightarrow> owner_uid crs c = None \<Longrightarrow> Node_Cr (t c) = c \<and> follows_owners crs (t c)"
    by (rule trees_of_roots [OF assms]) blast
  from trees show "trees_of crs \<noteq> None" by simp
  have ts: "crsOwnerReferenceTrees crs = map t ?roots" by (simp add: crsOwnerReferenceTrees_def trees)
  show tops: "map Node_Cr (crsOwnerReferenceTrees crs) = ?roots"
    unfolding ts map_map by (rule map_idI) (use t in auto)
  show follows: "list_all (follows_owners crs) (crsOwnerReferenceTrees crs)"
    unfolding ts by (use t in \<open>auto simp: list_all_iff\<close>)
  have top: "Node_Cr x \<in> set crs \<and> depth (owner_of crs) (GetUID (Node_Cr x)) 0" if "x \<in> set (crsOwnerReferenceTrees crs)" for x
    using that t by (auto simp: ts owner_of_uid [OF assms])
  show "distinct (concat (map tree_crs (crsOwnerReferenceTrees crs)))"
  proof (rule trees_distinct [OF assms follows])
    show "distinct (map Node_Cr (crsOwnerReferenceTrees crs))" unfolding tops using assms by (simp add: distinct_map)
    show "distinct (tree_crs x)" if "x \<in> set (crsOwnerReferenceTrees crs)" for x
      by (rule tree_distinct [OF assms, of x 0]) (use follows top [OF that] that in \<open>auto simp: list_all_iff\<close>)
  qed (use top in blast)
  have "c \<in> set (concat (map tree_crs (crsOwnerReferenceTrees crs))) \<longleftrightarrow>
      c \<in> set crs \<and> (\<exists>r\<in>set crs. owner_uid crs r = None \<and> (\<exists>k. up (owner_of crs) k (GetUID c) = Some (GetUID r)))" for c
    unfolding ts using t by (auto simp: tree_members [OF assms])
  then show "set (concat (map tree_crs (crsOwnerReferenceTrees crs))) =
      {c \<in> set crs. \<exists>n. depth (owner_of crs) (GetUID c) n}"
    using depth_root [OF assms] by blast
qed

text \<open>Whatever the UIDs are, the trees hold nothing but the given objects.\<close>

lemma those_Some: "those xs = Some ys \<Longrightarrow> xs = map Some ys"
  by (induction xs arbitrary: ys) (auto split: option.splits)

lemma nodeMap_range: "nodeMap crs u = Some (cr, ch) \<Longrightarrow> cr \<in> set crs"
proof -
  have "fold (\<lambda>cr m. m(GetUID cr \<mapsto> (cr, []))) crs m u = Some (cr, ch) \<Longrightarrow> cr \<in> set crs \<or> m u = Some (cr, ch)" for m
  proof (induction crs arbitrary: m)
    case (Cons a crs)
    from Cons.IH [of "m(GetUID a \<mapsto> (a, []))"] Cons.prems show ?case by (auto split: if_splits)
  qed simp
  then show "nodeMap crs u = Some (cr, ch) \<Longrightarrow> cr \<in> set crs" unfolding nodeMap_def by fastforce
qed

lemma tree_of_members:
  "tree_of n (snd (linked crs done_crs)) u = Some t \<Longrightarrow> set (tree_crs t) \<subseteq> set crs"
proof (induction n arbitrary: u t)
  case (Suc n)
  then obtain cr ch ts where node: "nodeMap crs u = Some (cr, ch)" and t: "t = Node cr ts"
    and ts: "those (map (tree_of n (snd (linked crs done_crs)))
      (map GetUID (filter (\<lambda>c. owner_uid crs c = Some u) done_crs))) = Some ts"
    by (auto simp: linked_def split: option.splits)
  have "set (tree_crs x) \<subseteq> set crs" if "x \<in> set ts" for x
  proof -
    have "Some x \<in> set (map (tree_of n (snd (linked crs done_crs)))
        (map GetUID (filter (\<lambda>c. owner_uid crs c = Some u) done_crs)))"
      using those_Some [OF ts] that by simp
    then obtain v where "tree_of n (snd (linked crs done_crs)) v = Some x" by (auto simp only: set_map image_iff)
    then show ?thesis by (rule Suc.IH)
  qed
  with nodeMap_range [OF node] show ?case unfolding t by auto
qed simp

lemma owner_trees_members: "set (concat (map tree_crs (crsOwnerReferenceTrees crs))) \<subseteq> set crs"
proof (cases "trees_of crs")
  case (Some ts)
  have "set (tree_crs t) \<subseteq> set crs" if "t \<in> set ts" for t
  proof -
    have "Some t \<in> set (map (tree_of (length crs) (snd (linked crs crs))) (fst (linked crs crs)))"
      using those_Some [OF Some [unfolded trees_of_linked]] that by simp
    then obtain v where "tree_of (length crs) (snd (linked crs crs)) v = Some t" by (auto simp only: set_map image_iff)
    then show ?thesis by (rule tree_of_members)
  qed
  then show ?thesis using Some by (auto simp: crsOwnerReferenceTrees_def)
qed (simp add: crsOwnerReferenceTrees_def)

end
