(* ===== verification/Move_Trace.thy ===== *)
theory Move_Trace
  imports Owner_Trees
begin

text \<open>
  What a move does to the target cluster whatever the clusters answer: what it creates, what it deletes
  again when it fails (\<open>restored_Move\<close>), and what it has checked before (\<open>careful_Move\<close>).
\<close>

section \<open>What a move creates and deletes\<close>

text \<open>The objects that the target cluster accepted, and the keys that were deleted there, in order.\<close>

fun created :: "move_event list \<Rightarrow> Unstructured list" where
  "created [] = []"
| "created (MCreated _ (Ok cr) # es) = cr # created es"
| "created (_ # es) = created es"

fun deleted :: "move_event list \<Rightarrow> object_key list" where
  "deleted [] = []"
| "deleted (MDeleted k _ # es) = k # deleted es"
| "deleted (_ # es) = deleted es"

lemma created_append [simp]: "created (xs @ ys) = created xs @ created ys"
  by (induction xs rule: created.induct) simp_all

lemma deleted_append [simp]: "deleted (xs @ ys) = deleted xs @ deleted ys"
  by (induction xs rule: deleted.induct) simp_all

text \<open>
  A run of the moving part reports what it created, after what had been created before, deletes nothing
  and does not fail in any other way.
\<close>

fun reports :: "Unstructured list \<Rightarrow> (Unstructured list \<times> error option) res \<Rightarrow> move_event list \<Rightarrow> bool" where
  "reports before (Ok (moved, _)) es \<longleftrightarrow> moved = before @ created es \<and> deleted es = []"
| "reports _ (Err _) _ \<longleftrightarrow> False"
| "reports _ (Panic _) _ \<longleftrightarrow> True"

declare moveCrs.simps [simp del]

lemma reports_extend: "reports (before @ created es0) r es \<Longrightarrow> deleted es0 = [] \<Longrightarrow> reports before r (es0 @ es)"
  by (cases r) (auto split: prod.splits)

lemma reports_createCrs: "sat (createCrs E ts o1 before) (reports before)"
proof (induction ts arbitrary: before)
  case (Cons t ts)
  have "sat (createCrs E ts o1 (before @ [cr])) (\<lambda>r es. reports before r (MCreated x (Ok cr) # es))" for cr x
    by (rule sat_mono [OF Cons.IH]) (use reports_extend [of before "[MCreated x (Ok cr)]"] in simp)
  then show ?case
    by (auto simp: Let_def target_Create_def intro!: sat_rules split: res.split)
qed simp

text \<open>Parts of a run that create and delete nothing, and what the polled condition and the polling report.\<close>

definition calm :: "move_event list \<Rightarrow> bool" where
  "calm es \<longleftrightarrow> created es = [] \<and> deleted es = []"

lemma calm_append [simp]: "calm (es @ es') \<longleftrightarrow> calm es \<and> calm es'"
  by (auto simp: calm_def)

lemma calm_Nil [simp]: "calm []"
  by (simp add: calm_def)

fun polled :: "(Unstructured list \<times> error option) res \<Rightarrow> move_event list \<Rightarrow> bool" where
  "polled (Ok res) es \<longleftrightarrow> reports [] (Ok res) es"
| "polled (Err _) es \<longleftrightarrow> calm es"
| "polled (Panic _) es \<longleftrightarrow> True"

fun tried :: "(Unstructured list \<times> error option) option res \<Rightarrow> move_event list \<Rightarrow> bool" where
  "tried (Ok (Some res)) es \<longleftrightarrow> reports [] (Ok res) es"
| "tried (Ok None) es \<longleftrightarrow> calm es"
| "tried (Err _) es \<longleftrightarrow> calm es"
| "tried (Panic _) es \<longleftrightarrow> True"

lemma polled_extend: "calm es \<Longrightarrow> polled r es' \<Longrightarrow> polled r (es @ es')"
  by (cases r) (auto simp: calm_def)

lemma tried_extend: "calm es \<Longrightarrow> tried r es' \<Longrightarrow> tried r (es @ es')"
  by (cases "(r, es')" rule: tried.cases) (auto simp: calm_def)

lemma polled_poll_loop:
  assumes "sat c tried"
  shows "sat (poll_loop n c) polled"
proof (induction n)
  case 0
  show ?case
    by (simp, rule sat_bind, rule sat_mono [OF assms]) (auto split: res.splits option.splits)
next
  case (Suc n)
  have again: "sat (poll_loop n c) (\<lambda>r es'. polled r (es @ es'))" if "calm es" for es
    by (rule sat_mono [OF Suc]) (rule polled_extend [OF that])
  show ?case
  proof (simp, rule sat_bind, rule sat_mono [OF assms])
    fix r es
    assume r: "tried r es"
    show "case r of
        Ok x \<Rightarrow> sat (case x of None \<Rightarrow> poll_loop n c | Some v \<Rightarrow> returnM v) (\<lambda>r' es'. polled r' (es @ es'))
      | Err e \<Rightarrow> polled (Err e) es | Panic s \<Rightarrow> polled (Panic s) es"
      using r by (auto split: res.splits option.splits intro: again)
  qed
qed

lemma reports_pollMove:
  assumes "sat c tried"
  shows "sat (pollMove E c) (reports [])"
proof -
  have "sat (\<lambda>w. poll_loop (m_polls E pollInterval pollTimeout w) c w) polled"
    by (rule sat_poll_rounds) (rule polled_poll_loop [OF assms])
  then show ?thesis
    unfolding pollMove_def by (intro sat_catch, elim sat_mono) (auto simp: calm_def split: res.splits)
qed

lemma tried_after:
  assumes "sat m (\<lambda>_. calm)" and "\<And>a. sat (f a) tried"
  shows "sat (bindM m f) tried"
  by (rule sat_bind, rule sat_mono [OF assms(1)])
    (auto split: res.split intro: sat_mono [OF assms(2)] tried_extend)

lemma calm_bind: "sat m (\<lambda>_. calm) \<Longrightarrow> (\<And>a. sat (f a) (\<lambda>_. calm)) \<Longrightarrow> sat (bindM m f) (\<lambda>_. calm)"
  by (rule sat_bind, erule sat_mono) (auto split: res.split intro: sat_mono)

lemma calm_foldM: "(\<And>s x. sat (f s x) (\<lambda>_. calm)) \<Longrightarrow> sat (foldM f s xs) (\<lambda>_. calm)"
  by (induction xs arbitrary: s) (auto intro!: calm_bind)

lemma calm_reads: "sat (target_Get E k) (\<lambda>_. calm)" "sat (copyStatus E s t) (\<lambda>_. calm)"
  unfolding target_Get_def copyStatus_def target_StatusUpdate_def
  by (auto intro!: sat_call_any simp: calm_def split: option.split json.split)

lemma calm_lookup:
  "sat (catchM (bindM (target_Get E k) (\<lambda>t. returnM (Some t))) (\<lambda>err. if IsNotFound err then returnM None else errM (h err)))
     (\<lambda>_. calm)"
  by (rule sat_catch, rule sat_bind, rule sat_mono [OF calm_reads(1)]) (auto split: res.split)

lemma tried_moveCondition:
  assumes "\<And>uid. sat (moveChildren uid) (reports [])"
  shows "sat (moveCondition E cr moveChildren) tried"
proof -
  have children: "sat (bindM (moveChildren uid) (\<lambda>res. returnM (Some res))) tried" for uid
    by (rule sat_bind, rule sat_mono [OF assms]) (auto split: res.splits elim: reports.elims)
  have "sat (bindM (catchM (bindM (target_Get E (ObjectKeyFromObject cr)) (\<lambda>t. returnM (Some t)))
                      (\<lambda>err. if IsNotFound err then returnM None else errM err)) (\<lambda>x.
               case x of
                 None \<Rightarrow> returnM None
               | Some target \<Rightarrow>
                   bindM (copyStatus E cr target) (\<lambda>target'.
                   bindM (moveChildren (GetUID target')) (\<lambda>res. returnM (Some res))))) tried"
    by (rule tried_after [OF calm_lookup])
      (auto simp: calm_def split: option.split intro!: tried_after [OF calm_reads(2)] children)
  then show ?thesis
    unfolding moveCondition_def
    by (intro sat_catch, elim sat_mono) (auto simp: calm_def split: res.splits)
qed

lemma reports_moveCrs:
  "sat (moveCrs E ts o1) (reports [])" "sat (moveTrees E ts before) (reports before)"
proof (induction E ts o1 and E ts before rule: moveCrs_moveTrees.induct)
  case (1 E ts o1)
  have trees: "sat (moveTrees E ts (created es)) (\<lambda>r es'. reports [] r (es @ es'))" if "deleted es = []" for es
    by (rule sat_mono [OF 1]) (use that reports_extend [of "[]"] in simp)
  show ?case
    by (subst moveCrs.simps, rule sat_bind, rule sat_mono [OF reports_createCrs])
      (auto split: res.splits option.splits elim!: reports.elims intro!: trees)
next
  case (3 E cr children ts before)
  have trees: "sat (moveTrees E ts (before @ created es)) (\<lambda>r es'. reports before r (es @ es'))" if "deleted es = []" for es
    by (rule sat_mono [OF 3(2)]) (use that reports_extend in simp)
  have poll: "sat (pollMove E (moveCondition E cr (\<lambda>uid. moveCrs E children (Some uid)))) (reports [])"
    by (intro reports_pollMove tried_moveCondition 3(1))
  show ?case
    by (subst moveTrees.simps, rule sat_bind, rule sat_mono [OF poll])
      (auto split: res.splits option.splits elim!: reports.elims intro!: trees)
qed simp

fun cleaned :: "object_key list \<Rightarrow> 'a res \<Rightarrow> move_event list \<Rightarrow> bool" where
  "cleaned ks (Ok _) es \<longleftrightarrow> created es = [] \<and> deleted es = ks"
| "cleaned ks (Err _) es \<longleftrightarrow> False"
| "cleaned ks (Panic _) es \<longleftrightarrow> True"

lemma cleaned_Cons: "cleaned ks r es \<Longrightarrow> cleaned (k # ks) r (MDeleted k b # es)"
  by (cases r) auto

lemma cleanup_deletes: "sat (cleanup E crs) (cleaned (map ObjectKeyFromObject crs))"
proof -
  have "sat (foldM (\<lambda>cleanupErrs cr.
       bindM (catchM (bindM (target_Delete E (ObjectKeyFromObject cr)) (\<lambda>_. returnM None)) (\<lambda>err. returnM (Some err)))
         (\<lambda>err. returnM (case err of None \<Rightarrow> cleanupErrs | Some e \<Rightarrow> cleanupErrs @ [Some e]))) errs crs)
     (cleaned (map ObjectKeyFromObject crs))" for errs
  proof (induction crs arbitrary: errs)
    case (Cons cr crs)
    show ?case
      unfolding foldM.simps target_Delete_def
      by (intro sat_bind sat_catch sat_call_any)
        (auto split: res.split intro!: sat_mono [OF Cons.IH [unfolded target_Delete_def]] cleaned_Cons)
  qed simp
  note loop = this
  show ?thesis
    unfolding cleanup_def by (rule sat_bind, rule sat_mono [OF loop]) (auto split: res.splits)
qed

lemma calm_preparation:
  "sat (getCrs E gvks ns) (\<lambda>_. calm)" "sat (getCrsToBeMoved E crs) (\<lambda>_. calm)"
proof -
  show "sat (getCrs E gvks ns) (\<lambda>_. calm)"
    unfolding getCrs_def source_List_def
    by (intro calm_foldM calm_bind sat_wrap sat_call_any) (auto simp: calm_def split: res.split)
  have step: "sat (bindM (liftM (clearFields a)) (\<lambda>so. bindM (liftM (clearFields b)) (\<lambda>ta.
      if so = ta then returnM s else errM e))) (\<lambda>_. calm)" for a b e and s :: "Unstructured list"
    by (auto intro!: sat_bind split: res.split)
  show "sat (getCrsToBeMoved E crs) (\<lambda>_. calm)"
    unfolding getCrsToBeMoved_def
    by (rule calm_foldM, rule calm_bind [OF calm_lookup]) (auto split: option.split intro!: step)
qed

text \<open>A run of \<^verbatim>\<open>Move\<close> that succeeds deletes nothing; one that fails deletes what it created, in that order.\<close>

fun restored :: "unit res \<Rightarrow> move_event list \<Rightarrow> bool" where
  "restored (Ok _) es \<longleftrightarrow> deleted es = []"
| "restored (Err _) es \<longleftrightarrow> deleted es = map ObjectKeyFromObject (created es)"
| "restored (Panic _) es \<longleftrightarrow> True"

lemma restored_extend: "calm es \<Longrightarrow> restored r es' \<Longrightarrow> restored r (es @ es')"
  by (cases r) (auto simp: calm_def)

lemma restored_after:
  assumes "sat m (\<lambda>_. calm)" and "\<And>a. sat (f a) restored"
  shows "sat (bindM m f) restored"
  by (rule sat_bind, rule sat_mono [OF assms(1)])
    (auto split: res.split intro: sat_mono [OF assms(2)] restored_extend, auto simp: calm_def)

lemma restored_Move: "sat (Move E gvks ns dryRun) restored"
proof -
  have undo: "sat (bindM (cleanup E (created es)) (\<lambda>cleanupErr.
      case errors_Join [Some e, Some (cleanupReport cleanupErr)] of Some e' \<Rightarrow> errM e' | None \<Rightarrow> returnM ()))
    (\<lambda>r es'. restored r (es @ es'))" if "deleted es = []" for es e
    by (rule sat_bind, rule sat_mono [OF cleanup_deletes])
      (use that in \<open>auto simp: errors_Join_def List.map_filter_def split: res.splits\<close>)
  have move: "sat (bindM (moveCrs E ts None) (\<lambda>(movedCrs, err).
           case err of
             Some e \<Rightarrow>
               bindM (cleanup E movedCrs) (\<lambda>cleanupErr.
                 case errors_Join [Some e, Some (cleanupReport cleanupErr)] of
                   Some e' \<Rightarrow> errM e' | None \<Rightarrow> returnM ())
           | None \<Rightarrow> returnM ())) restored" for ts
    by (rule sat_bind, rule sat_mono [OF reports_moveCrs(1)])
      (auto split: res.splits option.split elim!: reports.elims intro!: undo)
  show ?thesis
    unfolding Move_def by (intro restored_after calm_preparation) (auto intro: move)
qed

section \<open>What is checked before anything is written\<close>

fun is_write :: "move_event \<Rightarrow> bool" where
  "is_write (MCreated _ _) = True"
| "is_write (MStatusUpdated _ _) = True"
| "is_write (MDeleted _ _) = True"
| "is_write _ = False"

text \<open>The objects that the source cluster listed.\<close>

fun listed_crs :: "move_event list \<Rightarrow> Unstructured list" where
  "listed_crs [] = []"
| "listed_crs (MListed _ _ (Ok crs) # es) = crs @ listed_crs es"
| "listed_crs (_ # es) = listed_crs es"

lemma listed_crs_append [simp]: "listed_crs (xs @ ys) = listed_crs xs @ listed_crs ys"
  by (induction xs rule: listed_crs.induct) simp_all

text \<open>The target cluster has no object of that key, or one that equals the source's up to the cleared fields.\<close>

definition missing :: "object_key \<Rightarrow> move_event list \<Rightarrow> bool" where
  "missing k es \<longleftrightarrow> (\<exists>e. MGot k (Err e) \<in> set es \<and> IsNotFound e)"

definition checked :: "Unstructured \<Rightarrow> move_event list \<Rightarrow> bool" where
  "checked cr es \<longleftrightarrow> missing (ObjectKeyFromObject cr) es \<or>
     (\<exists>t so. MGot (ObjectKeyFromObject cr) (Ok t) \<in> set es \<and> clearFields cr = Ok so \<and> clearFields t = Ok so)"

lemma checked_append: "missing k es \<Longrightarrow> missing k (es @ es')" "missing k es' \<Longrightarrow> missing k (es @ es')"
  "checked cr es \<Longrightarrow> checked cr (es @ es')" "checked cr es' \<Longrightarrow> checked cr (es @ es')"
  by (auto simp: checked_def missing_def)

text \<open>Every write comes after all listed objects have been checked; an object is created only if it was missing.\<close>

fun careful :: "move_event list \<Rightarrow> move_event list \<Rightarrow> bool" where
  "careful before [] \<longleftrightarrow> True"
| "careful before (e # es) \<longleftrightarrow>
     (is_write e \<longrightarrow> list_all (\<lambda>cr. checked cr before) (listed_crs before)) \<and>
     (case e of MCreated x _ \<Rightarrow> missing (ObjectKeyFromObject x) before | _ \<Rightarrow> True) \<and>
     careful (before @ [e]) es"

lemma careful_append: "careful h (es @ es') \<longleftrightarrow> careful h es \<and> careful (h @ es) es'"
  by (induction es arbitrary: h) auto

lemma careful_reads: "list_all (\<lambda>e. \<not> is_write e) es \<Longrightarrow> careful h es"
proof (induction es arbitrary: h)
  case (Cons e es)
  then show ?case by (cases e) auto
qed simp

definition among :: "object_key set \<Rightarrow> move_event \<Rightarrow> bool" where
  "among K e \<longleftrightarrow> listed_crs [e] = [] \<and> (case e of MCreated x _ \<Rightarrow> ObjectKeyFromObject x \<in> K | _ \<Rightarrow> True)"

lemma careful_writes:
  assumes "list_all (among K) es" and "list_all (\<lambda>cr. checked cr h) (listed_crs h)" and "\<And>k. k \<in> K \<Longrightarrow> missing k h"
  shows "careful h es"
  using assms
proof (induction es arbitrary: h)
  case (Cons e es)
  have "careful (h @ [e]) es"
    by (rule Cons.IH) (use Cons.prems in \<open>auto simp: among_def list_all_iff intro: checked_append\<close>)
  with Cons.prems show ?case by (auto simp: among_def split: move_event.splits)
qed simp

lemma sat_getCrs:
  "sat (getCrs E gvks ns) (\<lambda>r es. list_all (\<lambda>e. \<not> is_write e) es \<and> (\<forall>crs. r = Ok crs \<longrightarrow> listed_crs es = crs))"
proof -
  have "sat (foldM (\<lambda>crs g. bindM (wrapM m (source_List E g ns)) (\<lambda>items. returnM (crs @ items))) s gvks)
      (\<lambda>r es. list_all (\<lambda>e. \<not> is_write e) es \<and> (\<forall>crs. r = Ok crs \<longrightarrow> crs = s @ listed_crs es))" for m s
  proof (induction gvks arbitrary: s)
    case (Cons g gvks)
    show ?case
      unfolding foldM.simps source_List_def
      by (intro sat_bind sat_wrap sat_call_any)
        (auto split: res.split intro!: sat_mono [OF Cons.IH [unfolded source_List_def]])
  qed simp
  from this [of _ "[]"] show ?thesis unfolding getCrs_def by (rule sat_mono) auto
qed

text \<open>What one object's check, and the checks of all of them, leave.\<close>

fun selected :: "Unstructured list \<Rightarrow> Unstructured list \<Rightarrow> Unstructured list res \<Rightarrow> move_event list \<Rightarrow> bool" where
  "selected s crs (Ok moved) es \<longleftrightarrow> (\<exists>new. moved = s @ new \<and> list_all (\<lambda>cr. checked cr es) crs \<and>
     list_all (\<lambda>cr. missing (ObjectKeyFromObject cr) es) new \<and> set new \<subseteq> set crs)"
| "selected _ _ _ _ \<longleftrightarrow> True"

lemma selected_append:
  assumes "selected s crs (Ok s') es" and "selected s' crs' r es'"
  shows "selected s (crs @ crs') r (es @ es')"
proof (cases r)
  case (Ok moved)
  with assms obtain new new' where "s' = s @ new" "moved = s' @ new'"
    "list_all (\<lambda>cr. checked cr es) crs" "list_all (\<lambda>cr. checked cr es') crs'"
    "list_all (\<lambda>cr. missing (ObjectKeyFromObject cr) es) new" "list_all (\<lambda>cr. missing (ObjectKeyFromObject cr) es') new'"
    "set new \<subseteq> set crs" "set new' \<subseteq> set crs'" by auto
  with Ok show ?thesis
    by (auto simp: list_all_iff intro!: exI [of _ "new @ new'"] intro: checked_append)
qed simp_all

definition reading :: "move_event list \<Rightarrow> bool" where
  "reading es \<longleftrightarrow> list_all (\<lambda>e. \<not> is_write e) es \<and> listed_crs es = []"

lemma reading_append [simp]: "reading (es @ es') \<longleftrightarrow> reading es \<and> reading es'"
  by (auto simp: reading_def)

lemma sat_check:
  "sat (bindM (catchM (bindM (target_Get E (ObjectKeyFromObject cr)) (\<lambda>targetCr. returnM (Some targetCr)))
                (\<lambda>err. if IsNotFound err then returnM None else errM (WrapError m err))) (\<lambda>x.
         case x of
           None \<Rightarrow> returnM (s @ [cr])
         | Some targetCr \<Rightarrow>
             bindM (liftM (clearFields cr)) (\<lambda>so.
             bindM (liftM (clearFields targetCr)) (\<lambda>ta.
               if so = ta then returnM s else errM e)))) (\<lambda>r es. reading es \<and> selected s [cr] r es)"
  unfolding target_Get_def
  by (intro sat_bind sat_catch sat_call_any)
    (auto split: res.split intro!: sat_bind simp: reading_def checked_def missing_def)

lemma sat_getCrsToBeMoved: "sat (getCrsToBeMoved E crs) (\<lambda>r es. reading es \<and> selected [] crs r es)"
proof -
  let ?f = "\<lambda>crsToMove sourceCr.
       bindM (catchM (bindM (target_Get E (ObjectKeyFromObject sourceCr)) (\<lambda>targetCr. returnM (Some targetCr)))
                (\<lambda>err. if IsNotFound err then returnM None
                       else errM (WrapError ''failed to check CR existence in the target cluster'' err))) (\<lambda>x.
         case x of
           None \<Rightarrow> returnM (crsToMove @ [sourceCr])
         | Some targetCr \<Rightarrow>
             bindM (liftM (clearFields sourceCr)) (\<lambda>so.
             bindM (liftM (clearFields targetCr)) (\<lambda>ta.
               if so = ta then returnM crsToMove else errM (alreadyExists sourceCr))))"
  have "sat (foldM ?f s crs) (\<lambda>r es. reading es \<and> selected s crs r es)" for s
  proof (induction crs arbitrary: s)
    case (Cons cr crs)
    have rest: "sat (foldM ?f s' crs) (\<lambda>r es'. reading (es @ es') \<and> selected s (cr # crs) r (es @ es'))"
      if "reading es" "selected s [cr] (Ok s') es" for s' es
      by (rule sat_mono [OF Cons.IH]) (use that selected_append [OF that(2)] in auto)
    show ?case
      unfolding foldM.simps
    proof (rule sat_bind, rule sat_mono [OF sat_check])
      fix r es
      assume *: "reading es \<and> selected s [cr] r es"
      show "case r of
          Ok a \<Rightarrow> sat (foldM ?f a crs) (\<lambda>r' es'. reading (es @ es') \<and> selected s (cr # crs) r' (es @ es'))
        | Err e \<Rightarrow> reading es \<and> selected s (cr # crs) (Err e) es
        | Panic p \<Rightarrow> reading es \<and> selected s (cr # crs) (Panic p) es"
      proof (cases r)
        case (Ok s')
        with * show ?thesis unfolding Ok res.case by (intro rest) simp_all
      qed (use * in auto)
    qed
  qed (simp add: reading_def)
  then show ?thesis by (simp add: getCrsToBeMoved_def)
qed

text \<open>Everything that is created is a node of the trees, and the trees hold nothing but the objects to be moved.\<close>

lemma among_calls:
  "emits (among K) (\<lambda>_. True) (target_Get E k)" "emits (among K) (\<lambda>_. True) (target_Delete E k)"
  "emits (among K) (\<lambda>_. True) (copyStatus E s t)"
  unfolding copyStatus_def target_StatusUpdate_def target_Get_def target_Delete_def
  by (auto intro!: emits_intros simp: among_def split: option.split json.split)

lemma among_createCrs:
  "(\<And>t. t \<in> set ts \<Longrightarrow> ObjectKeyFromObject (Node_Cr t) \<in> K) \<Longrightarrow> emits (among K) (\<lambda>_. True) (createCrs E ts o1 before)"
proof (induction ts arbitrary: before)
  case (Cons t ts)
  then show ?case
    unfolding createCrs.simps Let_def target_Create_def
    by (intro emits_then emits_catch emits_call) (auto simp: among_def split: sum.split intro!: emits_intros)
qed (simp add: emits_return)

lemma among_pollMove:
  assumes "emits (among K) (\<lambda>_. True) c"
  shows "emits (among K) (\<lambda>_. True) (pollMove E c)"
proof -
  have "emits (among K) (\<lambda>_. True) (poll_loop n c)" for n
    by (rule emits_poll_loop) (rule emits_weaken [OF assms], simp)
  then have "emits (among K) (\<lambda>_. True) (\<lambda>w. poll_loop (m_polls E pollInterval pollTimeout w) c w)"
    unfolding emits_def by (rule sat_poll_rounds)
  then show ?thesis unfolding pollMove_def by (intro emits_catch emits_return) simp_all
qed

lemma among_moveCrs:
  "(\<And>cr. cr \<in> set (concat (map tree_crs ts)) \<Longrightarrow> ObjectKeyFromObject cr \<in> K) \<Longrightarrow>
     emits (among K) (\<lambda>_. True) (moveCrs E ts o1)"
  "(\<And>cr. cr \<in> set (concat (map tree_crs ts)) \<Longrightarrow> ObjectKeyFromObject cr \<in> K) \<Longrightarrow>
     emits (among K) (\<lambda>_. True) (moveTrees E ts before)"
proof (induction E ts o1 and E ts before rule: moveCrs_moveTrees.induct)
  case (1 E ts o1)
  have "ObjectKeyFromObject (Node_Cr t) \<in> K" if "t \<in> set ts" for t
    by (rule 1(2)) (rule tree_members_sel(1) [OF that])
  then show ?case
    unfolding moveCrs.simps by (intro emits_then among_createCrs) (auto split: option.split intro!: emits_intros 1)
next
  case (3 E cr children ts before)
  have children: "emits (among K) (\<lambda>_. True) (moveCrs E children (Some uid))" for uid
    by (rule 3(1)) (use 3(3) in auto)
  have cond: "emits (among K) (\<lambda>_. True) (moveCondition E cr (\<lambda>uid. moveCrs E children (Some uid)))"
    unfolding moveCondition_def
    by (auto intro!: emits_intros among_calls children split: option.split)
  show ?case
    unfolding moveTrees.simps
    by (intro emits_then among_pollMove cond) (auto split: option.split intro!: emits_intros 3(2) 3(3))
qed (simp add: emits_return)

text \<open>What a move does once it has selected the objects: move their trees and, when that fails, clean up.\<close>

abbreviation move_selected :: "'w move_env \<Rightarrow> bool \<Rightarrow> Unstructured list \<Rightarrow> ('w, unit) MM" where
  "move_selected E dryRun moved \<equiv>
     (if \<not> dryRun then
         bindM (moveCrs E (crsOwnerReferenceTrees moved) None) (\<lambda>(movedCrs, err).
           case err of
             Some e \<Rightarrow>
               bindM (cleanup E movedCrs) (\<lambda>cleanupErr.
                 case errors_Join [Some e, Some (cleanupReport cleanupErr)] of
                   Some e' \<Rightarrow> errM e' | None \<Rightarrow> returnM ())
           | None \<Rightarrow> returnM ())
       else returnM ())"

lemma among_move_selected:
  "emits (among (ObjectKeyFromObject ` set moved)) (\<lambda>_. True) (move_selected E dryRun moved)"
proof -
  have undo: "emits (among K) (\<lambda>_. True) (cleanup E crs)" for K crs
    unfolding cleanup_def
    by (auto intro!: emits_intros among_calls)
  have trees: "emits (among (ObjectKeyFromObject ` set moved)) (\<lambda>_. True) (moveCrs E (crsOwnerReferenceTrees moved) None)"
    by (rule among_moveCrs) (use owner_trees_members [of moved] in blast)
  show ?thesis by (auto intro!: emits_then [OF trees] undo emits_intros split: option.split)
qed

lemma careful_move_selected:
  assumes "list_all (\<lambda>e. \<not> is_write e) es" and "list_all (\<lambda>cr. checked cr es) (listed_crs es)"
    and "list_all (\<lambda>cr. missing (ObjectKeyFromObject cr) es) moved"
  shows "sat (move_selected E dryRun moved) (\<lambda>_ es'. careful [] (es @ es'))"
  by (rule sat_mono [OF among_move_selected [unfolded emits_def]])
    (use assms in \<open>auto simp: careful_append careful_reads list_all_iff intro!: careful_writes\<close>)

lemma careful_Move: "sat (Move E gvks ns dryRun) (\<lambda>_. careful [])"
  unfolding Move_def
proof (rule sat_bind, rule sat_mono [OF sat_getCrs])
  fix r es
  assume *: "list_all (\<lambda>e. \<not> is_write e) es \<and> (\<forall>crs. r = Ok crs \<longrightarrow> listed_crs es = crs)"
  show "case r of Ok crs \<Rightarrow> sat (bindM (getCrsToBeMoved E crs) (move_selected E dryRun)) (\<lambda>_ es'. careful [] (es @ es'))
    | Err e \<Rightarrow> careful [] es | Panic s \<Rightarrow> careful [] es"
  proof (cases r)
    case (Ok crs)
    have "sat (bindM (getCrsToBeMoved E crs) (move_selected E dryRun)) (\<lambda>_ es'. careful [] (es @ es'))"
    proof (rule sat_bind, rule sat_mono [OF sat_getCrsToBeMoved])
      fix r' es'
      assume r': "reading es' \<and> selected [] crs r' es'"
      show "case r' of Ok moved \<Rightarrow> sat (move_selected E dryRun moved) (\<lambda>_ es''. careful [] (es @ es' @ es''))
        | Err e \<Rightarrow> careful [] (es @ es') | Panic s \<Rightarrow> careful [] (es @ es')"
      proof (cases r')
        case moved: (Ok moved)
        have "sat (move_selected E dryRun moved) (\<lambda>_ es''. careful [] ((es @ es') @ es''))"
          by (rule careful_move_selected) (use * r' Ok moved in \<open>auto simp: reading_def list_all_iff intro: checked_append\<close>)
        then show ?thesis by (simp add: moved)
      qed (use * r' in \<open>auto simp: reading_def intro!: careful_reads\<close>)
    qed
    then show ?thesis by (simp add: Ok)
  qed (use * in \<open>auto intro: careful_reads\<close>)
qed

lemma dry_run_reads: "sat (Move E gvks ns dryRun) (\<lambda>_ es. dryRun \<longrightarrow> (\<forall>e\<in>set es. \<not> is_write e))"
proof (cases dryRun)
  case True
  have "emits (\<lambda>e. \<not> is_write e) (\<lambda>_. True) (getCrs E gvks ns)"
    unfolding getCrs_def source_List_def by (auto intro!: emits_intros)
  moreover have "emits (\<lambda>e. \<not> is_write e) (\<lambda>_. True) (getCrsToBeMoved E crs)" for crs
    unfolding getCrsToBeMoved_def target_Get_def by (auto intro!: emits_intros split: option.split)
  ultimately have "emits (\<lambda>e. \<not> is_write e) (\<lambda>_. True) (Move E gvks ns True)"
    unfolding Move_def by (auto intro!: emits_then emits_return)
  then show ?thesis unfolding emits_def using True by (auto elim: sat_mono)
qed (simp add: sat_def)

end
