(* ===== verification/Move_Target.thy ===== *)
theory Move_Target
  imports Owner_Trees
begin

text \<open>
  Moving into a target cluster that keeps a state: the law \<open>is_target\<close> says what its calls do to the
  objects it stores, and \<open>ensures_Move\<close> that a move into a cluster without the objects puts a copy of
  every one there, below the copy of its owner.
\<close>

section \<open>A target cluster\<close>

text \<open>
  What a cluster stores of an object that is created: it assigns the UID and the resource version, and
  keeps the rest of what it is sent; the status it keeps for itself.
\<close>

definition stored :: "Unstructured \<Rightarrow> Unstructured \<Rightarrow> bool" where
  "stored cr x \<longleftrightarrow> ObjectKeyFromObject x = ObjectKeyFromObject cr \<and> CR_OwnerReferences x = CR_OwnerReferences cr \<and>
     CR_Metadata x = CR_Metadata cr \<and> CR_Content x = CR_Content cr"

text \<open>
  A target cluster that answers: objects by key; a read returns the object or ``not found''; a create
  under a free key stores the object; a status update based on the stored resource version changes the
  status and nothing else of what matters here; listing the source changes nothing.
\<close>

definition is_target :: "'w move_env \<Rightarrow> ('w \<Rightarrow> object_key \<Rightarrow> Unstructured option) \<Rightarrow> bool" where
  "is_target E objs \<longleftrightarrow>
     (\<forall>k w. fst (m_get E k w) = (case objs w k of None \<Rightarrow> Err NotFoundError | Some x \<Rightarrow> Ok x) \<and>
        objs (snd (m_get E k w)) = objs w) \<and>
     (\<forall>cr w. objs w (ObjectKeyFromObject cr) = None \<longrightarrow>
        (\<exists>x. fst (m_create E cr w) = Ok x \<and> stored cr x \<and>
          objs (snd (m_create E cr w)) = (objs w)(ObjectKeyFromObject cr \<mapsto> x))) \<and>
     (\<forall>cr w x. objs w (ObjectKeyFromObject cr) = Some x \<longrightarrow> CR_ResourceVersion cr = CR_ResourceVersion x \<longrightarrow>
        (\<exists>x'. fst (m_statusUpdate E cr w) = Ok x' \<and> stored x x' \<and> CR_UID x' = CR_UID x \<and> CR_Status x' = CR_Status cr \<and>
          objs (snd (m_statusUpdate E cr w)) = (objs w)(ObjectKeyFromObject cr \<mapsto> x'))) \<and>
     (\<forall>g ns w. objs (snd (m_list E g ns w)) = objs w)"

lemma is_targetD:
  assumes "is_target E objs"
  shows "fst (m_get E k w) = (case objs w k of None \<Rightarrow> Err NotFoundError | Some x \<Rightarrow> Ok x)"
    and "objs (snd (m_get E k w)) = objs w"
    and "objs w (ObjectKeyFromObject cr) = None \<Longrightarrow> \<exists>x. fst (m_create E cr w) = Ok x \<and> stored cr x \<and>
      objs (snd (m_create E cr w)) = (objs w)(ObjectKeyFromObject cr \<mapsto> x)"
    and "objs w (ObjectKeyFromObject cr) = Some x \<Longrightarrow> CR_ResourceVersion cr = CR_ResourceVersion x \<Longrightarrow>
      \<exists>x'. fst (m_statusUpdate E cr w) = Ok x' \<and> stored x x' \<and> CR_UID x' = CR_UID x \<and> CR_Status x' = CR_Status cr \<and>
        objs (snd (m_statusUpdate E cr w)) = (objs w)(ObjectKeyFromObject cr \<mapsto> x')"
    and "objs (snd (m_list E g ns w)) = objs w"
  using assms unfolding is_target_def by blast+

text \<open>An object's copy: what was sent is stored, and the status is the source's if that has one.\<close>

definition copied :: "string option \<Rightarrow> Unstructured \<Rightarrow> Unstructured \<Rightarrow> bool" where
  "copied uid cr x \<longleftrightarrow> stored (crToCreate uid cr) x \<and> (CR_Status cr \<noteq> None \<longrightarrow> CR_Status x = CR_Status cr)"

text \<open>A tree in the target: every node is copied, below the UID that its parent has there.\<close>

fun placed :: "(object_key \<Rightarrow> Unstructured option) \<Rightarrow> string option \<Rightarrow> Node \<Rightarrow> bool" where
  "placed s uid (Node cr children) \<longleftrightarrow>
     (case s (ObjectKeyFromObject cr) of
        None \<Rightarrow> False
      | Some x \<Rightarrow> copied uid cr x \<and> list_all (placed s (Some (GetUID x))) children)"

lemma placed_cong:
  "placed s uid t \<Longrightarrow> (\<And>cr. cr \<in> set (tree_crs t) \<Longrightarrow> s' (ObjectKeyFromObject cr) = s (ObjectKeyFromObject cr)) \<Longrightarrow>
   placed s' uid t"
proof (induction t arbitrary: uid)
  case (Node cr children)
  obtain x where x: "s (ObjectKeyFromObject cr) = Some x" "copied uid cr x"
    and below: "\<And>t. t \<in> set children \<Longrightarrow> placed s (Some (GetUID x)) t"
    using Node.prems(1) by (auto split: option.splits simp: list_all_iff)
  have "placed s' (Some (GetUID x)) t" if "t \<in> set children" for t
    by (rule Node.IH [OF that below [OF that]]) (use Node.prems(2) that in auto)
  with x Node.prems(2) show ?case by (auto simp: list_all_iff)
qed

definition has_status :: "Unstructured \<Rightarrow> bool" where
  "has_status cr \<longleftrightarrow> (case CR_Status cr of None \<Rightarrow> True | Some (JObject _) \<Rightarrow> True | _ \<Rightarrow> False)"

abbreviation "keys crs \<equiv> map ObjectKeyFromObject crs"

lemma ensures_createCrs:
  assumes "is_target E objs"
  shows "distinct (keys (map Node_Cr ts)) \<Longrightarrow> (\<And>t. t \<in> set ts \<Longrightarrow> s (ObjectKeyFromObject (Node_Cr t)) = None) \<Longrightarrow>
    ensures (\<lambda>w. objs w = s) (createCrs E ts uid before) (\<lambda>(moved, err) w. err = None \<and>
      (\<forall>k. k \<notin> set (keys (map Node_Cr ts)) \<longrightarrow> objs w k = s k) \<and>
      (\<forall>t\<in>set ts. \<exists>x. objs w (ObjectKeyFromObject (Node_Cr t)) = Some x \<and> stored (crToCreate uid (Node_Cr t)) x))"
proof (induction ts arbitrary: s before)
  case (Cons t ts)
  let ?cr = "crToCreate uid (Node_Cr t)"
  let ?k = "ObjectKeyFromObject (Node_Cr t)"
  have free: "s (ObjectKeyFromObject ?cr) = None" using Cons.prems(2) by simp
  have create: "ensures (\<lambda>w. objs w = s)
      (catchM (bindM (target_Create E ?cr) (\<lambda>cr'. returnM (Inr cr'))) (\<lambda>err. returnM (Inl err)))
      (\<lambda>r w. \<exists>x. r = Inr x \<and> stored ?cr x \<and> objs w = s(?k \<mapsto> x))"
    unfolding target_Create_def
    by (intro ensures_catch ensures_bind [where R = "\<lambda>x w. stored ?cr x \<and> objs w = s(?k \<mapsto> x)"] ensures_call ensures_return)
      (use is_targetD(3) [OF assms, of _ ?cr] free in auto)
  show ?case
    unfolding createCrs.simps Let_def
  proof (rule ensures_bind [OF create], rule ensures_pre, elim exE conjE)
    fix r :: "error + Unstructured" and x w
    assume x: "r = Inr x" "stored ?cr x" "objs w = s(?k \<mapsto> x)"
    have "ensures (\<lambda>w. objs w = s(?k \<mapsto> x)) (createCrs E ts uid (before @ [x]))
        (\<lambda>(moved, err) w. err = None \<and> (\<forall>k. k \<notin> set (keys (map Node_Cr ts)) \<longrightarrow> objs w k = (s(?k \<mapsto> x)) k) \<and>
          (\<forall>t\<in>set ts. \<exists>x. objs w (ObjectKeyFromObject (Node_Cr t)) = Some x \<and> stored (crToCreate uid (Node_Cr t)) x))"
      by (rule Cons.IH) (use Cons.prems in \<open>auto simp: image_iff\<close>)
    then show "\<exists>P'. P' w \<and> ensures P' (case r of
          Inl err \<Rightarrow> returnM (before, Some (WrapError (''CR '' @ crName ?cr @ '' couldn't be created in the target cluster'') err))
        | Inr cr' \<Rightarrow> createCrs E ts uid (before @ [cr']))
      (\<lambda>(moved, err) w. err = None \<and> (\<forall>k. k \<notin> set (keys (map Node_Cr (t # ts))) \<longrightarrow> objs w k = s k) \<and>
        (\<forall>t\<in>set (t # ts). \<exists>x. objs w (ObjectKeyFromObject (Node_Cr t)) = Some x \<and> stored (crToCreate uid (Node_Cr t)) x))"
      using x Cons.prems(1) by (intro exI [of _ "\<lambda>w. objs w = s(?k \<mapsto> x)"]) (auto elim!: ensures_mono)
  qed
qed (auto intro: ensures_return)

text \<open>Copying the status of an object that is in the target, and the condition that is polled.\<close>

lemma ensures_copyStatus:
  assumes "is_target E objs" and "has_status cr" and "s (ObjectKeyFromObject cr) = Some x"
    and "ObjectKeyFromObject x = ObjectKeyFromObject cr"
  shows "ensures (\<lambda>w. objs w = s) (copyStatus E cr x) (\<lambda>x' w. stored x x' \<and> CR_UID x' = CR_UID x \<and>
    (CR_Status cr \<noteq> None \<longrightarrow> CR_Status x' = CR_Status cr) \<and> objs w = s(ObjectKeyFromObject cr \<mapsto> x'))"
proof (cases "CR_Status cr")
  case None
  then show ?thesis
    using assms(3) by (auto simp: copyStatus_def stored_def fun_upd_idem intro!: ensures_return)
next
  case (Some st)
  with assms(2) obtain fs where st: "CR_Status cr = Some (JObject fs)"
    by (auto simp: has_status_def split: json.splits)
  let ?x = "x\<lparr>CR_Status := Some (JObject fs)\<rparr>"
  have k: "ObjectKeyFromObject ?x = ObjectKeyFromObject cr" using assms(4) by (simp add: ObjectKeyFromObject_def)
  have "\<exists>x'. fst (m_statusUpdate E ?x w) = Ok x' \<and> stored x x' \<and> CR_UID x' = CR_UID x \<and>
      CR_Status x' = CR_Status ?x \<and> objs (snd (m_statusUpdate E ?x w)) = (objs w)(ObjectKeyFromObject ?x \<mapsto> x')"
    if "objs w = s" for w
  proof -
    have "objs w (ObjectKeyFromObject ?x) = Some x" "CR_ResourceVersion ?x = CR_ResourceVersion x"
      using that assms(3) by (simp_all add: k)
    then show ?thesis by (rule is_targetD(4) [OF assms(1)])
  qed
  then show ?thesis
    unfolding copyStatus_def target_StatusUpdate_def st option.case json.case
    by (intro ensures_call) (auto simp: k)
qed

lemma ensures_target_Get:
  assumes "is_target E objs"
  shows "ensures (\<lambda>w. objs w = s)
    (catchM (bindM (target_Get E k) (\<lambda>t. returnM (Some t))) (\<lambda>err. if IsNotFound err then returnM None else errM (h err)))
    (\<lambda>x w. x = s k \<and> objs w = s)"
  unfolding ensures_def target_Get_def
proof (intro allI impI)
  fix w
  assume "objs w = s"
  then have "fst (m_get E k w) = (case s k of None \<Rightarrow> Err NotFoundError | Some x \<Rightarrow> Ok x)"
    "objs (snd (m_get E k w)) = s" using is_targetD(1,2) [OF assms, of k w] by simp_all
  then show "\<exists>a. result_of (catchM (bindM (callM (m_get E k) (MGot k)) (\<lambda>t. returnM (Some t)))
      (\<lambda>err. if IsNotFound err then returnM None else errM (h err)) w) = Ok a \<and>
    a = s k \<and> objs (world_of (catchM (bindM (callM (m_get E k) (MGot k)) (\<lambda>t. returnM (Some t)))
      (\<lambda>err. if IsNotFound err then returnM None else errM (h err)) w)) = s"
    by (cases "m_get E k w"; cases "s k") (auto simp: prog_defs)
qed

lemma ensures_moveCondition:
  assumes "is_target E objs" and "has_status cr" and "s (ObjectKeyFromObject cr) = Some x"
    and "stored (crToCreate uid cr) x"
    and "\<And>x'. copied uid cr x' \<Longrightarrow> ensures (\<lambda>w. objs w = s(ObjectKeyFromObject cr \<mapsto> x')) (moveChildren (GetUID x'))
      (\<lambda>res w. Q res (objs w) x')"
  shows "ensures (\<lambda>w. objs w = s) (moveCondition E cr moveChildren)
    (\<lambda>r w. \<exists>res. r = Some res \<and> (\<exists>x'. copied uid cr x' \<and> Q res (objs w) x'))"
proof -
  have k: "ObjectKeyFromObject x = ObjectKeyFromObject cr" using assms(4) by (simp add: stored_def)
  have "ensures (\<lambda>w. stored x x' \<and> CR_UID x' = CR_UID x \<and> (CR_Status cr \<noteq> None \<longrightarrow> CR_Status x' = CR_Status cr) \<and>
      objs w = s(ObjectKeyFromObject cr \<mapsto> x'))
    (bindM (moveChildren (GetUID x')) (\<lambda>res. returnM (Some res)))
    (\<lambda>r w. \<exists>res. r = Some res \<and> (\<exists>x'. copied uid cr x' \<and> Q res (objs w) x'))" for x'
  proof (cases "copied uid cr x'")
    case True
    then show ?thesis
      by (intro ensures_bind [OF ensures_mono [OF assms(5) [OF True]]] ensures_return) auto
  next
    case False
    with assms(4) show ?thesis by (auto simp: ensures_def copied_def stored_def)
  qed
  then have "ensures (\<lambda>w. objs w = s)
    (bindM (copyStatus E cr x) (\<lambda>x'. bindM (moveChildren (GetUID x')) (\<lambda>res. returnM (Some res))))
    (\<lambda>r w. \<exists>res. r = Some res \<and> (\<exists>x'. copied uid cr x' \<and> Q res (objs w) x'))"
    by (rule ensures_bind [rotated]) (rule ensures_copyStatus [where s = s, OF assms(1-3) k])
  then show ?thesis
    unfolding moveCondition_def
    by (intro ensures_catch ensures_bind [OF ensures_target_Get [OF assms(1)]], rule_tac ensures_pre)
      (auto simp: assms(3) intro!: exI [of _ "\<lambda>w. objs w = s"])
qed

lemma ensures_pollMove:
  assumes "ensures P c (\<lambda>x w. \<exists>v. x = Some v \<and> Q v w)"
  shows "ensures P (pollMove E c) Q"
  unfolding pollMove_def by (intro ensures_catch ensures_poll assms)

lemma ensures_no_error:
  assumes "ensures P m (\<lambda>(a, err) w. err = None \<and> R a w)" and "\<And>a w. R a w \<Longrightarrow> ensures (\<lambda>w'. w' = w) (k a) Q"
  shows "ensures P (bindM m (\<lambda>(a, err). case err of Some e \<Rightarrow> h a e | None \<Rightarrow> k a)) Q"
  by (rule ensures_bind [OF assms(1)]) (use assms(2) in \<open>auto simp: ensures_def split: prod.splits option.splits\<close>)

text \<open>The keys of the objects of a forest.\<close>

definition forest_keys :: "Node list \<Rightarrow> object_key set" where
  "forest_keys ts = ObjectKeyFromObject ` set (concat (map tree_crs ts))"

lemma forest_keys_simps [simp]:
  "forest_keys [] = {}"
  "forest_keys (Node cr children # ts) = insert (ObjectKeyFromObject cr) (forest_keys children \<union> forest_keys ts)"
  by (auto simp: forest_keys_def)

lemma forest_keys_top: "t \<in> set ts \<Longrightarrow> ObjectKeyFromObject (Node_Cr t) \<in> forest_keys ts"
  unfolding forest_keys_def using tree_members_sel(1) by blast

lemma forest_keys_below: "t \<in> set ts \<Longrightarrow> k \<in> forest_keys (Node_Children t) \<Longrightarrow> k \<in> forest_keys ts"
  unfolding forest_keys_def using tree_members_sel(2) by blast

lemma forest_keys_tree: "c \<in> set (tree_crs (Node cr children)) \<Longrightarrow> ObjectKeyFromObject c \<in> insert (ObjectKeyFromObject cr) (forest_keys children)"
  by (auto simp: forest_keys_def)

definition movable :: "Node list \<Rightarrow> bool" where
  "movable ts \<longleftrightarrow> distinct (keys (concat (map tree_crs ts))) \<and> list_all has_status (concat (map tree_crs ts))"

lemma movable_Cons:
  "movable (Node cr children # ts) \<longleftrightarrow> has_status cr \<and> movable children \<and> movable ts \<and>
     ObjectKeyFromObject cr \<notin> forest_keys children \<and> ObjectKeyFromObject cr \<notin> forest_keys ts \<and>
     forest_keys children \<inter> forest_keys ts = {}"
  unfolding movable_def forest_keys_def by (auto simp: list_all_iff)

lemma movable_tops: "movable ts \<Longrightarrow> distinct (keys (map Node_Cr ts))"
proof (induction ts)
  case (Cons t ts)
  obtain cr children where t: "t = Node cr children" by (cases t)
  with Cons show ?case by (auto simp: movable_Cons dest: forest_keys_top)
qed simp

text \<open>The trees are placed under the given UID and nothing else of the target changes.\<close>

definition places :: "Node list \<Rightarrow> string option \<Rightarrow> (object_key \<Rightarrow> Unstructured option) \<Rightarrow>
    (object_key \<Rightarrow> Unstructured option) \<Rightarrow> bool" where
  "places ts uid s s' \<longleftrightarrow> (\<forall>k. k \<notin> forest_keys ts \<longrightarrow> s' k = s k) \<and> (\<forall>t\<in>set ts. placed s' uid t)"

text \<open>The tops are there and the objects below them are not.\<close>

definition waiting :: "Node list \<Rightarrow> string option \<Rightarrow> (object_key \<Rightarrow> Unstructured option) \<Rightarrow> bool" where
  "waiting ts uid s \<longleftrightarrow> (\<forall>t\<in>set ts.
     (\<exists>x. s (ObjectKeyFromObject (Node_Cr t)) = Some x \<and> stored (crToCreate uid (Node_Cr t)) x) \<and>
     (\<forall>k\<in>forest_keys (Node_Children t). s k = None))"

lemma places_Cons:
  assumes "movable (Node cr children # ts)" and "copied uid cr x"
    and "places children (Some (GetUID x)) (s(ObjectKeyFromObject cr \<mapsto> x)) s'" and "places ts uid s' s''"
  shows "places (Node cr children # ts) uid s s''"
proof -
  note m = assms(1) [unfolded movable_Cons]
  have outside: "s'' k = s k" if "k \<notin> forest_keys (Node cr children # ts)" for k
    using assms(3,4) that by (simp add: places_def)
  have "s' (ObjectKeyFromObject cr) = Some x" using assms(3) m by (simp add: places_def)
  then have "placed s' uid (Node cr children)" using assms(2,3) by (simp add: places_def list_all_iff)
  moreover have "s'' (ObjectKeyFromObject c) = s' (ObjectKeyFromObject c)" if "c \<in> set (tree_crs (Node cr children))" for c
  proof -
    have "ObjectKeyFromObject c \<notin> forest_keys ts" using forest_keys_tree [OF that] m by (elim insertE) auto
    with assms(4) show ?thesis by (simp add: places_def)
  qed
  ultimately have "placed s'' uid (Node cr children)" by (rule placed_cong)
  with outside assms(4) show ?thesis by (simp add: places_def)
qed

lemma waiting_after:
  assumes "movable (Node cr children # ts)" and "waiting (Node cr children # ts) uid s"
    and "places children uid' (s(ObjectKeyFromObject cr \<mapsto> x)) s'"
  shows "waiting ts uid s'"
proof -
  have same: "s' k = s k" if "k \<in> forest_keys ts" for k
  proof -
    have "k \<notin> forest_keys children" "k \<noteq> ObjectKeyFromObject cr"
      using that assms(1) [unfolded movable_Cons] by auto
    with assms(3) show ?thesis by (simp add: places_def)
  qed
  show ?thesis
    unfolding waiting_def
  proof
    fix t
    assume t: "t \<in> set ts"
    have "s' k = s k" if "k \<in> forest_keys (Node_Children t)" for k
      by (rule same [OF forest_keys_below [OF t that]])
    with assms(2) t same [OF forest_keys_top [OF t]]
    show "(\<exists>x. s' (ObjectKeyFromObject (Node_Cr t)) = Some x \<and> stored (crToCreate uid (Node_Cr t)) x) \<and>
        (\<forall>k\<in>forest_keys (Node_Children t). s' k = None)"
      by (simp add: waiting_def)
  qed
qed

lemma below_not_top:
  "movable ts \<Longrightarrow> t \<in> set ts \<Longrightarrow> k \<in> forest_keys (Node_Children t) \<Longrightarrow> k \<notin> set (keys (map Node_Cr ts))"
proof (induction ts)
  case (Cons a ts)
  obtain cr children where a: "a = Node cr children" by (cases a)
  note m = Cons.prems(1) [unfolded a movable_Cons]
  have tops: "set (keys (map Node_Cr ts)) \<subseteq> forest_keys ts" by (auto intro: forest_keys_top)
  show ?case
  proof (cases "t = a")
    case True
    with Cons.prems(3) a m have "k \<noteq> ObjectKeyFromObject cr" "k \<notin> forest_keys ts" by auto
    with tops a show ?thesis by auto
  next
    case False
    with Cons.prems have t: "t \<in> set ts" by simp
    from forest_keys_below [OF this Cons.prems(3)] m have "k \<noteq> ObjectKeyFromObject cr" by auto
    with Cons.IH t Cons.prems(3) m a show ?thesis by auto
  qed
qed simp

lemma waiting_created:
  assumes "movable ts" and "\<forall>k\<in>forest_keys ts. s k = None"
    and "\<forall>k. k \<notin> set (keys (map Node_Cr ts)) \<longrightarrow> s' k = s k"
    and "\<forall>t\<in>set ts. \<exists>x. s' (ObjectKeyFromObject (Node_Cr t)) = Some x \<and> stored (crToCreate uid (Node_Cr t)) x"
  shows "waiting ts uid s'"
  using assms(2-4) below_not_top [OF assms(1)] forest_keys_below unfolding waiting_def by metis

text \<open>One level of trees: the tops are created, then each tree is completed.\<close>

lemma ensures_level:
  assumes "is_target E objs" and "movable ts" and "\<forall>k\<in>forest_keys ts. s k = None"
    and trees: "\<And>s' moved. waiting ts uid s' \<Longrightarrow>
      ensures (\<lambda>w. objs w = s') (moveTrees E ts moved) (\<lambda>(moved, err) w. err = None \<and> places ts uid s' (objs w))"
  shows "ensures (\<lambda>w. objs w = s) (moveCrs E ts uid) (\<lambda>(moved, err) w. err = None \<and> places ts uid s (objs w))"
proof -
  let ?post = "\<lambda>s'. (\<forall>k. k \<notin> set (keys (map Node_Cr ts)) \<longrightarrow> s' k = s k) \<and>
      (\<forall>t\<in>set ts. \<exists>x. s' (ObjectKeyFromObject (Node_Cr t)) = Some x \<and> stored (crToCreate uid (Node_Cr t)) x)"
  have create: "ensures (\<lambda>w. objs w = s) (createCrs E ts uid []) (\<lambda>(moved, err) w. err = None \<and> ?post (objs w))"
    by (rule ensures_createCrs [OF assms(1) movable_tops [OF assms(2)]]) (use assms(3) forest_keys_top in blast)
  have after: "ensures (\<lambda>w. objs w = s') (moveTrees E ts moved) (\<lambda>(moved, err) w. err = None \<and> places ts uid s (objs w))"
    if post: "?post s'" for s' moved
  proof -
    have "waiting ts uid s'" by (rule waiting_created [OF assms(2,3)]) (use post in auto)
    moreover have "s' k = s k" if "k \<notin> forest_keys ts" for k
    proof -
      have "k \<notin> set (keys (map Node_Cr ts))" using that by (auto dest: forest_keys_top)
      with post show ?thesis by blast
    qed
    ultimately show ?thesis by (intro ensures_mono [OF trees [of s']]) (auto simp: places_def)
  qed
  show ?thesis
    unfolding moveCrs.simps
    by (rule ensures_no_error [OF create]) (rule ensures_mono [OF after], auto)
qed

text \<open>One tree of a level: its top is polled until it is found, its children are moved below it, and then come
  the other trees of the level.\<close>

lemma ensures_tree:
  assumes "is_target E objs" and mov: "movable (Node cr children # ts)" and wait: "waiting (Node cr children # ts) uid s"
    and kids: "\<And>s x'. \<forall>k\<in>forest_keys children. s k = None \<Longrightarrow>
      ensures (\<lambda>w. objs w = s) (moveCrs E children (Some (GetUID x')))
        (\<lambda>(moved, err) w. err = None \<and> places children (Some (GetUID x')) s (objs w))"
    and others: "\<And>s mv. waiting ts uid s \<Longrightarrow>
      ensures (\<lambda>w. objs w = s) (moveTrees E ts (before @ mv)) (\<lambda>(moved, err) w. err = None \<and> places ts uid s (objs w))"
  shows "ensures (\<lambda>w. objs w = s) (moveTrees E (Node cr children # ts) before)
      (\<lambda>(moved, err) w. err = None \<and> places (Node cr children # ts) uid s (objs w))"
proof -
  note m = mov [unfolded movable_Cons]
  from wait obtain x where x: "s (ObjectKeyFromObject cr) = Some x" "stored (crToCreate uid cr) x"
    and free: "\<forall>k\<in>forest_keys children. s k = None"
    by (auto simp: waiting_def)
  let ?Q = "\<lambda>res s' x'. snd res = None \<and> places children (Some (GetUID x')) (s(ObjectKeyFromObject cr \<mapsto> x')) s'"
  have below: "ensures (\<lambda>w. objs w = s(ObjectKeyFromObject cr \<mapsto> x')) (moveCrs E children (Some (GetUID x')))
      (\<lambda>res w. ?Q res (objs w) x')" for x' :: Unstructured
    by (rule ensures_mono [OF kids]) (use m free in \<open>auto simp: case_prod_beta\<close>)
  have cond: "ensures (\<lambda>w. objs w = s) (moveCondition E cr (\<lambda>uid. moveCrs E children (Some uid)))
      (\<lambda>r w. \<exists>res. r = Some res \<and> (\<exists>x'. copied uid cr x' \<and> ?Q res (objs w) x'))"
    by (rule ensures_moveCondition [where s = s and Q = ?Q, OF assms(1) conjunct1 [OF m] x]) (rule below)
  have poll: "ensures (\<lambda>w. objs w = s) (pollMove E (moveCondition E cr (\<lambda>uid. moveCrs E children (Some uid))))
      (\<lambda>(moved, err) w. err = None \<and> (\<exists>x'. copied uid cr x' \<and>
        places children (Some (GetUID x')) (s(ObjectKeyFromObject cr \<mapsto> x')) (objs w)))"
    by (rule ensures_mono [OF ensures_pollMove [OF cond]]) auto
  have rest: "ensures (\<lambda>w'. objs w' = s') (moveTrees E ts (before @ mv))
      (\<lambda>(moved, err) w'. err = None \<and> places (Node cr children # ts) uid s (objs w'))"
    if c: "copied uid cr x'" and p: "places children (Some (GetUID x')) (s(ObjectKeyFromObject cr \<mapsto> x')) s'" for mv x' s'
    by (rule ensures_mono [OF others [OF waiting_after [OF mov wait p]]]) (use places_Cons [OF mov c p] in auto)
  show ?thesis
    unfolding moveTrees.simps
    by (rule ensures_no_error [OF poll]) (auto intro!: ensures_mono [OF rest])
qed

lemma ensures_moveCrs:
  "is_target E objs \<Longrightarrow> movable ts \<Longrightarrow> (\<forall>k\<in>forest_keys ts. s k = None) \<Longrightarrow>
      ensures (\<lambda>w. objs w = s) (moveCrs E ts uid) (\<lambda>(moved, err) w. err = None \<and> places ts uid s (objs w))"
  "is_target E objs \<Longrightarrow> movable ts \<Longrightarrow> waiting ts uid s \<Longrightarrow>
      ensures (\<lambda>w. objs w = s) (moveTrees E ts before) (\<lambda>(moved, err) w. err = None \<and> places ts uid s (objs w))"
proof (induction E ts uid and E ts before arbitrary: s and s uid rule: moveCrs_moveTrees.induct)
  case (1 E ts uid)
  show ?case by (rule ensures_level [OF 1(2-4)]) (rule 1(1) [OF 1(2,3)])
next
  case (2 E before)
  then show ?case by (auto intro!: ensures_return simp: places_def)
next
  case (3 E cr children ts before)
  note m = 3(4) [unfolded movable_Cons]
  show ?case
  proof (rule ensures_tree [OF 3(3-5)])
    show "ensures (\<lambda>w. objs w = s) (moveCrs E children (Some (GetUID x')))
        (\<lambda>(moved, err) w. err = None \<and> places children (Some (GetUID x')) s (objs w))"
      if "\<forall>k\<in>forest_keys children. s k = None" for s and x' :: Unstructured
      using 3(1,3) m that by blast
    show "ensures (\<lambda>w. objs w = s) (moveTrees E ts (before @ mv)) (\<lambda>(moved, err) w. err = None \<and> places ts uid s (objs w))"
      if "waiting ts uid s" for s mv
      by (rule 3(2) [OF 3(3) _ that]) (use m in auto)
  qed
qed

section \<open>Moving into a cluster that has none of the objects\<close>

lemma placed_members:
  "placed s uid t \<Longrightarrow> c \<in> set (tree_crs t) \<Longrightarrow> \<exists>x uid'. s (ObjectKeyFromObject c) = Some x \<and> copied uid' c x"
proof (induction t arbitrary: uid)
  case (Node cr children)
  then obtain x where x: "s (ObjectKeyFromObject cr) = Some x" "copied uid cr x"
    and below: "\<And>t. t \<in> set children \<Longrightarrow> placed s (Some (GetUID x)) t"
    by (auto split: option.splits simp: list_all_iff)
  from Node.prems(2) consider "c = cr" | t where "t \<in> set children" "c \<in> set (tree_crs t)" by auto
  then show ?case using x below Node.IH by cases blast+
qed

text \<open>The owner of an object in the target is the copy of its owner in the source.\<close>

lemma placed_owner:
  "placed s uid t \<Longrightarrow> follows_owners crs t \<Longrightarrow> p \<in> set (tree_crs t) \<Longrightarrow> c \<in> set crs \<Longrightarrow>
   owner_uid crs c = Some (GetUID p) \<Longrightarrow> \<exists>xp xc. s (ObjectKeyFromObject p) = Some xp \<and>
     s (ObjectKeyFromObject c) = Some xc \<and> copied (Some (GetUID xp)) c xc"
proof (induction t arbitrary: uid)
  case (Node cr children)
  then obtain x where x: "s (ObjectKeyFromObject cr) = Some x"
    and below: "\<And>t. t \<in> set children \<Longrightarrow> placed s (Some (GetUID x)) t"
    by (auto split: option.splits simp: list_all_iff)
  have kids: "map Node_Cr children = filter (\<lambda>c. owner_uid crs c = Some (GetUID cr)) crs"
    and follow: "\<And>t. t \<in> set children \<Longrightarrow> follows_owners crs t"
    using Node.prems(2) by (auto simp: list_all_iff)
  from Node.prems(3) consider "p = cr" | t where "t \<in> set children" "p \<in> set (tree_crs t)" by auto
  then show ?case
  proof cases
    case 1
    with Node.prems(4,5) have "c \<in> set (map Node_Cr children)" unfolding kids by simp
    then obtain t where t: "t \<in> set children" "c = Node_Cr t" by auto
    from below [OF t(1)] have "\<exists>xc. s (ObjectKeyFromObject c) = Some xc \<and> copied (Some (GetUID x)) c xc"
      unfolding t(2) by (cases t) (auto split: option.splits)
    with x 1 show ?thesis by blast
  next
    case (2 t)
    then show ?thesis using Node.IH below follow Node.prems(4,5) by blast
  qed
qed

lemma ensures_getCrs:
  assumes "is_target E objs" and "\<And>g w. g \<in> set gvks \<Longrightarrow> fst (m_list E g ns w) = Ok (src g)"
  shows "ensures (\<lambda>w. objs w = s) (getCrs E gvks ns) (\<lambda>crs w. crs = concat (map src gvks) \<and> objs w = s)"
proof -
  have "ensures (\<lambda>w. objs w = s)
      (foldM (\<lambda>crs g. bindM (wrapM m (source_List E g ns)) (\<lambda>items. returnM (crs @ items))) acc gvks)
      (\<lambda>crs w. crs = acc @ concat (map src gvks) \<and> objs w = s)" for m acc
    using assms(2)
  proof (induction gvks arbitrary: acc)
    case (Cons g gvks)
    have list: "ensures (\<lambda>w. objs w = s) (bindM (wrapM m (source_List E g ns)) (\<lambda>items. returnM (acc @ items)))
        (\<lambda>crs w. crs = acc @ src g \<and> objs w = s)"
      unfolding source_List_def
      by (intro ensures_bind [where R = "\<lambda>items w. items = src g \<and> objs w = s"] ensures_wrap ensures_call ensures_return)
        (use Cons.prems is_targetD(5) [OF assms(1)] in auto)
    show ?case
      unfolding foldM.simps
      by (rule ensures_value [OF list]) (use Cons.IH [of "acc @ src g"] Cons.prems in simp)
  qed (auto intro: ensures_return)
  from this [of _ "[]"] show ?thesis by (simp add: getCrs_def)
qed

lemma ensures_getCrsToBeMoved:
  assumes "is_target E objs" and "\<And>cr. cr \<in> set crs \<Longrightarrow> s (ObjectKeyFromObject cr) = None"
  shows "ensures (\<lambda>w. objs w = s) (getCrsToBeMoved E crs) (\<lambda>moved w. moved = crs \<and> objs w = s)"
proof -
  let ?f = "\<lambda>crsToMove sourceCr.
       bindM (catchM (bindM (target_Get E (ObjectKeyFromObject sourceCr)) (\<lambda>targetCr. returnM (Some targetCr)))
                (\<lambda>err. if IsNotFound err then returnM None
                       else errM (WrapError ''failed to check CR existence in the target cluster'' err))) (\<lambda>x.
         case x of
           None \<Rightarrow> returnM (crsToMove @ [sourceCr])
         | Some targetCr \<Rightarrow>
             bindM (liftM (clearFields sourceCr)) (\<lambda>so.
             bindM (liftM (clearFields targetCr)) (\<lambda>ta.
               if so = ta then returnM crsToMove else errM (alreadyExists sourceCr))))"
  have "ensures (\<lambda>w. objs w = s) (foldM ?f acc crs) (\<lambda>moved w. moved = acc @ crs \<and> objs w = s)" for acc
    using assms(2)
  proof (induction crs arbitrary: acc)
    case (Cons cr crs)
    have one: "ensures (\<lambda>w. objs w = s) (?f acc cr) (\<lambda>moved w. moved = acc @ [cr] \<and> objs w = s)"
      by (rule ensures_bind [OF ensures_target_Get [OF assms(1)]])
        (use Cons.prems in \<open>auto simp: ensures_def prog_defs\<close>)
    show ?case
      unfolding foldM.simps
      by (rule ensures_value [OF one]) (use Cons.IH [of "acc @ [cr]"] Cons.prems in simp)
  qed (auto intro: ensures_return)
  from this [of "[]"] show ?thesis by (simp add: getCrsToBeMoved_def)
qed

text \<open>
  What the source cluster has to hold for a complete move: objects with distinct keys and UIDs, whose
  status, if any, is a map, and whose chains of owners end.
\<close>

definition movable_crs :: "Unstructured list \<Rightarrow> bool" where
  "movable_crs crs \<longleftrightarrow> distinct (keys crs) \<and> distinct (map GetUID crs) \<and> list_all has_status crs \<and>
     (\<forall>cr\<in>set crs. \<exists>n. depth (owner_of crs) (GetUID cr) n)"

lemma movable_trees:
  assumes "movable_crs crs"
  shows "movable (crsOwnerReferenceTrees crs)" and "forest_keys (crsOwnerReferenceTrees crs) = ObjectKeyFromObject ` set crs"
    and "set (concat (map tree_crs (crsOwnerReferenceTrees crs))) = set crs"
proof -
  have uids: "distinct (map GetUID crs)" and k: "distinct (keys crs)" and st: "list_all has_status crs"
    using assms by (auto simp: movable_crs_def)
  show all: "set (concat (map tree_crs (crsOwnerReferenceTrees crs))) = set crs"
    using owner_trees(5) [OF uids] assms by (auto simp: movable_crs_def)
  then show "forest_keys (crsOwnerReferenceTrees crs) = ObjectKeyFromObject ` set crs" by (simp add: forest_keys_def)
  have "distinct (keys (concat (map tree_crs (crsOwnerReferenceTrees crs))))"
    using owner_trees(4) [OF uids] k unfolding distinct_map all by blast
  then show "movable (crsOwnerReferenceTrees crs)"
    using st all by (simp add: movable_def list_all_iff)
qed

text \<open>The copy of an object in the target, and its reference to the copy of its owner.\<close>

definition moved_to :: "Unstructured list \<Rightarrow> (object_key \<Rightarrow> Unstructured option) \<Rightarrow> Unstructured \<Rightarrow> bool" where
  "moved_to crs s cr \<longleftrightarrow> (\<exists>x. s (ObjectKeyFromObject cr) = Some x \<and> CR_Metadata x = CR_Metadata cr \<and>
     CR_Content x = CR_Content cr \<and> (CR_Status cr \<noteq> None \<longrightarrow> CR_Status x = CR_Status cr) \<and>
     (\<forall>p ref. p \<in> set crs \<longrightarrow> CR_OwnerReferences cr = [ref] \<longrightarrow> OwnerReference_UID ref = GetUID p \<longrightarrow>
        (\<exists>xp. s (ObjectKeyFromObject p) = Some xp \<and>
          CR_OwnerReferences x = [ref\<lparr>OwnerReference_UID := GetUID xp\<rparr>])))"

lemma copied_fields:
  "copied uid cr x \<Longrightarrow> CR_Metadata x = CR_Metadata cr \<and> CR_Content x = CR_Content cr \<and>
     (CR_Status cr \<noteq> None \<longrightarrow> CR_Status x = CR_Status cr)"
  "copied (Some u) cr x \<Longrightarrow> CR_OwnerReferences cr = [ref] \<Longrightarrow> CR_OwnerReferences x = [ref\<lparr>OwnerReference_UID := u\<rparr>]"
  by (auto simp: copied_def stored_def crToCreate_def split: list.splits option.splits)

lemma placed_moved_to:
  assumes "movable_crs crs" and "\<forall>t\<in>set (crsOwnerReferenceTrees crs). placed s None t" and "cr \<in> set crs"
  shows "moved_to crs s cr"
proof -
  have uids: "distinct (map GetUID crs)" using assms(1) by (simp add: movable_crs_def)
  have tree: "\<exists>t\<in>set (crsOwnerReferenceTrees crs). c \<in> set (tree_crs t) \<and> placed s None t \<and> follows_owners crs t"
    if "c \<in> set crs" for c
    using that assms(2) movable_trees(3) [OF assms(1)] owner_trees(3) [OF uids] by (auto simp: list_all_iff)
  obtain x uid where x: "s (ObjectKeyFromObject cr) = Some x" "copied uid cr x"
    using tree [OF assms(3)] placed_members by blast
  have "\<exists>xp. s (ObjectKeyFromObject p) = Some xp \<and> CR_OwnerReferences x = [ref\<lparr>OwnerReference_UID := GetUID xp\<rparr>]"
    if p: "p \<in> set crs" "CR_OwnerReferences cr = [ref]" "OwnerReference_UID ref = GetUID p" for p ref
  proof -
    have "owner_uid crs cr = Some (GetUID p)" using p by (auto simp: owner_uid_def)
    with tree [OF p(1)] placed_owner assms(3) x(1) obtain xp where
      "s (ObjectKeyFromObject p) = Some xp" "copied (Some (GetUID xp)) cr x" by fastforce
    with copied_fields(2) p(2) show ?thesis by blast
  qed
  with x copied_fields(1) [OF x(2)] show ?thesis unfolding moved_to_def by blast
qed

lemma ensures_Move:
  assumes "is_target E objs" and "\<And>g w. g \<in> set gvks \<Longrightarrow> fst (m_list E g ns w) = Ok (src g)"
    and "movable_crs (concat (map src gvks))"
    and "\<And>cr. cr \<in> set (concat (map src gvks)) \<Longrightarrow> s (ObjectKeyFromObject cr) = None"
  shows "ensures (\<lambda>w. objs w = s) (Move E gvks ns False) (\<lambda>_ w.
    (\<forall>k. k \<notin> ObjectKeyFromObject ` set (concat (map src gvks)) \<longrightarrow> objs w k = s k) \<and>
    (\<forall>cr\<in>set (concat (map src gvks)). moved_to (concat (map src gvks)) (objs w) cr))"
proof -
  define crs where "crs = concat (map src gvks)"
  let ?Q = "\<lambda>w. (\<forall>k. k \<notin> ObjectKeyFromObject ` set crs \<longrightarrow> objs w k = s k) \<and> (\<forall>cr\<in>set crs. moved_to crs (objs w) cr)"
  have crs: "movable_crs crs" "\<And>cr. cr \<in> set crs \<Longrightarrow> s (ObjectKeyFromObject cr) = None"
    using assms(3,4) by (simp_all add: crs_def)
  have "ensures (\<lambda>w. objs w = s) (moveCrs E (crsOwnerReferenceTrees crs) None)
      (\<lambda>(moved, err) w. err = None \<and> places (crsOwnerReferenceTrees crs) None s (objs w))"
    by (rule ensures_moveCrs(1) [OF assms(1) movable_trees(1) [OF crs(1)]]) (use crs movable_trees(2) in auto)
  then have move: "ensures (\<lambda>w. objs w = s) (moveCrs E (crsOwnerReferenceTrees crs) None) (\<lambda>(moved, err) w. err = None \<and> ?Q w)"
    by (rule ensures_mono) (auto simp: places_def movable_trees(2) [OF crs(1)] placed_moved_to [OF crs(1)])
  have moved: "ensures (\<lambda>w. objs w = s) (getCrs E gvks ns) (\<lambda>x w. x = crs \<and> objs w = s)"
    unfolding crs_def by (rule ensures_getCrs [OF assms(1,2)])
  have "ensures (\<lambda>w. objs w = s) (Move E gvks ns False) (\<lambda>_. ?Q)"
    unfolding Move_def
    by (rule ensures_value [OF moved], rule ensures_value [OF ensures_getCrsToBeMoved [where s = s, OF assms(1) crs(2)]], assumption,
        simp only: simp_thms if_True, rule ensures_no_error [OF move]) (auto intro: ensures_return)
  then show ?thesis by (simp add: crs_def)
qed

end
