(* ===== verification/Move_Properties.thy ===== *)
theory Move_Properties
  imports Move_Trace Move_Target
begin

text \<open>
  The properties of the move command, with a pair of small clusters in which their hypotheses hold.
\<close>

section \<open>A small pair of clusters\<close>

definition ex_gvk :: "string \<Rightarrow> GroupVersionKind" where
  "ex_gvk kind = \<lparr>GVK_Group = ''metal.ironcore.dev'', GVK_Version = ''v1alpha1'', GVK_Kind = kind\<rparr>"

definition ex_cr :: "string \<Rightarrow> string \<Rightarrow> string \<Rightarrow> string option \<Rightarrow> Unstructured" where
  "ex_cr kind name uid owner = \<lparr>CR_GVK = ex_gvk kind, CR_Namespace = '''', CR_Name = name, CR_UID = Some uid,
     CR_ResourceVersion = Some ''7'', CR_CreationTimestamp = Some ''t'', CR_Generation = Some 1, CR_ManagedFields = None,
     CR_OwnerReferences = (case owner of None \<Rightarrow> [] | Some u \<Rightarrow> [\<lparr>OwnerReference_Kind = ''Endpoint'',
       OwnerReference_Name = ''ep'', OwnerReference_UID = u, OwnerReference_Controller = True\<rparr>]),
     CR_Metadata = [], CR_Status = Some (JObject [(''powerState'', JString ''On'')]), CR_Content = []\<rparr>"

definition ex_endpoint :: Unstructured where "ex_endpoint = ex_cr ''Endpoint'' ''ep'' ''1'' None"
definition ex_bmc :: Unstructured where "ex_bmc = ex_cr ''BMC'' ''bmc'' ''2'' (Some ''1'')"

definition ex_source :: "GroupVersionKind \<Rightarrow> Unstructured list" where
  "ex_source g = (if GVK_Kind g = ''Endpoint'' then [ex_endpoint] else if GVK_Kind g = ''BMC'' then [ex_bmc] else [])"

type_synonym cluster = "(object_key \<times> Unstructured) list"

text \<open>The target assigns UIDs by name and stores what it is sent; \<open>full\<close> says which objects it refuses.\<close>

definition ex_clusters :: "(object_key \<Rightarrow> bool) \<Rightarrow> cluster move_env" where
  "ex_clusters full = \<lparr>
     m_buildConfig = \<lambda>_ w. (Ok (), w), m_newClient = \<lambda>_ w. (Ok (), w),
     m_listCRDs = \<lambda>w. (Ok [\<lparr>CRD_Group = ''metal.ironcore.dev'', CRD_Versions = [''v1alpha1''], CRD_Kind = ''BMC''\<rparr>], w),
     m_list = \<lambda>g _ w. (Ok (ex_source g), w),
     m_get = \<lambda>k w. (case map_of w k of None \<Rightarrow> Err NotFoundError | Some x \<Rightarrow> Ok x, w),
     m_create = \<lambda>cr w. (let k = ObjectKeyFromObject cr; x = cr\<lparr>CR_UID := Some (''t-'' @ CR_Name cr), CR_Status := None,
          CR_ResourceVersion := Some ''1''\<rparr> in
        if full k \<or> map_of w k \<noteq> None then (Err (OtherError ''refused''), w) else (Ok x, (k, x) # w)),
     m_statusUpdate = \<lambda>cr w. (let k = ObjectKeyFromObject cr in
        case map_of w k of
          None \<Rightarrow> (Err NotFoundError, w)
        | Some x \<Rightarrow> (let x' = x\<lparr>CR_Status := CR_Status cr\<rparr> in (Ok x', (k, x') # w))),
     m_delete = \<lambda>k w. (Ok (), filter (\<lambda>e. fst e \<noteq> k) w),
     m_polls = \<lambda>_ _ _. 0\<rparr>"

lemma ex_is_target: "is_target (ex_clusters (\<lambda>_. False)) map_of"
  unfolding is_target_def
proof (intro conjI allI impI)
  fix k and w :: cluster
  show "fst (m_get (ex_clusters (\<lambda>_. False)) k w) = (case map_of w k of None \<Rightarrow> Err NotFoundError | Some x \<Rightarrow> Ok x)"
    and "map_of (snd (m_get (ex_clusters (\<lambda>_. False)) k w)) = map_of w"
    by (simp_all add: ex_clusters_def)
next
  fix cr and w :: cluster
  assume "map_of w (ObjectKeyFromObject cr) = None"
  then show "\<exists>x. fst (m_create (ex_clusters (\<lambda>_. False)) cr w) = Ok x \<and> stored cr x \<and>
      map_of (snd (m_create (ex_clusters (\<lambda>_. False)) cr w)) = (map_of w)(ObjectKeyFromObject cr \<mapsto> x)"
    by (simp add: ex_clusters_def Let_def stored_def ObjectKeyFromObject_def)
next
  fix cr x and w :: cluster
  assume "map_of w (ObjectKeyFromObject cr) = Some x"
  then show "\<exists>x'. fst (m_statusUpdate (ex_clusters (\<lambda>_. False)) cr w) = Ok x' \<and> stored x x' \<and> CR_UID x' = CR_UID x \<and>
      CR_Status x' = CR_Status cr \<and>
      map_of (snd (m_statusUpdate (ex_clusters (\<lambda>_. False)) cr w)) = (map_of w)(ObjectKeyFromObject cr \<mapsto> x')"
    by (simp add: ex_clusters_def Let_def stored_def ObjectKeyFromObject_def)
qed (simp add: ex_clusters_def)

section \<open>Properties\<close>

text \<open>
  C7. A move is complete: into a cluster that answers and has none of the objects, \<^verbatim>\<open>Move\<close> succeeds, leaves
  every other object as it is, and puts a copy of every object of the source there, with its content and
  its status; an object with one owner reference, to an object that is moved too, refers to the copy of
  its owner.
\<close>

theorem move_is_complete:
  assumes "is_target E objs" and "\<And>g w. g \<in> set gvks \<Longrightarrow> fst (m_list E g ns w) = Ok (src g)"
    and "movable_crs (concat (map src gvks))"
    and "\<And>cr. cr \<in> set (concat (map src gvks)) \<Longrightarrow> objs w (ObjectKeyFromObject cr) = None"
  shows "result_of (Move E gvks ns False w) = Ok () \<and>
    (\<forall>k. k \<notin> ObjectKeyFromObject ` set (concat (map src gvks)) \<longrightarrow> objs (world_of (Move E gvks ns False w)) k = objs w k) \<and>
    (\<forall>cr\<in>set (concat (map src gvks)). moved_to (concat (map src gvks)) (objs (world_of (Move E gvks ns False w))) cr)"
  using ensures_Move [where E = E and objs = objs and s = "objs w", OF assms] by (auto simp: ensures_def)

lemma ex_movable: "movable_crs [ex_endpoint, ex_bmc]"
proof -
  have "owner_of [ex_endpoint, ex_bmc] (GetUID ex_endpoint) = None" by code_simp
  then have "\<exists>n. depth (owner_of [ex_endpoint, ex_bmc]) (GetUID ex_endpoint) n" by (intro exI [of _ 0]) simp
  moreover have "depth (owner_of [ex_endpoint, ex_bmc]) (GetUID ex_bmc) 1"
    unfolding depth_def by (rule exI [of _ "GetUID ex_endpoint"]) code_simp
  moreover have "distinct (keys [ex_endpoint, ex_bmc])" "distinct (map GetUID [ex_endpoint, ex_bmc])"
    "list_all has_status [ex_endpoint, ex_bmc]" by code_simp+
  ultimately show ?thesis unfolding movable_crs_def by auto
qed

theorem move_is_complete_witness:
  "result_of (Move (ex_clusters (\<lambda>_. False)) (map ex_gvk [''Endpoint'', ''BMC'']) '''' False []) = Ok () \<and>
   moved_to [ex_endpoint, ex_bmc]
     (map_of (world_of (Move (ex_clusters (\<lambda>_. False)) (map ex_gvk [''Endpoint'', ''BMC'']) '''' False []))) ex_bmc"
proof -
  have crs: "concat (map ex_source (map ex_gvk [''Endpoint'', ''BMC''])) = [ex_endpoint, ex_bmc]"
    by (simp add: ex_source_def ex_gvk_def)
  have "fst (m_list (ex_clusters (\<lambda>_. False)) g '''' w) = Ok (ex_source g)" for g w by (simp add: ex_clusters_def)
  from move_is_complete [where src = ex_source and gvks = "map ex_gvk [''Endpoint'', ''BMC'']" and ns = "''''"
      and w = "[]", OF ex_is_target this, unfolded crs] ex_movable
  show ?thesis by simp
qed

text \<open>
  C10. A move that fails is undone: it deletes exactly the objects that the target accepted from it, in the
  order of their creation; a move that succeeds deletes nothing.
\<close>

theorem failed_move_is_undone:
  assumes "Move E gvks ns dryRun w = (r, es, w')"
  shows "(r = Ok () \<longrightarrow> deleted es = []) \<and> (\<forall>e. r = Err e \<longrightarrow> deleted es = map ObjectKeyFromObject (created es))"
  using satD [OF restored_Move assms] by auto

definition ex_refusing :: "cluster move_env" where
  "ex_refusing = ex_clusters (\<lambda>k. k = ObjectKeyFromObject ex_bmc)"

theorem failed_move_is_undone_witness:
  "deleted (events_of (Move ex_refusing (map ex_gvk [''Endpoint'', ''BMC'']) '''' False [])) = [ObjectKeyFromObject ex_endpoint]"
proof -
  obtain r es w' where run: "Move ex_refusing (map ex_gvk [''Endpoint'', ''BMC'']) '''' False [] = (r, es, w')"
    by (metis prod_cases3)
  have "\<not> is_ok (result_of (Move ex_refusing (map ex_gvk [''Endpoint'', ''BMC'']) '''' False []))" by code_simp
  moreover have "map ObjectKeyFromObject (created (events_of (Move ex_refusing (map ex_gvk [''Endpoint'', ''BMC'']) '''' False []))) =
      [ObjectKeyFromObject ex_endpoint]" by code_simp
  moreover have "(case result_of (Move ex_refusing (map ex_gvk [''Endpoint'', ''BMC'']) '''' False []) of
      Panic _ \<Rightarrow> False | _ \<Rightarrow> True)" by code_simp
  ultimately show ?thesis
    using failed_move_is_undone [OF run] run by (cases r) (auto simp: result_of_def events_of_def)
qed

text \<open>
  C28. Before anything is written, everything is checked: a write of \<^verbatim>\<open>Move\<close> to the target, of a move that is
  no dry run, comes after every object that the source listed has been looked up in the target and was
  missing there or the same up to the cleared fields, and an object is created only if it was missing.
\<close>

theorem move_checks_before_writing:
  assumes "events_of (Move E gvks ns dryRun w) = before @ e # after" and "is_write e"
  shows "\<not> dryRun \<and> (\<forall>cr\<in>set (listed_crs before). checked cr before) \<and>
    (\<forall>x ans. e = MCreated x ans \<longrightarrow> missing (ObjectKeyFromObject x) before)"
proof -
  obtain r es w' where run: "Move E gvks ns dryRun w = (r, es, w')" by (metis prod_cases3)
  with assms(1) have es: "es = before @ e # after" by (simp add: events_of_def)
  have "careful [] es" using satD [OF careful_Move run] .
  moreover have "\<not> dryRun"
    using satD [OF dry_run_reads run] assms(2) es by auto
  ultimately show ?thesis
    using assms(2) unfolding es by (auto simp: careful_append list_all_iff)
qed

theorem move_checks_before_writing_witness:
  "\<exists>before ans after. events_of (Move (ex_clusters (\<lambda>_. False)) [ex_gvk ''Endpoint''] '''' False []) =
      before @ MCreated (ex_endpoint\<lparr>CR_ResourceVersion := None\<rparr>) ans # after \<and>
    missing (ObjectKeyFromObject ex_endpoint) before"
proof -
  have "MCreated (ex_endpoint\<lparr>CR_ResourceVersion := None\<rparr>) (Ok (ex_endpoint\<lparr>CR_UID := Some ''t-ep'', CR_Status := None,
          CR_ResourceVersion := Some ''1''\<rparr>)) \<in>
      set (events_of (Move (ex_clusters (\<lambda>_. False)) [ex_gvk ''Endpoint''] '''' False []))" by code_simp
  then obtain before ans after where
    split: "events_of (Move (ex_clusters (\<lambda>_. False)) [ex_gvk ''Endpoint''] '''' False []) =
      before @ MCreated (ex_endpoint\<lparr>CR_ResourceVersion := None\<rparr>) ans # after"
    by (metis split_list)
  from move_checks_before_writing [OF split] have "missing (ObjectKeyFromObject (ex_endpoint\<lparr>CR_ResourceVersion := None\<rparr>)) before"
    by simp
  with split show ?thesis by (auto simp: ObjectKeyFromObject_def)
qed

text \<open>
  C27. The owner trees hold every object once: for objects with distinct UIDs the trees are built within the
  fuel, their tops are the objects without an owner among them, the children of each node are the objects
  whose first owner reference names it, and the nodes are exactly the objects whose chain of owners ends,
  without repetition.
\<close>

theorem owner_trees_hold_every_object_once:
  assumes "distinct (map GetUID crs)"
  shows "trees_of crs = Some (crsOwnerReferenceTrees crs) \<and>
    map Node_Cr (crsOwnerReferenceTrees crs) = filter (\<lambda>c. owner_uid crs c = None) crs \<and>
    list_all (follows_owners crs) (crsOwnerReferenceTrees crs) \<and>
    distinct (concat (map tree_crs (crsOwnerReferenceTrees crs))) \<and>
    set (concat (map tree_crs (crsOwnerReferenceTrees crs))) = {c \<in> set crs. \<exists>n. depth (owner_of crs) (GetUID c) n}"
proof (intro conjI owner_trees [OF assms])
  show "trees_of crs = Some (crsOwnerReferenceTrees crs)"
    using owner_trees(1) [OF assms] by (auto simp: crsOwnerReferenceTrees_def)
qed

theorem owner_trees_hold_every_object_once_witness:
  "map Node_Cr (crsOwnerReferenceTrees [ex_bmc, ex_endpoint]) = [ex_endpoint] \<and>
   distinct (concat (map tree_crs (crsOwnerReferenceTrees [ex_bmc, ex_endpoint])))"
proof -
  have "distinct (map GetUID [ex_bmc, ex_endpoint])" by code_simp
  note * = owner_trees_hold_every_object_once [OF this]
  moreover have "filter (\<lambda>c. owner_uid [ex_bmc, ex_endpoint] c = None) [ex_bmc, ex_endpoint] = [ex_endpoint]" by code_simp
  ultimately show ?thesis by simp
qed

section \<open>Limits of a move\<close>

text \<open>
  Two objects that own each other are in no tree, so they are not moved, and no error says so.
\<close>

theorem owner_cycle_is_not_moved:
  "crsOwnerReferenceTrees [ex_cr ''BMC'' ''a'' ''1'' (Some ''2''), ex_cr ''BMC'' ''b'' ''2'' (Some ''1'')] = []"
  by code_simp

text \<open>
  A second move after a complete one fails: the copy of an owned object has the new UID of its owner in its
  owner reference, which \<^verbatim>\<open>clearFields\<close> keeps, so that it counts as different.
\<close>

theorem second_move_conflicts:
  "result_of (Move (ex_clusters (\<lambda>_. False)) (map ex_gvk [''Endpoint'', ''BMC'']) '''' False
     (world_of (Move (ex_clusters (\<lambda>_. False)) (map ex_gvk [''Endpoint'', ''BMC'']) '''' False []))) =
   Err (alreadyExists ex_bmc)"
  by code_simp

end
