(* ===== verification/Console_Command.thy ===== *)
theory Console_Command
  imports Bmcutils
begin

text \<open>
  The command that opens the serial console of a server, \<^verbatim>\<open>cmd/metalctl/app/console.go\<close>. The SSH library,
  the client library and the operating system are an environment of their own, \<open>console_env\<close>; the access
  data come from \<^verbatim>\<open>GetConfigForServerName\<close>. This is the run in which the goroutines that copy the terminal's input
  and output do not get in the way; \<^verbatim>\<open>Console_Streams\<close> has them all.
\<close>

section \<open>Paths\<close>

text \<open>
  \<^verbatim>\<open>filepath.Clean\<close> and \<^verbatim>\<open>filepath.Join\<close> on a path with slashes: empty and dot elements go, a double dot takes
  the element before it with it, and at the root it goes too.
\<close>

fun path_elements :: "string \<Rightarrow> string \<Rightarrow> string list" where
  "path_elements cur [] = [cur]"
| "path_elements cur (c # cs) =
     (if c = CHR ''/'' then cur # path_elements [] cs else path_elements (cur @ [c]) cs)"

fun clean_elements :: "bool \<Rightarrow> string list \<Rightarrow> string list \<Rightarrow> string list" where
  "clean_elements rooted out [] = out"
| "clean_elements rooted out (x # xs) =
     (if x = [] \<or> x = ''.'' then clean_elements rooted out xs
      else if x = ''..'' then
        (if out \<noteq> [] \<and> last out \<noteq> ''..'' then clean_elements rooted (butlast out) xs
         else if rooted then clean_elements rooted out xs
         else clean_elements rooted (out @ [''..'']) xs)
      else clean_elements rooted (out @ [x]) xs)"

definition filepath_Clean :: "string \<Rightarrow> string" where
  "filepath_Clean path =
     (let rooted = HasPrefix path ''/'';
          out = Join (clean_elements rooted [] (path_elements [] path)) ''/'' in
      if rooted then ''/'' @ out else if out = [] then ''.'' else out)"

definition filepath_Join :: "string list \<Rightarrow> string" where
  "filepath_Join elems = (case filter (\<lambda>e. e \<noteq> []) elems of [] \<Rightarrow> [] | es \<Rightarrow> filepath_Clean (Join es ''/''))"

section \<open>The environment\<close>

datatype HostKeyCallback = InsecureIgnoreHostKey | KnownHosts string

record SshClientConfig =
  Ssh_User :: string
  Ssh_Password :: string
  Ssh_HostKeyCallback :: HostKeyCallback

text \<open>The flags of the command, which are package variables in the source.\<close>

record ConsoleFlags =
  CF_kubeconfig :: string
  CF_serialConsoleNumber :: int
  CF_skipHostKeyValidation :: bool
  CF_knownHostsFile :: string

definition default_ConsoleFlags :: ConsoleFlags where
  "default_ConsoleFlags = \<lparr>CF_kubeconfig = '''', CF_serialConsoleNumber = 1, CF_skipHostKeyValidation = False,
     CF_knownHostsFile = ''~/.ssh/known_hosts''\<rparr>"

record 'w console_env =
  c_kubeconfigVariable :: string
  c_userHomeDir :: "string res"
  c_clientConfig :: "'w \<Rightarrow> unit res \<times> 'w"
  c_newClient :: "'w \<Rightarrow> unit res \<times> 'w"
  c_knownHosts :: "string \<Rightarrow> 'w \<Rightarrow> unit res \<times> 'w"
  c_dial :: "string \<Rightarrow> SshClientConfig \<Rightarrow> 'w \<Rightarrow> nat res \<times> 'w"
  c_closeConnection :: "nat \<Rightarrow> 'w \<Rightarrow> unit res \<times> 'w"
  c_newSession :: "nat \<Rightarrow> 'w \<Rightarrow> nat res \<times> 'w"
  c_closeSession :: "nat \<Rightarrow> 'w \<Rightarrow> unit res \<times> 'w"
  c_requestPty :: "nat \<Rightarrow> string \<Rightarrow> int \<Rightarrow> int \<Rightarrow> (string \<times> int) list \<Rightarrow> 'w \<Rightarrow> unit res \<times> 'w"
  c_stdinPipe :: "nat \<Rightarrow> 'w \<Rightarrow> unit res \<times> 'w"
  c_stdoutPipe :: "nat \<Rightarrow> 'w \<Rightarrow> unit res \<times> 'w"
  c_start :: "nat \<Rightarrow> string \<Rightarrow> 'w \<Rightarrow> unit res \<times> 'w"
  c_wait :: "nat \<Rightarrow> 'w \<Rightarrow> unit res \<times> 'w"

datatype console_event =
    CKube event
  | CClient bool
  | CKnownHosts string bool
  | CDialed string SshClientConfig "nat res"
  | CClosedConnection nat
  | CSession nat "nat res"
  | CClosedSession nat
  | CTerminal nat bool
  | CStarted nat string bool
  | CWaited nat bool

type_synonym ('w, 'a) CM = "(console_event, 'w, 'a) prog"

section \<open>console.go\<close>

definition expandPath :: "'w console_env \<Rightarrow> string \<Rightarrow> string res" where
  "expandPath C path =
     (case path of
        [] \<Rightarrow> Ok path
      | c # rest \<Rightarrow>
          if c = CHR ''~'' then
            (case c_userHomeDir C of
               Ok homeDir \<Rightarrow> Ok (filepath_Join [homeDir, rest])
             | Err e \<Rightarrow> Err e | Panic p \<Rightarrow> Panic p)
          else Ok path)"

text \<open>
  \<^verbatim>\<open>os.Exit\<close> ends the program where a panic would, without its deferred calls. The path that is chosen is
  stored in a variable that nothing reads: \<^verbatim>\<open>GetConfigWithContext\<close> looks for a configuration by its own rules.
\<close>

definition createClient :: "'w console_env \<Rightarrow> ConsoleFlags \<Rightarrow> ('w, unit) CM" where
  "createClient C flags =
     (if CF_kubeconfig flags = [] \<and> c_kubeconfigVariable C = [] then panicM ''exit 1''
      else
        bindM (wrapM ''failed getting client config'' (callM (c_clientConfig C) (\<lambda>r. CClient (is_ok r)))) (\<lambda>_.
        wrapM ''failed creating controller-runtime client'' (callM (c_newClient C) (\<lambda>r. CClient (is_ok r)))))"

definition hostKeyCallback :: "'w console_env \<Rightarrow> ConsoleFlags \<Rightarrow> ('w, HostKeyCallback) CM" where
  "hostKeyCallback C flags =
     (if CF_skipHostKeyValidation flags then returnM InsecureIgnoreHostKey
      else
        bindM (wrapM ''failed to expand known_hosts file path'' (liftM (expandPath C (CF_knownHostsFile flags)))) (\<lambda>path.
        bindM (wrapM ''failed to parse known_hosts file''
                 (callM (c_knownHosts C path) (\<lambda>r. CKnownHosts path (is_ok r)))) (\<lambda>_.
          returnM (KnownHosts path))))"

text \<open>The session once it is open: a pseudo-terminal, the pipes, the command, and the wait for its end.\<close>

definition runSession :: "'w console_env \<Rightarrow> ConsoleFlags \<Rightarrow> nat \<Rightarrow> ('w, unit) CM" where
  "runSession C flags session =
     bindM (wrapM ''failed to request pseudo-terminal failed''
              (callM (c_requestPty C session ''xterm'' 80 40
                 [(''ECHO'', 0), (''TTY_OP_ISPEED'', 14400), (''TTY_OP_OSPEED'', 14400)]) (\<lambda>r. CTerminal session (is_ok r)))) (\<lambda>_.
     bindM (wrapM ''could not get stdin pipe'' (callM (c_stdinPipe C session) (\<lambda>r. CTerminal session (is_ok r)))) (\<lambda>_.
     bindM (wrapM ''could not get stdout pipe'' (callM (c_stdoutPipe C session) (\<lambda>r. CTerminal session (is_ok r)))) (\<lambda>_.
     bindM (wrapM ''failed to start SOL command''
              (callM (c_start C session (''console '' @ itoa (CF_serialConsoleNumber flags)))
                 (\<lambda>r. CStarted session (''console '' @ itoa (CF_serialConsoleNumber flags)) (is_ok r)))) (\<lambda>_.
     catchM (callM (c_wait C session) (\<lambda>r. CWaited session (is_ok r)))
       (\<lambda>_. errM (OtherError ''error during SOL session''))))))"

definition closeSession :: "'w console_env \<Rightarrow> nat \<Rightarrow> ('w, unit) CM" where
  "closeSession C session = callM (c_closeSession C session) (\<lambda>_. CClosedSession session)"

definition closeConnection :: "'w console_env \<Rightarrow> nat \<Rightarrow> ('w, unit) CM" where
  "closeConnection C conn = callM (c_closeConnection C conn) (\<lambda>_. CClosedConnection conn)"

definition withSession :: "'w console_env \<Rightarrow> nat \<Rightarrow> (nat \<Rightarrow> ('w, unit) CM) \<Rightarrow> ('w, unit) CM" where
  "withSession C conn body =
     bindM (wrapM ''failed to create SSH session'' (callM (c_newSession C conn) (\<lambda>r. CSession conn r))) (\<lambda>session.
       deferM (closeSession C session) (body session))"

definition connectConsole :: "'w console_env \<Rightarrow> ConsoleFlags \<Rightarrow> ConsoleConfig \<Rightarrow> ('w, unit) CM" where
  "connectConsole C flags consoleConfig =
     bindM (hostKeyCallback C flags) (\<lambda>callback.
       let sshConfig = \<lparr>Ssh_User = ConsoleConfig_Username consoleConfig, Ssh_Password = ConsoleConfig_Password consoleConfig,
             Ssh_HostKeyCallback = callback\<rparr>;
           bmcAddress = JoinHostPort (ConsoleConfig_BMCAddress consoleConfig) ''22'' in
       bindM (wrapM ''failed to connect to BMC'' (callM (c_dial C bmcAddress sshConfig) (\<lambda>r. CDialed bmcAddress sshConfig r)))
         (\<lambda>conn. deferM (closeConnection C conn) (withSession C conn (runSession C flags))))"

definition openConsoleStream :: "'w env \<Rightarrow> 'w console_env \<Rightarrow> ConsoleFlags \<Rightarrow> string \<Rightarrow> ('w, unit) CM" where
  "openConsoleStream E C flags serverName =
     bindM (wrapM ''failed to get console config'' (mapE CKube (GetConfigForServerName E serverName)))
       (connectConsole C flags)"

definition runConsole :: "'w env \<Rightarrow> 'w console_env \<Rightarrow> ConsoleFlags \<Rightarrow> string list \<Rightarrow> ('w, unit) CM" where
  "runConsole E C flags args =
     (case args of
        [] \<Rightarrow> errM (OtherError ''server name is required'')
      | [serverName] \<Rightarrow>
          bindM (createClient C flags) (\<lambda>_. openConsoleStream E C flags serverName)
      | _ \<Rightarrow> errM (OtherError ''too many arguments''))"

end
