(* ===== verification/Console_Properties.thy ===== *)
theory Console_Properties
  imports Console_Command Example_World
begin

text \<open>
  The properties of the console command: what it opens it closes, whatever fails in between, and it hands
  the BMC's password only to a host whose key it can check, unless it is told not to.
\<close>

section \<open>Connections and sessions\<close>

fun opens_or_closes :: "console_event \<Rightarrow> bool" where
  "opens_or_closes (CDialed _ _ r) = is_ok r"
| "opens_or_closes (CSession _ r) = is_ok r"
| "opens_or_closes (CClosedConnection _) = True"
| "opens_or_closes (CClosedSession _) = True"
| "opens_or_closes _ = False"

definition brackets :: "console_event list \<Rightarrow> console_event list" where
  "brackets es = filter opens_or_closes es"

lemma brackets_simps [simp]:
  "brackets [] = []"
  "brackets (e # es) = (if opens_or_closes e then e # brackets es else brackets es)"
  "brackets (es @ fs) = brackets es @ brackets fs"
  by (simp_all add: brackets_def)

lemma brackets_none: "(\<forall>e\<in>set es. \<not> opens_or_closes e) \<Longrightarrow> brackets es = []"
  by (simp add: brackets_def)

lemma emits_runSession [emits_intros]:
  "(\<And>e. \<not> opens_or_closes e \<Longrightarrow> (\<forall>a c r. e \<noteq> CDialed a c r) \<Longrightarrow> P e) \<Longrightarrow>
   emits P (\<lambda>_. True) (runSession C flags session)"
  unfolding runSession_def by (intro emits_intros; simp)

lemma emits_createClient [emits_intros]: "(\<And>b. P (CClient b)) \<Longrightarrow> emits P (\<lambda>_. True) (createClient C flags)"
  unfolding createClient_def by (intro emits_intros; simp)

lemma emits_hostKeyCallback:
  "(\<And>p b. P (CKnownHosts p b)) \<Longrightarrow> emits P (\<lambda>_. True) (hostKeyCallback C flags)"
  unfolding hostKeyCallback_def by (intro emits_intros; simp)

lemma emits_console_config: "(\<And>e. P (CKube e)) \<Longrightarrow> emits P (\<lambda>_. True) (mapE CKube (GetConfigForServerName E n))"
  by (intro emits_intros; simp)

lemma sat_brackets_bind:
  assumes "emits (\<lambda>e. \<not> opens_or_closes e) R m" and "\<And>a. R a \<Longrightarrow> sat (f a) (\<lambda>_ es. Q (brackets es))" and "Q []"
  shows "sat (bindM m f) (\<lambda>_ es. Q (brackets es))"
  by (intro sat_bind sat_mono [OF assms(1) [unfolded emits_def]])
    (auto split: res.split simp: brackets_none assms(3) intro!: sat_mono [OF assms(2)])

lemma sat_withSession:
  assumes body: "\<And>s. emits (\<lambda>e. \<not> opens_or_closes e) (\<lambda>_. True) (body s)"
  shows "sat (withSession C conn body) (\<lambda>_ es. brackets es = [] \<or>
           (\<exists>s. brackets es = [CSession conn (Ok s), CClosedSession s]))"
proof -
  have quiet: "sat (body s) (\<lambda>_ es. brackets es = [])" for s
    by (rule sat_mono [OF body [unfolded emits_def]]) (simp add: brackets_none)
  then show ?thesis
    unfolding withSession_def closeSession_def
    by (intro sat_bind sat_wrap sat_call_any)
      (auto split: res.split intro!: sat_defer sat_mono [OF quiet] sat_call_any)
qed

definition well_bracketed :: "console_event list \<Rightarrow> bool" where
  "well_bracketed bs \<longleftrightarrow> bs = [] \<or>
     (\<exists>addr cfg conn. bs = [CDialed addr cfg (Ok conn), CClosedConnection conn]) \<or>
     (\<exists>addr cfg conn s. bs = [CDialed addr cfg (Ok conn), CSession conn (Ok s), CClosedSession s, CClosedConnection conn])"

lemma well_bracketed_nil [simp]: "well_bracketed []"
  by (simp add: well_bracketed_def)

lemma sat_connection:
  "sat (bindM (wrapM msg (callM (c_dial C addr cfg) (\<lambda>r. CDialed addr cfg r)))
         (\<lambda>conn. deferM (closeConnection C conn) (withSession C conn (runSession C flags))))
     (\<lambda>_ es. well_bracketed (brackets es))"
proof -
  have session: "sat (withSession C conn (runSession C flags)) (\<lambda>_ es. brackets es = [] \<or>
          (\<exists>s. brackets es = [CSession conn (Ok s), CClosedSession s]))" for conn
    by (rule sat_withSession) (intro emits_intros)
  then show ?thesis
    unfolding closeConnection_def
    by (intro sat_bind sat_wrap sat_call_any)
      (auto split: res.split simp: well_bracketed_def intro!: sat_defer sat_mono [OF session] sat_call_any)
qed

lemma sat_openConsoleStream: "sat (openConsoleStream E C flags n) (\<lambda>_ es. well_bracketed (brackets es))"
  unfolding openConsoleStream_def connectConsole_def Let_def
  by (rule sat_brackets_bind [where R = "\<lambda>_. True"] emits_wrap emits_console_config emits_hostKeyCallback
      sat_connection | simp)+

text \<open>
  C30. The console command opens at most one connection and on it at most one session, and closes what it
  opened, the session before the connection, whichever step fails or panics.
\<close>

theorem console_closes_what_it_opens:
  "well_bracketed (brackets (events_of (runConsole E C flags args w)))"
proof -
  have "sat (runConsole E C flags args) (\<lambda>_ es. well_bracketed (brackets es))"
    unfolding runConsole_def
    by (cases args rule: remdups_adj.cases)
      (auto intro!: sat_brackets_bind [where R = "\<lambda>_. True"] sat_openConsoleStream emits_intros )
  then show ?thesis by (simp add: sat_def)
qed

section \<open>Host keys\<close>

text \<open>\<open>justified P before es\<close>: each event of \<open>es\<close> is one that \<open>P\<close> allows after those before it.\<close>

fun justified :: "('e list \<Rightarrow> 'e \<Rightarrow> bool) \<Rightarrow> 'e list \<Rightarrow> 'e list \<Rightarrow> bool" where
  "justified P before [] = True"
| "justified P before (e # es) = (P before e \<and> justified P (before @ [e]) es)"

lemma justified_append: "justified P before (xs @ ys) \<longleftrightarrow> justified P before xs \<and> justified P (before @ xs) ys"
  by (induction xs arbitrary: before) auto

lemma justified_always: "(\<And>b e. e \<in> set es \<Longrightarrow> P b e) \<Longrightarrow> justified P before es"
  by (induction es arbitrary: before) auto

lemma justifiedD: "justified P [] (xs @ e # ys) \<Longrightarrow> P xs e"
  by (simp add: justified_append)

lemma justified_emits:
  "emits Q R m \<Longrightarrow> (\<And>b e. Q e \<Longrightarrow> P b e) \<Longrightarrow> sat m (\<lambda>_ es. justified P before es)"
  unfolding emits_def by (erule sat_mono) (simp add: justified_always)

text \<open>
  A dial that is allowed: it goes to the BMC's SSH port with the BMC's credentials, its callback is the one
  the flags ask for, and a file of known hosts was loaded before.
\<close>

definition callback_is_checked :: "'w console_env \<Rightarrow> ConsoleFlags \<Rightarrow> console_event list \<Rightarrow> HostKeyCallback \<Rightarrow> bool" where
  "callback_is_checked C flags before cb =
     (case cb of
        InsecureIgnoreHostKey \<Rightarrow> CF_skipHostKeyValidation flags
      | KnownHosts path \<Rightarrow> expandPath C (CF_knownHostsFile flags) = Ok path \<and> CKnownHosts path True \<in> set before)"

fun dial_is_checked ::
  "'w console_env \<Rightarrow> ConsoleFlags \<Rightarrow> ConsoleConfig \<Rightarrow> console_event list \<Rightarrow> console_event \<Rightarrow> bool" where
  "dial_is_checked C flags config before (CDialed addr cfg r) \<longleftrightarrow>
     addr = JoinHostPort (ConsoleConfig_BMCAddress config) ''22'' \<and>
     Ssh_User cfg = ConsoleConfig_Username config \<and> Ssh_Password cfg = ConsoleConfig_Password config \<and>
     callback_is_checked C flags before (Ssh_HostKeyCallback cfg)"
| "dial_is_checked C flags config before _ = True"

lemma dial_is_checked_other: "(\<forall>a c r. e \<noteq> CDialed a c r) \<Longrightarrow> dial_is_checked C flags config before e"
  by (cases e) auto

lemma sat_hostKeyCallback:
  "sat (hostKeyCallback C flags) (\<lambda>r es. (\<forall>e\<in>set es. \<exists>p b. e = CKnownHosts p b) \<and>
     (\<forall>cb. r = Ok cb \<longrightarrow> callback_is_checked C flags es cb))"
  unfolding hostKeyCallback_def callback_is_checked_def
  by (cases "CF_skipHostKeyValidation flags"; simp; intro sat_bind sat_wrap; simp split: res.split;
      auto intro!: sat_call_any sat_bind sat_wrap split: res.split simp: is_ok_iff)

lemma justified_dial:
  assumes "dial_is_checked C flags config before (CDialed addr cfg (Err NotFoundError))"
  shows "sat (bindM (wrapM msg (callM (c_dial C addr cfg) (\<lambda>r. CDialed addr cfg r)))
           (\<lambda>conn. deferM (closeConnection C conn) (withSession C conn (runSession C flags))))
           (\<lambda>_ es. justified (dial_is_checked C flags config) before es)"
proof -
  have "emits (\<lambda>e. \<forall>a c r. e \<noteq> CDialed a c r) (\<lambda>_. True)
          (deferM (closeConnection C conn) (withSession C conn (runSession C flags)))" for conn
    unfolding closeConnection_def withSession_def closeSession_def by (intro emits_intros; simp)
  note rest = justified_emits [OF this dial_is_checked_other]
  have "dial_is_checked C flags config before (CDialed addr cfg r)" for r
    using assms by simp
  then show ?thesis
    by (intro sat_bind sat_wrap sat_call_any) (auto split: res.split simp del: dial_is_checked.simps intro: rest)
qed

lemma justified_connectConsole:
  "sat (connectConsole C flags config) (\<lambda>_ es. justified (dial_is_checked C flags config) before es)"
  unfolding connectConsole_def Let_def
proof (rule sat_bind, rule sat_mono [OF sat_hostKeyCallback])
  fix r es
  assume "(\<forall>e\<in>set es. \<exists>p b. e = CKnownHosts p b) \<and> (\<forall>cb. r = Ok cb \<longrightarrow> callback_is_checked C flags es cb)"
  then have "justified (dial_is_checked C flags config) b es"
    and "r = Ok cb \<Longrightarrow> callback_is_checked C flags (before @ es) cb" for b cb
    by (auto intro!: justified_always simp: callback_is_checked_def split: HostKeyCallback.splits)
  then show "case r of
      Ok cb \<Rightarrow> sat (bindM (wrapM ''failed to connect to BMC''
            (callM (c_dial C (JoinHostPort (ConsoleConfig_BMCAddress config) ''22'')
               \<lparr>Ssh_User = ConsoleConfig_Username config, Ssh_Password = ConsoleConfig_Password config, Ssh_HostKeyCallback = cb\<rparr>)
             (\<lambda>r. CDialed (JoinHostPort (ConsoleConfig_BMCAddress config) ''22'')
               \<lparr>Ssh_User = ConsoleConfig_Username config, Ssh_Password = ConsoleConfig_Password config, Ssh_HostKeyCallback = cb\<rparr> r)))
            (\<lambda>conn. deferM (closeConnection C conn) (withSession C conn (runSession C flags))))
          (\<lambda>_ es'. justified (dial_is_checked C flags config) before (es @ es'))
    | Err e \<Rightarrow> justified (dial_is_checked C flags config) before es
    | Panic s \<Rightarrow> justified (dial_is_checked C flags config) before es"
    by (auto split: res.split simp: justified_append intro!: justified_dial)
qed


text \<open>A terminal whose SSH library does everything it is asked to, on a machine with a home directory.\<close>

definition ex_console :: "world console_env" where
  "ex_console = \<lparr>c_kubeconfigVariable = ''/etc/kubeconfig'', c_userHomeDir = Ok ''/home/op/'',
     c_clientConfig = \<lambda>w. (Ok (), w), c_newClient = \<lambda>w. (Ok (), w), c_knownHosts = \<lambda>_ w. (Ok (), w),
     c_dial = \<lambda>_ _ w. (Ok 3, w), c_closeConnection = \<lambda>_ w. (Ok (), w), c_newSession = \<lambda>_ w. (Ok 5, w),
     c_closeSession = \<lambda>_ w. (Ok (), w), c_requestPty = \<lambda>_ _ _ _ _ w. (Ok (), w), c_stdinPipe = \<lambda>_ w. (Ok (), w),
     c_stdoutPipe = \<lambda>_ w. (Ok (), w), c_start = \<lambda>_ _ w. (Ok (), w), c_wait = \<lambda>_ w. (Ok (), w)\<rparr>"

lemma ex_known_hosts: "expandPath ex_console (CF_knownHostsFile default_ConsoleFlags) = Ok ''/home/op/.ssh/known_hosts''"
  by code_simp

lemma ex_console_events:
  "\<exists>before cfg r after. events_of (openConsoleStream ex_env ex_console default_ConsoleFlags ''srv''
       (ex_world (ex_server ServerStateAvailable PowerOn ServerOnPowerState))) =
     before @ CDialed ''10.0.0.1:22'' cfg r # after"
proof -
  have "(case events_of (openConsoleStream ex_env ex_console default_ConsoleFlags ''srv''
       (ex_world (ex_server ServerStateAvailable PowerOn ServerOnPowerState))) of
      _ # _ # _ # CDialed addr _ _ # _ \<Rightarrow> addr = ''10.0.0.1:22'' | _ \<Rightarrow> False)"
    by code_simp
  then obtain e1 e2 e3 cfg r after where "events_of (openConsoleStream ex_env ex_console default_ConsoleFlags ''srv''
       (ex_world (ex_server ServerStateAvailable PowerOn ServerOnPowerState))) =
     [e1, e2, e3] @ CDialed ''10.0.0.1:22'' cfg r # after"
    by (auto split: list.splits console_event.splits)
  then show ?thesis by blast
qed


end
