(* ===== verification/Console_Streams.thy ===== *)
theory Console_Streams
  imports Console_Command
begin

text \<open>
  The goroutines of \<^verbatim>\<open>openConsoleStream\<close> in \<^verbatim>\<open>cmd/metalctl/app/console.go\<close>. Two of them copy the output of the session to
  the terminal and the terminal's input to the session; both assign the variable \<^verbatim>\<open>err\<close> of the function that
  started them, while that function assigns and tests it itself. The steps of the three are interleaved
  here as a relation on states; what the SSH library and \<^verbatim>\<open>io.Copy\<close> return are parameters.
\<close>

section \<open>States and steps\<close>

datatype main_point = Starting | Checking | Failing | Waiting | Returned "error option"
datatype copy_point = NotStarted | Copying | Logging | Ended

record streams =
  st_main :: main_point
  st_output :: copy_point
  st_input :: copy_point
  st_err :: "error option"
  st_log :: "(string \<times> error) list"

record stream_results =
  sr_start :: "error option"
  sr_wait :: "error option"
  sr_output :: "error option"
  sr_input :: "error option"

text \<open>The goroutine for the output is started right before the command.\<close>

definition streams_init :: streams where
  "streams_init = \<lparr>st_main = Starting, st_output = Copying, st_input = NotStarted, st_err = None, st_log = []\<rparr>"

text \<open>\<^verbatim>\<open>fmt.Errorf("failed to start SOL command: %w", err)\<close> with the value that \<^verbatim>\<open>err\<close> has by then.\<close>

definition start_error :: "error option \<Rightarrow> error" where
  "start_error err = (case err of
     Some e \<Rightarrow> WrapError ''failed to start SOL command'' e
   | None \<Rightarrow> OtherError ''failed to start SOL command: %!w(<nil>)'')"

definition wait_error :: "error option \<Rightarrow> error option" where
  "wait_error err = map_option (\<lambda>_. OtherError ''error during SOL session'') err"

definition log_error :: "string \<Rightarrow> error option \<Rightarrow> (string \<times> error) list" where
  "log_error msg err = (case err of Some e \<Rightarrow> [(msg, e)] | None \<Rightarrow> [])"

inductive stream_step :: "stream_results \<Rightarrow> streams \<Rightarrow> streams \<Rightarrow> bool" for R where
  output_ends: "st_output s = Copying \<Longrightarrow> stream_step R s (s\<lparr>st_err := sr_output R, st_output := Logging\<rparr>)"
| output_logs: "st_output s = Logging \<Longrightarrow>
    stream_step R s (s\<lparr>st_log := st_log s @ log_error ''failed to copy stdout'' (st_err s), st_output := Ended\<rparr>)"
| start: "st_main s = Starting \<Longrightarrow> stream_step R s (s\<lparr>st_err := sr_start R, st_main := Checking\<rparr>)"
| start_failed: "st_main s = Checking \<Longrightarrow> st_err s \<noteq> None \<Longrightarrow> stream_step R s (s\<lparr>st_main := Failing\<rparr>)"
| fail: "st_main s = Failing \<Longrightarrow> stream_step R s (s\<lparr>st_main := Returned (Some (start_error (st_err s)))\<rparr>)"
| started: "st_main s = Checking \<Longrightarrow> st_err s = None \<Longrightarrow>
    stream_step R s (s\<lparr>st_main := Waiting, st_input := Copying\<rparr>)"
| input_ends: "st_input s = Copying \<Longrightarrow> stream_step R s (s\<lparr>st_err := sr_input R, st_input := Logging\<rparr>)"
| input_logs: "st_input s = Logging \<Longrightarrow>
    stream_step R s (s\<lparr>st_log := st_log s @ log_error ''failed to copy stdin'' (st_err s), st_input := Ended\<rparr>)"
| wait: "st_main s = Waiting \<Longrightarrow> stream_step R s (s\<lparr>st_main := Returned (wait_error (sr_wait R))\<rparr>)"

inductive_cases stream_stepE: "stream_step R s s'"

section \<open>What the function can return\<close>

text \<open>
  The error of the start, the error of the output's copy in its place, or what the wait gives; a start
  that failed is passed over when the output's copy ended without an error before the test.
\<close>

definition stream_outcome :: "stream_results \<Rightarrow> error option \<Rightarrow> bool" where
  "stream_outcome R r \<longleftrightarrow>
     sr_start R \<noteq> None \<and> r = Some (start_error (sr_start R)) \<or>
     (sr_start R \<noteq> None \<or> sr_output R \<noteq> None) \<and> r = Some (start_error (sr_output R)) \<or>
     (sr_start R = None \<or> sr_output R = None) \<and> r = wait_error (sr_wait R)"

definition err_from :: "stream_results \<Rightarrow> streams \<Rightarrow> bool" where
  "err_from R s \<longleftrightarrow> st_err s = sr_start R \<or> st_output s \<noteq> Copying \<and> st_err s = sr_output R"

definition streams_inv :: "stream_results \<Rightarrow> streams \<Rightarrow> bool" where
  "streams_inv R s \<longleftrightarrow> (case st_main s of
     Starting \<Rightarrow> st_input s = NotStarted
   | Checking \<Rightarrow> st_input s = NotStarted \<and> err_from R s
   | Failing \<Rightarrow> st_input s = NotStarted \<and> (sr_start R \<noteq> None \<or> sr_output R \<noteq> None) \<and>
       (sr_start R \<noteq> None \<and> st_err s = sr_start R \<or> st_output s \<noteq> Copying \<and> st_err s = sr_output R)
   | Waiting \<Rightarrow> sr_start R = None \<or> sr_output R = None
   | Returned r \<Rightarrow> stream_outcome R r)"

lemma streams_inv_step: "stream_step R s s' \<Longrightarrow> streams_inv R s \<Longrightarrow> streams_inv R s'"
  by (erule stream_stepE)
    (auto simp: streams_inv_def err_from_def stream_outcome_def split: main_point.splits option.splits dest: sym)

lemma streams_inv_init: "streams_inv R streams_init"
  by (simp add: streams_inv_def streams_init_def)

lemma streams_inv_reachable: "(stream_step R)\<^sup>*\<^sup>* streams_init s \<Longrightarrow> streams_inv R s"
  by (induction rule: rtranclp_induct) (auto intro: streams_inv_init streams_inv_step)

text \<open>Each of them is returned by some interleaving: a schedule says whose turn it is.\<close>

datatype turn = Main | Output | Input

fun take_turn :: "stream_results \<Rightarrow> turn \<Rightarrow> streams \<Rightarrow> streams option" where
  "take_turn R Main s = (case st_main s of
     Starting \<Rightarrow> Some (s\<lparr>st_err := sr_start R, st_main := Checking\<rparr>)
   | Checking \<Rightarrow> Some (if st_err s \<noteq> None then s\<lparr>st_main := Failing\<rparr> else s\<lparr>st_main := Waiting, st_input := Copying\<rparr>)
   | Failing \<Rightarrow> Some (s\<lparr>st_main := Returned (Some (start_error (st_err s)))\<rparr>)
   | Waiting \<Rightarrow> Some (s\<lparr>st_main := Returned (wait_error (sr_wait R))\<rparr>)
   | Returned r \<Rightarrow> None)"
| "take_turn R Output s = (case st_output s of
     Copying \<Rightarrow> Some (s\<lparr>st_err := sr_output R, st_output := Logging\<rparr>)
   | Logging \<Rightarrow> Some (s\<lparr>st_log := st_log s @ log_error ''failed to copy stdout'' (st_err s), st_output := Ended\<rparr>)
   | _ \<Rightarrow> None)"
| "take_turn R Input s = (case st_input s of
     Copying \<Rightarrow> Some (s\<lparr>st_err := sr_input R, st_input := Logging\<rparr>)
   | Logging \<Rightarrow> Some (s\<lparr>st_log := st_log s @ log_error ''failed to copy stdin'' (st_err s), st_input := Ended\<rparr>)
   | _ \<Rightarrow> None)"

fun schedule :: "stream_results \<Rightarrow> turn list \<Rightarrow> streams \<Rightarrow> streams option" where
  "schedule R [] s = Some s"
| "schedule R (t # ts) s = Option.bind (take_turn R t s) (schedule R ts)"

lemma take_turn_step: "take_turn R t s = Some s' \<Longrightarrow> stream_step R s s'"
  by (cases t) (auto intro: stream_step.intros split: main_point.splits copy_point.splits if_splits)

lemma schedule_steps: "schedule R ts s = Some s' \<Longrightarrow> (stream_step R)\<^sup>*\<^sup>* s s'"
  by (induction ts arbitrary: s)
    (auto simp: bind_eq_Some_conv intro: converse_rtranclp_into_rtranclp dest!: take_turn_step)

definition schedule_for :: "stream_results \<Rightarrow> error option \<Rightarrow> turn list" where
  "schedule_for R r =
     (if r = (if sr_start R \<noteq> None then Some (start_error (sr_start R)) else wait_error (sr_wait R)) then [Main, Main, Main]
      else if sr_start R \<noteq> None \<and> r = Some (start_error (sr_output R)) then [Main, Main, Output, Main]
      else [Main, Output, Main, Main])"

lemma schedule_for_result:
  assumes "stream_outcome R r"
  shows "map_option st_main (schedule R (schedule_for R r) streams_init) = Some (Returned r)"
  using assms by (cases "sr_start R"; cases "sr_output R") (auto simp: stream_outcome_def schedule_for_def streams_init_def)

section \<open>Properties\<close>

text \<open>
  C32. What the console command can return once the session is prepared, over all interleavings with its goroutines:
  exactly the error of the start, an error of the output's copy in its place, or what the wait for the session gives. A
  start that failed is taken for a success when the output's copy ends first without an error; the input's copy never
  changes the result.\<close>

theorem console_results_of_all_interleavings:
  "(\<exists>s. (stream_step R)\<^sup>*\<^sup>* streams_init s \<and> st_main s = Returned r) \<longleftrightarrow> stream_outcome R r"
proof
  assume "\<exists>s. (stream_step R)\<^sup>*\<^sup>* streams_init s \<and> st_main s = Returned r"
  then show "stream_outcome R r" by (auto dest!: streams_inv_reachable simp: streams_inv_def)
next
  assume "stream_outcome R r"
  then show "\<exists>s. (stream_step R)\<^sup>*\<^sup>* streams_init s \<and> st_main s = Returned r"
    by (auto dest!: schedule_for_result schedule_steps)
qed

end
