(* ===== verification/Metalctl_Command.thy ===== *)
theory Metalctl_Command
  imports Move Console_Streams
begin

text \<open>
  The command \<^verbatim>\<open>metalctl\<close>: \<^verbatim>\<open>cmd/metalctl/main.go\<close>, \<^verbatim>\<open>app.go\<close> and the construction of the commands in \<^verbatim>\<open>move.go\<close> and
  \<^verbatim>\<open>console.go\<close> of \<^verbatim>\<open>cmd/metalctl/app\<close>. The flags are bound to package variables, which are the state here; binding a flag
  stores its default. How cobra reads a command line for a tree of commands is a parameter.
\<close>

section \<open>Package variables and flags\<close>

datatype flag_val = StringVal string | BoolVal bool | IntVal int

datatype variable = Var_sourceKubeconfig | Var_targetKubeconfig | Var_namespace | Var_dryRun | Var_verbose
  | Var_kubeconfig | Var_serialConsoleNumber | Var_skipHostKeyValidation | Var_knownHostsFile

record app_vars =
  app_sourceKubeconfig :: string
  app_targetKubeconfig :: string
  app_namespace :: string
  app_dryRun :: bool
  app_verbose :: bool
  app_console :: ConsoleFlags
  app_debugLog :: bool

definition zero_vars :: app_vars where
  "zero_vars = \<lparr>app_sourceKubeconfig = '''', app_targetKubeconfig = '''', app_namespace = '''', app_dryRun = False,
     app_verbose = False,
     app_console = \<lparr>CF_kubeconfig = '''', CF_serialConsoleNumber = 0, CF_skipHostKeyValidation = False, CF_knownHostsFile = ''''\<rparr>,
     app_debugLog = False\<rparr>"

fun set_var :: "variable \<Rightarrow> flag_val \<Rightarrow> app_vars \<Rightarrow> app_vars" where
  "set_var Var_sourceKubeconfig (StringVal s) v = v\<lparr>app_sourceKubeconfig := s\<rparr>"
| "set_var Var_targetKubeconfig (StringVal s) v = v\<lparr>app_targetKubeconfig := s\<rparr>"
| "set_var Var_namespace (StringVal s) v = v\<lparr>app_namespace := s\<rparr>"
| "set_var Var_dryRun (BoolVal b) v = v\<lparr>app_dryRun := b\<rparr>"
| "set_var Var_verbose (BoolVal b) v = v\<lparr>app_verbose := b\<rparr>"
| "set_var Var_kubeconfig (StringVal s) v = v\<lparr>app_console := (app_console v)\<lparr>CF_kubeconfig := s\<rparr>\<rparr>"
| "set_var Var_serialConsoleNumber (IntVal n) v = v\<lparr>app_console := (app_console v)\<lparr>CF_serialConsoleNumber := n\<rparr>\<rparr>"
| "set_var Var_skipHostKeyValidation (BoolVal b) v = v\<lparr>app_console := (app_console v)\<lparr>CF_skipHostKeyValidation := b\<rparr>\<rparr>"
| "set_var Var_knownHostsFile (StringVal s) v = v\<lparr>app_console := (app_console v)\<lparr>CF_knownHostsFile := s\<rparr>\<rparr>"
| "set_var _ _ v = v"

record Flag =
  Flag_Name :: string
  Flag_Variable :: variable
  Flag_Default :: flag_val
  Flag_Usage :: string
  Flag_Required :: bool

section \<open>Commands\<close>

datatype run_function = Run_move | Run_console

datatype Command =
  Command (Command_Use: string) (Command_Short: string) (Command_NoArgs: bool) (Command_RunE: "run_function option")
    (Command_Flags: "Flag list") (Command_Commands: "Command list")

text \<open>\<^verbatim>\<open>Flags().StringVar\<close> and its like: the flag is declared and its variable set to the default.\<close>

fun flagVar :: "variable \<Rightarrow> string \<Rightarrow> flag_val \<Rightarrow> string \<Rightarrow> Command \<times> app_vars \<Rightarrow> Command \<times> app_vars" where
  "flagVar var name dflt usage (Command u s na run fs cs, v) =
     (Command u s na run (fs @ [\<lparr>Flag_Name = name, Flag_Variable = var, Flag_Default = dflt, Flag_Usage = usage,
        Flag_Required = False\<rparr>]) cs, set_var var dflt v)"

fun MarkFlagRequired :: "string \<Rightarrow> Command \<Rightarrow> Command" where
  "MarkFlagRequired name (Command u s na run fs cs) =
     Command u s na run (map (\<lambda>f. if Flag_Name f = name then f\<lparr>Flag_Required := True\<rparr> else f) fs) cs"

fun AddCommand :: "Command \<Rightarrow> Command \<Rightarrow> Command" where
  "AddCommand sub (Command u s na run fs cs) = Command u s na run fs (cs @ [sub])"

definition NewMoveCommand :: "app_vars \<Rightarrow> Command \<times> app_vars" where
  "NewMoveCommand v =
     (let move = Command ''move'' ''Move metal-operator CRs from one cluster to another'' False (Some Run_move) [] [];
          (move, v) = flagVar Var_sourceKubeconfig ''source-kubeconfig'' (StringVal '''')
            ''Kubeconfig pointing to the source cluster'' (move, v);
          (move, v) = flagVar Var_targetKubeconfig ''target-kubeconfig'' (StringVal '''')
            ''Kubeconfig pointing to the target cluster'' (move, v);
          (move, v) = flagVar Var_namespace ''namespace'' (StringVal '''')
            ''namespace to filter CRs to migrate. Defaults to all namespaces if not specified'' (move, v);
          (move, v) = flagVar Var_dryRun ''dry-run'' (BoolVal False)
            ''show what would be moved without executing the migration'' (move, v);
          (move, v) = flagVar Var_verbose ''verbose'' (BoolVal False)
            ''enable verbose logging for detailed output during migration'' (move, v);
          move = MarkFlagRequired ''source-kubeconfig'' move;
          move = MarkFlagRequired ''target-kubeconfig'' move;
          v = (if app_verbose v then v\<lparr>app_debugLog := True\<rparr> else v)
      in (move, v))"

definition NewConsoleCommand :: "app_vars \<Rightarrow> Command \<times> app_vars" where
  "NewConsoleCommand v =
     (let consoleCmd = Command ''console'' ''Access the serial console of a Server'' False (Some Run_console) [] [];
          (consoleCmd, v) = flagVar Var_kubeconfig ''kubeconfig'' (StringVal '''') ''Path to a kubeconfig.'' (consoleCmd, v);
          (consoleCmd, v) = flagVar Var_serialConsoleNumber ''serial-console-number'' (IntVal 1)
            ''Serial console number.'' (consoleCmd, v);
          (consoleCmd, v) = flagVar Var_skipHostKeyValidation ''skip-host-key-validation'' (BoolVal False)
            ''Skip host key validation.'' (consoleCmd, v);
          (consoleCmd, v) = flagVar Var_knownHostsFile ''known-hosts-file'' (StringVal ''~/.ssh/known_hosts'')
            ''Path to known_hosts file.'' (consoleCmd, v)
      in (consoleCmd, v))"

definition NewCommand :: "app_vars \<Rightarrow> Command \<times> app_vars" where
  "NewCommand v =
     (let root = Command ''metalctl'' ''CLI client for metal-operator'' True None [] [];
          (move, v) = NewMoveCommand v; root = AddCommand move root;
          (consoleCmd, v) = NewConsoleCommand v; root = AddCommand consoleCmd root
      in (root, v))"

section \<open>Execution\<close>

text \<open>
  What cobra makes of the arguments: an error, a request for help (\<open>None\<close>), or the path from the root to the command
  named, the flags that are set, in order, and the arguments left.
\<close>

type_synonym cobra = "Command \<Rightarrow> string list \<Rightarrow> (string list \<times> (string \<times> flag_val) list \<times> string list) option res"

fun find_command :: "Command \<Rightarrow> string list \<Rightarrow> Command option" where
  "find_command cmd [] = Some cmd"
| "find_command cmd (n # ns) =
     (case List.find (\<lambda>c. Command_Use c = n) (Command_Commands cmd) of None \<Rightarrow> None | Some c \<Rightarrow> find_command c ns)"

fun same_type :: "flag_val \<Rightarrow> flag_val \<Rightarrow> bool" where
  "same_type (StringVal _) (StringVal _) = True"
| "same_type (BoolVal _) (BoolVal _) = True"
| "same_type (IntVal _) (IntVal _) = True"
| "same_type _ _ = False"

text \<open>As documented: the path leads to a command that runs, the flags set are flags of it with a value of
  their type, and those it requires are set.\<close>

definition cobra_accepts :: "Command \<Rightarrow> string list \<Rightarrow> (string \<times> flag_val) list \<Rightarrow> bool" where
  "cobra_accepts root path sets = (case find_command root path of
     None \<Rightarrow> False
   | Some cmd \<Rightarrow>
       Command_RunE cmd \<noteq> None \<and>
       list_all (\<lambda>(n, val). list_ex (\<lambda>f. Flag_Name f = n \<and> same_type val (Flag_Default f)) (Command_Flags cmd)) sets \<and>
       list_all (\<lambda>f. Flag_Required f \<longrightarrow> Flag_Name f \<in> fst ` set sets) (Command_Flags cmd))"

definition cobra_follows :: "cobra \<Rightarrow> bool" where
  "cobra_follows X \<longleftrightarrow>
     (\<forall>root args path sets rest. X root args = Ok (Some (path, sets, rest)) \<longrightarrow> cobra_accepts root path sets)"

definition set_flag :: "Command \<Rightarrow> app_vars \<Rightarrow> string \<times> flag_val \<Rightarrow> app_vars" where
  "set_flag cmd v nv = (case List.find (\<lambda>f. Flag_Name f = fst nv) (Command_Flags cmd) of
     None \<Rightarrow> v | Some f \<Rightarrow> set_var (Flag_Variable f) (snd nv) v)"

definition runCommand ::
    "'w env \<Rightarrow> 'w move_env \<Rightarrow> 'w console_env \<Rightarrow> run_function \<Rightarrow> app_vars \<Rightarrow> string list \<Rightarrow>
     (move_event + console_event, 'w, unit) prog" where
  "runCommand E M C run v args = (case run of
     Run_move \<Rightarrow> mapE Inl (runMove M (app_sourceKubeconfig v) (app_targetKubeconfig v) (app_namespace v) (app_dryRun v))
   | Run_console \<Rightarrow> mapE Inr (runConsole E C (app_console v) args))"

definition ExecuteContext ::
    "'w env \<Rightarrow> 'w move_env \<Rightarrow> 'w console_env \<Rightarrow> cobra \<Rightarrow> Command \<times> app_vars \<Rightarrow> string list \<Rightarrow>
     (move_event + console_event, 'w, unit) prog" where
  "ExecuteContext E M C X rv args =
     bindM (liftM (X (fst rv) args)) (\<lambda>parsed. case parsed of
       None \<Rightarrow> returnM ()
     | Some (path, sets, rest) \<Rightarrow>
         (case find_command (fst rv) path of
            None \<Rightarrow> returnM ()
          | Some cmd \<Rightarrow>
              (case Command_RunE cmd of
                 None \<Rightarrow> returnM ()
               | Some run \<Rightarrow> runCommand E M C run (foldl (set_flag cmd) (snd rv) sets) rest)))"

text \<open>The exit code.\<close>

definition metalctl_main ::
    "'w env \<Rightarrow> 'w move_env \<Rightarrow> 'w console_env \<Rightarrow> cobra \<Rightarrow> string list \<Rightarrow> (move_event + console_event, 'w, nat) prog" where
  "metalctl_main E M C X args =
     catchM (bindM (ExecuteContext E M C X (NewCommand zero_vars) args) (\<lambda>_. returnM 0)) (\<lambda>_. returnM 1)"

end
