(* ===== verification/Metalctl_Properties.thy ===== *)
theory Metalctl_Properties
  imports Metalctl_Command
begin

text \<open>
  What a command line of \<^verbatim>\<open>metalctl\<close> makes it do: the function of the command named runs with the values of its flags, the
  last one given for each or its default.
\<close>

section \<open>The values of the flags\<close>

definition string_flag :: "(string \<times> flag_val) list \<Rightarrow> string \<Rightarrow> string \<Rightarrow> string" where
  "string_flag sets name dflt = (case map_of (rev sets) name of Some (StringVal s) \<Rightarrow> s | _ \<Rightarrow> dflt)"

definition bool_flag :: "(string \<times> flag_val) list \<Rightarrow> string \<Rightarrow> bool \<Rightarrow> bool" where
  "bool_flag sets name dflt = (case map_of (rev sets) name of Some (BoolVal b) \<Rightarrow> b | _ \<Rightarrow> dflt)"

definition int_flag :: "(string \<times> flag_val) list \<Rightarrow> string \<Rightarrow> int \<Rightarrow> int" where
  "int_flag sets name dflt = (case map_of (rev sets) name of Some (IntVal n) \<Rightarrow> n | _ \<Rightarrow> dflt)"

lemmas flag_defs = string_flag_def bool_flag_def int_flag_def

definition typed_flags :: "Command \<Rightarrow> (string \<times> flag_val) list \<Rightarrow> bool" where
  "typed_flags cmd sets \<longleftrightarrow>
     list_all (\<lambda>(n, val). list_ex (\<lambda>f. Flag_Name f = n \<and> same_type val (Flag_Default f)) (Command_Flags cmd)) sets"

lemma same_type_simps [simp]:
  "same_type v (StringVal s) \<longleftrightarrow> (\<exists>t. v = StringVal t)"
  "same_type v (BoolVal b) \<longleftrightarrow> (\<exists>t. v = BoolVal t)"
  "same_type v (IntVal n) \<longleftrightarrow> (\<exists>t. v = IntVal t)"
  by (cases v; simp)+

lemma NewMoveCommand_keeps_log_level: "app_debugLog (snd (NewMoveCommand v)) = app_debugLog v"
  by (simp add: NewMoveCommand_def Let_def)

text \<open>The flags of the two commands: which there are, and the variable each sets.\<close>

lemma move_flag_list:
  "map (\<lambda>f. (Flag_Name f, Flag_Variable f, Flag_Default f, Flag_Required f)) (Command_Flags (fst (NewMoveCommand v))) =
     [(''source-kubeconfig'', Var_sourceKubeconfig, StringVal '''', True), (''target-kubeconfig'', Var_targetKubeconfig, StringVal '''', True),
      (''namespace'', Var_namespace, StringVal '''', False), (''dry-run'', Var_dryRun, BoolVal False, False),
      (''verbose'', Var_verbose, BoolVal False, False)]"
  by (simp add: NewMoveCommand_def Let_def)

lemma console_flag_list:
  "map (\<lambda>f. (Flag_Name f, Flag_Variable f, Flag_Default f, Flag_Required f)) (Command_Flags (fst (NewConsoleCommand v))) =
     [(''kubeconfig'', Var_kubeconfig, StringVal '''', False), (''serial-console-number'', Var_serialConsoleNumber, IntVal 1, False),
      (''skip-host-key-validation'', Var_skipHostKeyValidation, BoolVal False, False),
      (''known-hosts-file'', Var_knownHostsFile, StringVal ''~/.ssh/known_hosts'', False)]"
  by (simp add: NewConsoleCommand_def Let_def)

text \<open>A command reads its flags through this list.\<close>

abbreviation flag_list :: "Command \<Rightarrow> (string \<times> variable \<times> flag_val \<times> bool) list" where
  "flag_list cmd \<equiv> map (\<lambda>f. (Flag_Name f, Flag_Variable f, Flag_Default f, Flag_Required f)) (Command_Flags cmd)"

lemma set_flag_list:
  "set_flag cmd v nv = (case map_of (flag_list cmd) (fst nv) of None \<Rightarrow> v | Some (var, _) \<Rightarrow> set_var var (snd nv) v)"
proof -
  have "map_option Flag_Variable (List.find (\<lambda>f. Flag_Name f = n) fs) =
      map_option fst (map_of (map (\<lambda>f. (Flag_Name f, Flag_Variable f, Flag_Default f, Flag_Required f)) fs) n)" for n fs
    by (induction fs) auto
  from this [of "fst nv" "Command_Flags cmd"] show ?thesis
    by (auto simp: set_flag_def split: option.splits)
qed

lemma typed_flags_list:
  "typed_flags cmd sets \<longleftrightarrow> list_all (\<lambda>(n, val). list_ex (\<lambda>(m, _, d, _). n = m \<and> same_type val d) (flag_list cmd)) sets"
  by (simp add: typed_flags_def list_ex_iff list.pred_map case_prod_beta eq_commute)

lemma move_flags:
  "typed_flags (fst (NewMoveCommand v0)) sets \<Longrightarrow>
     foldl (set_flag (fst (NewMoveCommand v0))) v sets = v\<lparr>
       app_sourceKubeconfig := string_flag sets ''source-kubeconfig'' (app_sourceKubeconfig v),
       app_targetKubeconfig := string_flag sets ''target-kubeconfig'' (app_targetKubeconfig v),
       app_namespace := string_flag sets ''namespace'' (app_namespace v),
       app_dryRun := bool_flag sets ''dry-run'' (app_dryRun v),
       app_verbose := bool_flag sets ''verbose'' (app_verbose v)\<rparr>"
proof (induction sets rule: rev_induct)
  case Nil
  then show ?case by (simp add: flag_defs)
next
  case (snoc nv sets)
  then have IH: "foldl (set_flag (fst (NewMoveCommand v0))) v sets = v\<lparr>
       app_sourceKubeconfig := string_flag sets ''source-kubeconfig'' (app_sourceKubeconfig v),
       app_targetKubeconfig := string_flag sets ''target-kubeconfig'' (app_targetKubeconfig v),
       app_namespace := string_flag sets ''namespace'' (app_namespace v),
       app_dryRun := bool_flag sets ''dry-run'' (app_dryRun v),
       app_verbose := bool_flag sets ''verbose'' (app_verbose v)\<rparr>"
    by (simp add: typed_flags_def)
  obtain n val where nv: "nv = (n, val)" by (cases nv)
  from snoc.prems have "n = ''source-kubeconfig'' \<and> (\<exists>t. val = StringVal t) \<or> n = ''target-kubeconfig'' \<and> (\<exists>t. val = StringVal t) \<or>
      n = ''namespace'' \<and> (\<exists>t. val = StringVal t) \<or> n = ''dry-run'' \<and> (\<exists>b. val = BoolVal b) \<or>
      n = ''verbose'' \<and> (\<exists>b. val = BoolVal b)"
    unfolding nv typed_flags_list move_flag_list by simp
  then show ?case unfolding nv foldl_append foldl.simps IH
    by (elim disjE conjE exE) (simp_all add: move_flag_list set_flag_list flag_defs)
qed

lemma console_flags:
  "typed_flags (fst (NewConsoleCommand v0)) sets \<Longrightarrow>
     foldl (set_flag (fst (NewConsoleCommand v0))) v sets = v\<lparr>app_console := \<lparr>
       CF_kubeconfig = string_flag sets ''kubeconfig'' (CF_kubeconfig (app_console v)),
       CF_serialConsoleNumber = int_flag sets ''serial-console-number'' (CF_serialConsoleNumber (app_console v)),
       CF_skipHostKeyValidation = bool_flag sets ''skip-host-key-validation'' (CF_skipHostKeyValidation (app_console v)),
       CF_knownHostsFile = string_flag sets ''known-hosts-file'' (CF_knownHostsFile (app_console v))\<rparr>\<rparr>"
proof (induction sets rule: rev_induct)
  case Nil
  then show ?case by (simp add: flag_defs)
next
  case (snoc nv sets)
  then have IH: "foldl (set_flag (fst (NewConsoleCommand v0))) v sets = v\<lparr>app_console := \<lparr>
       CF_kubeconfig = string_flag sets ''kubeconfig'' (CF_kubeconfig (app_console v)),
       CF_serialConsoleNumber = int_flag sets ''serial-console-number'' (CF_serialConsoleNumber (app_console v)),
       CF_skipHostKeyValidation = bool_flag sets ''skip-host-key-validation'' (CF_skipHostKeyValidation (app_console v)),
       CF_knownHostsFile = string_flag sets ''known-hosts-file'' (CF_knownHostsFile (app_console v))\<rparr>\<rparr>"
    by (simp add: typed_flags_def)
  obtain n val where nv: "nv = (n, val)" by (cases nv)
  from snoc.prems have "n = ''kubeconfig'' \<and> (\<exists>t. val = StringVal t) \<or> n = ''serial-console-number'' \<and> (\<exists>t. val = IntVal t) \<or>
      n = ''skip-host-key-validation'' \<and> (\<exists>b. val = BoolVal b) \<or> n = ''known-hosts-file'' \<and> (\<exists>t. val = StringVal t)"
    unfolding nv typed_flags_list console_flag_list by simp
  then show ?case unfolding nv foldl_append foldl.simps IH
    by (elim disjE conjE exE) (simp_all add: console_flag_list set_flag_list flag_defs)
qed

section \<open>The commands that run\<close>

lemma NewCommand_vars:
  "snd (NewCommand zero_vars) = zero_vars\<lparr>app_console := default_ConsoleFlags\<rparr>"
  by (simp add: NewCommand_def NewMoveCommand_def NewConsoleCommand_def Let_def zero_vars_def default_ConsoleFlags_def)

lemma NewCommand_commands:
  "fst (NewCommand v) = Command ''metalctl'' ''CLI client for metal-operator'' True None []
     [fst (NewMoveCommand v), fst (NewConsoleCommand v)]"
  by (simp add: NewCommand_def NewMoveCommand_def NewConsoleCommand_def Let_def)

lemma command_uses [simp]:
  "Command_Use (fst (NewMoveCommand v)) = ''move''" "Command_RunE (fst (NewMoveCommand v)) = Some Run_move"
  "Command_Commands (fst (NewMoveCommand v)) = []"
  "Command_Use (fst (NewConsoleCommand v)) = ''console''" "Command_RunE (fst (NewConsoleCommand v)) = Some Run_console"
  "Command_Commands (fst (NewConsoleCommand v)) = []"
  by (simp_all add: NewMoveCommand_def NewConsoleCommand_def Let_def)

lemma command_that_runs:
  assumes "find_command (fst (NewCommand v)) path = Some cmd" and "Command_RunE cmd \<noteq> None"
  shows "path = [''move''] \<and> cmd = fst (NewMoveCommand v) \<or> path = [''console''] \<and> cmd = fst (NewConsoleCommand v)"
proof (cases path)
  case Nil
  with assms show ?thesis by (auto simp: NewCommand_commands)
next
  case (Cons n ns)
  with assms show ?thesis
    by (cases ns) (auto simp: NewCommand_commands split: if_splits)
qed

lemma required_flag_value:
  assumes "typed_flags (fst (NewMoveCommand v)) sets" and "n \<in> fst ` set sets"
    and "n = ''source-kubeconfig'' \<or> n = ''target-kubeconfig''"
  shows "\<exists>s. map_of (rev sets) n = Some (StringVal s)"
proof -
  from assms(2) obtain val where val: "map_of (rev sets) n = Some val"
    by (metis domD dom_map_of_conv_image_fst set_rev)
  then have "(n, val) \<in> set sets" by (metis map_of_SomeD set_rev)
  with assms(1) have "list_ex (\<lambda>(m, _, d, _). n = m \<and> same_type val d) (flag_list (fst (NewMoveCommand v)))"
    unfolding typed_flags_list list_all_iff by blast
  with assms(3) have "\<exists>s. val = StringVal s" unfolding move_flag_list by (elim disjE) simp_all
  with val show ?thesis by blast
qed

definition exit_code :: "('e, 'w, unit) prog \<Rightarrow> ('e, 'w, nat) prog" where
  "exit_code p = catchM (bindM p (\<lambda>_. returnM 0)) (\<lambda>_. returnM 1)"

lemma liftM_Ok: "liftM (Ok a) = returnM a"
  by (simp add: liftM_def returnM_def)

lemma main_runs:
  assumes "X (fst (NewCommand zero_vars)) args = Ok (Some (path, sets, rest))"
    and "find_command (fst (NewCommand zero_vars)) path = Some cmd" and "Command_RunE cmd = Some run"
  shows "metalctl_main E M C X args =
    exit_code (runCommand E M C run (foldl (set_flag cmd) (zero_vars\<lparr>app_console := default_ConsoleFlags\<rparr>) sets) rest)"
  using assms by (simp add: metalctl_main_def exit_code_def ExecuteContext_def NewCommand_vars liftM_Ok)

section \<open>Properties\<close>

text \<open>
  C33. A command line that cobra accepts is one of \<^verbatim>\<open>move\<close>, which then moves from the source to the target cluster that were
  given, in the namespace given or all, for real unless a dry run was asked for, or one of \<^verbatim>\<open>console\<close>, which then runs
  with its flags or their defaults; the exit code is 1 exactly for an error.\<close>

theorem metalctl_runs_as_asked:
  assumes "cobra_follows X" and "X (fst (NewCommand zero_vars)) args = Ok (Some (path, sets, rest))"
  shows "path = [''move''] \<and> (\<exists>source target.
       map_of (rev sets) ''source-kubeconfig'' = Some (StringVal source) \<and>
       map_of (rev sets) ''target-kubeconfig'' = Some (StringVal target) \<and>
       metalctl_main E M C X args = exit_code (mapE Inl
         (runMove M source target (string_flag sets ''namespace'' '''') (bool_flag sets ''dry-run'' False)))) \<or>
     path = [''console''] \<and>
       metalctl_main E M C X args = exit_code (mapE Inr (runConsole E C \<lparr>
         CF_kubeconfig = string_flag sets ''kubeconfig'' '''',
         CF_serialConsoleNumber = int_flag sets ''serial-console-number'' 1,
         CF_skipHostKeyValidation = bool_flag sets ''skip-host-key-validation'' False,
         CF_knownHostsFile = string_flag sets ''known-hosts-file'' ''~/.ssh/known_hosts''\<rparr> rest))"
proof -
  from assms have "cobra_accepts (fst (NewCommand zero_vars)) path sets" unfolding cobra_follows_def by blast
  then obtain cmd where cmd: "find_command (fst (NewCommand zero_vars)) path = Some cmd" "Command_RunE cmd \<noteq> None"
      "typed_flags cmd sets" "list_all (\<lambda>(n, _, _, req). req \<longrightarrow> n \<in> fst ` set sets) (flag_list cmd)"
    by (auto simp: cobra_accepts_def typed_flags_def list.pred_map o_def split: option.splits)
  from command_that_runs [OF cmd(1,2)] show ?thesis
  proof (elim disjE conjE)
    assume path: "path = [''move'']" and move: "cmd = fst (NewMoveCommand zero_vars)"
    have "''source-kubeconfig'' \<in> fst ` set sets" "''target-kubeconfig'' \<in> fst ` set sets"
      using cmd(4) unfolding move move_flag_list by simp_all
    then obtain source target where given: "map_of (rev sets) ''source-kubeconfig'' = Some (StringVal source)"
        "map_of (rev sets) ''target-kubeconfig'' = Some (StringVal target)"
      using required_flag_value [OF cmd(3) [unfolded move]] by blast
    have "metalctl_main E M C X args = exit_code (mapE Inl
        (runMove M source target (string_flag sets ''namespace'' '''') (bool_flag sets ''dry-run'' False)))"
      using main_runs [where X = X, OF assms(2) cmd(1), of Run_move E M C] move_flags [OF cmd(3) [unfolded move]] given
      by (simp add: move runCommand_def zero_vars_def string_flag_def [of sets "''source-kubeconfig''"]
          string_flag_def [of sets "''target-kubeconfig''"])
    with path given show ?thesis by simp
  next
    assume path: "path = [''console'']" and con: "cmd = fst (NewConsoleCommand zero_vars)"
    then show ?thesis
      using main_runs [where X = X, OF assms(2) cmd(1), of Run_console E M C] console_flags [OF cmd(3) [unfolded con]]
      by (simp add: runCommand_def default_ConsoleFlags_def)
  qed
qed

definition example_line :: cobra where
  "example_line root args =
     (let sets = [(''source-kubeconfig'', StringVal ''a''), (''target-kubeconfig'', StringVal ''b''), (''dry-run'', BoolVal True)] in
      if cobra_accepts root [''move''] sets then Ok (Some ([''move''], sets, [])) else Err (OtherError ''unknown command''))"

theorem metalctl_runs_as_asked_witness:
  "cobra_follows example_line \<and>
   (\<forall>E M C args. metalctl_main E M C example_line args = exit_code (mapE Inl (runMove M ''a'' ''b'' '''' True)))"
proof -
  have follows: "cobra_follows example_line" by (auto simp: cobra_follows_def example_line_def Let_def split: if_splits)
  have line: "example_line (fst (NewCommand zero_vars)) args = Ok (Some ([''move''], [(''source-kubeconfig'', StringVal ''a''),
      (''target-kubeconfig'', StringVal ''b''), (''dry-run'', BoolVal True)], []))" for args
    by (auto simp: example_line_def cobra_accepts_def NewCommand_commands NewMoveCommand_def Let_def)
  have "metalctl_main E M C example_line args = exit_code (mapE Inl (runMove M ''a'' ''b'' '''' True))" for E M C args
    using metalctl_runs_as_asked [OF follows line, of E M C args] by (simp add: string_flag_def bool_flag_def)
  with follows show ?thesis by blast
qed

end
