(* ===== verification/Go_Flags.thy ===== *)
theory Go_Flags
  imports Go_Strings
begin

text \<open>
  Go's \<^verbatim>\<open>flag\<close> package, as the commands use it: an argument is \<^verbatim>\<open>-name=value\<close>, \<^verbatim>\<open>-name value\<close> or, for a boolean
  flag, \<^verbatim>\<open>-name\<close>, with one dash or two; the first argument that is none of these ends the flags.
\<close>

section \<open>One argument\<close>

text \<open>The name and value of an argument: the first equals sign that is not at its start separates them.\<close>

fun split_equals :: "string \<Rightarrow> string \<Rightarrow> string \<times> string option" where
  "split_equals seen [] = (seen, None)"
| "split_equals seen (c # cs) = (if c = CHR ''='' \<and> seen \<noteq> [] then (seen, Some cs) else split_equals (seen @ [c]) cs)"

datatype flag_argument = NotAFlag | EndOfFlags | BadSyntax | FlagArgument string "string option"

definition flag_argument :: "string \<Rightarrow> flag_argument" where
  "flag_argument s =
     (if length s < 2 \<or> hd s \<noteq> CHR ''-'' then NotAFlag
      else if s = ''--'' then EndOfFlags
      else let name = (if s ! 1 = CHR ''-'' then drop 2 s else drop 1 s) in
        if hd name = CHR ''-'' \<or> hd name = CHR ''='' then BadSyntax
        else case split_equals [] name of (n, v) \<Rightarrow> FlagArgument n v)"

section \<open>Parsing\<close>

text \<open>
  A set of flags: \<open>isBool name\<close> is \<open>None\<close> for a flag that is not defined, otherwise whether it is boolean;
  \<open>accepts name value\<close> is whether its \<^verbatim>\<open>Set\<close> takes the value. The result is the values in the order they were
  set, so that the last one of a name counts, and the arguments that are left.
\<close>

record flag_set =
  isBool :: "string \<Rightarrow> bool option"
  accepts :: "string \<Rightarrow> string \<Rightarrow> bool"

fun flag_Parse :: "flag_set \<Rightarrow> (string \<times> string) list \<Rightarrow> string list \<Rightarrow> ((string \<times> string) list \<times> string list) res" where
  "flag_Parse F vals [] = Ok (vals, [])"
| "flag_Parse F vals (s # args) =
     (case flag_argument s of
        NotAFlag \<Rightarrow> Ok (vals, s # args)
      | EndOfFlags \<Rightarrow> Ok (vals, args)
      | BadSyntax \<Rightarrow> Err (OtherError ''bad flag syntax'')
      | FlagArgument name v \<Rightarrow>
          (case isBool F name of
             None \<Rightarrow> Err (OtherError (if name = ''help'' \<or> name = ''h'' then ''flag: help requested''
                                      else ''flag provided but not defined''))
           | Some True \<Rightarrow>
               (let value = (case v of None \<Rightarrow> ''true'' | Some x \<Rightarrow> x) in
                if accepts F name value then flag_Parse F (vals @ [(name, value)]) args
                else Err (OtherError ''invalid boolean value''))
           | Some False \<Rightarrow>
               (case v of
                  Some value \<Rightarrow>
                    if accepts F name value then flag_Parse F (vals @ [(name, value)]) args
                    else Err (OtherError ''invalid value'')
                | None \<Rightarrow>
                    (case args of
                       [] \<Rightarrow> Err (OtherError ''flag needs an argument'')
                     | value # rest \<Rightarrow>
                         if accepts F name value then flag_Parse F (vals @ [(name, value)]) rest
                         else Err (OtherError ''invalid value'')))))"

definition flag_value :: "(string \<times> string) list \<Rightarrow> string \<Rightarrow> string \<Rightarrow> string" where
  "flag_value vals name dflt = (case map_of (rev vals) name of None \<Rightarrow> dflt | Some v \<Rightarrow> v)"

section \<open>Arguments that are written are read\<close>

lemma split_equals_value:
  "CHR ''='' \<notin> set n \<Longrightarrow> seen @ n \<noteq> [] \<Longrightarrow> split_equals seen (n @ CHR ''='' # v) = (seen @ n, Some v)"
  by (induction n arbitrary: seen) auto

lemma flag_argument_value:
  assumes "n \<noteq> []" and "CHR ''='' \<notin> set n" and "hd n \<noteq> CHR ''-''"
  shows "flag_argument (''--'' @ n @ CHR ''='' # v) = FlagArgument n (Some v)"
proof -
  have "hd (n @ CHR ''='' # v) \<noteq> CHR ''=''" using assms by (cases n) auto
  with assms split_equals_value [of n "[]" v] show ?thesis
    by (simp add: flag_argument_def Let_def)
qed

lemma flag_Parse_value:
  assumes "n \<noteq> []" and "CHR ''='' \<notin> set n" and "hd n \<noteq> CHR ''-''" and "isBool F n = Some False" and "accepts F n v"
  shows "flag_Parse F vals ((''--'' @ n @ CHR ''='' # v) # args) = flag_Parse F (vals @ [(n, v)]) args"
  using assms flag_argument_value [OF assms(1-3), of v] by simp

end
