(* ===== verification/Probe_Command.thy ===== *)
theory Probe_Command
  imports Go_Flags Registry
begin

text \<open>
  The command that runs on a server that is being discovered, \<^verbatim>\<open>cmd/metalprobe/main.go\<close>, and how it comes by
  its flags: the server controller writes them into the ignition, as the end of the command line of a
  systemd unit.
\<close>

section \<open>cmd/metalprobe/main.go\<close>

text \<open>
  The flags of the logger, which the command adds to its own, are those of a library: \<open>L\<close>. So is the reading of
  a duration.
\<close>

record ProbeFlags =
  PF_registryURL :: string
  PF_serverUUID :: string
  PF_duration :: int

definition probe_flag_set :: "flag_set \<Rightarrow> (string \<Rightarrow> int option) \<Rightarrow> flag_set" where
  "probe_flag_set L parseDuration = \<lparr>
     isBool = \<lambda>name. if name \<in> {''registry-url'', ''server-uuid'', ''duration''} then Some False else isBool L name,
     accepts = \<lambda>name v. if name \<in> {''registry-url'', ''server-uuid''} then True
                        else if name = ''duration'' then parseDuration v \<noteq> None
                        else accepts L name v\<rparr>"

definition probe_flags :: "flag_set \<Rightarrow> (string \<Rightarrow> int option) \<Rightarrow> string list \<Rightarrow> ProbeFlags res" where
  "probe_flags L parseDuration args =
     (case flag_Parse (probe_flag_set L parseDuration) [] args of
        Ok (vals, _) \<Rightarrow> Ok \<lparr>PF_registryURL = flag_value vals ''registry-url'' '''',
            PF_serverUUID = flag_value vals ''server-uuid'' '''',
            PF_duration = (case map_of (rev vals) ''duration'' of
                None \<Rightarrow> 5 * 1000000000 | Some v \<Rightarrow> the (parseDuration v))\<rparr>
      | Err e \<Rightarrow> Err e | Panic p \<Rightarrow> Panic p)"

text \<open>\<^verbatim>\<open>os.Exit\<close> ends the program: a value of its own, since nothing is deferred.\<close>

definition exitM :: "('w, 'a) M" where
  "exitM = panicM ''exit 1''"

text \<open>
  \<open>ticks\<close> is how often the agent's ticker fires before the program is asked to stop; the flag set exits on an
  argument it cannot parse.
\<close>

definition probe_main ::
  "'w env \<Rightarrow> flag_set \<Rightarrow> (string \<Rightarrow> int option) \<Rightarrow> NetInterface list res \<Rightarrow> nat \<Rightarrow> string list \<Rightarrow> ('w, unit) M" where
  "probe_main E L parseDuration interfaces ticks args =
     (case probe_flags L parseDuration args of
        Err _ \<Rightarrow> exitM | Panic p \<Rightarrow> panicM p
      | Ok flags \<Rightarrow>
          if PF_serverUUID flags = '''' then exitM
          else if PF_registryURL flags = '''' then exitM
          else catchM (Agent_Start E interfaces ticks (NewAgent (PF_serverUUID flags) (PF_registryURL flags) (PF_duration flags)))
                 (\<lambda>_. exitM))"

section \<open>The flags the controller writes\<close>

text \<open>
  systemd splits a command line at spaces and gives quotes, backslashes, dollar and percent signs a meaning;
  a text without those is plain. \<open>split\<close> stands for it.
\<close>

fun words_of :: "string \<Rightarrow> string \<Rightarrow> string list" where
  "words_of cur [] = (if cur = [] then [] else [cur])"
| "words_of cur (c # cs) =
     (if c = CHR '' '' then (if cur = [] then words_of [] cs else cur # words_of [] cs)
      else words_of (cur @ [c]) cs)"

definition plain_char :: "char \<Rightarrow> bool" where
  "plain_char c \<longleftrightarrow> of_char c > (32 :: nat) \<and> of_char c < (127 :: nat) \<and>
     c \<notin> set [CHR 0x22, CHR 0x27, CHR 0x5C, CHR ''$'', CHR ''%'']"

definition splits_plain :: "(string \<Rightarrow> string list) \<Rightarrow> bool" where
  "splits_plain split \<longleftrightarrow>
     (\<forall>s. (\<forall>c\<in>set s. plain_char c \<or> c = CHR '' '') \<longrightarrow> split s = words_of [] s)"

lemma words_of_word: "\<forall>c\<in>set w. c \<noteq> CHR '' '' \<Longrightarrow> cur @ w \<noteq> [] \<Longrightarrow>
   words_of cur (w @ CHR '' '' # rest) = (cur @ w) # words_of [] rest"
  by (induction w arbitrary: cur) auto

lemma words_of_last: "\<forall>c\<in>set w. c \<noteq> CHR '' '' \<Longrightarrow> cur @ w \<noteq> [] \<Longrightarrow> words_of cur w = [cur @ w]"
  by (induction w arbitrary: cur) auto

lemma probeFlags_words:
  assumes "\<forall>c\<in>set u. c \<noteq> CHR '' ''" and "\<forall>c\<in>set (srvSystemUUID s). c \<noteq> CHR '' ''"
  shows "words_of [] (probeFlags u s) = [''--registry-url='' @ u, ''--server-uuid='' @ srvSystemUUID s]"
proof -
  have "probeFlags u s = (''--registry-url='' @ u) @ CHR '' '' # (''--server-uuid='' @ srvSystemUUID s)"
    by (simp add: probeFlags_def)
  moreover have "words_of [] ((''--registry-url='' @ u) @ CHR '' '' # (''--server-uuid='' @ srvSystemUUID s)) =
      (''--registry-url='' @ u) # words_of [] (''--server-uuid='' @ srvSystemUUID s)"
    using words_of_word [of "''--registry-url='' @ u" "[]"] assms by simp
  moreover have "words_of [] (''--server-uuid='' @ srvSystemUUID s) = [''--server-uuid='' @ srvSystemUUID s]"
    using words_of_last [of "''--server-uuid='' @ srvSystemUUID s" "[]"] assms by simp
  ultimately show ?thesis by simp
qed

lemma probe_flags_read:
  "probe_flags L parseDuration [''--registry-url='' @ u, ''--server-uuid='' @ uuid] =
     Ok \<lparr>PF_registryURL = u, PF_serverUUID = uuid, PF_duration = 5 * 1000000000\<rparr>"
proof -
  let ?F = "probe_flag_set L parseDuration"
  have "flag_Parse ?F [] [''--registry-url='' @ u, ''--server-uuid='' @ uuid] =
      flag_Parse ?F [(''registry-url'', u)] [''--server-uuid='' @ uuid]"
    using flag_Parse_value [of "''registry-url''" ?F u "[]"] by (simp add: probe_flag_set_def del: flag_Parse.simps)
  also have "\<dots> = Ok ([(''registry-url'', u), (''server-uuid'', uuid)], [])"
    using flag_Parse_value [of "''server-uuid''" ?F uuid "[(''registry-url'', u)]" "[]"]
    by (simp add: probe_flag_set_def del: flag_Parse.simps(2))
  finally show ?thesis by (simp add: probe_flags_def flag_value_def del: flag_Parse.simps)
qed

end
