(* ===== verification/Manager_Command.thy ===== *)
theory Manager_Command
  imports BMC_Controller Server_Controller Registry Probe_Command
begin

text \<open>
  The manager, \<^verbatim>\<open>cmd/manager/main.go\<close>: from its flags and its environment it builds the reconcilers, the
  registry server and the controller manager, in order, and ends the program at the first step that fails;
  and \<^verbatim>\<open>Start\<close> of the registry server, which it runs beside the manager.
\<close>

section \<open>Flags\<close>

record ManagerFlags =
  MF_discoveryTimeout :: int
  MF_resourcePollingInterval :: int
  MF_resourcePollingTimeout :: int
  MF_powerPollingInterval :: int
  MF_powerPollingTimeout :: int
  MF_registryResyncInterval :: int
  MF_serverResyncInterval :: int
  MF_registryURL :: string
  MF_registryProtocol :: string
  MF_registryPort :: int
  MF_probeImage :: string
  MF_probeOSImage :: string
  MF_managerNamespace :: string
  MF_insecure :: bool
  MF_macPrefixesFile :: string
  MF_metricsAddr :: string
  MF_probeAddr :: string
  MF_enforceFirstBoot :: bool
  MF_enforcePowerOff :: bool
  MF_webhookPort :: int
  MF_enableLeaderElection :: bool
  MF_secureMetrics :: bool
  MF_enableHTTP2 :: bool

abbreviation "second \<equiv> 1000000000 :: int"

text \<open>The values of flags that are not given.\<close>

definition default_ManagerFlags :: ManagerFlags where
  "default_ManagerFlags = \<lparr>MF_discoveryTimeout = 30 * 60 * second,
     MF_resourcePollingInterval = 5 * second, MF_resourcePollingTimeout = 2 * 60 * second,
     MF_powerPollingInterval = 5 * second, MF_powerPollingTimeout = 2 * 60 * second,
     MF_registryResyncInterval = 10 * second, MF_serverResyncInterval = 2 * 60 * second,
     MF_registryURL = '''', MF_registryProtocol = ''http'', MF_registryPort = 10000,
     MF_probeImage = '''', MF_probeOSImage = '''', MF_managerNamespace = ''default'', MF_insecure = True,
     MF_macPrefixesFile = '''', MF_metricsAddr = '':8080'', MF_probeAddr = '':8081'',
     MF_enforceFirstBoot = False, MF_enforcePowerOff = False, MF_webhookPort = 9445,
     MF_enableLeaderElection = False, MF_secureMetrics = False, MF_enableHTTP2 = False\<rparr>"

section \<open>What is set up\<close>

datatype controller =
    EndpointController EndpointReconciler
  | BMCSecretController
  | BMCController BMCReconciler
  | ServerController ServerReconciler
  | ServerBootConfigurationController
  | ServerClaimController

record ManagerOptions =
  MO_MetricsBindAddress :: string
  MO_SecureServing :: bool
  MO_NextProtos :: "string list option"
  MO_WebhookPort :: int
  MO_HealthProbeBindAddress :: string
  MO_LeaderElection :: bool
  MO_LeaderElectionID :: string

datatype setup_step =
    ReadMacPrefixes string
  | GetConfig
  | NewManager ManagerOptions
  | SetupController controller
  | SetupWebhook
  | AddCheck string
  | StartRegistry string
  | StartManager

text \<open>
  The environment of the start: files, environment variables, the YAML library and the controller runtime.
  An event is a step and whether it succeeded.
\<close>

record 'w manager_env =
  mg_readFile :: "string \<Rightarrow> 'w \<Rightarrow> string res \<times> 'w"
  mg_unmarshalMacPrefixes :: "string \<Rightarrow> MacPrefix list res"
  mg_getenv :: "string \<Rightarrow> string"
  mg_step :: "setup_step \<Rightarrow> 'w \<Rightarrow> unit res \<times> 'w"
  mg_go :: "setup_step \<Rightarrow> 'w \<Rightarrow> 'w"

type_synonym ('w, 'a) SM = "(setup_step \<times> bool, 'w, 'a) prog"

definition exit1 :: "('w, 'a) SM" where
  "exit1 = panicM ''exit 1''"

text \<open>\<^verbatim>\<open>if err := step; err != nil { setupLog.Error(...); os.Exit(1) }\<close>, and a step started in a goroutine.\<close>

definition doStep :: "'w manager_env \<Rightarrow> setup_step \<Rightarrow> ('w, unit) SM" where
  "doStep M s = catchM (callM (mg_step M s) (\<lambda>r. (s, is_ok r))) (\<lambda>_. exit1)"

definition goStep :: "'w manager_env \<Rightarrow> setup_step \<Rightarrow> ('w, unit) SM" where
  "goStep M s = callM (\<lambda>w. (Ok (), mg_go M s w)) (\<lambda>_. (s, True))"

section \<open>main\<close>

definition loadMacPrefixes :: "'w manager_env \<Rightarrow> ManagerFlags \<Rightarrow> ('w, MacPrefix list) SM" where
  "loadMacPrefixes M flags =
     (if MF_macPrefixesFile flags \<noteq> '''' then
        catchM (callM (\<lambda>w. case mg_readFile M (MF_macPrefixesFile flags) w of
                   (Ok macPrefixesData, w') \<Rightarrow> (mg_unmarshalMacPrefixes M macPrefixesData, w')
                 | (Err e, w') \<Rightarrow> (Err e, w') | (Panic p, w') \<Rightarrow> (Panic p, w'))
                 (\<lambda>r. (ReadMacPrefixes (MF_macPrefixesFile flags), is_ok r)))
          (\<lambda>_. exit1)
      else returnM [])"

definition chosenRegistryURL :: "'w manager_env \<Rightarrow> ManagerFlags \<Rightarrow> string option" where
  "chosenRegistryURL M flags =
     (if MF_registryURL flags = '''' then
        let registryAddr = mg_getenv M ''REGISTRY_ADDRESS'' in
        if registryAddr = '''' then None
        else Some (MF_registryProtocol flags @ ''://'' @ registryAddr @ '':'' @ itoa (MF_registryPort flags))
      else Some (MF_registryURL flags))"

text \<open>Without HTTP/2, the TLS configuration of both servers offers HTTP/1.1 only.\<close>

definition managerOptions :: "ManagerFlags \<Rightarrow> ManagerOptions" where
  "managerOptions flags = \<lparr>MO_MetricsBindAddress = MF_metricsAddr flags, MO_SecureServing = MF_secureMetrics flags,
     MO_NextProtos = (if MF_enableHTTP2 flags then None else Some [''http/1.1'']),
     MO_WebhookPort = MF_webhookPort flags, MO_HealthProbeBindAddress = MF_probeAddr flags,
     MO_LeaderElection = MF_enableLeaderElection flags, MO_LeaderElectionID = ''f26702e4.ironcore.dev''\<rparr>"

definition managerBMCOptions :: "ManagerFlags \<Rightarrow> BMCOptions" where
  "managerBMCOptions flags = \<lparr>BMCOptions_Endpoint = '''', BMCOptions_Username = '''', BMCOptions_Password = '''',
     BMCOptions_BasicAuth = True, BMCOptions_ResourcePollingInterval = MF_resourcePollingInterval flags,
     BMCOptions_ResourcePollingTimeout = MF_resourcePollingTimeout flags,
     BMCOptions_PowerPollingInterval = MF_powerPollingInterval flags,
     BMCOptions_PowerPollingTimeout = MF_powerPollingTimeout flags\<rparr>"

definition noBMCOptions :: BMCOptions where
  "noBMCOptions = \<lparr>BMCOptions_Endpoint = '''', BMCOptions_Username = '''', BMCOptions_Password = '''',
     BMCOptions_BasicAuth = False, BMCOptions_ResourcePollingInterval = 0, BMCOptions_ResourcePollingTimeout = 0,
     BMCOptions_PowerPollingInterval = 0, BMCOptions_PowerPollingTimeout = 0\<rparr>"

definition endpointReconciler :: "ManagerFlags \<Rightarrow> MacPrefix list \<Rightarrow> EndpointReconciler" where
  "endpointReconciler flags macPrefixes = \<lparr>ER_MACPrefixes = macPrefixes, ER_Insecure = MF_insecure flags\<rparr>"

definition bmcReconciler :: "ManagerFlags \<Rightarrow> BMCReconciler" where
  "bmcReconciler flags = \<lparr>BR_Insecure = MF_insecure flags, BR_BMCPollingOptions = noBMCOptions\<rparr>"

definition serverReconciler :: "ManagerFlags \<Rightarrow> string \<Rightarrow> ServerReconciler" where
  "serverReconciler flags regURL = \<lparr>SR_Insecure = MF_insecure flags, SR_ManagerNamespace = MF_managerNamespace flags,
     SR_ProbeImage = MF_probeImage flags, SR_RegistryURL = regURL, SR_ProbeOSImage = MF_probeOSImage flags,
     SR_RegistryResyncInterval = MF_registryResyncInterval flags,
     SR_EnforceFirstBoot = MF_enforceFirstBoot flags, SR_EnforcePowerOff = MF_enforcePowerOff flags,
     SR_ResyncInterval = MF_serverResyncInterval flags, SR_BMCOptions = managerBMCOptions flags,
     SR_DiscoveryTimeout = MF_discoveryTimeout flags\<rparr>"

text \<open>The part of \<^verbatim>\<open>main\<close> that sets up, once the configuration is known, and the whole.\<close>

definition manager_setup :: "'w manager_env \<Rightarrow> ManagerFlags \<Rightarrow> MacPrefix list \<Rightarrow> string \<Rightarrow> ('w, unit) SM" where
  "manager_setup M flags macPrefixes regURL =
     bindM (doStep M GetConfig) (\<lambda>_.
     bindM (doStep M (NewManager (managerOptions flags))) (\<lambda>_.
     bindM (doStep M (SetupController (EndpointController (endpointReconciler flags macPrefixes)))) (\<lambda>_.
     bindM (doStep M (SetupController BMCSecretController)) (\<lambda>_.
     bindM (doStep M (SetupController (BMCController (bmcReconciler flags)))) (\<lambda>_.
     bindM (doStep M (SetupController (ServerController (serverReconciler flags regURL)))) (\<lambda>_.
     bindM (doStep M (SetupController ServerBootConfigurationController)) (\<lambda>_.
     bindM (doStep M (SetupController ServerClaimController)) (\<lambda>_.
     bindM (if mg_getenv M ''ENABLE_WEBHOOKS'' \<noteq> ''false'' then doStep M SetupWebhook else returnM ()) (\<lambda>_.
     bindM (doStep M (AddCheck ''healthz'')) (\<lambda>_.
     bindM (doStep M (AddCheck ''readyz'')) (\<lambda>_.
     bindM (goStep M (StartRegistry ('':'' @ itoa (MF_registryPort flags)))) (\<lambda>_.
     doStep M StartManager))))))))))))"

definition manager_main :: "'w manager_env \<Rightarrow> ManagerFlags \<Rightarrow> ('w, unit) SM" where
  "manager_main M flags =
     (if MF_probeOSImage flags = '''' then exit1
      else bindM (loadMacPrefixes M flags) (\<lambda>macPrefixes.
        case chosenRegistryURL M flags of
          None \<Rightarrow> exit1
        | Some regURL \<Rightarrow> manager_setup M flags macPrefixes regURL))"

section \<open>Start of the registry server\<close>

text \<open>
  The goroutine that listens reports an error only if the server was not shut down; the \<^verbatim>\<open>select\<close> takes whichever
  comes first, the end of the context or that error.
\<close>

datatype registry_stop = ContextDone | ListenFailed error

record 'w registry_env =
  rg_stop :: "'w \<Rightarrow> registry_stop \<times> 'w"
  rg_shutdown :: "'w \<Rightarrow> error option \<times> 'w"

datatype registry_event = Stopped registry_stop | ShutDown bool

definition Shutdown :: "'w registry_env \<Rightarrow> (registry_event, 'w, unit) prog" where
  "Shutdown R = callM (\<lambda>w. case rg_shutdown R w of (None, w') \<Rightarrow> (Ok (), w') | (Some e, w') \<Rightarrow> (Err e, w'))
     (\<lambda>r. ShutDown (is_ok r))"

definition Registry_Start :: "'w registry_env \<Rightarrow> (registry_event, 'w, unit) prog" where
  "Registry_Start R =
     bindM (callM (\<lambda>w. case rg_stop R w of (s, w') \<Rightarrow> (Ok s, w')) (\<lambda>r. case r of Ok s \<Rightarrow> Stopped s | _ \<Rightarrow> ShutDown False))
       (\<lambda>s. case s of
          ContextDone \<Rightarrow> wrapM ''HTTP server Shutdown'' (Shutdown R)
        | ListenFailed err \<Rightarrow>
            bindM (catchM (Shutdown R) (\<lambda>_. returnM ())) (\<lambda>_.
              errM (WrapError ''HTTP registry server ListenAndServe'' err)))"

end
