(* ===== verification/Manager_Properties.thy ===== *)
theory Manager_Properties
  imports Manager_Command Example_World
begin

text \<open>
  The properties of the two commands that run the system: the manager sets its parts up in order and as the
  flags say, the registry server is always shut down, and the probe registers the server it was started for.
\<close>

section \<open>Setup\<close>

text \<open>
  \<open>in_order steps ok es\<close>: the events \<open>es\<close> are the steps in this order, up to and including the first that
  failed; \<open>ok\<close> if none failed.
\<close>

fun in_order :: "setup_step list \<Rightarrow> bool \<Rightarrow> (setup_step \<times> bool) list \<Rightarrow> bool" where
  "in_order [] ok es = (ok \<and> es = [])"
| "in_order (s # steps) ok [] = False"
| "in_order (s # steps) ok (e # es) =
     (e = (s, False) \<and> \<not> ok \<and> es = [] \<or> e = (s, True) \<and> in_order steps ok es)"

definition setup_steps :: "'w manager_env \<Rightarrow> ManagerFlags \<Rightarrow> MacPrefix list \<Rightarrow> string \<Rightarrow> setup_step list" where
  "setup_steps M flags macPrefixes regURL =
     [GetConfig, NewManager (managerOptions flags)] @
     map SetupController [EndpointController (endpointReconciler flags macPrefixes), BMCSecretController,
       BMCController (bmcReconciler flags), ServerController (serverReconciler flags regURL),
       ServerBootConfigurationController, ServerClaimController] @
     (if mg_getenv M ''ENABLE_WEBHOOKS'' \<noteq> ''false'' then [SetupWebhook] else []) @
     [AddCheck ''healthz'', AddCheck ''readyz'', StartRegistry ('':'' @ itoa (MF_registryPort flags)), StartManager]"

lemma sat_doStep: "sat (doStep M s) (\<lambda>r es. in_order [s] (is_ok r) es)"
  unfolding doStep_def exit1_def by (intro sat_catch sat_call_any) (simp split: res.split)

lemma in_order_doStep:
  assumes "sat k (\<lambda>r es. in_order steps (is_ok r) es)"
  shows "sat (bindM (doStep M s) (\<lambda>_. k)) (\<lambda>r es. in_order (s # steps) (is_ok r) es)"
proof -
  have "sat (doStep M s) (\<lambda>r es. case r of
      Ok a \<Rightarrow> sat k (\<lambda>r' es'. in_order (s # steps) (is_ok r') (es @ es'))
    | Err e \<Rightarrow> in_order (s # steps) False es
    | Panic p \<Rightarrow> in_order (s # steps) False es)"
    unfolding doStep_def exit1_def
    by (intro sat_catch sat_call_any) (auto split: res.split intro!: sat_mono [OF assms])
  then show ?thesis by (intro sat_bind) (elim sat_mono, simp split: res.splits)
qed

lemma in_order_goStep:
  assumes "sat k (\<lambda>r es. in_order steps (is_ok r) es)"
  shows "sat (bindM (goStep M s) (\<lambda>_. k)) (\<lambda>r es. in_order (s # steps) (is_ok r) es)"
  unfolding goStep_def by (rule sat_bind, rule sat_call) (auto intro!: sat_mono [OF assms])

lemma in_order_optional:
  assumes "sat k (\<lambda>r es. in_order steps (is_ok r) es)"
  shows "sat (bindM (if b then doStep M s else returnM ()) (\<lambda>_. k))
           (\<lambda>r es. in_order ((if b then [s] else []) @ steps) (is_ok r) es)"
  using in_order_doStep [OF assms] assms by auto

lemma sat_manager_setup:
  "sat (manager_setup M flags macPrefixes regURL)
     (\<lambda>r es. in_order (setup_steps M flags macPrefixes regURL) (is_ok r) es)"
  unfolding manager_setup_def setup_steps_def append_Cons append_Nil list.map
  by (intro in_order_doStep in_order_optional in_order_goStep sat_doStep)


text \<open>
  The registry server is shut down exactly once however it stops. It stops without an error only if it was
  asked to and the shutdown succeeded; if listening failed, that error is returned, also when the shutdown
  fails.
\<close>

theorem registry_is_shut_down:
  "\<exists>s ok. events_of (Registry_Start R w) = [Stopped s, ShutDown ok] \<and>
     (case s of
        ContextDone \<Rightarrow> is_ok (result_of (Registry_Start R w)) = ok
      | ListenFailed err \<Rightarrow> result_of (Registry_Start R w) = Err (WrapError ''HTTP registry server ListenAndServe'' err))"
proof -
  obtain s w1 where stop: "rg_stop R w = (s, w1)" by (cases "rg_stop R w")
  obtain r w2 where "rg_shutdown R w1 = (r, w2)" by (cases "rg_shutdown R w1")
  with stop show ?thesis
    by (cases s; cases r) (auto simp: Registry_Start_def Shutdown_def prog_defs)
qed

section \<open>Polling\<close>

definition polling_times :: "BMCOptions \<Rightarrow> int list" where
  "polling_times o1 = [BMCOptions_ResourcePollingInterval o1, BMCOptions_ResourcePollingTimeout o1,
     BMCOptions_PowerPollingInterval o1, BMCOptions_PowerPollingTimeout o1]"

definition time_or :: "int \<Rightarrow> int \<Rightarrow> int" where
  "time_or d t = (if t = 0 then d else t)"

lemma default_options_times:
  "polling_times (default_options o1) =
     map2 time_or [DefaultResourcePollingInterval, DefaultResourcePollingTimeout, DefaultPowerPollingInterval,
       DefaultPowerPollingTimeout] (polling_times o1)"
  by (simp add: polling_times_def default_options_def time_or_def Let_def)

lemma time_or_bounds:
  "0 \<le> t \<Longrightarrow> 0 < d \<Longrightarrow> d \<le> 5 * 60 * second \<Longrightarrow>
   0 < time_or d t \<and> (0 < t \<longrightarrow> time_or d t = t) \<and> time_or d t \<le> max t (5 * 60 * second)"
  by (simp add: time_or_def)



section \<open>The probe\<close>

lemma emits_registerServer:
  assumes "Agent_Server a = Some d"
    and "\<And>ok. P (ESys (HttpPostedRegister (Agent_RegistryURL a @ ''/register'')
       \<lparr>RegistrationPayload_SystemUUID = Agent_SystemUUID a, RegistrationPayload_Data = d\<rparr> ok))"
  shows "emits P (\<lambda>_. True) (registerServer E a)"
  unfolding registerServer_def HttpPostRegister_def One_nat_def
  by (simp add: assms(1)) (intro emits_intros; simp add: assms(2) emits_err emits_return)

lemma registers_once: "Agent_Server a \<noteq> None \<Longrightarrow> sat (registerServer E a) (\<lambda>_ es. es \<noteq> [])"
  unfolding registerServer_def HttpPostRegister_def One_nat_def
  by (auto intro!: sat_bind sat_catch sat_call_any split: res.split)

lemma emits_Agent_Start:
  assumes "collectNetworkData interfaces = Ok ifs" and "Agent_Server a = None"
    and "\<And>ok. P (ESys (HttpPostedRegister (Agent_RegistryURL a @ ''/register'')
       \<lparr>RegistrationPayload_SystemUUID = Agent_SystemUUID a,
        RegistrationPayload_Data = \<lparr>RegistryServer_NetworkInterfaces = ifs\<rparr>\<rparr> ok))"
  shows "emits P (\<lambda>_. True) (Agent_Start E interfaces ticks a)"
proof -
  let ?a = "a\<lparr>Agent_Server := Some \<lparr>RegistryServer_NetworkInterfaces = ifs\<rparr>\<rparr>"
  have "emits P (\<lambda>_. True) (registerServer E ?a)"
    by (rule emits_registerServer) (use assms(3) in simp_all)
  then show ?thesis
    unfolding Agent_Start_def
    by (intro emits_bind [where R' = "\<lambda>x. x = ?a"]) (auto intro!: emits_intros simp: Agent_Init_def assms)
qed

lemma Agent_Start_registers:
  assumes "collectNetworkData interfaces = Ok ifs" and "Agent_Server a = None"
  shows "sat (Agent_Start E interfaces ticks a) (\<lambda>_ es. es \<noteq> [])"
proof -
  let ?a = "a\<lparr>Agent_Server := Some \<lparr>RegistryServer_NetworkInterfaces = ifs\<rparr>\<rparr>"
  have "sat (registerServer E ?a) (\<lambda>_ es. es \<noteq> [])" by (rule registers_once) simp
  then show ?thesis
    unfolding Agent_Start_def using assms
    by (simp add: Agent_Init_def liftM_def returnM_def [symmetric])
      (intro sat_bind, erule sat_mono, auto split: res.split simp: sat_def)
qed

text \<open>With a registry that serves it, the agent succeeds and leaves its data there, however often it registers.\<close>

lemma ensures_registerServer:
  assumes "serves_registry E (Agent_RegistryURL a) store" and "Agent_Server a = Some d"
  shows "ensures (\<lambda>_. True) (registerServer E a) (\<lambda>_ w. store w (Agent_SystemUUID a) = Some d)"
  using registerServer_stores [OF assms] by (simp add: ensures_def)

lemma ensures_foldM:
  "(\<And>s x. ensures P (f s x) (\<lambda>_. P)) \<Longrightarrow> ensures P (foldM f s xs) (\<lambda>_. P)"
  by (induction xs arbitrary: s) (auto intro: ensures_return ensures_bind)

lemma ensures_Agent_Start:
  assumes "serves_registry E (Agent_RegistryURL a) store" and "collectNetworkData interfaces = Ok ifs"
    and "Agent_Server a = None"
  shows "ensures (\<lambda>_. True) (Agent_Start E interfaces ticks a)
    (\<lambda>_ w. store w (Agent_SystemUUID a) = Some \<lparr>RegistryServer_NetworkInterfaces = ifs\<rparr>)"
proof -
  let ?d = "\<lparr>RegistryServer_NetworkInterfaces = ifs\<rparr>"
  let ?a = "a\<lparr>Agent_Server := Some ?d\<rparr>"
  have reg: "ensures (\<lambda>_. True) (registerServer E ?a) (\<lambda>_ w. store w (Agent_SystemUUID a) = Some ?d)"
    using ensures_registerServer [of E ?a store ?d] assms(1) by simp
  have start: "Agent_Start E interfaces ticks a = bindM (registerServer E ?a) (\<lambda>_.
      foldM (\<lambda>_ _. catchM (registerServer E ?a) (\<lambda>_. returnM ())) () [0..<ticks])"
    using assms(2,3) by (simp add: Agent_Start_def Agent_Init_def liftM_def returnM_def [symmetric])
  show ?thesis unfolding start
    by (intro ensures_bind [OF reg] ensures_foldM ensures_catch) (rule ensures_mono [OF reg]; simp)
qed

lemma probe_main_started:
  assumes "splits_plain split"
    and "regURL \<noteq> ''''" and "list_all plain_char regURL"
    and "srvSystemUUID server \<noteq> ''''" and "list_all plain_char (srvSystemUUID server)"
  shows "probe_main E L parseDuration interfaces ticks (split (probeFlags regURL server)) =
      catchM (Agent_Start E interfaces ticks (NewAgent (srvSystemUUID server) regURL (5 * 1000000000))) (\<lambda>_. exitM)"
proof -
  have space: "\<not> plain_char (CHR '' '')" by (simp add: plain_char_def)
  have "\<forall>c\<in>set (probeFlags regURL server). plain_char c \<or> c = CHR '' ''"
    using assms(3,5) by (auto simp: probeFlags_def list_all_iff plain_char_def)
  with assms(1) have "split (probeFlags regURL server) = words_of [] (probeFlags regURL server)"
    by (simp add: splits_plain_def)
  also have "\<dots> = [''--registry-url='' @ regURL, ''--server-uuid='' @ srvSystemUUID server]"
    using assms(3,5) space by (intro probeFlags_words) (auto simp: list_all_iff)
  finally have args: "split (probeFlags regURL server) = [''--registry-url='' @ regURL, ''--server-uuid='' @ srvSystemUUID server]" .
  show ?thesis
    unfolding probe_main_def args probe_flags_read using assms(2,4) by simp
qed

text \<open>
  C18. A probe that is started with the flags the controller writes into the ignition of a server registers that
  server and no other: it sends its network interfaces, under the server's system UUID, to the registry the
  controller was given, at least once, and sends nothing else.
\<close>

theorem probe_registers_its_server:
  assumes "splits_plain split"
    and "regURL \<noteq> ''''" and "list_all plain_char regURL"
    and "srvSystemUUID server \<noteq> ''''" and "list_all plain_char (srvSystemUUID server)"
    and "collectNetworkData interfaces = Ok ifs"
  shows "let es = events_of (probe_main E L parseDuration interfaces ticks (split (probeFlags regURL server)) w) in
     es \<noteq> [] \<and> list_all (\<lambda>e. \<exists>ok. e = ESys (HttpPostedRegister (regURL @ ''/register'')
       \<lparr>RegistrationPayload_SystemUUID = srvSystemUUID server,
        RegistrationPayload_Data = \<lparr>RegistryServer_NetworkInterfaces = ifs\<rparr>\<rparr> ok)) es"
proof -
  note main = probe_main_started [OF assms(1-5)]
  have "emits (\<lambda>e. \<exists>ok. e = ESys (HttpPostedRegister (regURL @ ''/register'')
       \<lparr>RegistrationPayload_SystemUUID = srvSystemUUID server,
        RegistrationPayload_Data = \<lparr>RegistryServer_NetworkInterfaces = ifs\<rparr>\<rparr> ok)) (\<lambda>_. True)
      (probe_main E L parseDuration interfaces ticks (split (probeFlags regURL server)))"
    unfolding main exitM_def
    by (intro emits_intros emits_Agent_Start [OF assms(6)]) (auto simp: NewAgent_def)
  moreover have "sat (probe_main E L parseDuration interfaces ticks (split (probeFlags regURL server))) (\<lambda>_ es. es \<noteq> [])"
    unfolding main exitM_def
    by (intro sat_catch sat_mono [OF Agent_Start_registers [OF assms(6)]]) (auto simp: NewAgent_def split: res.split)
  ultimately show ?thesis by (auto simp: emits_def sat_def Let_def list_all_iff)
qed

definition ex_flag_set :: flag_set where
  "ex_flag_set = \<lparr>isBool = \<lambda>_. None, accepts = \<lambda>_ _. False\<rparr>"

theorem probe_registers_its_server_witness:
  "let es = events_of (probe_main ex_env ex_flag_set (\<lambda>_. None) (Ok []) 2
       (words_of [] (probeFlags ex_url (ex_server ServerStateDiscovery PowerOn ServerOnPowerState)))
       (ex_world empty_Server)) in
     es \<noteq> [] \<and> list_all (\<lambda>e. \<exists>ok. e = ESys (HttpPostedRegister ''http://registry/register''
       \<lparr>RegistrationPayload_SystemUUID = ''38-ab'',
        RegistrationPayload_Data = \<lparr>RegistryServer_NetworkInterfaces = []\<rparr>\<rparr> ok)) es"
proof -
  let ?s = "ex_server ServerStateDiscovery PowerOn ServerOnPowerState"
  have 1: "splits_plain (words_of [])" by (simp add: splits_plain_def)
  have 2: "ex_url \<noteq> ''''" "list_all plain_char ex_url" by (simp_all add: ex_url_def plain_char_def)
  have uuid: "srvSystemUUID ?s = ''38-ab''" by (simp add: ex_server_def)
  have 3: "srvSystemUUID ?s \<noteq> ''''" "list_all plain_char (srvSystemUUID ?s)"
    unfolding uuid by (simp_all add: plain_char_def)
  have 4: "collectNetworkData (Ok []) = Ok []" by (simp add: collectNetworkData_def)
  have url: "ex_url @ ''/register'' = ''http://registry/register''" by (simp add: ex_url_def)
  from probe_registers_its_server [OF 1 2 3 4, of ex_env ex_flag_set "\<lambda>_. None" 2 "ex_world empty_Server"]
  show ?thesis unfolding uuid url .
qed

end
