(* ===== verification/Ip_Properties.thy ===== *)
theory Ip_Properties
  imports Server_Controller
begin

text \<open>The properties of the API's addresses: they survive their JSON form, and those of a status are addresses.\<close>

text \<open>
  C20. Every address and every prefix is read back from the JSON it is written as: IPv4, IPv6 with its longest run of
  zeros left out, IPv4 inside IPv6, zones, and the zero value.
\<close>

theorem ip_json_roundtrip:
  "(wf_IP i \<longrightarrow> IP_UnmarshalJSON (IP_MarshalJSON i) = Ok i) \<and>
   (wf_IPPrefix p \<longrightarrow> IPPrefix_UnmarshalJSON (IPPrefix_MarshalJSON p) = Ok p)"
  using ip_json.unmarshal_marshal prefix_json.unmarshal_marshal by blast

lemma ex_addresses_written:
  "IP_MarshalJSON (IP (Addr6 [0xfe, 0, 0, 0, 0, 1, 0, 0] ''eth0'')) = JString ''fe::1:0:0%eth0''"
  "IP_MarshalJSON (IP (Addr6 [0, 0, 0, 0, 0, 0xffff, 0x0a00, 9] [])) = JString ''::ffff:10.0.0.9''"
  "IPPrefix_MarshalJSON (IPPrefix (Prefix (Addr4 [10, 0, 0, 0]) 9)) = JString ''10.0.0.0/8''"
  by code_simp+

theorem ip_json_roundtrip_witness:
  "IP_UnmarshalJSON (JString ''fe::1:0:0%eth0'') = Ok (IP (Addr6 [0xfe, 0, 0, 0, 0, 1, 0, 0] ''eth0'')) \<and>
   IP_UnmarshalJSON (JString ''::ffff:10.0.0.9'') = Ok (IP (Addr6 [0, 0, 0, 0, 0, 0xffff, 0x0a00, 9] [])) \<and>
   IPPrefix_UnmarshalJSON (JString ''10.0.0.0/8'') = Ok (IPPrefix (Prefix (Addr4 [10, 0, 0, 0]) 9))"
proof -
  have wf: "wf_IPPrefix (IPPrefix (Prefix (Addr4 [10, 0, 0, 0]) 9))"
    "wf_IP (IP (Addr6 [0xfe, 0, 0, 0, 0, 1, 0, 0] ''eth0''))" "wf_IP (IP (Addr6 [0, 0, 0, 0, 0, 0xffff, 0x0a00, 9] []))"
    by code_simp+
  from ip_json_roundtrip [of "IP (Addr6 [0xfe, 0, 0, 0, 0, 1, 0, 0] ''eth0'')" "IPPrefix (Prefix (Addr4 [10, 0, 0, 0]) 9)"]
    ip_json_roundtrip [of "IP (Addr6 [0, 0, 0, 0, 0, 0xffff, 0x0a00, 9] [])" "IPPrefix (Prefix (Addr4 [10, 0, 0, 0]) 9)"]
  show ?thesis unfolding ex_addresses_written using wf by blast
qed

lemma MustParseIP_wf: "MustParseIP s = Ok ip \<Longrightarrow> wf_IP ip \<and> IP_IsValid (Some ip)"
  by (auto simp: MustParseIP_def wf_IP_def IP_IsValid_def dest: ParseAddr_wf split: res.splits)

lemma nics_of_addresses:
  "nics_of ds = Ok nics \<Longrightarrow>
   list_all2 (\<lambda>d n. NetworkInterface_Name n = RNI_Name d \<and> NetworkInterface_MACAddress n = RNI_MACAddress d \<and>
     MustParseIP (RNI_IPAddress d) = Ok (NetworkInterface_IP n)) ds nics"
  by (induction ds arbitrary: nics) (auto split: res.splits)



end
