(* ===== verification/Watches.thy ===== *)
theory Watches
  imports BMC_Controller Claim_Controller Server_Controller
begin

text \<open>
  \<^verbatim>\<open>SetupWithManager\<close> of the controllers: which objects' changes ask for a reconciliation, and of what; and the
  goroutine that is to resynchronise the servers periodically, a state machine beside the setup.
\<close>

section \<open>Requests\<close>

text \<open>A request names an object: namespace and name.\<close>

type_synonym request = "string \<times> string"

definition request_for :: "ObjectMeta \<Rightarrow> request" where
  "request_for om = (ObjectMeta_Namespace om, ObjectMeta_Name om)"

text \<open>\<^verbatim>\<open>Owns\<close>: the owner that controls the object, if it is of the kind; in no namespace if its kind has none.\<close>

definition GetControllerOf :: "ObjectMeta \<Rightarrow> OwnerReference option" where
  "GetControllerOf om = List.find OwnerReference_Controller (ObjectMeta_OwnerReferences om)"

definition request_for_owner :: "string \<Rightarrow> bool \<Rightarrow> ObjectMeta \<Rightarrow> request list" where
  "request_for_owner kind namespaced om =
     (case GetControllerOf om of
        None \<Rightarrow> []
      | Some ref \<Rightarrow> if OwnerReference_Kind ref = kind
                    then [(if namespaced then ObjectMeta_Namespace om else '''', OwnerReference_Name ref)] else [])"

datatype watched = WServer Server | WBMC BMC | WBMCSecret BMCSecret | WEndpoint Endpoint
  | WSBC ServerBootConfiguration | WClaim ServerClaim

section \<open>The watches\<close>

fun BMC_watches :: "watched \<Rightarrow> request list" where
  "BMC_watches (WBMC b) = [request_for (BMC_Meta b)]"
| "BMC_watches (WServer s) = request_for_owner ''BMC'' False (Server_Meta s)"
| "BMC_watches _ = []"

fun Endpoint_watches :: "watched \<Rightarrow> request list" where
  "Endpoint_watches (WEndpoint e) = [request_for (Endpoint_Meta e)]"
| "Endpoint_watches (WBMCSecret s) = request_for_owner ''Endpoint'' False (BMCSecret_Meta s)"
| "Endpoint_watches (WBMC b) = request_for_owner ''Endpoint'' False (BMC_Meta b)"
| "Endpoint_watches _ = []"

fun BMCSecret_watches :: "watched \<Rightarrow> request list" where
  "BMCSecret_watches (WBMCSecret s) = [request_for (BMCSecret_Meta s)]"
| "BMCSecret_watches _ = []"

fun SBC_watches :: "watched \<Rightarrow> request list" where
  "SBC_watches (WSBC c) = [request_for (SBC_Meta c)]"
| "SBC_watches _ = []"

fun Server_watches :: "watched \<Rightarrow> request list" where
  "Server_watches (WServer s) = [request_for (Server_Meta s)]"
| "Server_watches (WSBC c) = map (Pair '''') (enqueueServerByServerBootConfiguration c)"
| "Server_watches _ = []"

text \<open>The watch on servers lists the claims.\<close>

fun Claim_watches :: "'w env \<Rightarrow> watched \<Rightarrow> ('w, request list) M" where
  "Claim_watches E (WClaim c) = returnM [request_for (ServerClaim_Meta c)]"
| "Claim_watches E (WSBC c) = returnM (request_for_owner ''ServerClaim'' True (SBC_Meta c))"
| "Claim_watches E (WServer s) = enqueueServerClaimByRefs E s"
| "Claim_watches E _ = returnM []"

section \<open>The periodic resync\<close>

text \<open>
  The goroutine of the server controller's setup: it waits for its ticker or the end of the context, and on a
  tick sends an event about an empty server, which blocks until the manager, once started, receives it. The
  context ends when the setup returns, which is when its deferred \<^verbatim>\<open>cancel\<close> runs.
\<close>

datatype routine = Selecting | Sending | Closed

record resync =
  rs_returned :: bool
  rs_receiving :: bool
  rs_routine :: routine
  rs_requests :: "request list"

definition resync_init :: resync where
  "resync_init = \<lparr>rs_returned = False, rs_receiving = False, rs_routine = Selecting, rs_requests = []\<rparr>"

inductive resync_step :: "resync \<Rightarrow> resync \<Rightarrow> bool" where
  tick: "rs_routine s = Selecting \<Longrightarrow> resync_step s (s\<lparr>rs_routine := Sending\<rparr>)"
| deliver: "rs_routine s = Sending \<Longrightarrow> rs_receiving s \<Longrightarrow>
    resync_step s (s\<lparr>rs_routine := Selecting, rs_requests := rs_requests s @ Server_watches (WServer empty_Server)\<rparr>)"
| stop: "rs_routine s = Selecting \<Longrightarrow> rs_returned s \<Longrightarrow> resync_step s (s\<lparr>rs_routine := Closed\<rparr>)"
| setup_returns: "\<not> rs_returned s \<Longrightarrow> resync_step s (s\<lparr>rs_returned := True\<rparr>)"
| manager_starts: "rs_returned s \<Longrightarrow> \<not> rs_receiving s \<Longrightarrow> resync_step s (s\<lparr>rs_receiving := True\<rparr>)"

inductive_cases resync_stepE: "resync_step s s'"

inductive resync_reachable :: "resync \<Rightarrow> bool" where
  start: "resync_reachable resync_init"
| step: "resync_reachable s \<Longrightarrow> resync_step s s' \<Longrightarrow> resync_reachable s'"

lemma empty_Server_request: "request_for (Server_Meta empty_Server) = ('''', '''')"
  by (simp add: request_for_def empty_Server_def named_Server_def empty_ObjectMeta_def)

lemma resync_invariant:
  "resync_reachable s \<Longrightarrow> list_all (\<lambda>q. q = ('''', '''')) (rs_requests s) \<and>
     (rs_routine s = Closed \<longrightarrow> rs_returned s) \<and> (rs_receiving s \<longrightarrow> rs_returned s)"
  by (induction rule: resync_reachable.induct)
    (auto simp: resync_init_def empty_Server_request elim!: resync_stepE)

text \<open>Once closed the routine never sends again, and it can always close once the manager receives.\<close>

lemma closed_stays: "resync_step s s' \<Longrightarrow> rs_routine s = Closed \<Longrightarrow> rs_routine s' = Closed \<and> rs_requests s' = rs_requests s"
  by (auto elim!: resync_stepE)

lemma closed_forever:
  "resync_step\<^sup>*\<^sup>* s s' \<Longrightarrow> rs_routine s = Closed \<Longrightarrow> rs_routine s' = Closed \<and> rs_requests s' = rs_requests s"
  by (induction rule: rtranclp_induct) (auto dest: closed_stays)

lemma can_close:
  assumes "rs_returned s" "rs_receiving s"
  shows "\<exists>s'. resync_step\<^sup>*\<^sup>* s s' \<and> rs_routine s' = Closed"
proof (cases "rs_routine s")
  case Selecting
  with assms stop [of s] show ?thesis by (intro exI [of _ "s\<lparr>rs_routine := Closed\<rparr>"]) auto
next
  case Sending
  let ?t = "s\<lparr>rs_routine := Selecting, rs_requests := rs_requests s @ Server_watches (WServer empty_Server)\<rparr>"
  have "resync_step s ?t" and "resync_step ?t (?t\<lparr>rs_routine := Closed\<rparr>)"
    using assms Sending deliver [of s] stop [of ?t] by simp_all
  then have "resync_step\<^sup>*\<^sup>* s (?t\<lparr>rs_routine := Closed\<rparr>)" by (meson converse_rtranclp_into_rtranclp r_into_rtranclp)
  moreover have "rs_routine (?t\<lparr>rs_routine := Closed\<rparr>) = Closed" by (cases s) simp
  ultimately show ?thesis by blast
qed auto

end
