(* ===== verification/Watch_Properties.thy ===== *)
theory Watch_Properties
  imports Watches Example_World
begin

text \<open>
  The properties of the watches: an object that a controller made wakes that controller, and what the periodic
  resync of servers does.
\<close>

section \<open>Owned objects\<close>

text \<open>
  What \<^verbatim>\<open>SetControllerReference\<close> documents: it names the owner as the controller of the object, which has no
  other controller, and leaves its name and namespace.
\<close>

definition sets_controller :: "'w env \<Rightarrow> bool" where
  "sets_controller E \<longleftrightarrow> (\<forall>kind owner om om'. k_setControllerReference E kind owner om = Ok om' \<longrightarrow>
     (\<exists>ref. GetControllerOf om' = Some ref \<and> OwnerReference_Kind ref = kind \<and>
        OwnerReference_Name ref = ObjectMeta_Name owner) \<and>
     ObjectMeta_Namespace om' = ObjectMeta_Namespace om)"

lemma request_for_owner_set:
  assumes "sets_controller E" and "k_setControllerReference E kind owner om = Ok om'"
  shows "request_for_owner kind namespaced om' =
     [(if namespaced then ObjectMeta_Namespace om else '''', ObjectMeta_Name owner)]"
proof -
  from assms obtain ref where "GetControllerOf om' = Some ref" "OwnerReference_Kind ref = kind"
    "OwnerReference_Name ref = ObjectMeta_Name owner" "ObjectMeta_Namespace om' = ObjectMeta_Namespace om"
    unfolding sets_controller_def by meson
  then show ?thesis by (simp add: request_for_owner_def)
qed



section \<open>The resync\<close>

text \<open>
  C35. The periodic resync reconciles no server: every request it ever makes names the empty name, whose
  reconciliation finds nothing and changes nothing; and as soon as the setup has returned and the manager runs,
  its goroutine may end, after which it makes no request at all.
\<close>

theorem resync_reconciles_nothing:
  assumes "resync_reachable s" and "q \<in> set (rs_requests s)" and "k_getServer E '''' w = (Err NotFoundError, w')"
  shows "Server_Reconcile E r (snd q) w = (Ok emptyResult, [EKube (GotServer '''' (Err NotFoundError))], w') \<and>
    (\<exists>s'. resync_step\<^sup>*\<^sup>* s s' \<and> (\<forall>s''. resync_step\<^sup>*\<^sup>* s' s'' \<longrightarrow> rs_requests s'' = rs_requests s'))"
proof
  from resync_invariant [OF assms(1)] assms(2) have q: "q = ('''', '''')" by (auto simp: list_all_iff)
  show "Server_Reconcile E r (snd q) w = (Ok emptyResult, [EKube (GotServer '''' (Err NotFoundError))], w')"
    unfolding q using assms(3)
    by (simp add: Server_Reconcile_def reconcileObject_def GetServer_def prog_defs)
  have "rs_receiving s" using assms(1,2)
    by (induction rule: resync_reachable.induct) (auto simp: resync_init_def elim!: resync_stepE)
  with resync_invariant [OF assms(1)] can_close [of s] closed_forever
  show "\<exists>s'. resync_step\<^sup>*\<^sup>* s s' \<and> (\<forall>s''. resync_step\<^sup>*\<^sup>* s' s'' \<longrightarrow> rs_requests s'' = rs_requests s')"
    by blast
qed

text \<open>A run of the setup in which one tick is delivered.\<close>

definition ex_resync :: resync where
  "ex_resync = \<lparr>rs_returned = True, rs_receiving = True, rs_routine = Selecting, rs_requests = [('''', '''')]\<rparr>"

lemma ex_resync_reachable: "resync_reachable ex_resync"
proof -
  define s1 where "s1 = resync_init\<lparr>rs_routine := Sending\<rparr>"
  define s2 where "s2 = s1\<lparr>rs_returned := True\<rparr>"
  define s3 where "s3 = s2\<lparr>rs_receiving := True\<rparr>"
  have "resync_reachable s1" unfolding s1_def
    by (rule resync_reachable.step [OF start tick]) (simp add: resync_init_def)
  then have "resync_reachable s2" unfolding s2_def
    by (rule resync_reachable.step) (rule setup_returns, simp add: s1_def resync_init_def)
  then have "resync_reachable s3" unfolding s3_def
    by (rule resync_reachable.step) (rule manager_starts, simp_all add: s2_def s1_def resync_init_def)
  moreover have "resync_step s3 ex_resync"
    using deliver [of s3] by (simp add: s3_def s2_def s1_def resync_init_def ex_resync_def empty_Server_request)
  ultimately show ?thesis by (rule resync_reachable.step)
qed

theorem resync_reconciles_nothing_witness:
  "Server_Reconcile ex_env ex_reconciler '''' (ex_world (ex_server ServerStateAvailable PowerOn ServerOnPowerState)) =
     (Ok emptyResult, [EKube (GotServer '''' (Err NotFoundError))], ex_world (ex_server ServerStateAvailable PowerOn ServerOnPowerState))"
proof -
  let ?w = "ex_world (ex_server ServerStateAvailable PowerOn ServerOnPowerState)"
  have "k_getServer ex_env '''' ?w = (Err NotFoundError, ?w)"
    by (simp add: ex_env_def ex_world_def ex_server_def named_Server_def)
  from resync_reconciles_nothing [OF ex_resync_reachable _ this, of "('''', '''')" ex_reconciler] show ?thesis
    by (simp add: ex_resync_def)
qed

end
