(* ===== verification/Go_Memory.thy ===== *)
theory Go_Memory
  imports Prelude
begin

text \<open>
  Memory as Go code sees it where aliasing matters: pointers, slices and maps are addresses into a
  store of cells, a nil pointer, slice or map is \<open>None\<close>. The operations are those that deep copies
  use: allocation (\<^verbatim>\<open>new\<close>, \<^verbatim>\<open>make\<close>), reading and writing cells, and the loops over slices and maps.
  The locale \<open>copier\<close> states what a deep copy promises; the lemmas after it show that copies of
  structs, pointers, slices and maps keep the promise when the copies of their parts do.
\<close>

section \<open>The store\<close>

text \<open>
  A cell holds one value, the backing array of a slice, a map of strings, a map of byte slices or an
  array of bytes. The type \<open>'o\<close> has the values of every type the program has pointers to; \<open>None\<close> stands
  for the zero value that \<^verbatim>\<open>new\<close> and \<^verbatim>\<open>make\<close> leave. Addresses are the positions in the store, so that
  what is allocated later lies above what is there.
\<close>

type_synonym addr = nat

datatype 'o cell =
    One "'o option"
  | Many "'o option list"
  | Strings "(string \<times> string) list"
  | Slices "(string \<times> addr option) list"
  | Bytes string

type_synonym 'o store = "'o cell list"

text \<open>A computation on the store. A read of an address that holds no value of the expected type has no result;
  Go's type system excludes it.\<close>

type_synonym ('o, 'a) mem = "'o store \<Rightarrow> ('a \<times> 'o store) option"

definition mem_return :: "'a \<Rightarrow> ('o, 'a) mem" where
  "mem_return x h = Some (x, h)"

definition mem_bind :: "('o, 'a) mem \<Rightarrow> ('a \<Rightarrow> ('o, 'b) mem) \<Rightarrow> ('o, 'b) mem" where
  "mem_bind m f h = (case m h of None \<Rightarrow> None | Some (x, h') \<Rightarrow> f x h')"

lemma mem_bind_return [simp]: "mem_bind (mem_return x) f = f x"
  by (simp add: mem_bind_def mem_return_def fun_eq_iff)

lemma mem_bind_assoc [simp]: "mem_bind (mem_bind m f) g = mem_bind m (\<lambda>x. mem_bind (f x) g)"
  by (auto simp: mem_bind_def fun_eq_iff split: option.splits)

definition fetch :: "addr \<Rightarrow> 'o store \<Rightarrow> 'o cell option" where
  "fetch a h = (if a < length h then Some (h ! a) else None)"

definition alloc :: "'o cell \<Rightarrow> ('o, addr) mem" where
  "alloc c h = Some (length h, h @ [c])"

definition store_at :: "addr \<Rightarrow> 'o cell \<Rightarrow> ('o, unit) mem" where
  "store_at a c h = (if a < length h then Some ((), h[a := c]) else None)"

text \<open>How the values of one type are found among those of all types.\<close>

type_synonym ('o, 'a) kind = "('a \<Rightarrow> 'o) \<times> ('o \<Rightarrow> 'a option)"

definition kind_ok :: "('o, 'a) kind \<Rightarrow> bool" where
  "kind_ok k \<longleftrightarrow> (\<forall>x. snd k (fst k x) = Some x)"

lemma kind_okD [simp]: "kind_ok k \<Longrightarrow> snd k (fst k x) = Some x"
  by (simp add: kind_ok_def)

definition load :: "('o, 'a) kind \<Rightarrow> addr \<Rightarrow> ('o, 'a) mem" where
  "load k a h = (case fetch a h of Some (One (Some ob)) \<Rightarrow> map_option (\<lambda>x. (x, h)) (snd k ob) | _ \<Rightarrow> None)"

definition slice_len :: "addr \<Rightarrow> ('o, nat) mem" where
  "slice_len a h = (case fetch a h of Some (Many obs) \<Rightarrow> Some (length obs, h) | _ \<Rightarrow> None)"

definition load_elem :: "('o, 'a) kind \<Rightarrow> addr \<Rightarrow> nat \<Rightarrow> ('o, 'a) mem" where
  "load_elem k a i h = (case fetch a h of
     Some (Many obs) \<Rightarrow> (if i < length obs then map_option (\<lambda>x. (x, h)) (Option.bind (obs ! i) (snd k)) else None)
   | _ \<Rightarrow> None)"

definition write_elem :: "('o, 'a) kind \<Rightarrow> addr \<Rightarrow> nat \<Rightarrow> 'a \<Rightarrow> ('o, unit) mem" where
  "write_elem k a i x h = (case fetch a h of
     Some (Many obs) \<Rightarrow> (if i < length obs then store_at a (Many (obs[i := Some (fst k x)])) h else None)
   | _ \<Rightarrow> None)"

section \<open>Copying pointers, slices and maps\<close>

text \<open>\<^verbatim>\<open>*out = *in\<close> for a type without references.\<close>

definition assign :: "'a \<Rightarrow> ('o, 'a) mem" where
  "assign inp = mem_return inp"

text \<open>\<^verbatim>\<open>if in != nil { out = new(T); in.DeepCopyInto(out) }\<close>, also with \<^verbatim>\<open>*out = *in\<close> instead of the call.\<close>

definition copy_ptr :: "('o, 'a) kind \<Rightarrow> ('a \<Rightarrow> ('o, 'a) mem) \<Rightarrow> addr option \<Rightarrow> ('o, addr option) mem" where
  "copy_ptr k into inp = (case inp of
     None \<Rightarrow> mem_return None
   | Some p \<Rightarrow>
       mem_bind (alloc (One None)) (\<lambda>out.
       mem_bind (load k p) (\<lambda>x.
       mem_bind (into x) (\<lambda>y.
       mem_bind (store_at out (One (Some (fst k y)))) (\<lambda>_.
       mem_return (Some out))))))"

lemma copy_ptr_None [simp]: "copy_ptr k into None h = Some (None, h)"
  by (simp add: copy_ptr_def mem_return_def)

text \<open>\<^verbatim>\<open>x := (*in).DeepCopy(); *out = &x\<close> for a copy that is returned.\<close>

definition copy_boxed :: "('o, 'a) kind \<Rightarrow> ('a \<Rightarrow> ('o, 'a) mem) \<Rightarrow> addr option \<Rightarrow> ('o, addr option) mem" where
  "copy_boxed k copy inp = (case inp of
     None \<Rightarrow> mem_return None
   | Some p \<Rightarrow>
       mem_bind (load k p) (\<lambda>v.
       mem_bind (copy v) (\<lambda>x.
       mem_bind (alloc (One (Some (fst k x)))) (\<lambda>out.
       mem_return (Some out)))))"

lemma copy_boxed_None [simp]: "copy_boxed k copy None h = Some (None, h)"
  by (simp add: copy_boxed_def mem_return_def)

text \<open>\<^verbatim>\<open>for i := range *in { (*in)[i].DeepCopyInto(&(*out)[i]) }\<close>, from index \<open>i\<close> for the remaining \<open>n\<close> elements.\<close>

fun copy_elems :: "('o, 'a) kind \<Rightarrow> ('a \<Rightarrow> ('o, 'a) mem) \<Rightarrow> addr \<Rightarrow> addr \<Rightarrow> nat \<Rightarrow> nat \<Rightarrow> ('o, unit) mem" where
  "copy_elems k into inp out i 0 = mem_return ()"
| "copy_elems k into inp out i (Suc n) =
     mem_bind (load_elem k inp i) (\<lambda>x.
     mem_bind (into x) (\<lambda>y.
     mem_bind (write_elem k out i y) (\<lambda>_.
     copy_elems k into inp out (Suc i) n)))"

definition copy_slice :: "('o, 'a) kind \<Rightarrow> ('a \<Rightarrow> ('o, 'a) mem) \<Rightarrow> addr option \<Rightarrow> ('o, addr option) mem" where
  "copy_slice k into inp = (case inp of
     None \<Rightarrow> mem_return None
   | Some p \<Rightarrow>
       mem_bind (slice_len p) (\<lambda>n.
       mem_bind (alloc (Many (replicate n None))) (\<lambda>out.
       mem_bind (copy_elems k into p out 0 n) (\<lambda>_.
       mem_return (Some out)))))"

lemma copy_slice_None [simp]: "copy_slice k into None h = Some (None, h)"
  by (simp add: copy_slice_def mem_return_def)

text \<open>\<^verbatim>\<open>*out = make([]T, len(*in)); copy(*out, *in)\<close>\<close>

definition copy_array :: "addr option \<Rightarrow> ('o, addr option) mem" where
  "copy_array inp = (case inp of
     None \<Rightarrow> mem_return None
   | Some p \<Rightarrow>
       mem_bind (slice_len p) (\<lambda>n.
       mem_bind (alloc (Many (replicate n None))) (\<lambda>out h.
         case fetch p h of Some (Many obs) \<Rightarrow> mem_bind (store_at out (Many obs)) (\<lambda>_. mem_return (Some out)) h
         | _ \<Rightarrow> None)))"

lemma copy_array_None [simp]: "copy_array None h = Some (None, h)"
  by (simp add: copy_array_def mem_return_def)

definition copy_bytes :: "addr \<Rightarrow> ('o, addr) mem" where
  "copy_bytes inp h = (case fetch inp h of
     Some (Bytes bs) \<Rightarrow>
       mem_bind (alloc (Bytes (replicate (length bs) (CHR 0x00)))) (\<lambda>out.
       mem_bind (store_at out (Bytes bs)) (\<lambda>_. mem_return out)) h
   | _ \<Rightarrow> None)"

text \<open>Maps: \<^verbatim>\<open>for key, val := range *in { (*out)[key] = val }\<close>. The order of the cell's list is the order of the
  iteration.\<close>

fun copy_entries :: "addr \<Rightarrow> (string \<times> string) list \<Rightarrow> ('o, unit) mem" where
  "copy_entries out [] h = Some ((), h)"
| "copy_entries out ((key, val) # kvs) h = (case fetch out h of
     Some (Strings m) \<Rightarrow> mem_bind (store_at out (Strings (AList.update key val m))) (\<lambda>_. copy_entries out kvs) h
   | _ \<Rightarrow> None)"

definition copy_map :: "addr option \<Rightarrow> ('o, addr option) mem" where
  "copy_map inp h = (case inp of
     None \<Rightarrow> Some (None, h)
   | Some p \<Rightarrow> (case fetch p h of
       Some (Strings kvs) \<Rightarrow>
         mem_bind (alloc (Strings [])) (\<lambda>out.
         mem_bind (copy_entries out kvs) (\<lambda>_. mem_return (Some out))) h
     | _ \<Rightarrow> None))"

definition put_slice :: "addr \<Rightarrow> string \<Rightarrow> addr option \<Rightarrow> ('o, unit) mem" where
  "put_slice out key val h = (case fetch out h of
     Some (Slices m) \<Rightarrow> store_at out (Slices (AList.update key val m)) h | _ \<Rightarrow> None)"

text \<open>The loop over a map of byte slices: a nil slice is stored as nil, any other is copied; either is stored.\<close>

fun copy_byte_entries :: "addr \<Rightarrow> (string \<times> addr option) list \<Rightarrow> ('o, unit) mem" where
  "copy_byte_entries out [] = mem_return ()"
| "copy_byte_entries out ((key, val) # kvs) =
     mem_bind (case val of
         None \<Rightarrow> mem_bind (put_slice out key None) (\<lambda>_. mem_return None)
       | Some inVal \<Rightarrow> mem_bind (copy_bytes inVal) (\<lambda>outVal. mem_return (Some outVal))) (\<lambda>outVal.
     mem_bind (put_slice out key outVal) (\<lambda>_.
     copy_byte_entries out kvs))"

definition copy_byte_map :: "addr option \<Rightarrow> ('o, addr option) mem" where
  "copy_byte_map inp h = (case inp of
     None \<Rightarrow> Some (None, h)
   | Some p \<Rightarrow> (case fetch p h of
       Some (Slices kvs) \<Rightarrow>
         mem_bind (alloc (Slices [])) (\<lambda>out.
         mem_bind (copy_byte_entries out kvs) (\<lambda>_. mem_return (Some out))) h
     | _ \<Rightarrow> None))"


section \<open>What a deep copy promises\<close>

text \<open>The cells of \<open>h\<close> from address \<open>n\<close> on are in \<open>h'\<close> as they are in \<open>h\<close>.\<close>

definition same_from :: "nat \<Rightarrow> 'o store \<Rightarrow> 'o store \<Rightarrow> bool" where
  "same_from n h h' \<longleftrightarrow> length h \<le> length h' \<and> (\<forall>a. n \<le> a \<longrightarrow> a < length h \<longrightarrow> h' ! a = h ! a)"

abbreviation extends :: "'o store \<Rightarrow> 'o store \<Rightarrow> bool" where
  "extends h h' \<equiv> same_from 0 h h'"

lemma same_from_refl [simp, intro]: "same_from n h h"
  by (simp add: same_from_def)

lemma same_from_trans: "same_from n h h' \<Longrightarrow> same_from m h' h'' \<Longrightarrow> m \<le> n \<Longrightarrow> same_from n h h''"
  by (auto simp: same_from_def)

lemma same_from_mono: "same_from n h h' \<Longrightarrow> n \<le> m \<Longrightarrow> same_from m h h'"
  by (auto simp: same_from_def)

lemma same_from_append [simp]: "same_from n h (h @ cs)"
  by (auto simp: same_from_def nth_append)

lemma same_from_update [simp]: "a < n \<Longrightarrow> same_from n h (h[a := c])"
  by (auto simp: same_from_def)

lemma extends_update: "extends h h' \<Longrightarrow> length h \<le> a \<Longrightarrow> extends h (h'[a := c])"
  by (auto simp: same_from_def)

lemma extends_length: "extends h h' \<Longrightarrow> length h \<le> length h'"
  by (simp add: same_from_def)

lemma fetch_same_from: "same_from n h h' \<Longrightarrow> fetch a h = Some c \<Longrightarrow> n \<le> a \<Longrightarrow> fetch a h' = Some c"
  by (auto simp: same_from_def fetch_def split: if_splits)

text \<open>
  \<open>read x h\<close> is the value that \<open>x\<close> stands for in memory \<open>h\<close>, its pointers followed to the end. A copy is
  independent of the original if it stands for the same value, keeps it as long as the newly
  allocated cells are not changed, whatever is written to the cells there were, and the original
  keeps its value as long as the cells there were are not changed, whatever is written to the new
  ones.

  The locale says the same in the form that composes: a read does not depend on memory allocated
  later; a copy leaves the memory there was as it is, and its value depends on nothing else than the
  cells it allocated.
\<close>

definition independent_copy :: "('x \<Rightarrow> 'o store \<Rightarrow> 'v option) \<Rightarrow> ('x \<Rightarrow> ('o, 'x) mem) \<Rightarrow> bool" where
  "independent_copy read copy \<longleftrightarrow> (\<forall>x h v. read x h = Some v \<longrightarrow>
     (\<exists>y h'. copy x h = Some (y, h') \<and> read y h' = Some v \<and>
       (\<forall>h''. same_from (length h) h' h'' \<longrightarrow> read y h'' = Some v) \<and>
       (\<forall>h''. extends h h'' \<longrightarrow> read x h'' = Some v)))"

locale copier =
  fixes read :: "'x \<Rightarrow> 'o store \<Rightarrow> 'v option"
    and copy :: "'x \<Rightarrow> ('o, 'x) mem"
  assumes read_extends: "read x h = Some v \<Longrightarrow> extends h h' \<Longrightarrow> read x h' = Some v"
    and copy_reads: "read x h = Some v \<Longrightarrow>
      \<exists>y h'. copy x h = Some (y, h') \<and> extends h h' \<and> (\<forall>h''. same_from (length h) h' h'' \<longrightarrow> read y h'' = Some v)"
begin

lemma copyE:
  assumes "read x h = Some v"
  obtains y h' where "copy x h = Some (y, h')" and "extends h h'"
    and "\<And>h''. same_from (length h) h' h'' \<Longrightarrow> read y h'' = Some v"
  using copy_reads [OF assms] by blast

lemma independent: "independent_copy read copy"
  unfolding independent_copy_def
proof (intro allI impI)
  fix x h v
  assume v: "read x h = Some v"
  then obtain y h' where y: "copy x h = Some (y, h')" "\<And>h''. same_from (length h) h' h'' \<Longrightarrow> read y h'' = Some v"
    by (rule copyE) metis
  moreover have "read y h' = Some v" by (rule y(2)) simp
  moreover have "read x h'' = Some v" if "extends h h''" for h'' using v that by (rule read_extends)
  ultimately show "\<exists>y h'. copy x h = Some (y, h') \<and> read y h' = Some v \<and>
      (\<forall>h''. same_from (length h) h' h'' \<longrightarrow> read y h'' = Some v) \<and> (\<forall>h''. extends h h'' \<longrightarrow> read x h'' = Some v)"
    by blast
qed

end

text \<open>Values without references.\<close>

definition read_value :: "'a \<Rightarrow> 'o store \<Rightarrow> 'a option" where
  "read_value x h = Some x"

lemma copier_assign: "copier read_value assign"
  by unfold_locales (auto simp: read_value_def assign_def mem_return_def)

text \<open>Two parts, one after the other.\<close>

definition read_pair :: "('x \<Rightarrow> 'o store \<Rightarrow> 'v option) \<Rightarrow> ('y \<Rightarrow> 'o store \<Rightarrow> 'u option) \<Rightarrow> 'x \<times> 'y \<Rightarrow> 'o store \<Rightarrow> ('v \<times> 'u) option" where
  "read_pair r1 r2 p h = Option.bind (r1 (fst p) h) (\<lambda>v. map_option (Pair v) (r2 (snd p) h))"

definition copy_pair :: "('x \<Rightarrow> ('o, 'x) mem) \<Rightarrow> ('y \<Rightarrow> ('o, 'y) mem) \<Rightarrow> 'x \<times> 'y \<Rightarrow> ('o, 'x \<times> 'y) mem" where
  "copy_pair c1 c2 p = mem_bind (c1 (fst p)) (\<lambda>x. mem_bind (c2 (snd p)) (\<lambda>y. mem_return (x, y)))"

lemma copier_pair:
  assumes "copier r1 c1" and "copier r2 c2"
  shows "copier (read_pair r1 r2) (copy_pair c1 c2)"
proof
  show "read_pair r1 r2 p h' = Some v" if "read_pair r1 r2 p h = Some v" and "extends h h'" for p h v h'
    using that assms by (auto simp: read_pair_def bind_eq_Some_conv dest: copier.read_extends)
next
  fix p :: "'a \<times> 'd" and h v
  assume "read_pair r1 r2 p h = Some v"
  then obtain v1 v2 where v: "v = (v1, v2)" "r1 (fst p) h = Some v1" "r2 (snd p) h = Some v2"
    by (auto simp: read_pair_def bind_eq_Some_conv)
  obtain x h1 where x: "c1 (fst p) h = Some (x, h1)" "extends h h1"
      "\<And>h''. same_from (length h) h1 h'' \<Longrightarrow> r1 x h'' = Some v1"
    using copier.copyE [OF assms(1) v(2)] by metis
  have "r2 (snd p) h1 = Some v2" using copier.read_extends [OF assms(2) v(3)] x by simp
  then obtain y h2 where y: "c2 (snd p) h1 = Some (y, h2)" "extends h1 h2"
      "\<And>h''. same_from (length h1) h2 h'' \<Longrightarrow> r2 y h'' = Some v2"
    using copier.copyE [OF assms(2)] by metis
  have "r1 x h'' = Some v1 \<and> r2 y h'' = Some v2" if "same_from (length h) h2 h''" for h''
  proof
    have "same_from (length h) h1 h2" using y(2) by (rule same_from_mono) simp
    then show "r1 x h'' = Some v1" using that x(3) same_from_trans by blast
    show "r2 y h'' = Some v2" using that x(2) y(3) same_from_mono extends_length by metis
  qed
  moreover have "extends h h2" using x(2) y(2) by (rule same_from_trans) simp
  ultimately show "\<exists>y h'. copy_pair c1 c2 p h = Some (y, h') \<and> extends h h' \<and>
      (\<forall>h''. same_from (length h) h' h'' \<longrightarrow> read_pair r1 r2 y h'' = Some v)"
    using x(1) y(1) v(1) by (auto simp: copy_pair_def mem_bind_def mem_return_def read_pair_def)
qed

text \<open>A struct: \<open>parts\<close> are its fields with references, \<open>update\<close> writes their copies over the copied struct, and
  \<open>build\<close> makes the value of the struct from the values of its parts.\<close>

definition read_struct ::
    "('x \<Rightarrow> 'p) \<Rightarrow> ('p \<Rightarrow> 'o store \<Rightarrow> 'u option) \<Rightarrow> ('x \<Rightarrow> 'u \<Rightarrow> 'v) \<Rightarrow> 'x \<Rightarrow> 'o store \<Rightarrow> 'v option" where
  "read_struct parts r build x h = map_option (build x) (r (parts x) h)"

lemma copier_struct:
  assumes "\<And>x. copy x = mem_bind (c (parts x)) (\<lambda>y. mem_return (update x y))"
    and "\<And>x y. parts (update x y) = y" and "\<And>x y. build (update x y) = build x" and "copier r c"
  shows "copier (read_struct parts r build) copy"
proof
  fix x h v h'
  assume "read_struct parts r build x h = Some v" and h': "extends h h'"
  then obtain u where u: "r (parts x) h = Some u" "v = build x u" by (auto simp: read_struct_def)
  then show "read_struct parts r build x h' = Some v"
    using copier.read_extends [OF assms(4) u(1) h'] by (simp add: read_struct_def)
next
  fix x h v
  assume "read_struct parts r build x h = Some v"
  then obtain u where u: "r (parts x) h = Some u" "v = build x u" by (auto simp: read_struct_def)
  then show "\<exists>y h'. copy x h = Some (y, h') \<and> extends h h' \<and>
      (\<forall>h''. same_from (length h) h' h'' \<longrightarrow> read_struct parts r build y h'' = Some v)"
    using copier.copy_reads [OF assms(4) u(1)] by (auto simp: assms(1-3) read_struct_def mem_bind_def mem_return_def)
qed

section \<open>Pointers\<close>

definition read_ptr :: "('o, 'a) kind \<Rightarrow> ('a \<Rightarrow> 'o store \<Rightarrow> 'v option) \<Rightarrow> addr option \<Rightarrow> 'o store \<Rightarrow> 'v option option" where
  "read_ptr k r p h = (case p of
     None \<Rightarrow> Some None
   | Some a \<Rightarrow> (case fetch a h of
       Some (One (Some ob)) \<Rightarrow> map_option Some (Option.bind (snd k ob) (\<lambda>x. r x h))
     | _ \<Rightarrow> None))"

lemma read_ptr_None [simp]: "read_ptr k r None h = Some None"
  by (simp add: read_ptr_def)

lemma read_ptr_SomeE:
  assumes "read_ptr k r (Some a) h = Some v"
  obtains ob x u where "fetch a h = Some (One (Some ob))" and "snd k ob = Some x" and "r x h = Some u" and "v = Some u"
  using assms by (auto simp: read_ptr_def bind_eq_Some_conv split: option.splits cell.splits)

lemma read_ptr_new:
  assumes "kind_ok k" and "fetch a h = Some (One (Some (fst k y)))" and "r y h = Some u"
  shows "read_ptr k r (Some a) h = Some (Some u)"
  using assms by (simp add: read_ptr_def)

lemma read_ptr_extends:
  assumes "copier r c" and "read_ptr k r p h = Some v" and "extends h h'"
  shows "read_ptr k r p h' = Some v"
proof (cases p)
  case (Some a)
  with assms(2) obtain ob x u where a: "fetch a h = Some (One (Some ob))" "snd k ob = Some x" "r x h = Some u" "v = Some u"
    by (auto elim: read_ptr_SomeE)
  then have "fetch a h' = Some (One (Some ob))" "r x h' = Some u"
    using assms(3) fetch_same_from copier.read_extends [OF assms(1)] by blast+
  with a Some show ?thesis by (simp add: read_ptr_def)
qed (use assms(2) in \<open>simp add: read_ptr_def\<close>)

text \<open>References: nil is copied to nil, and any other reference to one that was not there.\<close>

lemma copier_refI:
  assumes "\<And>h. read None h = Some v0" and "\<And>h. copy None h = Some (None, h)"
    and "\<And>a h v h'. read (Some a) h = Some v \<Longrightarrow> extends h h' \<Longrightarrow> read (Some a) h' = Some v"
    and "\<And>a h v. read (Some a) h = Some v \<Longrightarrow> \<exists>b h'. copy (Some a) h = Some (Some b, h') \<and> extends h h' \<and>
      (\<forall>h''. same_from (length h) h' h'' \<longrightarrow> read (Some b) h'' = Some v)"
  shows "copier read copy"
proof
  show "read x h' = Some v" if "read x h = Some v" and "extends h h'" for x h v h'
  proof (cases x)
    case None
    then show ?thesis using that(1) by (simp add: assms(1))
  next
    case (Some a)
    then show ?thesis using assms(3) that by blast
  qed
  show "\<exists>y h'. copy x h = Some (y, h') \<and> extends h h' \<and> (\<forall>h''. same_from (length h) h' h'' \<longrightarrow> read y h'' = Some v)"
    if "read x h = Some v" for x h v
  proof (cases x)
    case None
    then show ?thesis using that by (simp add: assms(1,2))
  next
    case (Some a)
    then show ?thesis using assms(4) that by blast
  qed
qed

lemma copier_ptr:
  assumes "copier r c" and "kind_ok k"
  shows "copier (read_ptr k r) (copy_ptr k c)"
proof (rule copier_refI)
  fix a h v
  assume "read_ptr k r (Some a) h = Some v"
  then obtain ob x u where a: "fetch a h = Some (One (Some ob))" "snd k ob = Some x" "r x h = Some u" "v = Some u"
    by (rule read_ptr_SomeE)
  let ?h0 = "h @ [One None]"
  have h0: "fetch a ?h0 = Some (One (Some ob))" "r x ?h0 = Some u"
    using a fetch_same_from copier.read_extends [OF assms(1)] same_from_append by (metis le0)+
  then obtain y h1 where y: "c x ?h0 = Some (y, h1)" "extends ?h0 h1"
      "\<And>h''. same_from (length ?h0) h1 h'' \<Longrightarrow> r y h'' = Some u"
    using copier.copyE [OF assms(1) h0(2)] by metis
  let ?h2 = "h1[length h := One (Some (fst k y))]"
  have l: "length h < length h1" using extends_length [OF y(2)] by simp
  have "copy_ptr k c (Some a) h = Some (Some (length h), ?h2)"
    using a h0 y(1) l by (simp add: copy_ptr_def mem_bind_def mem_return_def alloc_def load_def store_at_def)
  moreover have "extends h ?h2"
    by (rule extends_update [OF same_from_trans [OF same_from_append y(2)]]) simp_all
  moreover have "read_ptr k r (Some (length h)) h'' = Some v" if "same_from (length h) ?h2 h''" for h''
  proof -
    have "fetch (length h) h'' = Some (One (Some (fst k y)))"
      by (rule fetch_same_from [OF that]) (use l in \<open>simp_all add: fetch_def\<close>)
    moreover have "same_from (length ?h0) h1 h''" by (rule same_from_trans [OF _ that]) simp_all
    ultimately show ?thesis using a(4) y(3) assms(2) by (simp add: read_ptr_new)
  qed
  ultimately show "\<exists>b h'. copy_ptr k c (Some a) h = Some (Some b, h') \<and> extends h h' \<and>
      (\<forall>h''. same_from (length h) h' h'' \<longrightarrow> read_ptr k r (Some b) h'' = Some v)" by blast
qed (auto intro: read_ptr_extends [OF assms(1)])

lemma copier_boxed:
  assumes "copier r c" and "kind_ok k"
  shows "copier (read_ptr k r) (copy_boxed k c)"
proof (rule copier_refI)
  fix a h v
  assume "read_ptr k r (Some a) h = Some v"
  then obtain ob x u where a: "fetch a h = Some (One (Some ob))" "snd k ob = Some x" "r x h = Some u" "v = Some u"
    by (rule read_ptr_SomeE)
  then obtain y h1 where y: "c x h = Some (y, h1)" "extends h h1"
      "\<And>h''. same_from (length h) h1 h'' \<Longrightarrow> r y h'' = Some u"
    using copier.copyE [OF assms(1) a(3)] by metis
  let ?h2 = "h1 @ [One (Some (fst k y))]"
  have "copy_boxed k c (Some a) h = Some (Some (length h1), ?h2)"
    using a y(1) by (simp add: copy_boxed_def mem_bind_def mem_return_def alloc_def load_def)
  moreover have "extends h ?h2" using y(2) by (rule same_from_trans) auto
  moreover have "read_ptr k r (Some (length h1)) h'' = Some v" if "same_from (length h) ?h2 h''" for h''
  proof -
    have "fetch (length h1) h'' = Some (One (Some (fst k y)))"
      by (rule fetch_same_from [OF that]) (use extends_length [OF y(2)] in \<open>simp_all add: fetch_def nth_append\<close>)
    moreover have "same_from (length h) h1 h''" by (rule same_from_trans [OF same_from_append that]) simp
    ultimately show ?thesis using a(4) y(3) assms(2) by (simp add: read_ptr_new)
  qed
  ultimately show "\<exists>b h'. copy_boxed k c (Some a) h = Some (Some b, h') \<and> extends h h' \<and>
      (\<forall>h''. same_from (length h) h' h'' \<longrightarrow> read_ptr k r (Some b) h'' = Some v)" by blast
qed (auto intro: read_ptr_extends [OF assms(1)])

section \<open>Slices\<close>

definition read_elem :: "('o, 'a) kind \<Rightarrow> ('a \<Rightarrow> 'o store \<Rightarrow> 'v option) \<Rightarrow> 'o store \<Rightarrow> 'o option \<Rightarrow> 'v option" where
  "read_elem k r h ob = Option.bind ob (\<lambda>o'. Option.bind (snd k o') (\<lambda>x. r x h))"

definition read_slice :: "('o, 'a) kind \<Rightarrow> ('a \<Rightarrow> 'o store \<Rightarrow> 'v option) \<Rightarrow> addr option \<Rightarrow> 'o store \<Rightarrow> 'v list option" where
  "read_slice k r p h = (case p of
     None \<Rightarrow> Some []
   | Some a \<Rightarrow> (case fetch a h of Some (Many obs) \<Rightarrow> those (map (read_elem k r h) obs) | _ \<Rightarrow> None))"

lemma read_slice_None [simp]: "read_slice k r None h = Some []"
  by (simp add: read_slice_def)

lemma those_eq_Some: "those xs = Some ys \<longleftrightarrow> xs = map Some ys"
  by (induction xs arbitrary: ys) (auto simp: Cons_eq_map_conv split: option.splits)

lemma those_map_nth:
  "those (map f xs) = Some ys \<longleftrightarrow> length ys = length xs \<and> (\<forall>j<length xs. f (xs ! j) = Some (ys ! j))"
  by (auto simp: those_eq_Some list_eq_iff_nth_eq)

lemma read_slice_SomeE:
  assumes "read_slice k r (Some a) h = Some vs"
  obtains obs where "fetch a h = Some (Many obs)" and "length vs = length obs"
    and "\<And>j. j < length obs \<Longrightarrow> read_elem k r h (obs ! j) = Some (vs ! j)"
  using assms by (auto simp: read_slice_def those_map_nth split: option.splits cell.splits)

lemma read_slice_Some:
  assumes "fetch a h = Some (Many obs)" and "length vs = length obs"
    and "\<And>j. j < length obs \<Longrightarrow> read_elem k r h (obs ! j) = Some (vs ! j)"
  shows "read_slice k r (Some a) h = Some vs"
  using assms by (simp add: read_slice_def those_map_nth)

lemma read_elem_extends:
  "copier r c \<Longrightarrow> read_elem k r h ob = Some v \<Longrightarrow> extends h h' \<Longrightarrow> read_elem k r h' ob = Some v"
  by (auto simp: read_elem_def bind_eq_Some_conv dest: copier.read_extends)

lemma read_slice_extends:
  assumes "copier r c" and "read_slice k r (Some a) h = Some vs" and "extends h h'"
  shows "read_slice k r (Some a) h' = Some vs"
proof (rule read_slice_SomeE [OF assms(2)])
  fix obs
  assume "fetch a h = Some (Many obs)" "length vs = length obs" "\<And>j. j < length obs \<Longrightarrow> read_elem k r h (obs ! j) = Some (vs ! j)"
  then show ?thesis
    using assms(1,3) by (intro read_slice_Some) (auto intro: fetch_same_from read_elem_extends)
qed

text \<open>The loop: before index \<open>i\<close> the elements are copied, and nothing the copies reach is shared.\<close>

lemma copy_elems_fills:
  assumes c: "copier r c" and k: "kind_ok k" and p: "fetch p h = Some (Many obs)"
    and vs: "\<And>j. j < length obs \<Longrightarrow> read_elem k r h (obs ! j) = Some (vs ! j)"
  shows "extends h hc \<Longrightarrow> fetch (length h) hc = Some (Many os) \<Longrightarrow> length os = length obs \<Longrightarrow> i + n = length obs \<Longrightarrow>
      (\<And>j h''. j < i \<Longrightarrow> same_from (Suc (length h)) hc h'' \<Longrightarrow> read_elem k r h'' (os ! j) = Some (vs ! j)) \<Longrightarrow>
    \<exists>hf os'. copy_elems k c p (length h) i n hc = Some ((), hf) \<and> extends h hf \<and>
      fetch (length h) hf = Some (Many os') \<and> length os' = length obs \<and>
      (\<forall>j<length obs. \<forall>h''. same_from (Suc (length h)) hf h'' \<longrightarrow> read_elem k r h'' (os' ! j) = Some (vs ! j))"
proof (induction n arbitrary: i hc os)
  case 0
  then show ?case by (auto simp: mem_return_def)
next
  case (Suc n)
  then have i: "i < length obs" by simp
  with vs obtain ob x where x: "obs ! i = Some ob" "snd k ob = Some x" "r x h = Some (vs ! i)"
    by (fastforce simp: read_elem_def bind_eq_Some_conv)
  have "r x hc = Some (vs ! i)" using copier.read_extends [OF c x(3) Suc.prems(1)] .
  then obtain y h1 where y: "c x hc = Some (y, h1)" "extends hc h1"
      "\<And>h''. same_from (length hc) h1 h'' \<Longrightarrow> r y h'' = Some (vs ! i)"
    using copier.copyE [OF c] by metis
  have l: "length h < length hc" using Suc.prems(2) by (simp add: fetch_def split: if_splits)
  let ?os = "os[i := Some (fst k y)]" and ?h2 = "h1[length h := Many (os[i := Some (fst k y)])]"
  have "fetch p hc = Some (Many obs)" "fetch (length h) h1 = Some (Many os)"
    using p Suc.prems(1,2) y(2) by (auto intro: fetch_same_from)
  then have step: "copy_elems k c p (length h) i (Suc n) hc = copy_elems k c p (length h) (Suc i) n ?h2"
    using x i y(1) Suc.prems(3) l extends_length [OF y(2)]
    by (simp add: mem_bind_def load_elem_def write_elem_def store_at_def)
  have "extends h ?h2" by (rule extends_update [OF same_from_trans [OF Suc.prems(1) y(2)]]) simp_all
  moreover have "fetch (length h) ?h2 = Some (Many ?os)" using l extends_length [OF y(2)] by (simp add: fetch_def)
  moreover have "read_elem k r h'' (?os ! j) = Some (vs ! j)" if "j < Suc i" "same_from (Suc (length h)) ?h2 h''" for j h''
  proof -
    have h1: "same_from (Suc (length h)) h1 h''" by (rule same_from_trans [OF _ that(2)]) simp_all
    have hc: "same_from (Suc (length h)) hc h''" by (rule same_from_trans [OF same_from_mono [OF y(2)] h1]) simp_all
    show ?thesis
    proof (cases "j = i")
      case True
      have "r y h'' = Some (vs ! i)" by (rule y(3) [OF same_from_mono [OF h1]]) (use l in simp)
      with True i k Suc.prems(3) show ?thesis by (simp add: read_elem_def)
    next
      case False
      with that(1) Suc.prems(5) [OF _ hc] show ?thesis by simp
    qed
  qed
  ultimately show ?case unfolding step using Suc.prems(3,4) by (intro Suc.IH [where os = ?os]) auto
qed

lemma copier_slice:
  assumes "copier r c" and "kind_ok k"
  shows "copier (read_slice k r) (copy_slice k c)"
proof (rule copier_refI)
  fix a h v
  assume "read_slice k r (Some a) h = Some v"
  then obtain obs where obs: "fetch a h = Some (Many obs)" "length v = length obs"
      "\<And>j. j < length obs \<Longrightarrow> read_elem k r h (obs ! j) = Some (v ! j)"
    by (rule read_slice_SomeE) blast
  let ?h0 = "h @ [Many (replicate (length obs) None)]"
  obtain hf os where f: "copy_elems k c a (length h) 0 (length obs) ?h0 = Some ((), hf)" "extends h hf"
      "fetch (length h) hf = Some (Many os)" "length os = length obs"
      "\<And>j h''. j < length obs \<Longrightarrow> same_from (Suc (length h)) hf h'' \<Longrightarrow> read_elem k r h'' (os ! j) = Some (v ! j)"
    using copy_elems_fills [OF assms obs(1,3), of ?h0 "replicate (length obs) None" 0 "length obs"] by (auto simp: fetch_def)
  have "read_slice k r (Some (length h)) h'' = Some v" if "same_from (length h) hf h''" for h''
    using obs(2) f(4) by (auto intro!: read_slice_Some [OF fetch_same_from [OF that f(3)]] f(5) same_from_mono [OF that])
  moreover have "copy_slice k c (Some a) h = Some (Some (length h), hf)"
    using f(1) obs(1) by (simp add: copy_slice_def mem_bind_def mem_return_def slice_len_def alloc_def)
  ultimately show "\<exists>b h'. copy_slice k c (Some a) h = Some (Some b, h') \<and> extends h h' \<and>
      (\<forall>h''. same_from (length h) h' h'' \<longrightarrow> read_slice k r (Some b) h'' = Some v)" using f(2) by blast
qed (auto intro: read_slice_extends [OF assms(1)])


text \<open>\<^verbatim>\<open>copy\<close> takes over the elements as they are, which is a copy when they have no references.\<close>

lemma copier_array: "copier (read_slice k read_value) copy_array"
proof (rule copier_refI)
  fix a h v
  assume "read_slice k read_value (Some a) h = Some v"
  then obtain obs where obs: "fetch a h = Some (Many obs)" "length v = length obs"
      "\<And>j. j < length obs \<Longrightarrow> read_elem k read_value h (obs ! j) = Some (v ! j)"
    by (rule read_slice_SomeE) blast
  let ?h0 = "h @ [Many (replicate (length obs) None)]" and ?h1 = "h @ [Many obs]"
  have "fetch a ?h0 = Some (Many obs)" using obs(1) by (rule fetch_same_from [OF same_from_append [of 0]]) simp
  then have "copy_array (Some a) h = Some (Some (length h), ?h1)"
    using obs(1) by (simp add: copy_array_def mem_bind_def mem_return_def slice_len_def alloc_def store_at_def)
  moreover have "read_slice k read_value (Some (length h)) h'' = Some v" if "same_from (length h) ?h1 h''" for h''
  proof -
    have "fetch (length h) ?h1 = Some (Many obs)" by (simp add: fetch_def)
    then show ?thesis
      by (rule read_slice_Some [OF fetch_same_from [OF that]]) (use obs in \<open>auto simp: read_elem_def read_value_def\<close>)
  qed
  ultimately show "\<exists>b h'. copy_array (Some a) h = Some (Some b, h') \<and> extends h h' \<and>
      (\<forall>h''. same_from (length h) h' h'' \<longrightarrow> read_slice k read_value (Some b) h'' = Some v)"
    using same_from_append by blast
qed (auto intro: read_slice_extends [OF copier_assign])

section \<open>Maps\<close>

definition read_map :: "addr option \<Rightarrow> 'o store \<Rightarrow> (string \<times> string) list option" where
  "read_map p h = (case p of
     None \<Rightarrow> Some []
   | Some a \<Rightarrow> (case fetch a h of
       Some (Strings kvs) \<Rightarrow> (if distinct (map fst kvs) then Some kvs else None) | _ \<Rightarrow> None))"

lemma read_map_Some:
  "read_map (Some a) h = Some kvs \<longleftrightarrow> fetch a h = Some (Strings kvs) \<and> distinct (map fst kvs)"
  by (auto simp: read_map_def split: option.splits cell.splits)

lemma update_new: "key \<notin> fst ` set m \<Longrightarrow> AList.update key val m = m @ [(key, val)]"
  by (induction m) auto

lemma copy_entries_appends:
  "distinct (map fst (m @ kvs)) \<Longrightarrow> fetch out h = Some (Strings m) \<Longrightarrow>
     copy_entries out kvs h = Some ((), h[out := Strings (m @ kvs)])"
proof (induction kvs arbitrary: m h)
  case Nil
  then show ?case by (simp add: fetch_def split: if_splits) (metis list_update_id)
next
  case (Cons kv kvs)
  obtain key val where kv: "kv = (key, val)" by (cases kv)
  let ?m = "m @ [(key, val)]"
  have l: "out < length h" using Cons.prems(2) by (simp add: fetch_def split: if_splits)
  have "fetch out (h[out := Strings ?m]) = Some (Strings ?m)" using l by (simp add: fetch_def)
  then have "copy_entries out kvs (h[out := Strings ?m]) = Some ((), h[out := Strings (m @ kv # kvs)])"
    using Cons.IH [of ?m "h[out := Strings ?m]"] Cons.prems(1) kv by simp
  then show ?case using Cons.prems l kv by (simp add: update_new mem_bind_def store_at_def)
qed

lemma copier_map: "copier read_map copy_map"
proof (rule copier_refI)
  fix a h v
  assume v: "read_map (Some a) h = Some v"
  let ?h1 = "h @ [Strings v]"
  have "copy_entries (length h) v (h @ [Strings []]) = Some ((), ?h1)"
    using v copy_entries_appends [of "[]" v "length h" "h @ [Strings []]"] by (simp add: fetch_def read_map_Some)
  then have "copy_map (Some a) h = Some (Some (length h), ?h1)"
    using v by (simp add: copy_map_def read_map_Some mem_bind_def mem_return_def alloc_def)
  moreover have "read_map (Some (length h)) h'' = Some v" if "same_from (length h) ?h1 h''" for h''
  proof -
    have "fetch (length h) ?h1 = Some (Strings v)" by (simp add: fetch_def)
    from fetch_same_from [OF that this] v show ?thesis by (simp add: read_map_Some)
  qed
  ultimately show "\<exists>b h'. copy_map (Some a) h = Some (Some b, h') \<and> extends h h' \<and>
      (\<forall>h''. same_from (length h) h' h'' \<longrightarrow> read_map (Some b) h'' = Some v)"
    using same_from_append by blast
qed (auto simp: copy_map_def read_map_Some read_map_def [of None] intro: fetch_same_from)


text \<open>Maps of byte slices.\<close>

definition read_bytes :: "addr option \<Rightarrow> 'o store \<Rightarrow> string option" where
  "read_bytes p h = (case p of
     None \<Rightarrow> Some ''''
   | Some a \<Rightarrow> (case fetch a h of Some (Bytes bs) \<Rightarrow> Some bs | _ \<Rightarrow> None))"

definition read_entry :: "'o store \<Rightarrow> string \<times> addr option \<Rightarrow> (string \<times> string) option" where
  "read_entry h kv = map_option (Pair (fst kv)) (read_bytes (snd kv) h)"

definition read_byte_map :: "addr option \<Rightarrow> 'o store \<Rightarrow> (string \<times> string) list option" where
  "read_byte_map p h = (case p of
     None \<Rightarrow> Some []
   | Some a \<Rightarrow> (case fetch a h of
       Some (Slices kvs) \<Rightarrow> (if distinct (map fst kvs) then those (map (read_entry h) kvs) else None) | _ \<Rightarrow> None))"

lemma read_byte_map_Some:
  "read_byte_map (Some a) h = Some vs \<longleftrightarrow>
     (\<exists>kvs. fetch a h = Some (Slices kvs) \<and> distinct (map fst kvs) \<and> map (read_entry h) kvs = map Some vs)"
  by (auto simp: read_byte_map_def those_eq_Some split: option.splits cell.splits)

lemma read_bytes_Some: "read_bytes (Some b) h = Some bs \<longleftrightarrow> fetch b h = Some (Bytes bs)"
  by (auto simp: read_bytes_def split: option.splits cell.splits)

lemma read_bytes_extends: "read_bytes p h = Some bs \<Longrightarrow> extends h h' \<Longrightarrow> read_bytes p h' = Some bs"
  by (cases p) (auto simp: read_bytes_Some read_bytes_def [of None] intro: fetch_same_from)

lemma read_entry_extends: "read_entry h kv = Some e \<Longrightarrow> extends h h' \<Longrightarrow> read_entry h' kv = Some e"
  by (auto simp: read_entry_def intro: read_bytes_extends)

lemma put_slice_new:
  "fetch out h = Some (Slices m) \<Longrightarrow> key \<notin> fst ` set m \<Longrightarrow>
     put_slice out key val h = Some ((), h[out := Slices (m @ [(key, val)])])"
  by (auto simp: put_slice_def store_at_def fetch_def update_new split: if_splits)

lemma update_last: "key \<notin> fst ` set m \<Longrightarrow> AList.update key val (m @ [(key, val)]) = m @ [(key, val)]"
  by (induction m) auto

lemma put_slice_again:
  assumes "out < length h" and "key \<notin> fst ` set m"
  shows "put_slice out key val (h[out := Slices (m @ [(key, val)])]) = Some ((), h[out := Slices (m @ [(key, val)])])"
  using assms by (simp add: put_slice_def store_at_def fetch_def update_last)

lemma copy_byte_entries_step:
  assumes "extends h hc" and out: "fetch (length h) hc = Some (Slices m)" and "key \<notin> fst ` set m"
    and "read_bytes val h = Some bs"
  obtains h1 w where "copy_byte_entries (length h) ((key, val) # kvs) hc = copy_byte_entries (length h) kvs h1"
    and "extends h h1" and "fetch (length h) h1 = Some (Slices (m @ [(key, w)]))" and "same_from (Suc (length h)) hc h1"
    and "\<And>h''. same_from (Suc (length h)) h1 h'' \<Longrightarrow> read_bytes w h'' = Some bs"
proof -
  have l: "length h < length hc" using out by (simp add: fetch_def split: if_splits)
  show thesis
  proof (cases val)
    case None
    let ?h1 = "hc[length h := Slices (m @ [(key, None)])]"
    show thesis
    proof (rule that)
      show "copy_byte_entries (length h) ((key, val) # kvs) hc = copy_byte_entries (length h) kvs ?h1"
        using None put_slice_new [OF out assms(3)] put_slice_again [OF l assms(3)]
        by (simp add: mem_bind_def mem_return_def)
      show "read_bytes None h'' = Some bs" for h'' :: "'a store" using assms(4) None by (simp add: read_bytes_def)
    qed (use assms(1) l in \<open>simp_all add: extends_update fetch_def\<close>)
  next
    case (Some b)
    let ?h0 = "hc @ [Bytes bs]"
    let ?h1 = "?h0[length h := Slices (m @ [(key, Some (length hc))])]"
    have b: "fetch b hc = Some (Bytes bs)"
      using assms(1,4) Some by (auto simp: read_bytes_Some intro: fetch_same_from)
    have out0: "fetch (length h) ?h0 = Some (Slices m)" by (rule fetch_same_from [OF same_from_append [of 0] out]) simp
    show thesis
    proof (rule that)
      show "copy_byte_entries (length h) ((key, val) # kvs) hc = copy_byte_entries (length h) kvs ?h1"
        using Some b put_slice_new [OF out0 assms(3)]
        by (simp add: mem_bind_def mem_return_def copy_bytes_def alloc_def store_at_def)
      show "extends h ?h1" by (rule extends_update [OF same_from_trans [OF assms(1) same_from_append]]) simp_all
      show "fetch (length h) ?h1 = Some (Slices (m @ [(key, Some (length hc))]))" using l by (simp add: fetch_def)
      show "same_from (Suc (length h)) hc ?h1" by (rule same_from_trans [OF same_from_append same_from_update order_refl]) simp
      have "fetch (length hc) ?h1 = Some (Bytes bs)" using l by (simp add: fetch_def)
      then show "read_bytes (Some (length hc)) h'' = Some bs" if "same_from (Suc (length h)) ?h1 h''" for h''
        using fetch_same_from [OF that] l by (simp add: read_bytes_Some)
    qed
  qed
qed

lemma copy_byte_entries_appends:
  "extends h hc \<Longrightarrow> fetch (length h) hc = Some (Slices m) \<Longrightarrow> distinct (map fst (m @ kvs)) \<Longrightarrow>
     map (read_entry h) kvs = map Some vs \<Longrightarrow>
   \<exists>hf m'. copy_byte_entries (length h) kvs hc = Some ((), hf) \<and> extends h hf \<and> same_from (Suc (length h)) hc hf \<and>
     fetch (length h) hf = Some (Slices (m @ m')) \<and> map fst m' = map fst kvs \<and>
     (\<forall>h''. same_from (Suc (length h)) hf h'' \<longrightarrow> map (read_entry h'') m' = map Some vs)"
proof (induction kvs arbitrary: hc m vs)
  case Nil
  then show ?case by (auto simp: mem_return_def)
next
  case (Cons kv kvs)
  obtain key val where kv: "kv = (key, val)" by (cases kv)
  from Cons.prems(4) obtain v vs' where vs: "vs = v # vs'" by (cases vs) auto
  with Cons.prems(4) kv obtain bs where bs: "read_bytes val h = Some bs" "v = (key, bs)"
    by (auto simp: read_entry_def)
  have "key \<notin> fst ` set m" using Cons.prems(3) kv by auto
  from copy_byte_entries_step [OF Cons.prems(1,2) this bs(1), of kvs]
  obtain h1 w where step: "copy_byte_entries (length h) (kv # kvs) hc = copy_byte_entries (length h) kvs h1"
    and h1: "extends h h1" "fetch (length h) h1 = Some (Slices (m @ [(key, w)]))" "same_from (Suc (length h)) hc h1"
    and w: "\<And>h''. same_from (Suc (length h)) h1 h'' \<Longrightarrow> read_bytes w h'' = Some bs"
    unfolding kv by metis
  from Cons.IH [OF h1(1,2)] Cons.prems(3,4) kv vs obtain hf m' where
    f: "copy_byte_entries (length h) kvs h1 = Some ((), hf)" "extends h hf" "same_from (Suc (length h)) h1 hf"
      "fetch (length h) hf = Some (Slices (m @ (key, w) # m'))" "map fst m' = map fst kvs"
      "\<And>h''. same_from (Suc (length h)) hf h'' \<Longrightarrow> map (read_entry h'') m' = map Some vs'"
    by auto
  have "map (read_entry h'') ((key, w) # m') = map Some vs" if "same_from (Suc (length h)) hf h''" for h''
    using f(6) [OF that] w [OF same_from_trans [OF f(3) that order_refl]] vs bs(2) by (simp add: read_entry_def)
  moreover have "same_from (Suc (length h)) hc hf" by (rule same_from_trans [OF h1(3) f(3) order_refl])
  ultimately show ?case unfolding step using f(1,2,4,5) kv by (intro exI [of _ hf] exI [of _ "(key, w) # m'"]) simp
qed

lemma copier_byte_map: "copier read_byte_map copy_byte_map"
proof (rule copier_refI)
  fix a h v
  assume "read_byte_map (Some a) h = Some v"
  then obtain kvs where kvs: "fetch a h = Some (Slices kvs)" "distinct (map fst kvs)" "map (read_entry h) kvs = map Some v"
    by (auto simp: read_byte_map_Some)
  let ?h0 = "h @ [Slices []]"
  have "fetch (length h) ?h0 = Some (Slices [])" by (simp add: fetch_def)
  from copy_byte_entries_appends [OF same_from_append this _ kvs(3)] kvs(2) obtain hf m where
    f: "copy_byte_entries (length h) kvs ?h0 = Some ((), hf)" "extends h hf" "fetch (length h) hf = Some (Slices m)"
      "map fst m = map fst kvs" "\<And>h''. same_from (Suc (length h)) hf h'' \<Longrightarrow> map (read_entry h'') m = map Some v"
    by auto
  have "copy_byte_map (Some a) h = Some (Some (length h), hf)"
    using kvs(1) f(1) by (simp add: copy_byte_map_def mem_bind_def mem_return_def alloc_def)
  moreover have "read_byte_map (Some (length h)) h'' = Some v" if "same_from (length h) hf h''" for h''
    using fetch_same_from [OF that f(3)] f(4) f(5) [OF same_from_mono [OF that]] kvs(2) by (simp add: read_byte_map_Some)
  ultimately show "\<exists>b h'. copy_byte_map (Some a) h = Some (Some b, h') \<and> extends h h' \<and>
      (\<forall>h''. same_from (length h) h' h'' \<longrightarrow> read_byte_map (Some b) h'' = Some v)" using f(2) by blast
next
  fix a h v h'
  assume "read_byte_map (Some a) h = Some v" and h': "extends h h'"
  then obtain kvs where kvs: "fetch a h = Some (Slices kvs)" "distinct (map fst kvs)" "map (read_entry h) kvs = map Some v"
    by (auto simp: read_byte_map_Some)
  have "map (read_entry h') kvs = map Some v"
    using kvs(3) h' by (auto simp: list_eq_iff_nth_eq intro: read_entry_extends [OF _ h'])
  with kvs(1,2) fetch_same_from [OF h'] show "read_byte_map (Some a) h' = Some v" by (auto simp: read_byte_map_Some)
qed (simp_all add: copy_byte_map_def read_byte_map_def)


interpretation string_map: copier read_map copy_map
  by (rule copier_map)

interpretation byte_map: copier read_byte_map copy_byte_map
  by (rule copier_byte_map)

text \<open>A pointer that is not nil is copied to the first address that was free.\<close>

lemma copy_ptr_fresh: "copy_ptr k c (Some a) h = Some (q, h') \<Longrightarrow> q = Some (length h)"
  by (auto simp: copy_ptr_def mem_bind_def mem_return_def alloc_def split: option.splits)

lemmas copier_parts = copier_pair copier_ptr copier_boxed copier_slice copier_array copier_map copier_byte_map copier_assign

end
