(* ===== verification/Deepcopy.thy ===== *)
theory Deepcopy
  imports Go_Memory Api_Types
begin

text \<open>
  The deep copies of \<^verbatim>\<open>api/v1alpha1/zz_generated.deepcopy.go\<close>. Here the structs of the API are as they lie in
  memory: a pointer, slice or map field is an address or nil. A struct without such fields is the one
  of \<open>Api_Types\<close>. The structs of the Kubernetes libraries that are copied by functions of those libraries
  (object and list metadata, conditions, label selectors, quantities) are values of an
  unknown type \<open>'l\<close>, and the functions are the fields of \<open>apimachinery\<close>.

  \<^verbatim>\<open>DeepCopyInto\<close> takes the struct \<^verbatim>\<open>*in\<close> and gives the struct it leaves in \<^verbatim>\<open>*out\<close>: its first statement
  \<^verbatim>\<open>*out = *in\<close> overwrites whatever \<^verbatim>\<open>out\<close> held, so that a struct starts as a copy of \<open>inp\<close> and the
  statements after it update its fields.
\<close>

section \<open>The structs in memory\<close>

datatype TypeMeta = TypeMeta (TypeMeta_Kind: string) (TypeMeta_APIVersion: string)

record mBIOSSettings =
  mBIOSSettings_Version :: string
  mBIOSSettings_Settings :: "addr option"

record mStorageVolume =
  mStorageVolume_Name :: string
  mStorageVolume_Capacity :: "addr option"
  mStorageVolume_State :: StorageState
  mStorageVolume_RAIDType :: string
  mStorageVolume_VolumeUsage :: string

record mStorageDrive =
  mStorageDrive_Name :: string
  mStorageDrive_MediaType :: string
  mStorageDrive_Type :: string
  mStorageDrive_Capacity :: "addr option"
  mStorageDrive_Vendor :: string
  mStorageDrive_Model :: string
  mStorageDrive_State :: StorageState

record mStorage =
  mStorage_Name :: string
  mStorage_State :: StorageState
  mStorage_Volumes :: "addr option"
  mStorage_Drives :: "addr option"

record mServerSpec =
  mServerSpec_UUID :: string
  mServerSpec_SystemUUID :: string
  mServerSpec_Power :: Power
  mServerSpec_IndicatorLED :: IndicatorLED
  mServerSpec_ServerClaimRef :: "addr option"
  mServerSpec_BMCRef :: "addr option"
  mServerSpec_BMC :: "addr option"
  mServerSpec_BootConfigurationRef :: "addr option"
  mServerSpec_BootOrder :: "addr option"
  mServerSpec_BIOS :: "addr option"

record mServerStatus =
  mServerStatus_Manufacturer :: string
  mServerStatus_Model :: string
  mServerStatus_SKU :: string
  mServerStatus_SerialNumber :: string
  mServerStatus_PowerState :: ServerPowerState
  mServerStatus_IndicatorLED :: IndicatorLED
  mServerStatus_State :: ServerState
  mServerStatus_NetworkInterfaces :: "addr option"
  mServerStatus_TotalSystemMemory :: "addr option"
  mServerStatus_Storages :: "addr option"
  mServerStatus_BIOS :: mBIOSSettings
  mServerStatus_Conditions :: "addr option"

record 'l mServer =
  mServer_TypeMeta :: TypeMeta
  mServer_ObjectMeta :: 'l
  mServer_Spec :: mServerSpec
  mServer_Status :: mServerStatus

record mBMCSpec =
  mBMCSpec_EndpointRef :: "addr option"
  mBMCSpec_Endpoint :: "addr option"
  mBMCSpec_BMCSecretRef :: LocalObjectReference
  mBMCSpec_Protocol :: Protocol
  mBMCSpec_ConsoleProtocol :: "addr option"

record mBMCStatus =
  mBMCStatus_MACAddress :: string
  mBMCStatus_IP :: IP
  mBMCStatus_Manufacturer :: string
  mBMCStatus_Model :: string
  mBMCStatus_SKU :: string
  mBMCStatus_SerialNumber :: string
  mBMCStatus_FirmwareVersion :: string
  mBMCStatus_State :: string
  mBMCStatus_PowerState :: string
  mBMCStatus_Conditions :: "addr option"

record 'l mBMC =
  mBMC_TypeMeta :: TypeMeta
  mBMC_ObjectMeta :: 'l
  mBMC_Spec :: mBMCSpec
  mBMC_Status :: mBMCStatus

record 'l mBMCSecret =
  mBMCSecret_TypeMeta :: TypeMeta
  mBMCSecret_ObjectMeta :: 'l
  mBMCSecret_Immutable :: "addr option"
  mBMCSecret_Data :: "addr option"
  mBMCSecret_StringData :: "addr option"
  mBMCSecret_Type :: string

datatype EndpointStatus = EndpointStatus

record 'l mEndpoint =
  mEndpoint_TypeMeta :: TypeMeta
  mEndpoint_ObjectMeta :: 'l
  mEndpoint_Spec :: EndpointSpec
  mEndpoint_Status :: EndpointStatus

record mServerBootConfigurationSpec =
  mSBCSpec_ServerRef :: LocalObjectReference
  mSBCSpec_Image :: string
  mSBCSpec_IgnitionSecretRef :: "addr option"

datatype ServerBootConfigurationStatus = ServerBootConfigurationStatus (SBCStatus_State: string)

record 'l mServerBootConfiguration =
  mSBC_TypeMeta :: TypeMeta
  mSBC_ObjectMeta :: 'l
  mSBC_Spec :: mServerBootConfigurationSpec
  mSBC_Status :: ServerBootConfigurationStatus

record mServerClaimSpec =
  mServerClaimSpec_Power :: Power
  mServerClaimSpec_ServerRef :: "addr option"
  mServerClaimSpec_ServerSelector :: "addr option"
  mServerClaimSpec_IgnitionSecretRef :: "addr option"
  mServerClaimSpec_Image :: string

datatype ServerClaimStatus = ServerClaimStatus (ServerClaimStatus_Phase: string)

record 'l mServerClaim =
  mServerClaim_TypeMeta :: TypeMeta
  mServerClaim_ObjectMeta :: 'l
  mServerClaim_Spec :: mServerClaimSpec
  mServerClaim_Status :: ServerClaimStatus

text \<open>The list types.\<close>

record 'l mBMCList =
  mBMCList_TypeMeta :: TypeMeta
  mBMCList_ListMeta :: 'l
  mBMCList_Items :: "addr option"

record 'l mBMCSecretList =
  mBMCSecretList_TypeMeta :: TypeMeta
  mBMCSecretList_ListMeta :: 'l
  mBMCSecretList_Items :: "addr option"

record 'l mEndpointList =
  mEndpointList_TypeMeta :: TypeMeta
  mEndpointList_ListMeta :: 'l
  mEndpointList_Items :: "addr option"

record 'l mServerBootConfigurationList =
  mServerBootConfigurationList_TypeMeta :: TypeMeta
  mServerBootConfigurationList_ListMeta :: 'l
  mServerBootConfigurationList_Items :: "addr option"

record 'l mServerClaimList =
  mServerClaimList_TypeMeta :: TypeMeta
  mServerClaimList_ListMeta :: 'l
  mServerClaimList_Items :: "addr option"

record 'l mServerList =
  mServerList_TypeMeta :: TypeMeta
  mServerList_ListMeta :: 'l
  mServerList_Items :: "addr option"

section \<open>Values with an address\<close>

text \<open>The values that pointers and slices can refer to: one constructor per Go type.\<close>

datatype 'l obj =
    O_Lib 'l
  | O_LocalObjectReference LocalObjectReference
  | O_ObjectReference ObjectReference
  | O_bool bool
  | O_InlineEndpoint InlineEndpoint
  | O_ConsoleProtocol ConsoleProtocol
  | O_Protocol Protocol
  | O_BMCAccess BMCAccess
  | O_BootOrder BootOrder
  | O_BIOSSettings mBIOSSettings
  | O_NetworkInterface NetworkInterface
  | O_StorageVolume mStorageVolume
  | O_StorageDrive mStorageDrive
  | O_Storage mStorage
  | O_ServerSpec mServerSpec
  | O_ServerStatus mServerStatus
  | O_Server "'l mServer"
  | O_ServerList "'l mServerList"
  | O_BMCSpec mBMCSpec
  | O_BMCStatus mBMCStatus
  | O_BMC "'l mBMC"
  | O_BMCList "'l mBMCList"
  | O_BMCSecret "'l mBMCSecret"
  | O_BMCSecretList "'l mBMCSecretList"
  | O_EndpointSpec EndpointSpec
  | O_EndpointStatus EndpointStatus
  | O_Endpoint "'l mEndpoint"
  | O_EndpointList "'l mEndpointList"
  | O_SBCSpec mServerBootConfigurationSpec
  | O_SBCStatus ServerBootConfigurationStatus
  | O_SBC "'l mServerBootConfiguration"
  | O_SBCList "'l mServerBootConfigurationList"
  | O_ServerClaimSpec mServerClaimSpec
  | O_ServerClaimStatus ServerClaimStatus
  | O_ServerClaim "'l mServerClaim"
  | O_ServerClaimList "'l mServerClaimList"

text \<open>How each type is found among them.\<close>

definition k_Lib :: "('l obj, 'l) kind" where
  "k_Lib = (O_Lib, \<lambda>ob. case ob of O_Lib x \<Rightarrow> Some x | _ \<Rightarrow> None)"

definition k_LocalObjectReference :: "('l obj, LocalObjectReference) kind" where
  "k_LocalObjectReference = (O_LocalObjectReference, \<lambda>ob. case ob of O_LocalObjectReference x \<Rightarrow> Some x | _ \<Rightarrow> None)"

definition k_ObjectReference :: "('l obj, ObjectReference) kind" where
  "k_ObjectReference = (O_ObjectReference, \<lambda>ob. case ob of O_ObjectReference x \<Rightarrow> Some x | _ \<Rightarrow> None)"

definition k_bool :: "('l obj, bool) kind" where
  "k_bool = (O_bool, \<lambda>ob. case ob of O_bool x \<Rightarrow> Some x | _ \<Rightarrow> None)"

definition k_InlineEndpoint :: "('l obj, InlineEndpoint) kind" where
  "k_InlineEndpoint = (O_InlineEndpoint, \<lambda>ob. case ob of O_InlineEndpoint x \<Rightarrow> Some x | _ \<Rightarrow> None)"

definition k_ConsoleProtocol :: "('l obj, ConsoleProtocol) kind" where
  "k_ConsoleProtocol = (O_ConsoleProtocol, \<lambda>ob. case ob of O_ConsoleProtocol x \<Rightarrow> Some x | _ \<Rightarrow> None)"

definition k_Protocol :: "('l obj, Protocol) kind" where
  "k_Protocol = (O_Protocol, \<lambda>ob. case ob of O_Protocol x \<Rightarrow> Some x | _ \<Rightarrow> None)"

definition k_BMCAccess :: "('l obj, BMCAccess) kind" where
  "k_BMCAccess = (O_BMCAccess, \<lambda>ob. case ob of O_BMCAccess x \<Rightarrow> Some x | _ \<Rightarrow> None)"

definition k_BootOrder :: "('l obj, BootOrder) kind" where
  "k_BootOrder = (O_BootOrder, \<lambda>ob. case ob of O_BootOrder x \<Rightarrow> Some x | _ \<Rightarrow> None)"

definition k_BIOSSettings :: "('l obj, mBIOSSettings) kind" where
  "k_BIOSSettings = (O_BIOSSettings, \<lambda>ob. case ob of O_BIOSSettings x \<Rightarrow> Some x | _ \<Rightarrow> None)"

definition k_NetworkInterface :: "('l obj, NetworkInterface) kind" where
  "k_NetworkInterface = (O_NetworkInterface, \<lambda>ob. case ob of O_NetworkInterface x \<Rightarrow> Some x | _ \<Rightarrow> None)"

definition k_StorageVolume :: "('l obj, mStorageVolume) kind" where
  "k_StorageVolume = (O_StorageVolume, \<lambda>ob. case ob of O_StorageVolume x \<Rightarrow> Some x | _ \<Rightarrow> None)"

definition k_StorageDrive :: "('l obj, mStorageDrive) kind" where
  "k_StorageDrive = (O_StorageDrive, \<lambda>ob. case ob of O_StorageDrive x \<Rightarrow> Some x | _ \<Rightarrow> None)"

definition k_Storage :: "('l obj, mStorage) kind" where
  "k_Storage = (O_Storage, \<lambda>ob. case ob of O_Storage x \<Rightarrow> Some x | _ \<Rightarrow> None)"

definition k_ServerSpec :: "('l obj, mServerSpec) kind" where
  "k_ServerSpec = (O_ServerSpec, \<lambda>ob. case ob of O_ServerSpec x \<Rightarrow> Some x | _ \<Rightarrow> None)"

definition k_ServerStatus :: "('l obj, mServerStatus) kind" where
  "k_ServerStatus = (O_ServerStatus, \<lambda>ob. case ob of O_ServerStatus x \<Rightarrow> Some x | _ \<Rightarrow> None)"

definition k_Server :: "('l obj, 'l mServer) kind" where
  "k_Server = (O_Server, \<lambda>ob. case ob of O_Server x \<Rightarrow> Some x | _ \<Rightarrow> None)"

definition k_ServerList :: "('l obj, 'l mServerList) kind" where
  "k_ServerList = (O_ServerList, \<lambda>ob. case ob of O_ServerList x \<Rightarrow> Some x | _ \<Rightarrow> None)"

definition k_BMCSpec :: "('l obj, mBMCSpec) kind" where
  "k_BMCSpec = (O_BMCSpec, \<lambda>ob. case ob of O_BMCSpec x \<Rightarrow> Some x | _ \<Rightarrow> None)"

definition k_BMCStatus :: "('l obj, mBMCStatus) kind" where
  "k_BMCStatus = (O_BMCStatus, \<lambda>ob. case ob of O_BMCStatus x \<Rightarrow> Some x | _ \<Rightarrow> None)"

definition k_BMC :: "('l obj, 'l mBMC) kind" where
  "k_BMC = (O_BMC, \<lambda>ob. case ob of O_BMC x \<Rightarrow> Some x | _ \<Rightarrow> None)"

definition k_BMCList :: "('l obj, 'l mBMCList) kind" where
  "k_BMCList = (O_BMCList, \<lambda>ob. case ob of O_BMCList x \<Rightarrow> Some x | _ \<Rightarrow> None)"

definition k_BMCSecret :: "('l obj, 'l mBMCSecret) kind" where
  "k_BMCSecret = (O_BMCSecret, \<lambda>ob. case ob of O_BMCSecret x \<Rightarrow> Some x | _ \<Rightarrow> None)"

definition k_BMCSecretList :: "('l obj, 'l mBMCSecretList) kind" where
  "k_BMCSecretList = (O_BMCSecretList, \<lambda>ob. case ob of O_BMCSecretList x \<Rightarrow> Some x | _ \<Rightarrow> None)"

definition k_EndpointSpec :: "('l obj, EndpointSpec) kind" where
  "k_EndpointSpec = (O_EndpointSpec, \<lambda>ob. case ob of O_EndpointSpec x \<Rightarrow> Some x | _ \<Rightarrow> None)"

definition k_EndpointStatus :: "('l obj, EndpointStatus) kind" where
  "k_EndpointStatus = (O_EndpointStatus, \<lambda>ob. case ob of O_EndpointStatus x \<Rightarrow> Some x | _ \<Rightarrow> None)"

definition k_Endpoint :: "('l obj, 'l mEndpoint) kind" where
  "k_Endpoint = (O_Endpoint, \<lambda>ob. case ob of O_Endpoint x \<Rightarrow> Some x | _ \<Rightarrow> None)"

definition k_EndpointList :: "('l obj, 'l mEndpointList) kind" where
  "k_EndpointList = (O_EndpointList, \<lambda>ob. case ob of O_EndpointList x \<Rightarrow> Some x | _ \<Rightarrow> None)"

definition k_SBCSpec :: "('l obj, mServerBootConfigurationSpec) kind" where
  "k_SBCSpec = (O_SBCSpec, \<lambda>ob. case ob of O_SBCSpec x \<Rightarrow> Some x | _ \<Rightarrow> None)"

definition k_SBCStatus :: "('l obj, ServerBootConfigurationStatus) kind" where
  "k_SBCStatus = (O_SBCStatus, \<lambda>ob. case ob of O_SBCStatus x \<Rightarrow> Some x | _ \<Rightarrow> None)"

definition k_SBC :: "('l obj, 'l mServerBootConfiguration) kind" where
  "k_SBC = (O_SBC, \<lambda>ob. case ob of O_SBC x \<Rightarrow> Some x | _ \<Rightarrow> None)"

definition k_SBCList :: "('l obj, 'l mServerBootConfigurationList) kind" where
  "k_SBCList = (O_SBCList, \<lambda>ob. case ob of O_SBCList x \<Rightarrow> Some x | _ \<Rightarrow> None)"

definition k_ServerClaimSpec :: "('l obj, mServerClaimSpec) kind" where
  "k_ServerClaimSpec = (O_ServerClaimSpec, \<lambda>ob. case ob of O_ServerClaimSpec x \<Rightarrow> Some x | _ \<Rightarrow> None)"

definition k_ServerClaimStatus :: "('l obj, ServerClaimStatus) kind" where
  "k_ServerClaimStatus = (O_ServerClaimStatus, \<lambda>ob. case ob of O_ServerClaimStatus x \<Rightarrow> Some x | _ \<Rightarrow> None)"

definition k_ServerClaim :: "('l obj, 'l mServerClaim) kind" where
  "k_ServerClaim = (O_ServerClaim, \<lambda>ob. case ob of O_ServerClaim x \<Rightarrow> Some x | _ \<Rightarrow> None)"

definition k_ServerClaimList :: "('l obj, 'l mServerClaimList) kind" where
  "k_ServerClaimList = (O_ServerClaimList, \<lambda>ob. case ob of O_ServerClaimList x \<Rightarrow> Some x | _ \<Rightarrow> None)"

lemma kinds_ok [simp]:
  "kind_ok k_Lib"
  "kind_ok k_LocalObjectReference"
  "kind_ok k_ObjectReference"
  "kind_ok k_bool"
  "kind_ok k_InlineEndpoint"
  "kind_ok k_ConsoleProtocol"
  "kind_ok k_Protocol"
  "kind_ok k_BMCAccess"
  "kind_ok k_BootOrder"
  "kind_ok k_BIOSSettings"
  "kind_ok k_NetworkInterface"
  "kind_ok k_StorageVolume"
  "kind_ok k_StorageDrive"
  "kind_ok k_Storage"
  "kind_ok k_ServerSpec"
  "kind_ok k_ServerStatus"
  "kind_ok k_Server"
  "kind_ok k_ServerList"
  "kind_ok k_BMCSpec"
  "kind_ok k_BMCStatus"
  "kind_ok k_BMC"
  "kind_ok k_BMCList"
  "kind_ok k_BMCSecret"
  "kind_ok k_BMCSecretList"
  "kind_ok k_EndpointSpec"
  "kind_ok k_EndpointStatus"
  "kind_ok k_Endpoint"
  "kind_ok k_EndpointList"
  "kind_ok k_SBCSpec"
  "kind_ok k_SBCStatus"
  "kind_ok k_SBC"
  "kind_ok k_SBCList"
  "kind_ok k_ServerClaimSpec"
  "kind_ok k_ServerClaimStatus"
  "kind_ok k_ServerClaim"
  "kind_ok k_ServerClaimList"
  by (simp_all add: kind_ok_def k_Lib_def k_LocalObjectReference_def k_ObjectReference_def k_bool_def k_InlineEndpoint_def
      k_ConsoleProtocol_def k_Protocol_def k_BMCAccess_def k_BootOrder_def k_BIOSSettings_def
      k_NetworkInterface_def k_StorageVolume_def k_StorageDrive_def k_Storage_def k_ServerSpec_def
      k_ServerStatus_def k_Server_def k_ServerList_def k_BMCSpec_def k_BMCStatus_def
      k_BMC_def k_BMCList_def k_BMCSecret_def k_BMCSecretList_def k_EndpointSpec_def
      k_EndpointStatus_def k_Endpoint_def k_EndpointList_def k_SBCSpec_def k_SBCStatus_def
      k_SBC_def k_SBCList_def k_ServerClaimSpec_def k_ServerClaimStatus_def k_ServerClaim_def
      k_ServerClaimList_def)

section \<open>The functions of the Kubernetes libraries\<close>

record 'l apimachinery =
  lib_ObjectMeta_DeepCopyInto :: "'l \<Rightarrow> ('l obj, 'l) mem"
  lib_ListMeta_DeepCopyInto :: "'l \<Rightarrow> ('l obj, 'l) mem"
  lib_Condition_DeepCopyInto :: "'l \<Rightarrow> ('l obj, 'l) mem"
  lib_LabelSelector_DeepCopyInto :: "'l \<Rightarrow> ('l obj, 'l) mem"
  lib_Quantity_DeepCopy :: "'l \<Rightarrow> ('l obj, 'l) mem"

section \<open>DeepCopyInto\<close>

definition BIOSSettings_DeepCopyInto :: "mBIOSSettings \<Rightarrow> ('l obj, mBIOSSettings) mem" where
  "BIOSSettings_DeepCopyInto inp =
     mem_bind (copy_map (mBIOSSettings_Settings inp)) (\<lambda>settings.
     mem_return (inp\<lparr>mBIOSSettings_Settings := settings\<rparr>))"

definition BMCAccess_DeepCopyInto :: "BMCAccess \<Rightarrow> ('l obj, BMCAccess) mem" where
  "BMCAccess_DeepCopyInto inp =
     mem_return (inp\<lparr>BMCAccess_Protocol := BMCAccess_Protocol inp, BMCAccess_BMCSecretRef := BMCAccess_BMCSecretRef inp\<rparr>)"

definition BootOrder_DeepCopyInto :: "BootOrder \<Rightarrow> ('l obj, BootOrder) mem" where
  "BootOrder_DeepCopyInto inp = mem_return inp"

definition ConsoleProtocol_DeepCopyInto :: "ConsoleProtocol \<Rightarrow> ('l obj, ConsoleProtocol) mem" where
  "ConsoleProtocol_DeepCopyInto inp = mem_return inp"

definition Protocol_DeepCopyInto :: "Protocol \<Rightarrow> ('l obj, Protocol) mem" where
  "Protocol_DeepCopyInto inp = mem_return inp"

definition EndpointSpec_DeepCopyInto :: "EndpointSpec \<Rightarrow> ('l obj, EndpointSpec) mem" where
  "EndpointSpec_DeepCopyInto inp =
     mem_return (inp\<lparr>EndpointSpec_IP := IP_DeepCopyInto (EndpointSpec_IP inp) (EndpointSpec_IP inp)\<rparr>)"

definition EndpointStatus_DeepCopyInto :: "EndpointStatus \<Rightarrow> ('l obj, EndpointStatus) mem" where
  "EndpointStatus_DeepCopyInto inp = mem_return inp"

definition InlineEndpoint_DeepCopyInto :: "InlineEndpoint \<Rightarrow> ('l obj, InlineEndpoint) mem" where
  "InlineEndpoint_DeepCopyInto inp =
     mem_return (inp\<lparr>InlineEndpoint_IP := IP_DeepCopyInto (InlineEndpoint_IP inp) (InlineEndpoint_IP inp)\<rparr>)"

definition NetworkInterface_DeepCopyInto :: "NetworkInterface \<Rightarrow> ('l obj, NetworkInterface) mem" where
  "NetworkInterface_DeepCopyInto inp =
     mem_return (inp\<lparr>NetworkInterface_IP := IP_DeepCopyInto (NetworkInterface_IP inp) (NetworkInterface_IP inp)\<rparr>)"

definition ServerBootConfigurationStatus_DeepCopyInto ::
    "ServerBootConfigurationStatus \<Rightarrow> ('l obj, ServerBootConfigurationStatus) mem" where
  "ServerBootConfigurationStatus_DeepCopyInto inp = mem_return inp"

definition ServerClaimStatus_DeepCopyInto :: "ServerClaimStatus \<Rightarrow> ('l obj, ServerClaimStatus) mem" where
  "ServerClaimStatus_DeepCopyInto inp = mem_return inp"

definition BMCSpec_DeepCopyInto :: "mBMCSpec \<Rightarrow> ('l obj, mBMCSpec) mem" where
  "BMCSpec_DeepCopyInto inp =
     mem_bind (copy_ptr k_LocalObjectReference assign (mBMCSpec_EndpointRef inp)) (\<lambda>endpointRef.
     mem_bind (copy_ptr k_InlineEndpoint InlineEndpoint_DeepCopyInto (mBMCSpec_Endpoint inp)) (\<lambda>endpoint.
     mem_bind (copy_ptr k_ConsoleProtocol assign (mBMCSpec_ConsoleProtocol inp)) (\<lambda>consoleProtocol.
     mem_return (inp\<lparr>mBMCSpec_EndpointRef := endpointRef, mBMCSpec_Endpoint := endpoint,
       mBMCSpec_BMCSecretRef := mBMCSpec_BMCSecretRef inp, mBMCSpec_Protocol := mBMCSpec_Protocol inp,
       mBMCSpec_ConsoleProtocol := consoleProtocol\<rparr>))))"

definition BMCStatus_DeepCopyInto :: "'l apimachinery \<Rightarrow> mBMCStatus \<Rightarrow> ('l obj, mBMCStatus) mem" where
  "BMCStatus_DeepCopyInto L inp =
     mem_bind (copy_slice k_Lib (lib_Condition_DeepCopyInto L) (mBMCStatus_Conditions inp)) (\<lambda>conditions.
     mem_return (inp\<lparr>mBMCStatus_IP := IP_DeepCopyInto (mBMCStatus_IP inp) (mBMCStatus_IP inp),
       mBMCStatus_Conditions := conditions\<rparr>))"

definition BMC_DeepCopyInto :: "'l apimachinery \<Rightarrow> 'l mBMC \<Rightarrow> ('l obj, 'l mBMC) mem" where
  "BMC_DeepCopyInto L inp =
     mem_bind (lib_ObjectMeta_DeepCopyInto L (mBMC_ObjectMeta inp)) (\<lambda>objectMeta.
     mem_bind (BMCSpec_DeepCopyInto (mBMC_Spec inp)) (\<lambda>spec.
     mem_bind (BMCStatus_DeepCopyInto L (mBMC_Status inp)) (\<lambda>status.
     mem_return (inp\<lparr>mBMC_TypeMeta := mBMC_TypeMeta inp, mBMC_ObjectMeta := objectMeta, mBMC_Spec := spec,
       mBMC_Status := status\<rparr>))))"

definition BMCSecret_DeepCopyInto :: "'l apimachinery \<Rightarrow> 'l mBMCSecret \<Rightarrow> ('l obj, 'l mBMCSecret) mem" where
  "BMCSecret_DeepCopyInto L inp =
     mem_bind (lib_ObjectMeta_DeepCopyInto L (mBMCSecret_ObjectMeta inp)) (\<lambda>objectMeta.
     mem_bind (copy_ptr k_bool assign (mBMCSecret_Immutable inp)) (\<lambda>immutable.
     mem_bind (copy_byte_map (mBMCSecret_Data inp)) (\<lambda>dat.
     mem_bind (copy_map (mBMCSecret_StringData inp)) (\<lambda>stringData.
     mem_return (inp\<lparr>mBMCSecret_TypeMeta := mBMCSecret_TypeMeta inp, mBMCSecret_ObjectMeta := objectMeta,
       mBMCSecret_Immutable := immutable, mBMCSecret_Data := dat, mBMCSecret_StringData := stringData\<rparr>)))))"

definition Endpoint_DeepCopyInto :: "'l apimachinery \<Rightarrow> 'l mEndpoint \<Rightarrow> ('l obj, 'l mEndpoint) mem" where
  "Endpoint_DeepCopyInto L inp =
     mem_bind (lib_ObjectMeta_DeepCopyInto L (mEndpoint_ObjectMeta inp)) (\<lambda>objectMeta.
     mem_bind (EndpointSpec_DeepCopyInto (mEndpoint_Spec inp)) (\<lambda>spec.
     mem_return (inp\<lparr>mEndpoint_TypeMeta := mEndpoint_TypeMeta inp, mEndpoint_ObjectMeta := objectMeta,
       mEndpoint_Spec := spec, mEndpoint_Status := mEndpoint_Status inp\<rparr>)))"

definition ServerBootConfigurationSpec_DeepCopyInto ::
    "mServerBootConfigurationSpec \<Rightarrow> ('l obj, mServerBootConfigurationSpec) mem" where
  "ServerBootConfigurationSpec_DeepCopyInto inp =
     mem_bind (copy_ptr k_LocalObjectReference assign (mSBCSpec_IgnitionSecretRef inp)) (\<lambda>ignitionSecretRef.
     mem_return (inp\<lparr>mSBCSpec_ServerRef := mSBCSpec_ServerRef inp, mSBCSpec_IgnitionSecretRef := ignitionSecretRef\<rparr>))"

definition ServerBootConfiguration_DeepCopyInto ::
    "'l apimachinery \<Rightarrow> 'l mServerBootConfiguration \<Rightarrow> ('l obj, 'l mServerBootConfiguration) mem" where
  "ServerBootConfiguration_DeepCopyInto L inp =
     mem_bind (lib_ObjectMeta_DeepCopyInto L (mSBC_ObjectMeta inp)) (\<lambda>objectMeta.
     mem_bind (ServerBootConfigurationSpec_DeepCopyInto (mSBC_Spec inp)) (\<lambda>spec.
     mem_return (inp\<lparr>mSBC_TypeMeta := mSBC_TypeMeta inp, mSBC_ObjectMeta := objectMeta, mSBC_Spec := spec,
       mSBC_Status := mSBC_Status inp\<rparr>)))"

definition ServerClaimSpec_DeepCopyInto :: "'l apimachinery \<Rightarrow> mServerClaimSpec \<Rightarrow> ('l obj, mServerClaimSpec) mem" where
  "ServerClaimSpec_DeepCopyInto L inp =
     mem_bind (copy_ptr k_LocalObjectReference assign (mServerClaimSpec_ServerRef inp)) (\<lambda>serverRef.
     mem_bind (copy_ptr k_Lib (lib_LabelSelector_DeepCopyInto L) (mServerClaimSpec_ServerSelector inp)) (\<lambda>serverSelector.
     mem_bind (copy_ptr k_LocalObjectReference assign (mServerClaimSpec_IgnitionSecretRef inp)) (\<lambda>ignitionSecretRef.
     mem_return (inp\<lparr>mServerClaimSpec_ServerRef := serverRef, mServerClaimSpec_ServerSelector := serverSelector,
       mServerClaimSpec_IgnitionSecretRef := ignitionSecretRef\<rparr>))))"

definition ServerClaim_DeepCopyInto :: "'l apimachinery \<Rightarrow> 'l mServerClaim \<Rightarrow> ('l obj, 'l mServerClaim) mem" where
  "ServerClaim_DeepCopyInto L inp =
     mem_bind (lib_ObjectMeta_DeepCopyInto L (mServerClaim_ObjectMeta inp)) (\<lambda>objectMeta.
     mem_bind (ServerClaimSpec_DeepCopyInto L (mServerClaim_Spec inp)) (\<lambda>spec.
     mem_return (inp\<lparr>mServerClaim_TypeMeta := mServerClaim_TypeMeta inp, mServerClaim_ObjectMeta := objectMeta,
       mServerClaim_Spec := spec, mServerClaim_Status := mServerClaim_Status inp\<rparr>)))"

definition StorageDrive_DeepCopyInto :: "'l apimachinery \<Rightarrow> mStorageDrive \<Rightarrow> ('l obj, mStorageDrive) mem" where
  "StorageDrive_DeepCopyInto L inp =
     mem_bind (copy_boxed k_Lib (lib_Quantity_DeepCopy L) (mStorageDrive_Capacity inp)) (\<lambda>capacity.
     mem_return (inp\<lparr>mStorageDrive_Capacity := capacity\<rparr>))"

definition StorageVolume_DeepCopyInto :: "'l apimachinery \<Rightarrow> mStorageVolume \<Rightarrow> ('l obj, mStorageVolume) mem" where
  "StorageVolume_DeepCopyInto L inp =
     mem_bind (copy_boxed k_Lib (lib_Quantity_DeepCopy L) (mStorageVolume_Capacity inp)) (\<lambda>capacity.
     mem_return (inp\<lparr>mStorageVolume_Capacity := capacity\<rparr>))"

definition Storage_DeepCopyInto :: "'l apimachinery \<Rightarrow> mStorage \<Rightarrow> ('l obj, mStorage) mem" where
  "Storage_DeepCopyInto L inp =
     mem_bind (copy_slice k_StorageVolume (StorageVolume_DeepCopyInto L) (mStorage_Volumes inp)) (\<lambda>volumes.
     mem_bind (copy_slice k_StorageDrive (StorageDrive_DeepCopyInto L) (mStorage_Drives inp)) (\<lambda>drives.
     mem_return (inp\<lparr>mStorage_Volumes := volumes, mStorage_Drives := drives\<rparr>)))"

definition ServerSpec_DeepCopyInto :: "mServerSpec \<Rightarrow> ('l obj, mServerSpec) mem" where
  "ServerSpec_DeepCopyInto inp =
     mem_bind (copy_ptr k_ObjectReference assign (mServerSpec_ServerClaimRef inp)) (\<lambda>serverClaimRef.
     mem_bind (copy_ptr k_LocalObjectReference assign (mServerSpec_BMCRef inp)) (\<lambda>bmcRef.
     mem_bind (copy_ptr k_BMCAccess assign (mServerSpec_BMC inp)) (\<lambda>bmc.
     mem_bind (copy_ptr k_ObjectReference assign (mServerSpec_BootConfigurationRef inp)) (\<lambda>bootConfigurationRef.
     mem_bind (copy_array (mServerSpec_BootOrder inp)) (\<lambda>bootOrder.
     mem_bind (copy_slice k_BIOSSettings BIOSSettings_DeepCopyInto (mServerSpec_BIOS inp)) (\<lambda>bios.
     mem_return (inp\<lparr>mServerSpec_ServerClaimRef := serverClaimRef, mServerSpec_BMCRef := bmcRef, mServerSpec_BMC := bmc,
       mServerSpec_BootConfigurationRef := bootConfigurationRef, mServerSpec_BootOrder := bootOrder,
       mServerSpec_BIOS := bios\<rparr>)))))))"

definition ServerStatus_DeepCopyInto :: "'l apimachinery \<Rightarrow> mServerStatus \<Rightarrow> ('l obj, mServerStatus) mem" where
  "ServerStatus_DeepCopyInto L inp =
     mem_bind (copy_slice k_NetworkInterface NetworkInterface_DeepCopyInto (mServerStatus_NetworkInterfaces inp)) (\<lambda>networkInterfaces.
     mem_bind (copy_boxed k_Lib (lib_Quantity_DeepCopy L) (mServerStatus_TotalSystemMemory inp)) (\<lambda>totalSystemMemory.
     mem_bind (copy_slice k_Storage (Storage_DeepCopyInto L) (mServerStatus_Storages inp)) (\<lambda>storages.
     mem_bind (BIOSSettings_DeepCopyInto (mServerStatus_BIOS inp)) (\<lambda>bios.
     mem_bind (copy_slice k_Lib (lib_Condition_DeepCopyInto L) (mServerStatus_Conditions inp)) (\<lambda>conditions.
     mem_return (inp\<lparr>mServerStatus_NetworkInterfaces := networkInterfaces,
       mServerStatus_TotalSystemMemory := totalSystemMemory, mServerStatus_Storages := storages,
       mServerStatus_BIOS := bios, mServerStatus_Conditions := conditions\<rparr>))))))"

definition Server_DeepCopyInto :: "'l apimachinery \<Rightarrow> 'l mServer \<Rightarrow> ('l obj, 'l mServer) mem" where
  "Server_DeepCopyInto L inp =
     mem_bind (lib_ObjectMeta_DeepCopyInto L (mServer_ObjectMeta inp)) (\<lambda>objectMeta.
     mem_bind (ServerSpec_DeepCopyInto (mServer_Spec inp)) (\<lambda>spec.
     mem_bind (ServerStatus_DeepCopyInto L (mServer_Status inp)) (\<lambda>status.
     mem_return (inp\<lparr>mServer_TypeMeta := mServer_TypeMeta inp, mServer_ObjectMeta := objectMeta, mServer_Spec := spec,
       mServer_Status := status\<rparr>))))"

definition BMCList_DeepCopyInto :: "'l apimachinery \<Rightarrow> 'l mBMCList \<Rightarrow> ('l obj, 'l mBMCList) mem" where
  "BMCList_DeepCopyInto L inp =
     mem_bind (lib_ListMeta_DeepCopyInto L (mBMCList_ListMeta inp)) (\<lambda>listMeta.
     mem_bind (copy_slice k_BMC (BMC_DeepCopyInto L) (mBMCList_Items inp)) (\<lambda>items.
     mem_return (inp\<lparr>mBMCList_TypeMeta := mBMCList_TypeMeta inp, mBMCList_ListMeta := listMeta, mBMCList_Items := items\<rparr>)))"

definition BMCSecretList_DeepCopyInto :: "'l apimachinery \<Rightarrow> 'l mBMCSecretList \<Rightarrow> ('l obj, 'l mBMCSecretList) mem" where
  "BMCSecretList_DeepCopyInto L inp =
     mem_bind (lib_ListMeta_DeepCopyInto L (mBMCSecretList_ListMeta inp)) (\<lambda>listMeta.
     mem_bind (copy_slice k_BMCSecret (BMCSecret_DeepCopyInto L) (mBMCSecretList_Items inp)) (\<lambda>items.
     mem_return (inp\<lparr>mBMCSecretList_TypeMeta := mBMCSecretList_TypeMeta inp, mBMCSecretList_ListMeta := listMeta, mBMCSecretList_Items := items\<rparr>)))"

definition EndpointList_DeepCopyInto :: "'l apimachinery \<Rightarrow> 'l mEndpointList \<Rightarrow> ('l obj, 'l mEndpointList) mem" where
  "EndpointList_DeepCopyInto L inp =
     mem_bind (lib_ListMeta_DeepCopyInto L (mEndpointList_ListMeta inp)) (\<lambda>listMeta.
     mem_bind (copy_slice k_Endpoint (Endpoint_DeepCopyInto L) (mEndpointList_Items inp)) (\<lambda>items.
     mem_return (inp\<lparr>mEndpointList_TypeMeta := mEndpointList_TypeMeta inp, mEndpointList_ListMeta := listMeta, mEndpointList_Items := items\<rparr>)))"

definition ServerBootConfigurationList_DeepCopyInto :: "'l apimachinery \<Rightarrow> 'l mServerBootConfigurationList \<Rightarrow> ('l obj, 'l mServerBootConfigurationList) mem" where
  "ServerBootConfigurationList_DeepCopyInto L inp =
     mem_bind (lib_ListMeta_DeepCopyInto L (mServerBootConfigurationList_ListMeta inp)) (\<lambda>listMeta.
     mem_bind (copy_slice k_SBC (ServerBootConfiguration_DeepCopyInto L) (mServerBootConfigurationList_Items inp)) (\<lambda>items.
     mem_return (inp\<lparr>mServerBootConfigurationList_TypeMeta := mServerBootConfigurationList_TypeMeta inp, mServerBootConfigurationList_ListMeta := listMeta, mServerBootConfigurationList_Items := items\<rparr>)))"

definition ServerClaimList_DeepCopyInto :: "'l apimachinery \<Rightarrow> 'l mServerClaimList \<Rightarrow> ('l obj, 'l mServerClaimList) mem" where
  "ServerClaimList_DeepCopyInto L inp =
     mem_bind (lib_ListMeta_DeepCopyInto L (mServerClaimList_ListMeta inp)) (\<lambda>listMeta.
     mem_bind (copy_slice k_ServerClaim (ServerClaim_DeepCopyInto L) (mServerClaimList_Items inp)) (\<lambda>items.
     mem_return (inp\<lparr>mServerClaimList_TypeMeta := mServerClaimList_TypeMeta inp, mServerClaimList_ListMeta := listMeta, mServerClaimList_Items := items\<rparr>)))"

definition ServerList_DeepCopyInto :: "'l apimachinery \<Rightarrow> 'l mServerList \<Rightarrow> ('l obj, 'l mServerList) mem" where
  "ServerList_DeepCopyInto L inp =
     mem_bind (lib_ListMeta_DeepCopyInto L (mServerList_ListMeta inp)) (\<lambda>listMeta.
     mem_bind (copy_slice k_Server (Server_DeepCopyInto L) (mServerList_Items inp)) (\<lambda>items.
     mem_return (inp\<lparr>mServerList_TypeMeta := mServerList_TypeMeta inp, mServerList_ListMeta := listMeta, mServerList_Items := items\<rparr>)))"

section \<open>DeepCopy\<close>

text \<open>Each is \<^verbatim>\<open>if in == nil { return nil }; out := new(T); in.DeepCopyInto(out); return out\<close>.\<close>

definition BIOSSettings_DeepCopy :: "addr option \<Rightarrow> ('l obj, addr option) mem" where
  "BIOSSettings_DeepCopy inp = copy_ptr k_BIOSSettings BIOSSettings_DeepCopyInto inp"

definition BMC_DeepCopy :: "'l apimachinery \<Rightarrow> addr option \<Rightarrow> ('l obj, addr option) mem" where
  "BMC_DeepCopy L inp = copy_ptr k_BMC (BMC_DeepCopyInto L) inp"

definition BMCAccess_DeepCopy :: "addr option \<Rightarrow> ('l obj, addr option) mem" where
  "BMCAccess_DeepCopy inp = copy_ptr k_BMCAccess BMCAccess_DeepCopyInto inp"

definition BMCList_DeepCopy :: "'l apimachinery \<Rightarrow> addr option \<Rightarrow> ('l obj, addr option) mem" where
  "BMCList_DeepCopy L inp = copy_ptr k_BMCList (BMCList_DeepCopyInto L) inp"

definition BMCSecret_DeepCopy :: "'l apimachinery \<Rightarrow> addr option \<Rightarrow> ('l obj, addr option) mem" where
  "BMCSecret_DeepCopy L inp = copy_ptr k_BMCSecret (BMCSecret_DeepCopyInto L) inp"

definition BMCSecretList_DeepCopy :: "'l apimachinery \<Rightarrow> addr option \<Rightarrow> ('l obj, addr option) mem" where
  "BMCSecretList_DeepCopy L inp = copy_ptr k_BMCSecretList (BMCSecretList_DeepCopyInto L) inp"

definition BMCSpec_DeepCopy :: "addr option \<Rightarrow> ('l obj, addr option) mem" where
  "BMCSpec_DeepCopy inp = copy_ptr k_BMCSpec BMCSpec_DeepCopyInto inp"

definition BMCStatus_DeepCopy :: "'l apimachinery \<Rightarrow> addr option \<Rightarrow> ('l obj, addr option) mem" where
  "BMCStatus_DeepCopy L inp = copy_ptr k_BMCStatus (BMCStatus_DeepCopyInto L) inp"

definition BootOrder_DeepCopy :: "addr option \<Rightarrow> ('l obj, addr option) mem" where
  "BootOrder_DeepCopy inp = copy_ptr k_BootOrder BootOrder_DeepCopyInto inp"

definition ConsoleProtocol_DeepCopy :: "addr option \<Rightarrow> ('l obj, addr option) mem" where
  "ConsoleProtocol_DeepCopy inp = copy_ptr k_ConsoleProtocol ConsoleProtocol_DeepCopyInto inp"

definition Endpoint_DeepCopy :: "'l apimachinery \<Rightarrow> addr option \<Rightarrow> ('l obj, addr option) mem" where
  "Endpoint_DeepCopy L inp = copy_ptr k_Endpoint (Endpoint_DeepCopyInto L) inp"

definition EndpointList_DeepCopy :: "'l apimachinery \<Rightarrow> addr option \<Rightarrow> ('l obj, addr option) mem" where
  "EndpointList_DeepCopy L inp = copy_ptr k_EndpointList (EndpointList_DeepCopyInto L) inp"

definition EndpointSpec_DeepCopy :: "addr option \<Rightarrow> ('l obj, addr option) mem" where
  "EndpointSpec_DeepCopy inp = copy_ptr k_EndpointSpec EndpointSpec_DeepCopyInto inp"

definition EndpointStatus_DeepCopy :: "addr option \<Rightarrow> ('l obj, addr option) mem" where
  "EndpointStatus_DeepCopy inp = copy_ptr k_EndpointStatus EndpointStatus_DeepCopyInto inp"

definition InlineEndpoint_DeepCopy :: "addr option \<Rightarrow> ('l obj, addr option) mem" where
  "InlineEndpoint_DeepCopy inp = copy_ptr k_InlineEndpoint InlineEndpoint_DeepCopyInto inp"

definition NetworkInterface_DeepCopy :: "addr option \<Rightarrow> ('l obj, addr option) mem" where
  "NetworkInterface_DeepCopy inp = copy_ptr k_NetworkInterface NetworkInterface_DeepCopyInto inp"

definition Protocol_DeepCopy :: "addr option \<Rightarrow> ('l obj, addr option) mem" where
  "Protocol_DeepCopy inp = copy_ptr k_Protocol Protocol_DeepCopyInto inp"

definition Server_DeepCopy :: "'l apimachinery \<Rightarrow> addr option \<Rightarrow> ('l obj, addr option) mem" where
  "Server_DeepCopy L inp = copy_ptr k_Server (Server_DeepCopyInto L) inp"

definition ServerBootConfiguration_DeepCopy :: "'l apimachinery \<Rightarrow> addr option \<Rightarrow> ('l obj, addr option) mem" where
  "ServerBootConfiguration_DeepCopy L inp = copy_ptr k_SBC (ServerBootConfiguration_DeepCopyInto L) inp"

definition ServerBootConfigurationList_DeepCopy :: "'l apimachinery \<Rightarrow> addr option \<Rightarrow> ('l obj, addr option) mem" where
  "ServerBootConfigurationList_DeepCopy L inp = copy_ptr k_SBCList (ServerBootConfigurationList_DeepCopyInto L) inp"

definition ServerBootConfigurationSpec_DeepCopy :: "addr option \<Rightarrow> ('l obj, addr option) mem" where
  "ServerBootConfigurationSpec_DeepCopy inp = copy_ptr k_SBCSpec ServerBootConfigurationSpec_DeepCopyInto inp"

definition ServerBootConfigurationStatus_DeepCopy :: "addr option \<Rightarrow> ('l obj, addr option) mem" where
  "ServerBootConfigurationStatus_DeepCopy inp = copy_ptr k_SBCStatus ServerBootConfigurationStatus_DeepCopyInto inp"

definition ServerClaim_DeepCopy :: "'l apimachinery \<Rightarrow> addr option \<Rightarrow> ('l obj, addr option) mem" where
  "ServerClaim_DeepCopy L inp = copy_ptr k_ServerClaim (ServerClaim_DeepCopyInto L) inp"

definition ServerClaimList_DeepCopy :: "'l apimachinery \<Rightarrow> addr option \<Rightarrow> ('l obj, addr option) mem" where
  "ServerClaimList_DeepCopy L inp = copy_ptr k_ServerClaimList (ServerClaimList_DeepCopyInto L) inp"

definition ServerClaimSpec_DeepCopy :: "'l apimachinery \<Rightarrow> addr option \<Rightarrow> ('l obj, addr option) mem" where
  "ServerClaimSpec_DeepCopy L inp = copy_ptr k_ServerClaimSpec (ServerClaimSpec_DeepCopyInto L) inp"

definition ServerClaimStatus_DeepCopy :: "addr option \<Rightarrow> ('l obj, addr option) mem" where
  "ServerClaimStatus_DeepCopy inp = copy_ptr k_ServerClaimStatus ServerClaimStatus_DeepCopyInto inp"

definition ServerList_DeepCopy :: "'l apimachinery \<Rightarrow> addr option \<Rightarrow> ('l obj, addr option) mem" where
  "ServerList_DeepCopy L inp = copy_ptr k_ServerList (ServerList_DeepCopyInto L) inp"

definition ServerSpec_DeepCopy :: "addr option \<Rightarrow> ('l obj, addr option) mem" where
  "ServerSpec_DeepCopy inp = copy_ptr k_ServerSpec ServerSpec_DeepCopyInto inp"

definition ServerStatus_DeepCopy :: "'l apimachinery \<Rightarrow> addr option \<Rightarrow> ('l obj, addr option) mem" where
  "ServerStatus_DeepCopy L inp = copy_ptr k_ServerStatus (ServerStatus_DeepCopyInto L) inp"

definition Storage_DeepCopy :: "'l apimachinery \<Rightarrow> addr option \<Rightarrow> ('l obj, addr option) mem" where
  "Storage_DeepCopy L inp = copy_ptr k_Storage (Storage_DeepCopyInto L) inp"

definition StorageDrive_DeepCopy :: "'l apimachinery \<Rightarrow> addr option \<Rightarrow> ('l obj, addr option) mem" where
  "StorageDrive_DeepCopy L inp = copy_ptr k_StorageDrive (StorageDrive_DeepCopyInto L) inp"

definition StorageVolume_DeepCopy :: "'l apimachinery \<Rightarrow> addr option \<Rightarrow> ('l obj, addr option) mem" where
  "StorageVolume_DeepCopy L inp = copy_ptr k_StorageVolume (StorageVolume_DeepCopyInto L) inp"

section \<open>DeepCopyObject\<close>

text \<open>
  A \<^verbatim>\<open>runtime.Object\<close> is the nil interface or a pointer with its type. A nil pointer put into the
  interface would be an interface that is not nil; the functions test for it.
\<close>

datatype Object = Nil_Object | Object (Object_Type: string) (Object_Pointer: "addr option")

definition DeepCopyObject_of :: "string \<Rightarrow> ('o, addr option) mem \<Rightarrow> ('o, Object) mem" where
  "DeepCopyObject_of type deepCopy =
     mem_bind deepCopy (\<lambda>c. mem_return (if c \<noteq> None then Object type c else Nil_Object))"

definition BMC_DeepCopyObject :: "'l apimachinery \<Rightarrow> addr option \<Rightarrow> ('l obj, Object) mem" where
  "BMC_DeepCopyObject L inp = DeepCopyObject_of ''BMC'' (BMC_DeepCopy L inp)"

definition BMCList_DeepCopyObject :: "'l apimachinery \<Rightarrow> addr option \<Rightarrow> ('l obj, Object) mem" where
  "BMCList_DeepCopyObject L inp = DeepCopyObject_of ''BMCList'' (BMCList_DeepCopy L inp)"

definition BMCSecret_DeepCopyObject :: "'l apimachinery \<Rightarrow> addr option \<Rightarrow> ('l obj, Object) mem" where
  "BMCSecret_DeepCopyObject L inp = DeepCopyObject_of ''BMCSecret'' (BMCSecret_DeepCopy L inp)"

definition BMCSecretList_DeepCopyObject :: "'l apimachinery \<Rightarrow> addr option \<Rightarrow> ('l obj, Object) mem" where
  "BMCSecretList_DeepCopyObject L inp = DeepCopyObject_of ''BMCSecretList'' (BMCSecretList_DeepCopy L inp)"

definition Endpoint_DeepCopyObject :: "'l apimachinery \<Rightarrow> addr option \<Rightarrow> ('l obj, Object) mem" where
  "Endpoint_DeepCopyObject L inp = DeepCopyObject_of ''Endpoint'' (Endpoint_DeepCopy L inp)"

definition EndpointList_DeepCopyObject :: "'l apimachinery \<Rightarrow> addr option \<Rightarrow> ('l obj, Object) mem" where
  "EndpointList_DeepCopyObject L inp = DeepCopyObject_of ''EndpointList'' (EndpointList_DeepCopy L inp)"

definition Server_DeepCopyObject :: "'l apimachinery \<Rightarrow> addr option \<Rightarrow> ('l obj, Object) mem" where
  "Server_DeepCopyObject L inp = DeepCopyObject_of ''Server'' (Server_DeepCopy L inp)"

definition ServerBootConfiguration_DeepCopyObject :: "'l apimachinery \<Rightarrow> addr option \<Rightarrow> ('l obj, Object) mem" where
  "ServerBootConfiguration_DeepCopyObject L inp = DeepCopyObject_of ''ServerBootConfiguration'' (ServerBootConfiguration_DeepCopy L inp)"

definition ServerBootConfigurationList_DeepCopyObject :: "'l apimachinery \<Rightarrow> addr option \<Rightarrow> ('l obj, Object) mem" where
  "ServerBootConfigurationList_DeepCopyObject L inp = DeepCopyObject_of ''ServerBootConfigurationList'' (ServerBootConfigurationList_DeepCopy L inp)"

definition ServerClaim_DeepCopyObject :: "'l apimachinery \<Rightarrow> addr option \<Rightarrow> ('l obj, Object) mem" where
  "ServerClaim_DeepCopyObject L inp = DeepCopyObject_of ''ServerClaim'' (ServerClaim_DeepCopy L inp)"

definition ServerClaimList_DeepCopyObject :: "'l apimachinery \<Rightarrow> addr option \<Rightarrow> ('l obj, Object) mem" where
  "ServerClaimList_DeepCopyObject L inp = DeepCopyObject_of ''ServerClaimList'' (ServerClaimList_DeepCopy L inp)"

definition ServerList_DeepCopyObject :: "'l apimachinery \<Rightarrow> addr option \<Rightarrow> ('l obj, Object) mem" where
  "ServerList_DeepCopyObject L inp = DeepCopyObject_of ''ServerList'' (ServerList_DeepCopy L inp)"

end
