(* ===== verification/Deepcopy_Properties.thy ===== *)
theory Deepcopy_Properties
  imports Deepcopy
begin

text \<open>
  What the deep copies are for: the copy of an API object is equal to it and shares no memory with it.
  \<open>read_T\<close> follows the pointers of a struct of type \<open>T\<close> and gives the record of \<open>Api_Types\<close> it stands for, the
  one the controllers of this development work on. The controllers copy an object before they change
  it (\<^verbatim>\<open>base := obj.DeepCopy()\<close>) and send the difference; that they may be modelled on records without
  addresses rests on what is shown here.
\<close>

section \<open>The values that memory stands for\<close>

record ListMeta =
  ListMeta_ResourceVersion :: string
  ListMeta_Continue :: string
  ListMeta_RemainingItemCount :: "int option"

record 'l meaning =
  val_ObjectMeta :: "'l \<Rightarrow> 'l obj store \<Rightarrow> ObjectMeta option"
  val_ListMeta :: "'l \<Rightarrow> 'l obj store \<Rightarrow> ListMeta option"
  val_Condition :: "'l \<Rightarrow> 'l obj store \<Rightarrow> Condition option"
  val_LabelSelector :: "'l \<Rightarrow> 'l obj store \<Rightarrow> LabelSelector option"
  val_Quantity :: "'l \<Rightarrow> 'l obj store \<Rightarrow> Quantity option"

text \<open>The documented behaviour of the library: its copies are deep copies.\<close>

definition copies_deeply :: "'l apimachinery \<Rightarrow> 'l meaning \<Rightarrow> bool" where
  "copies_deeply L R \<longleftrightarrow>
     copier (val_ObjectMeta R) (lib_ObjectMeta_DeepCopyInto L) \<and>
     copier (val_ListMeta R) (lib_ListMeta_DeepCopyInto L) \<and>
     copier (val_Condition R) (lib_Condition_DeepCopyInto L) \<and>
     copier (val_LabelSelector R) (lib_LabelSelector_DeepCopyInto L) \<and>
     copier (val_Quantity R) (lib_Quantity_DeepCopy L)"

lemma copies_deeplyD:
  assumes "copies_deeply L R"
  shows "copier (val_ObjectMeta R) (lib_ObjectMeta_DeepCopyInto L)" "copier (val_ListMeta R) (lib_ListMeta_DeepCopyInto L)"
    "copier (val_Condition R) (lib_Condition_DeepCopyInto L)" "copier (val_LabelSelector R) (lib_LabelSelector_DeepCopyInto L)"
    "copier (val_Quantity R) (lib_Quantity_DeepCopy L)"
  using assms by (simp_all add: copies_deeply_def)

section \<open>Structs without references\<close>

lemma copier_BMCAccess: "copier read_value BMCAccess_DeepCopyInto"
  using copier_assign by (simp add: BMCAccess_DeepCopyInto_def [abs_def] assign_def [abs_def])

lemma copier_BootOrder: "copier read_value BootOrder_DeepCopyInto"
  using copier_assign by (simp add: BootOrder_DeepCopyInto_def [abs_def] assign_def [abs_def])

lemma copier_ConsoleProtocol: "copier read_value ConsoleProtocol_DeepCopyInto"
  using copier_assign by (simp add: ConsoleProtocol_DeepCopyInto_def [abs_def] assign_def [abs_def])

lemma copier_Protocol: "copier read_value Protocol_DeepCopyInto"
  using copier_assign by (simp add: Protocol_DeepCopyInto_def [abs_def] assign_def [abs_def])

lemma copier_EndpointStatus: "copier read_value EndpointStatus_DeepCopyInto"
  using copier_assign by (simp add: EndpointStatus_DeepCopyInto_def [abs_def] assign_def [abs_def])

lemma copier_ServerBootConfigurationStatus: "copier read_value ServerBootConfigurationStatus_DeepCopyInto"
  using copier_assign by (simp add: ServerBootConfigurationStatus_DeepCopyInto_def [abs_def] assign_def [abs_def])

lemma copier_ServerClaimStatus: "copier read_value ServerClaimStatus_DeepCopyInto"
  using copier_assign by (simp add: ServerClaimStatus_DeepCopyInto_def [abs_def] assign_def [abs_def])

lemma copier_EndpointSpec: "copier read_value EndpointSpec_DeepCopyInto"
  using copier_assign by (simp add: EndpointSpec_DeepCopyInto_def [abs_def] assign_def [abs_def] IP_DeepCopyInto_def)

lemma copier_InlineEndpoint: "copier read_value InlineEndpoint_DeepCopyInto"
  using copier_assign by (simp add: InlineEndpoint_DeepCopyInto_def [abs_def] assign_def [abs_def] IP_DeepCopyInto_def)

lemma copier_NetworkInterface: "copier read_value NetworkInterface_DeepCopyInto"
  using copier_assign by (simp add: NetworkInterface_DeepCopyInto_def [abs_def] assign_def [abs_def] IP_DeepCopyInto_def)

lemmas copier_values = copier_BMCAccess copier_BootOrder copier_ConsoleProtocol copier_Protocol copier_EndpointStatus
  copier_ServerBootConfigurationStatus copier_ServerClaimStatus copier_EndpointSpec copier_InlineEndpoint
  copier_NetworkInterface

section \<open>Structs with references\<close>

definition read_BIOSSettings :: "mBIOSSettings \<Rightarrow> 'l obj store \<Rightarrow> (BIOSSettings) option" where
  "read_BIOSSettings = read_struct (\<lambda>x. mBIOSSettings_Settings x)
     (read_map)
     (\<lambda>x a. \<lparr>BIOSSettings_Version = mBIOSSettings_Version x, BIOSSettings_Settings = a\<rparr>)"

lemma copier_BIOSSettings: "copier (read_BIOSSettings) (BIOSSettings_DeepCopyInto)"
  unfolding read_BIOSSettings_def
  by (rule copier_struct [where c = "copy_map"
      and update = "\<lambda>x a. x\<lparr>mBIOSSettings_Settings := a\<rparr>"])
    (auto intro!: copier_parts copier_values simp: BIOSSettings_DeepCopyInto_def copy_pair_def)

definition read_StorageVolume :: "'l meaning \<Rightarrow> mStorageVolume \<Rightarrow> 'l obj store \<Rightarrow> (StorageVolume) option" where
  "read_StorageVolume R = read_struct (\<lambda>x. mStorageVolume_Capacity x)
     (read_ptr k_Lib (val_Quantity R))
     (\<lambda>x a. \<lparr>StorageVolume_Name = mStorageVolume_Name x, StorageVolume_Capacity = a, StorageVolume_State = mStorageVolume_State x,
      StorageVolume_RAIDType = mStorageVolume_RAIDType x, StorageVolume_VolumeUsage = mStorageVolume_VolumeUsage x\<rparr>)"

lemma copier_StorageVolume: "copies_deeply L R \<Longrightarrow> copier (read_StorageVolume R) (StorageVolume_DeepCopyInto L)"
  unfolding read_StorageVolume_def
  by (rule copier_struct [where c = "copy_boxed k_Lib (lib_Quantity_DeepCopy L)"
      and update = "\<lambda>x a. x\<lparr>mStorageVolume_Capacity := a\<rparr>"])
    (auto intro!: copier_parts copier_values copies_deeplyD simp: StorageVolume_DeepCopyInto_def copy_pair_def)

definition read_StorageDrive :: "'l meaning \<Rightarrow> mStorageDrive \<Rightarrow> 'l obj store \<Rightarrow> (StorageDrive) option" where
  "read_StorageDrive R = read_struct (\<lambda>x. mStorageDrive_Capacity x)
     (read_ptr k_Lib (val_Quantity R))
     (\<lambda>x a. \<lparr>StorageDrive_Name = mStorageDrive_Name x, StorageDrive_MediaType = mStorageDrive_MediaType x, StorageDrive_Type = mStorageDrive_Type x,
      StorageDrive_Capacity = a, StorageDrive_Vendor = mStorageDrive_Vendor x, StorageDrive_Model = mStorageDrive_Model x,
      StorageDrive_State = mStorageDrive_State x\<rparr>)"

lemma copier_StorageDrive: "copies_deeply L R \<Longrightarrow> copier (read_StorageDrive R) (StorageDrive_DeepCopyInto L)"
  unfolding read_StorageDrive_def
  by (rule copier_struct [where c = "copy_boxed k_Lib (lib_Quantity_DeepCopy L)"
      and update = "\<lambda>x a. x\<lparr>mStorageDrive_Capacity := a\<rparr>"])
    (auto intro!: copier_parts copier_values copies_deeplyD simp: StorageDrive_DeepCopyInto_def copy_pair_def)

definition read_Storage :: "'l meaning \<Rightarrow> mStorage \<Rightarrow> 'l obj store \<Rightarrow> (Storage) option" where
  "read_Storage R = read_struct (\<lambda>x. (mStorage_Volumes x, mStorage_Drives x))
     (read_pair (read_slice k_StorageVolume (read_StorageVolume R)) (read_slice k_StorageDrive (read_StorageDrive R)))
     (\<lambda>x (a, b). \<lparr>Storage_Name = mStorage_Name x, Storage_State = mStorage_State x, Storage_Volumes = a, Storage_Drives = b\<rparr>)"

lemma copier_Storage: "copies_deeply L R \<Longrightarrow> copier (read_Storage R) (Storage_DeepCopyInto L)"
  unfolding read_Storage_def
  by (rule copier_struct [where c = "copy_pair (copy_slice k_StorageVolume (StorageVolume_DeepCopyInto L)) (copy_slice k_StorageDrive (StorageDrive_DeepCopyInto L))"
      and update = "\<lambda>x (a, b). x\<lparr>mStorage_Volumes := a, mStorage_Drives := b\<rparr>"])
    (auto intro!: copier_parts copier_values copies_deeplyD copier_StorageVolume copier_StorageDrive simp: Storage_DeepCopyInto_def copy_pair_def)

definition read_ServerSpec :: "mServerSpec \<Rightarrow> 'l obj store \<Rightarrow> (ServerSpec) option" where
  "read_ServerSpec = read_struct (\<lambda>x. (mServerSpec_ServerClaimRef x, mServerSpec_BMCRef x, mServerSpec_BMC x, mServerSpec_BootConfigurationRef x, mServerSpec_BootOrder x, mServerSpec_BIOS x))
     (read_pair (read_ptr k_ObjectReference read_value) (read_pair (read_ptr k_LocalObjectReference read_value) (read_pair (read_ptr k_BMCAccess read_value) (read_pair (read_ptr k_ObjectReference read_value) (read_pair (read_slice k_BootOrder read_value) (read_slice k_BIOSSettings read_BIOSSettings))))))
     (\<lambda>x (a, b, c, d, e, f). \<lparr>ServerSpec_UUID = mServerSpec_UUID x, ServerSpec_SystemUUID = mServerSpec_SystemUUID x, ServerSpec_Power = mServerSpec_Power x,
      ServerSpec_IndicatorLED = mServerSpec_IndicatorLED x, ServerSpec_ServerClaimRef = a, ServerSpec_BMCRef = b, ServerSpec_BMC = c,
      ServerSpec_BootConfigurationRef = d, ServerSpec_BootOrder = e, ServerSpec_BIOS = f\<rparr>)"

lemma copier_ServerSpec: "copier (read_ServerSpec) (ServerSpec_DeepCopyInto)"
  unfolding read_ServerSpec_def
  by (rule copier_struct [where c = "copy_pair (copy_ptr k_ObjectReference assign) (copy_pair (copy_ptr k_LocalObjectReference assign) (copy_pair (copy_ptr k_BMCAccess assign) (copy_pair (copy_ptr k_ObjectReference assign) (copy_pair (copy_array) (copy_slice k_BIOSSettings BIOSSettings_DeepCopyInto)))))"
      and update = "\<lambda>x (a, b, c, d, e, f). x\<lparr>mServerSpec_ServerClaimRef := a, mServerSpec_BMCRef := b, mServerSpec_BMC := c, mServerSpec_BootConfigurationRef := d, mServerSpec_BootOrder := e, mServerSpec_BIOS := f\<rparr>"])
    (auto intro!: copier_parts copier_values copier_BIOSSettings simp: ServerSpec_DeepCopyInto_def copy_pair_def)

definition read_ServerStatus :: "'l meaning \<Rightarrow> mServerStatus \<Rightarrow> 'l obj store \<Rightarrow> (ServerStatus) option" where
  "read_ServerStatus R = read_struct (\<lambda>x. (mServerStatus_NetworkInterfaces x, mServerStatus_TotalSystemMemory x, mServerStatus_Storages x, mServerStatus_BIOS x, mServerStatus_Conditions x))
     (read_pair (read_slice k_NetworkInterface read_value) (read_pair (read_ptr k_Lib (val_Quantity R)) (read_pair (read_slice k_Storage (read_Storage R)) (read_pair (read_BIOSSettings) (read_slice k_Lib (val_Condition R))))))
     (\<lambda>x (a, b, c, d, e). \<lparr>ServerStatus_Manufacturer = mServerStatus_Manufacturer x, ServerStatus_Model = mServerStatus_Model x, ServerStatus_SKU = mServerStatus_SKU x,
      ServerStatus_SerialNumber = mServerStatus_SerialNumber x, ServerStatus_PowerState = mServerStatus_PowerState x,
      ServerStatus_IndicatorLED = mServerStatus_IndicatorLED x, ServerStatus_State = mServerStatus_State x,
      ServerStatus_NetworkInterfaces = a, ServerStatus_TotalSystemMemory = b, ServerStatus_Storages = c, ServerStatus_BIOS = d,
      ServerStatus_Conditions = e\<rparr>)"

lemma copier_ServerStatus: "copies_deeply L R \<Longrightarrow> copier (read_ServerStatus R) (ServerStatus_DeepCopyInto L)"
  unfolding read_ServerStatus_def
  by (rule copier_struct [where c = "copy_pair (copy_slice k_NetworkInterface NetworkInterface_DeepCopyInto) (copy_pair (copy_boxed k_Lib (lib_Quantity_DeepCopy L)) (copy_pair (copy_slice k_Storage (Storage_DeepCopyInto L)) (copy_pair (BIOSSettings_DeepCopyInto) (copy_slice k_Lib (lib_Condition_DeepCopyInto L)))))"
      and update = "\<lambda>x (a, b, c, d, e). x\<lparr>mServerStatus_NetworkInterfaces := a, mServerStatus_TotalSystemMemory := b, mServerStatus_Storages := c, mServerStatus_BIOS := d, mServerStatus_Conditions := e\<rparr>"])
    (auto intro!: copier_parts copier_values copies_deeplyD copier_BIOSSettings copier_Storage simp: ServerStatus_DeepCopyInto_def copy_pair_def)

definition read_Server :: "'l meaning \<Rightarrow> 'l mServer \<Rightarrow> 'l obj store \<Rightarrow> (TypeMeta \<times> Server) option" where
  "read_Server R = read_struct (\<lambda>x. (mServer_ObjectMeta x, mServer_Spec x, mServer_Status x))
     (read_pair (val_ObjectMeta R) (read_pair (read_ServerSpec) (read_ServerStatus R)))
     (\<lambda>x (a, b, c). (mServer_TypeMeta x, \<lparr>Server_Meta = a, Server_Spec = b, Server_Status = c\<rparr>))"

lemma copier_Server: "copies_deeply L R \<Longrightarrow> copier (read_Server R) (Server_DeepCopyInto L)"
  unfolding read_Server_def
  by (rule copier_struct [where c = "copy_pair (lib_ObjectMeta_DeepCopyInto L) (copy_pair (ServerSpec_DeepCopyInto) (ServerStatus_DeepCopyInto L))"
      and update = "\<lambda>x (a, b, c). x\<lparr>mServer_ObjectMeta := a, mServer_Spec := b, mServer_Status := c\<rparr>"])
    (auto intro!: copier_parts copier_values copies_deeplyD copier_ServerSpec copier_ServerStatus simp: Server_DeepCopyInto_def copy_pair_def)

definition read_BMCSpec :: "mBMCSpec \<Rightarrow> 'l obj store \<Rightarrow> (BMCSpec) option" where
  "read_BMCSpec = read_struct (\<lambda>x. (mBMCSpec_EndpointRef x, mBMCSpec_Endpoint x, mBMCSpec_ConsoleProtocol x))
     (read_pair (read_ptr k_LocalObjectReference read_value) (read_pair (read_ptr k_InlineEndpoint read_value) (read_ptr k_ConsoleProtocol read_value)))
     (\<lambda>x (a, b, c). \<lparr>BMCSpec_EndpointRef = a, BMCSpec_Endpoint = b, BMCSpec_BMCSecretRef = mBMCSpec_BMCSecretRef x,
      BMCSpec_Protocol = mBMCSpec_Protocol x, BMCSpec_ConsoleProtocol = c\<rparr>)"

lemma copier_BMCSpec: "copier (read_BMCSpec) (BMCSpec_DeepCopyInto)"
  unfolding read_BMCSpec_def
  by (rule copier_struct [where c = "copy_pair (copy_ptr k_LocalObjectReference assign) (copy_pair (copy_ptr k_InlineEndpoint InlineEndpoint_DeepCopyInto) (copy_ptr k_ConsoleProtocol assign))"
      and update = "\<lambda>x (a, b, c). x\<lparr>mBMCSpec_EndpointRef := a, mBMCSpec_Endpoint := b, mBMCSpec_ConsoleProtocol := c\<rparr>"])
    (auto intro!: copier_parts copier_values simp: BMCSpec_DeepCopyInto_def copy_pair_def)

definition read_BMCStatus :: "'l meaning \<Rightarrow> mBMCStatus \<Rightarrow> 'l obj store \<Rightarrow> (BMCStatus) option" where
  "read_BMCStatus R = read_struct (\<lambda>x. mBMCStatus_Conditions x)
     (read_slice k_Lib (val_Condition R))
     (\<lambda>x a. \<lparr>BMCStatus_MACAddress = mBMCStatus_MACAddress x, BMCStatus_IP = mBMCStatus_IP x, BMCStatus_Manufacturer = mBMCStatus_Manufacturer x,
      BMCStatus_Model = mBMCStatus_Model x, BMCStatus_SKU = mBMCStatus_SKU x, BMCStatus_SerialNumber = mBMCStatus_SerialNumber x,
      BMCStatus_FirmwareVersion = mBMCStatus_FirmwareVersion x, BMCStatus_State = mBMCStatus_State x,
      BMCStatus_PowerState = mBMCStatus_PowerState x, BMCStatus_Conditions = a\<rparr>)"

lemma copier_BMCStatus: "copies_deeply L R \<Longrightarrow> copier (read_BMCStatus R) (BMCStatus_DeepCopyInto L)"
  unfolding read_BMCStatus_def
  by (rule copier_struct [where c = "copy_slice k_Lib (lib_Condition_DeepCopyInto L)"
      and update = "\<lambda>x a. x\<lparr>mBMCStatus_Conditions := a\<rparr>"])
    (auto intro!: copier_parts copier_values copies_deeplyD simp: BMCStatus_DeepCopyInto_def IP_DeepCopyInto_def copy_pair_def)

definition read_BMC :: "'l meaning \<Rightarrow> 'l mBMC \<Rightarrow> 'l obj store \<Rightarrow> (TypeMeta \<times> BMC) option" where
  "read_BMC R = read_struct (\<lambda>x. (mBMC_ObjectMeta x, mBMC_Spec x, mBMC_Status x))
     (read_pair (val_ObjectMeta R) (read_pair (read_BMCSpec) (read_BMCStatus R)))
     (\<lambda>x (a, b, c). (mBMC_TypeMeta x, \<lparr>BMC_Meta = a, BMC_Spec = b, BMC_Status = c\<rparr>))"

lemma copier_BMC: "copies_deeply L R \<Longrightarrow> copier (read_BMC R) (BMC_DeepCopyInto L)"
  unfolding read_BMC_def
  by (rule copier_struct [where c = "copy_pair (lib_ObjectMeta_DeepCopyInto L) (copy_pair (BMCSpec_DeepCopyInto) (BMCStatus_DeepCopyInto L))"
      and update = "\<lambda>x (a, b, c). x\<lparr>mBMC_ObjectMeta := a, mBMC_Spec := b, mBMC_Status := c\<rparr>"])
    (auto intro!: copier_parts copier_values copies_deeplyD copier_BMCSpec copier_BMCStatus simp: BMC_DeepCopyInto_def copy_pair_def)

definition read_BMCSecret :: "'l meaning \<Rightarrow> 'l mBMCSecret \<Rightarrow> 'l obj store \<Rightarrow> (TypeMeta \<times> BMCSecret) option" where
  "read_BMCSecret R = read_struct (\<lambda>x. (mBMCSecret_ObjectMeta x, mBMCSecret_Immutable x, mBMCSecret_Data x, mBMCSecret_StringData x))
     (read_pair (val_ObjectMeta R) (read_pair (read_ptr k_bool read_value) (read_pair (read_byte_map) (read_map))))
     (\<lambda>x (a, b, c, d). (mBMCSecret_TypeMeta x, \<lparr>BMCSecret_Meta = a, BMCSecret_Immutable = b, BMCSecret_Data = c,
      BMCSecret_StringData = d, BMCSecret_Type = mBMCSecret_Type x\<rparr>))"

lemma copier_BMCSecret: "copies_deeply L R \<Longrightarrow> copier (read_BMCSecret R) (BMCSecret_DeepCopyInto L)"
  unfolding read_BMCSecret_def
  by (rule copier_struct [where c = "copy_pair (lib_ObjectMeta_DeepCopyInto L) (copy_pair (copy_ptr k_bool assign) (copy_pair (copy_byte_map) (copy_map)))"
      and update = "\<lambda>x (a, b, c, d). x\<lparr>mBMCSecret_ObjectMeta := a, mBMCSecret_Immutable := b, mBMCSecret_Data := c, mBMCSecret_StringData := d\<rparr>"])
    (auto intro!: copier_parts copier_values copies_deeplyD simp: BMCSecret_DeepCopyInto_def copy_pair_def)

definition read_Endpoint :: "'l meaning \<Rightarrow> 'l mEndpoint \<Rightarrow> 'l obj store \<Rightarrow> (TypeMeta \<times> Endpoint) option" where
  "read_Endpoint R = read_struct (\<lambda>x. (mEndpoint_ObjectMeta x, mEndpoint_Spec x))
     (read_pair (val_ObjectMeta R) (read_value))
     (\<lambda>x (a, b). (mEndpoint_TypeMeta x, \<lparr>Endpoint_Meta = a, Endpoint_Spec = b\<rparr>))"

lemma copier_Endpoint: "copies_deeply L R \<Longrightarrow> copier (read_Endpoint R) (Endpoint_DeepCopyInto L)"
  unfolding read_Endpoint_def
  by (rule copier_struct [where c = "copy_pair (lib_ObjectMeta_DeepCopyInto L) (EndpointSpec_DeepCopyInto)"
      and update = "\<lambda>x (a, b). x\<lparr>mEndpoint_ObjectMeta := a, mEndpoint_Spec := b\<rparr>"])
    (auto intro!: copier_parts copier_values copies_deeplyD simp: Endpoint_DeepCopyInto_def copy_pair_def)

definition read_ServerBootConfigurationSpec :: "mServerBootConfigurationSpec \<Rightarrow> 'l obj store \<Rightarrow> (ServerBootConfigurationSpec) option" where
  "read_ServerBootConfigurationSpec = read_struct (\<lambda>x. mSBCSpec_IgnitionSecretRef x)
     (read_ptr k_LocalObjectReference read_value)
     (\<lambda>x a. \<lparr>SBCSpec_ServerRef = mSBCSpec_ServerRef x, SBCSpec_Image = mSBCSpec_Image x, SBCSpec_IgnitionSecretRef = a\<rparr>)"

lemma copier_ServerBootConfigurationSpec: "copier (read_ServerBootConfigurationSpec) (ServerBootConfigurationSpec_DeepCopyInto)"
  unfolding read_ServerBootConfigurationSpec_def
  by (rule copier_struct [where c = "copy_ptr k_LocalObjectReference assign"
      and update = "\<lambda>x a. x\<lparr>mSBCSpec_IgnitionSecretRef := a\<rparr>"])
    (auto intro!: copier_parts copier_values simp: ServerBootConfigurationSpec_DeepCopyInto_def copy_pair_def)

definition read_ServerBootConfiguration :: "'l meaning \<Rightarrow> 'l mServerBootConfiguration \<Rightarrow> 'l obj store \<Rightarrow> (TypeMeta \<times> ServerBootConfiguration) option" where
  "read_ServerBootConfiguration R = read_struct (\<lambda>x. (mSBC_ObjectMeta x, mSBC_Spec x))
     (read_pair (val_ObjectMeta R) (read_ServerBootConfigurationSpec))
     (\<lambda>x (a, b). (mSBC_TypeMeta x, \<lparr>SBC_Meta = a, SBC_Spec = b, SBC_State = SBCStatus_State (mSBC_Status x)\<rparr>))"

lemma copier_ServerBootConfiguration: "copies_deeply L R \<Longrightarrow> copier (read_ServerBootConfiguration R) (ServerBootConfiguration_DeepCopyInto L)"
  unfolding read_ServerBootConfiguration_def
  by (rule copier_struct [where c = "copy_pair (lib_ObjectMeta_DeepCopyInto L) (ServerBootConfigurationSpec_DeepCopyInto)"
      and update = "\<lambda>x (a, b). x\<lparr>mSBC_ObjectMeta := a, mSBC_Spec := b\<rparr>"])
    (auto intro!: copier_parts copier_values copies_deeplyD copier_ServerBootConfigurationSpec simp: ServerBootConfiguration_DeepCopyInto_def copy_pair_def)

definition read_ServerClaimSpec :: "'l meaning \<Rightarrow> mServerClaimSpec \<Rightarrow> 'l obj store \<Rightarrow> (ServerClaimSpec) option" where
  "read_ServerClaimSpec R = read_struct (\<lambda>x. (mServerClaimSpec_ServerRef x, mServerClaimSpec_ServerSelector x, mServerClaimSpec_IgnitionSecretRef x))
     (read_pair (read_ptr k_LocalObjectReference read_value) (read_pair (read_ptr k_Lib (val_LabelSelector R)) (read_ptr k_LocalObjectReference read_value)))
     (\<lambda>x (a, b, c). \<lparr>ServerClaimSpec_Power = mServerClaimSpec_Power x, ServerClaimSpec_ServerRef = a, ServerClaimSpec_ServerSelector = b,
      ServerClaimSpec_IgnitionSecretRef = c, ServerClaimSpec_Image = mServerClaimSpec_Image x\<rparr>)"

lemma copier_ServerClaimSpec: "copies_deeply L R \<Longrightarrow> copier (read_ServerClaimSpec R) (ServerClaimSpec_DeepCopyInto L)"
  unfolding read_ServerClaimSpec_def
  by (rule copier_struct [where c = "copy_pair (copy_ptr k_LocalObjectReference assign) (copy_pair (copy_ptr k_Lib (lib_LabelSelector_DeepCopyInto L)) (copy_ptr k_LocalObjectReference assign))"
      and update = "\<lambda>x (a, b, c). x\<lparr>mServerClaimSpec_ServerRef := a, mServerClaimSpec_ServerSelector := b, mServerClaimSpec_IgnitionSecretRef := c\<rparr>"])
    (auto intro!: copier_parts copier_values copies_deeplyD simp: ServerClaimSpec_DeepCopyInto_def copy_pair_def)

definition read_ServerClaim :: "'l meaning \<Rightarrow> 'l mServerClaim \<Rightarrow> 'l obj store \<Rightarrow> (TypeMeta \<times> ServerClaim) option" where
  "read_ServerClaim R = read_struct (\<lambda>x. (mServerClaim_ObjectMeta x, mServerClaim_Spec x))
     (read_pair (val_ObjectMeta R) (read_ServerClaimSpec R))
     (\<lambda>x (a, b). (mServerClaim_TypeMeta x, \<lparr>ServerClaim_Meta = a, ServerClaim_Spec = b,
      ServerClaim_Phase = ServerClaimStatus_Phase (mServerClaim_Status x)\<rparr>))"

lemma copier_ServerClaim: "copies_deeply L R \<Longrightarrow> copier (read_ServerClaim R) (ServerClaim_DeepCopyInto L)"
  unfolding read_ServerClaim_def
  by (rule copier_struct [where c = "copy_pair (lib_ObjectMeta_DeepCopyInto L) (ServerClaimSpec_DeepCopyInto L)"
      and update = "\<lambda>x (a, b). x\<lparr>mServerClaim_ObjectMeta := a, mServerClaim_Spec := b\<rparr>"])
    (auto intro!: copier_parts copier_values copies_deeplyD copier_ServerClaimSpec simp: ServerClaim_DeepCopyInto_def copy_pair_def)

definition read_BMCList :: "'l meaning \<Rightarrow> 'l mBMCList \<Rightarrow> 'l obj store \<Rightarrow> (TypeMeta \<times> ListMeta \<times> (TypeMeta \<times> BMC) list) option" where
  "read_BMCList R = read_struct (\<lambda>x. (mBMCList_ListMeta x, mBMCList_Items x))
     (read_pair (val_ListMeta R) (read_slice k_BMC (read_BMC R)))
     (\<lambda>x (a, b). (mBMCList_TypeMeta x, a, b))"

lemma copier_BMCList: "copies_deeply L R \<Longrightarrow> copier (read_BMCList R) (BMCList_DeepCopyInto L)"
  unfolding read_BMCList_def
  by (rule copier_struct [where c = "copy_pair (lib_ListMeta_DeepCopyInto L) (copy_slice k_BMC (BMC_DeepCopyInto L))"
      and update = "\<lambda>x (a, b). x\<lparr>mBMCList_ListMeta := a, mBMCList_Items := b\<rparr>"])
    (auto intro!: copier_parts copier_values copies_deeplyD copier_BMC simp: BMCList_DeepCopyInto_def copy_pair_def)

definition read_BMCSecretList :: "'l meaning \<Rightarrow> 'l mBMCSecretList \<Rightarrow> 'l obj store \<Rightarrow> (TypeMeta \<times> ListMeta \<times> (TypeMeta \<times> BMCSecret) list) option" where
  "read_BMCSecretList R = read_struct (\<lambda>x. (mBMCSecretList_ListMeta x, mBMCSecretList_Items x))
     (read_pair (val_ListMeta R) (read_slice k_BMCSecret (read_BMCSecret R)))
     (\<lambda>x (a, b). (mBMCSecretList_TypeMeta x, a, b))"

lemma copier_BMCSecretList: "copies_deeply L R \<Longrightarrow> copier (read_BMCSecretList R) (BMCSecretList_DeepCopyInto L)"
  unfolding read_BMCSecretList_def
  by (rule copier_struct [where c = "copy_pair (lib_ListMeta_DeepCopyInto L) (copy_slice k_BMCSecret (BMCSecret_DeepCopyInto L))"
      and update = "\<lambda>x (a, b). x\<lparr>mBMCSecretList_ListMeta := a, mBMCSecretList_Items := b\<rparr>"])
    (auto intro!: copier_parts copier_values copies_deeplyD copier_BMCSecret simp: BMCSecretList_DeepCopyInto_def copy_pair_def)

definition read_EndpointList :: "'l meaning \<Rightarrow> 'l mEndpointList \<Rightarrow> 'l obj store \<Rightarrow> (TypeMeta \<times> ListMeta \<times> (TypeMeta \<times> Endpoint) list) option" where
  "read_EndpointList R = read_struct (\<lambda>x. (mEndpointList_ListMeta x, mEndpointList_Items x))
     (read_pair (val_ListMeta R) (read_slice k_Endpoint (read_Endpoint R)))
     (\<lambda>x (a, b). (mEndpointList_TypeMeta x, a, b))"

lemma copier_EndpointList: "copies_deeply L R \<Longrightarrow> copier (read_EndpointList R) (EndpointList_DeepCopyInto L)"
  unfolding read_EndpointList_def
  by (rule copier_struct [where c = "copy_pair (lib_ListMeta_DeepCopyInto L) (copy_slice k_Endpoint (Endpoint_DeepCopyInto L))"
      and update = "\<lambda>x (a, b). x\<lparr>mEndpointList_ListMeta := a, mEndpointList_Items := b\<rparr>"])
    (auto intro!: copier_parts copier_values copies_deeplyD copier_Endpoint simp: EndpointList_DeepCopyInto_def copy_pair_def)

definition read_ServerBootConfigurationList :: "'l meaning \<Rightarrow> 'l mServerBootConfigurationList \<Rightarrow> 'l obj store \<Rightarrow> (TypeMeta \<times> ListMeta \<times> (TypeMeta \<times> ServerBootConfiguration) list) option" where
  "read_ServerBootConfigurationList R = read_struct (\<lambda>x. (mServerBootConfigurationList_ListMeta x, mServerBootConfigurationList_Items x))
     (read_pair (val_ListMeta R) (read_slice k_SBC (read_ServerBootConfiguration R)))
     (\<lambda>x (a, b). (mServerBootConfigurationList_TypeMeta x, a, b))"

lemma copier_ServerBootConfigurationList: "copies_deeply L R \<Longrightarrow> copier (read_ServerBootConfigurationList R) (ServerBootConfigurationList_DeepCopyInto L)"
  unfolding read_ServerBootConfigurationList_def
  by (rule copier_struct [where c = "copy_pair (lib_ListMeta_DeepCopyInto L) (copy_slice k_SBC (ServerBootConfiguration_DeepCopyInto L))"
      and update = "\<lambda>x (a, b). x\<lparr>mServerBootConfigurationList_ListMeta := a, mServerBootConfigurationList_Items := b\<rparr>"])
    (auto intro!: copier_parts copier_values copies_deeplyD copier_ServerBootConfiguration simp: ServerBootConfigurationList_DeepCopyInto_def copy_pair_def)

definition read_ServerClaimList :: "'l meaning \<Rightarrow> 'l mServerClaimList \<Rightarrow> 'l obj store \<Rightarrow> (TypeMeta \<times> ListMeta \<times> (TypeMeta \<times> ServerClaim) list) option" where
  "read_ServerClaimList R = read_struct (\<lambda>x. (mServerClaimList_ListMeta x, mServerClaimList_Items x))
     (read_pair (val_ListMeta R) (read_slice k_ServerClaim (read_ServerClaim R)))
     (\<lambda>x (a, b). (mServerClaimList_TypeMeta x, a, b))"

lemma copier_ServerClaimList: "copies_deeply L R \<Longrightarrow> copier (read_ServerClaimList R) (ServerClaimList_DeepCopyInto L)"
  unfolding read_ServerClaimList_def
  by (rule copier_struct [where c = "copy_pair (lib_ListMeta_DeepCopyInto L) (copy_slice k_ServerClaim (ServerClaim_DeepCopyInto L))"
      and update = "\<lambda>x (a, b). x\<lparr>mServerClaimList_ListMeta := a, mServerClaimList_Items := b\<rparr>"])
    (auto intro!: copier_parts copier_values copies_deeplyD copier_ServerClaim simp: ServerClaimList_DeepCopyInto_def copy_pair_def)

definition read_ServerList :: "'l meaning \<Rightarrow> 'l mServerList \<Rightarrow> 'l obj store \<Rightarrow> (TypeMeta \<times> ListMeta \<times> (TypeMeta \<times> Server) list) option" where
  "read_ServerList R = read_struct (\<lambda>x. (mServerList_ListMeta x, mServerList_Items x))
     (read_pair (val_ListMeta R) (read_slice k_Server (read_Server R)))
     (\<lambda>x (a, b). (mServerList_TypeMeta x, a, b))"

lemma copier_ServerList: "copies_deeply L R \<Longrightarrow> copier (read_ServerList R) (ServerList_DeepCopyInto L)"
  unfolding read_ServerList_def
  by (rule copier_struct [where c = "copy_pair (lib_ListMeta_DeepCopyInto L) (copy_slice k_Server (Server_DeepCopyInto L))"
      and update = "\<lambda>x (a, b). x\<lparr>mServerList_ListMeta := a, mServerList_Items := b\<rparr>"])
    (auto intro!: copier_parts copier_values copies_deeplyD copier_Server simp: ServerList_DeepCopyInto_def copy_pair_def)

section \<open>The copies that need no library\<close>

interpretation bios_settings: copier read_BIOSSettings BIOSSettings_DeepCopyInto
  by (rule copier_BIOSSettings)

interpretation server_spec: copier read_ServerSpec ServerSpec_DeepCopyInto
  by (rule copier_ServerSpec)

interpretation bmc_spec: copier read_BMCSpec BMCSpec_DeepCopyInto
  by (rule copier_BMCSpec)

interpretation boot_configuration_spec: copier read_ServerBootConfigurationSpec ServerBootConfigurationSpec_DeepCopyInto
  by (rule copier_ServerBootConfigurationSpec)

section \<open>Objects\<close>

text \<open>\<^verbatim>\<open>DeepCopyObject\<close> of a nil pointer is the nil interface; any other is copied to an object of its type at an
  address that was free.\<close>

definition copies_object :: "string \<Rightarrow> (addr option \<Rightarrow> 'o store \<Rightarrow> 'v option) \<Rightarrow> (addr option \<Rightarrow> ('o, Object) mem) \<Rightarrow> bool" where
  "copies_object typ read deepCopyObject \<longleftrightarrow>
     (\<forall>h. deepCopyObject None h = Some (Nil_Object, h)) \<and>
     (\<forall>a h v. read (Some a) h = Some v \<longrightarrow>
       (\<exists>b h'. deepCopyObject (Some a) h = Some (Object typ (Some b), h') \<and> length h \<le> b \<and> read (Some b) h' = Some v))"

lemma copies_object_of:
  assumes "copier r c" and "kind_ok k" and "\<And>p. f p = DeepCopyObject_of typ (copy_ptr k c p)"
  shows "copies_object typ (read_ptr k r) f"
  unfolding copies_object_def
proof (intro conjI allI impI)
  show "f None h = Some (Nil_Object, h)" for h by (simp add: assms(3) DeepCopyObject_of_def mem_bind_def mem_return_def)
next
  fix a h v
  assume "read_ptr k r (Some a) h = Some v"
  then obtain q h' where q: "copy_ptr k c (Some a) h = Some (q, h')"
      "\<And>h''. same_from (length h) h' h'' \<Longrightarrow> read_ptr k r q h'' = Some v"
    using copier.copyE [OF copier_ptr [OF assms(1,2)]] by metis
  moreover from q(1) have "q = Some (length h)" by (rule copy_ptr_fresh)
  ultimately show "\<exists>b h'. f (Some a) h = Some (Object typ (Some b), h') \<and> length h \<le> b \<and> read_ptr k r (Some b) h' = Some v"
    by (auto simp: assms(3) DeepCopyObject_of_def mem_bind_def mem_return_def)
qed

lemma independent_DeepCopy:
  "copier r c \<Longrightarrow> kind_ok k \<Longrightarrow> (\<And>p. f p = copy_ptr k c p) \<Longrightarrow> independent_copy (read_ptr k r) f"
  using copier.independent [OF copier_ptr, of r c k] by (simp add: independent_copy_def)

lemmas deep_copy_defs =
  Server_DeepCopy_def Server_DeepCopyObject_def
  ServerClaim_DeepCopy_def ServerClaim_DeepCopyObject_def
  ServerBootConfiguration_DeepCopy_def ServerBootConfiguration_DeepCopyObject_def
  BMC_DeepCopy_def BMC_DeepCopyObject_def
  BMCSecret_DeepCopy_def BMCSecret_DeepCopyObject_def
  Endpoint_DeepCopy_def Endpoint_DeepCopyObject_def
  ServerList_DeepCopy_def ServerList_DeepCopyObject_def
  ServerClaimList_DeepCopy_def ServerClaimList_DeepCopyObject_def
  ServerBootConfigurationList_DeepCopy_def ServerBootConfigurationList_DeepCopyObject_def
  BMCList_DeepCopy_def BMCList_DeepCopyObject_def
  BMCSecretList_DeepCopy_def BMCSecretList_DeepCopyObject_def
  EndpointList_DeepCopy_def EndpointList_DeepCopyObject_def

section \<open>An example\<close>

text \<open>
  A library whose object metadata is a name with a map of labels in memory, and whose other types are values.
\<close>

datatype example_lib =
    E_ObjectMeta string "addr option"
  | E_ListMeta ListMeta
  | E_Condition Condition
  | E_LabelSelector LabelSelector
  | E_Quantity Quantity

definition example_apimachinery :: "example_lib apimachinery" where
  "example_apimachinery = \<lparr>
     lib_ObjectMeta_DeepCopyInto = (\<lambda>x. case x of
       E_ObjectMeta n labels \<Rightarrow> mem_bind (copy_map labels) (\<lambda>labels'. mem_return (E_ObjectMeta n labels'))
     | _ \<Rightarrow> mem_return x),
     lib_ListMeta_DeepCopyInto = assign, lib_Condition_DeepCopyInto = assign, lib_LabelSelector_DeepCopyInto = assign,
     lib_Quantity_DeepCopy = assign\<rparr>"

definition example_meaning :: "example_lib meaning" where
  "example_meaning = \<lparr>
     val_ObjectMeta = (\<lambda>x h. case x of
       E_ObjectMeta n labels \<Rightarrow>
         map_option (\<lambda>kvs. empty_ObjectMeta\<lparr>ObjectMeta_Name := n, ObjectMeta_Labels := kvs\<rparr>) (read_map labels h)
     | _ \<Rightarrow> None),
     val_ListMeta = (\<lambda>x h. case x of E_ListMeta v \<Rightarrow> Some v | _ \<Rightarrow> None),
     val_Condition = (\<lambda>x h. case x of E_Condition v \<Rightarrow> Some v | _ \<Rightarrow> None),
     val_LabelSelector = (\<lambda>x h. case x of E_LabelSelector v \<Rightarrow> Some v | _ \<Rightarrow> None),
     val_Quantity = (\<lambda>x h. case x of E_Quantity v \<Rightarrow> Some v | _ \<Rightarrow> None)\<rparr>"

lemma copier_pure: "copier (\<lambda>x h. f x) assign"
  by unfold_locales (auto simp: assign_def mem_return_def)

lemma example_copies_deeply: "copies_deeply example_apimachinery example_meaning"
proof -
  have "copier (val_ObjectMeta example_meaning) (lib_ObjectMeta_DeepCopyInto example_apimachinery)"
  proof
    fix x h v h'
    assume "val_ObjectMeta example_meaning x h = Some v" and "extends h h'"
    then show "val_ObjectMeta example_meaning x h' = Some v"
      by (auto simp: example_meaning_def dest: string_map.read_extends split: example_lib.splits)
  next
    fix x h v
    assume "val_ObjectMeta example_meaning x h = Some v"
    then obtain n p kvs where x: "x = E_ObjectMeta n p" "read_map p h = Some kvs"
        "v = empty_ObjectMeta\<lparr>ObjectMeta_Name := n, ObjectMeta_Labels := kvs\<rparr>"
      by (auto simp: example_meaning_def split: example_lib.splits)
    then show "\<exists>y h'. lib_ObjectMeta_DeepCopyInto example_apimachinery x h = Some (y, h') \<and> extends h h' \<and>
        (\<forall>h''. same_from (length h) h' h'' \<longrightarrow> val_ObjectMeta example_meaning y h'' = Some v)"
      using string_map.copy_reads [OF x(2)]
      by (auto simp: example_meaning_def example_apimachinery_def mem_bind_def mem_return_def)
  qed
  then show ?thesis
    by (auto simp: copies_deeply_def example_meaning_def example_apimachinery_def intro!: copier_pure)
qed

definition example_store :: "example_lib obj store" where
  "example_store = [
     Strings [(''rack'', ''r1'')],
     One (Some (O_LocalObjectReference (LocalObjectReference ''endpoint-1''))),
     Many [Some (O_Lib (E_Condition
       \<lparr>Condition_Type = ''Ready'', Condition_Status = ''True'', Condition_Reason = '''', Condition_Message = ''''\<rparr>))],
     One (Some (O_BMC \<lparr>mBMC_TypeMeta = TypeMeta ''BMC'' ''metal.ironcore.dev/v1alpha1'',
       mBMC_ObjectMeta = E_ObjectMeta ''bmc-1'' (Some 0),
       mBMC_Spec = \<lparr>mBMCSpec_EndpointRef = Some 1, mBMCSpec_Endpoint = None,
         mBMCSpec_BMCSecretRef = LocalObjectReference ''secret-1'',
         mBMCSpec_Protocol = \<lparr>Protocol_Name = ''Redfish'', Protocol_Port = 443\<rparr>, mBMCSpec_ConsoleProtocol = None\<rparr>,
       mBMC_Status = \<lparr>mBMCStatus_MACAddress = '''', mBMCStatus_IP = IP ZeroAddr, mBMCStatus_Manufacturer = '''',
         mBMCStatus_Model = '''', mBMCStatus_SKU = '''', mBMCStatus_SerialNumber = '''', mBMCStatus_FirmwareVersion = '''',
         mBMCStatus_State = '''', mBMCStatus_PowerState = '''', mBMCStatus_Conditions = Some 2\<rparr>\<rparr>)),
     Many [],
     One (Some (O_BMCList \<lparr>mBMCList_TypeMeta = TypeMeta ''BMCList'' ''metal.ironcore.dev/v1alpha1'',
       mBMCList_ListMeta = E_ListMeta
         \<lparr>ListMeta_ResourceVersion = ''7'', ListMeta_Continue = '''', ListMeta_RemainingItemCount = None\<rparr>,
       mBMCList_Items = Some 4\<rparr>))]"

section \<open>Properties\<close>

text \<open>
  C19. The deep copy of an API object is equal to it and independent of it: the copy keeps its value whatever
  is written to the memory there was, and the original keeps its value whatever is written to the
  memory of the copy.\<close>

theorem deep_copies_are_independent:
  assumes "copies_deeply L R"
  shows "independent_copy (read_ptr k_Server (read_Server R)) (Server_DeepCopy L) \<and>
    independent_copy (read_ptr k_ServerClaim (read_ServerClaim R)) (ServerClaim_DeepCopy L) \<and>
    independent_copy (read_ptr k_SBC (read_ServerBootConfiguration R)) (ServerBootConfiguration_DeepCopy L) \<and>
    independent_copy (read_ptr k_BMC (read_BMC R)) (BMC_DeepCopy L) \<and>
    independent_copy (read_ptr k_BMCSecret (read_BMCSecret R)) (BMCSecret_DeepCopy L) \<and>
    independent_copy (read_ptr k_Endpoint (read_Endpoint R)) (Endpoint_DeepCopy L)"
  by (intro conjI independent_DeepCopy [OF copier_Server [OF assms]] independent_DeepCopy [OF copier_ServerClaim [OF assms]]
      independent_DeepCopy [OF copier_ServerBootConfiguration [OF assms]] independent_DeepCopy [OF copier_BMC [OF assms]]
      independent_DeepCopy [OF copier_BMCSecret [OF assms]] independent_DeepCopy [OF copier_Endpoint [OF assms]])
    (simp_all add: deep_copy_defs)

theorem deep_copies_are_independent_witness:
  "copies_deeply example_apimachinery example_meaning \<and>
   read_ptr k_BMC (read_BMC example_meaning) (Some 3) example_store \<noteq> None \<and>
   independent_copy (read_ptr k_BMC (read_BMC example_meaning)) (BMC_DeepCopy example_apimachinery)"
proof -
  have "read_ptr k_BMC (read_BMC example_meaning) (Some 3) example_store \<noteq> None" by code_simp
  then show ?thesis using deep_copies_are_independent [OF example_copies_deeply] example_copies_deeply by blast
qed

text \<open>
  \<^verbatim>\<open>DeepCopyObject\<close> of a nil pointer is the nil interface, not an interface that holds a nil pointer; of any
  other API object or list it is an object of the same type at an address that was free, equal to the
  one copied.\<close>

theorem deep_copy_objects_are_typed:
  assumes "copies_deeply L R"
  shows "copies_object ''Server'' (read_ptr k_Server (read_Server R)) (Server_DeepCopyObject L) \<and>
    copies_object ''ServerClaim'' (read_ptr k_ServerClaim (read_ServerClaim R)) (ServerClaim_DeepCopyObject L) \<and>
    copies_object ''ServerBootConfiguration'' (read_ptr k_SBC (read_ServerBootConfiguration R)) (ServerBootConfiguration_DeepCopyObject L) \<and>
    copies_object ''BMC'' (read_ptr k_BMC (read_BMC R)) (BMC_DeepCopyObject L) \<and>
    copies_object ''BMCSecret'' (read_ptr k_BMCSecret (read_BMCSecret R)) (BMCSecret_DeepCopyObject L) \<and>
    copies_object ''Endpoint'' (read_ptr k_Endpoint (read_Endpoint R)) (Endpoint_DeepCopyObject L) \<and>
    copies_object ''ServerList'' (read_ptr k_ServerList (read_ServerList R)) (ServerList_DeepCopyObject L) \<and>
    copies_object ''ServerClaimList'' (read_ptr k_ServerClaimList (read_ServerClaimList R)) (ServerClaimList_DeepCopyObject L) \<and>
    copies_object ''ServerBootConfigurationList'' (read_ptr k_SBCList (read_ServerBootConfigurationList R))
      (ServerBootConfigurationList_DeepCopyObject L) \<and>
    copies_object ''BMCList'' (read_ptr k_BMCList (read_BMCList R)) (BMCList_DeepCopyObject L) \<and>
    copies_object ''BMCSecretList'' (read_ptr k_BMCSecretList (read_BMCSecretList R)) (BMCSecretList_DeepCopyObject L) \<and>
    copies_object ''EndpointList'' (read_ptr k_EndpointList (read_EndpointList R)) (EndpointList_DeepCopyObject L)"
  by (intro conjI copies_object_of [OF copier_Server [OF assms]] copies_object_of [OF copier_ServerClaim [OF assms]]
      copies_object_of [OF copier_ServerBootConfiguration [OF assms]] copies_object_of [OF copier_BMC [OF assms]]
      copies_object_of [OF copier_BMCSecret [OF assms]] copies_object_of [OF copier_Endpoint [OF assms]]
      copies_object_of [OF copier_ServerList [OF assms]] copies_object_of [OF copier_ServerClaimList [OF assms]]
      copies_object_of [OF copier_ServerBootConfigurationList [OF assms]] copies_object_of [OF copier_BMCList [OF assms]]
      copies_object_of [OF copier_BMCSecretList [OF assms]] copies_object_of [OF copier_EndpointList [OF assms]])
    (simp_all add: deep_copy_defs)

theorem deep_copy_objects_are_typed_witness:
  "copies_deeply example_apimachinery example_meaning \<and>
   BMCList_DeepCopyObject example_apimachinery None example_store = Some (Nil_Object, example_store) \<and>
   (\<exists>b h'. BMCList_DeepCopyObject example_apimachinery (Some 5) example_store = Some (Object ''BMCList'' (Some b), h') \<and> 6 \<le> b)"
proof -
  have "length example_store = 6" by code_simp
  moreover have "\<exists>v. read_ptr k_BMCList (read_BMCList example_meaning) (Some 5) example_store = Some v"
    unfolding not_None_eq [symmetric] by code_simp
  moreover have "copies_object ''BMCList'' (read_ptr k_BMCList (read_BMCList example_meaning)) (BMCList_DeepCopyObject example_apimachinery)"
    using deep_copy_objects_are_typed [OF example_copies_deeply] by blast
  ultimately show ?thesis using example_copies_deeply unfolding copies_object_def by metis
qed

end
