(* ===== verification/Claim_System.thy ===== *)
theory Claim_System
  imports Example_World
begin

text \<open>
  The controllers together: what happens to the claim references of the servers when the
  reconciliations of servers, BMCs and claims run side by side. A reconciliation is the list of the
  events it causes, each one request to the API server; the requests of all reconciliations interleave
  in any order. Of the API server only the claim reference of each server is kept. A patch made with
  \<^verbatim>\<open>client.MergeFrom(base)\<close> sends the difference to \<open>base\<close>, which is merged into the stored object by the
  API server: that merge is a parameter, with the two laws below.
\<close>

section \<open>The claim references of a cluster\<close>

type_synonym claim_refs = "string \<Rightarrow> ObjectReference option"
type_synonym ref_merge = "ObjectReference option \<Rightarrow> ObjectReference option \<Rightarrow> ObjectReference option \<Rightarrow> ObjectReference option"

text \<open>
  \<open>merge base new stored\<close>: a field that did not change is not part of the patch, and a patch applied to
  what it was made from gives what it was made for.
\<close>

definition merge_patch :: "ref_merge \<Rightarrow> bool" where
  "merge_patch merge \<longleftrightarrow> (\<forall>ref stored. merge ref ref stored = stored) \<and> (\<forall>base new. merge base new base = new)"

fun claims_after :: "ref_merge \<Rightarrow> event \<Rightarrow> claim_refs \<Rightarrow> claim_refs" where
  "claims_after merge (EKube (PatchedServer base new (Ok _))) st =
     st(srvName base := merge (srvClaimRef base) (srvClaimRef new) (st (srvName base)))"
| "claims_after merge _ st = st"

text \<open>
  A patch that changes a claim reference is made from what is stored: the read it is based on is not
  out of date for this field. Nothing is asked of the other patches.
\<close>

fun up_to_date :: "claim_refs \<Rightarrow> event \<Rightarrow> bool" where
  "up_to_date st (EKube (PatchedServer base new _)) \<longleftrightarrow>
     srvClaimRef new = srvClaimRef base \<or> st (srvName base) = srvClaimRef base"
| "up_to_date st _ = True"

text \<open>
  One request of some reconciliation. \<open>C\<close> holds the claims that are reconciled, \<open>D\<close> the names of the
  servers that the claims being deleted refer to.
\<close>

inductive claims_step ::
  "'w env \<Rightarrow> ref_merge \<Rightarrow> ServerClaim set \<Rightarrow> string set \<Rightarrow> claim_refs \<Rightarrow> claim_refs \<Rightarrow> bool"
  for E :: "'w env" and merge C D where
  by_server: "e \<in> set (events_of (Server_Reconcile E r n w)) \<Longrightarrow> up_to_date st e \<Longrightarrow>
     claims_step E merge C D st (claims_after merge e st)"
| by_bmc: "e \<in> set (events_of (BMC_Reconcile E br n w)) \<Longrightarrow> up_to_date st e \<Longrightarrow>
     claims_step E merge C D st (claims_after merge e st)"
| by_claim: "claim \<in> C \<Longrightarrow> e \<in> set (events_of (Claim_reconcile E claim w)) \<Longrightarrow> up_to_date st e \<Longrightarrow>
     claims_step E merge C D st (claims_after merge e st)"
| by_deletion: "e \<in> set (events_of (Claim_delete E claim w)) \<Longrightarrow> up_to_date st e \<Longrightarrow>
     \<forall>ref. clmServerRef claim = Some ref \<longrightarrow> LocalObjectReference_Name ref \<in> D \<Longrightarrow>
     claims_step E merge C D st (claims_after merge e st)"

section \<open>What each controller may write\<close>

fun keeps_claim_ref :: "event \<Rightarrow> bool" where
  "keeps_claim_ref (EKube (PatchedServer base new _)) \<longleftrightarrow> srvClaimRef new = srvClaimRef base"
| "keeps_claim_ref _ = True"

fun takes_free_server :: "ServerClaim \<Rightarrow> event \<Rightarrow> bool" where
  "takes_free_server claim (EKube (PatchedServer base new _)) \<longleftrightarrow>
     srvClaimRef base = None \<and> srvClaimRef new = Some (claimObjectRef claim)"
| "takes_free_server claim _ = False"

fun releases_one_of :: "string set \<Rightarrow> event \<Rightarrow> bool" where
  "releases_one_of D (EKube (PatchedServer base new _)) \<longleftrightarrow> srvName base \<in> D"
| "releases_one_of D _ = False"

text \<open>The requests that are no patch of a server's spec or metadata.\<close>

fun is_server_patch :: "event \<Rightarrow> bool" where
  "is_server_patch (EKube (PatchedServer _ _ _)) = True"
| "is_server_patch _ = False"

lemma keeps_claim_ref_other: "\<not> is_server_patch e \<Longrightarrow> keeps_claim_ref e"
  by (cases e rule: keeps_claim_ref.cases) simp_all

lemma not_server_patch:
  "is_read e \<Longrightarrow> \<not> is_server_patch e" "is_session e \<Longrightarrow> \<not> is_server_patch e"
  "is_power_on e \<Longrightarrow> \<not> is_server_patch e" "is_power_off e \<Longrightarrow> \<not> is_server_patch e"
  "is_netboot e \<Longrightarrow> \<not> is_server_patch e"
  by (cases e rule: is_server_patch.cases; simp)+

lemmas keeps_claim_intros = keeps_claim_ref_other not_server_patch

text \<open>
  The requests that create or patch a server run one of these two mutations on it; neither touches the
  reference.
\<close>

lemma mutations_keep_claim_ref:
  "srvClaimRef (set_Power p s) = srvClaimRef s"
  "discoveredServer E b sys s = Ok s' \<Longrightarrow> srvClaimRef s' = srvClaimRef s"
  by (auto simp: discoveredServer_def Let_def split: res.splits)

subsection \<open>The server controller\<close>

lemma keeps_claim_patchServerState [emits_intros]:
  "emits keeps_claim_ref (\<lambda>_. True) (patchServerState E s st)"
  unfolding patchServerState_def by (intro emits_intros; simp)

lemma keeps_claim_preparation [emits_intros]:
  "emits keeps_claim_ref (\<lambda>_. True) (ensureInitialConditions E r s)"
  "emits keeps_claim_ref (\<lambda>_. True) (applyBootConfigurationAndIgnitionForDiscovery E r s)"
  "emits keeps_claim_ref (\<lambda>_. True) (updateServerStatus E r s)"
  "emits keeps_claim_ref (\<lambda>_. True) (applyBiosSettings E r s)"
  "emits keeps_claim_ref (\<lambda>_. True) (applyBootOrder E r s)"
  "emits keeps_claim_ref (\<lambda>_. True) (handleAnnotionOperations E r s)"
  unfolding ensureInitialConditions_def setAndPatchServerPowerState_def updateServerStatus_def
    applyBootConfigurationAndIgnitionForDiscovery_def ensureServerBootConfigRef_def
    applyBiosSettings_def applyBootOrder_def handleAnnotionOperations_def Let_def
  by (intro emits_intros emits_withBMCClient; simp add: keeps_claim_intros remove_operation_def)+

lemma keeps_claim_discovery [emits_intros]:
  "emits keeps_claim_ref (\<lambda>_. True) (finishDiscovery E r s)"
  "emits keeps_claim_ref (\<lambda>_. True) (updateStorages E r s s')"
  unfolding finishDiscovery_def extractServerDetailsFromRegistry_def invalidateRegistryEntryForServer_def
    HttpGet_def HttpDelete_def updateStorages_def
  by (intro emits_intros; simp add: keeps_claim_intros)+

lemma keeps_claim_transition [emits_intros]:
  "emits keeps_claim_ref (\<lambda>_. True) (ensureServerStateTransition E r s)"
  unfolding ensureServerStateTransition_def handleInitialState_def handleDiscoveryState_def
    handleAvailableState_def handleReservedState_def ensureInitialBootConfigurationIsDeleted_def
    ensureIndicatorLED_def Let_def
  by (intro emits_intros; simp add: keeps_claim_intros)

lemma keeps_claim_Server_Reconcile: "emits keeps_claim_ref (\<lambda>_. True) (Server_Reconcile E r n)"
  unfolding Server_Reconcile_def Server_reconcileExists_def Server_delete_def Server_reconcile_def
    initializeState_def reserveClaimed_def releaseUnclaimed_def
  by (intro emits_intros emits_ifUnmodified_any; simp add: keeps_claim_intros)

subsection \<open>The BMC controller\<close>

lemma keeps_claim_BMC_Reconcile: "emits keeps_claim_ref (\<lambda>_. True) (BMC_Reconcile E br n)"
  unfolding BMC_Reconcile_def BMC_reconcile_def BMC_delete_def updateBMCStatusDetails_def discoverServers_def
    bmcAddresses_def
  by (intro emits_intros; simp add: keeps_claim_intros)

subsection \<open>The claim controller\<close>

definition takes_or_keeps :: "ServerClaim \<Rightarrow> event \<Rightarrow> bool" where
  "takes_or_keeps claim e \<longleftrightarrow> keeps_claim_ref e \<or> takes_free_server claim e"

text \<open>However the server is chosen, binding it takes it only if it is free.\<close>

lemma takes_claimChosen:
  assumes "emits is_read R chosen" and "same_claim claim c"
  shows "emits (takes_or_keeps claim) (\<lambda>_. True) (claimChosen E c chosen)"
proof -
  have "emits (takes_or_keeps claim) (\<lambda>_. True) chosen"
    by (rule emits_mono [OF assms(1)]) (simp_all add: takes_or_keeps_def keeps_claim_intros)
  moreover have "claimObjectRef c = claimObjectRef claim"
    using assms(2) by (simp add: same_claim_def claimObjectRef_def)
  ultimately show ?thesis
    unfolding claimChosen_def ensureObjectRefForServer_def
    by (intro emits_intros) (auto simp: takes_or_keeps_def)
qed

lemma takes_claimServer:
  "same_claim claim c \<Longrightarrow> emits (takes_or_keeps claim) (\<lambda>_. True) (claimServer E c)"
  unfolding claimServer_def
  by (intro emits_if takes_claimChosen [OF by_reference.pick_free] takes_claimChosen [OF by_selector.pick_free]
      takes_claimChosen [OF first_best.pick_free])

lemma takes_bound:
  "emits (takes_or_keeps claim) (\<lambda>_. True) (applyBootConfiguration E s c)"
  "emits (takes_or_keeps claim) (\<lambda>_. True) (ensurePowerStateForServer E c s)"
  "emits (takes_or_keeps claim) (\<lambda>_. True) (patchServerRef E c s)"
  "emits (takes_or_keeps claim) (\<lambda>x. \<not> fst x \<longrightarrow> snd x = c) (patchServerClaimPhase E c ph)"
  unfolding applyBootConfiguration_def ensurePowerStateForServer_def patchServerRef_def
  by (intro emits_intros emits_patchServerClaimPhase; simp add: takes_or_keeps_def)+

lemma takes_Claim_reconcile:
  assumes "quiet_claims E"
  shows "emits (takes_or_keeps claim) (\<lambda>_. True) (Claim_reconcile E claim)"
proof -
  have init: "emits (takes_or_keeps claim) (\<lambda>x. \<not> fst x \<longrightarrow> snd x = claim)
      (if ServerClaim_Phase claim = '''' then patchServerClaimPhase E claim PhaseUnbound else returnM (False, claim))"
    by (intro emits_if takes_bound emits_return) simp
  have fin: "emits (takes_or_keeps claim) (\<lambda>x. \<not> fst x \<longrightarrow> same_claim c (snd x)) (PatchEnsureFinalizer_Claim E c f)" for c f
    by (rule emits_weaken [OF emits_ensureFinalizer_Claim [OF assms]]) (simp_all add: takes_or_keeps_def)
  show ?thesis
    unfolding Claim_reconcile_def
    by (intro emits_if emits_return emits_ifUnmodified [OF init] emits_ifUnmodified [OF fin]
        emits_then [OF takes_claimServer] emits_case_prod emits_case_option emits_then [OF emits_wrap [OF takes_bound(1)]]
        emits_ifUnmodified_any [OF takes_bound(2)] emits_ifUnmodified_any [OF takes_bound(3)]
        emits_ifUnmodified_any [OF emits_any [OF takes_bound(4)]]; simp)
qed

text \<open>The API server answers a request for a server with the server of that name.\<close>

definition reads_by_name :: "'w env \<Rightarrow> bool" where
  "reads_by_name E \<longleftrightarrow> (\<forall>n w s. fst (k_getServer E n w) = Ok s \<longrightarrow> srvName s = n)"

definition releases_or_keeps :: "string set \<Rightarrow> event \<Rightarrow> bool" where
  "releases_or_keeps D e \<longleftrightarrow> keeps_claim_ref e \<or> releases_one_of D e"

lemma releases_Claim_delete:
  assumes "reads_by_name E" and "\<forall>ref. clmServerRef claim = Some ref \<longrightarrow> LocalObjectReference_Name ref \<in> D"
  shows "emits (releases_or_keeps D) (\<lambda>_. True) (Claim_delete E claim)"
proof -
  have read: "emits (releases_or_keeps D) (\<lambda>s. srvClaimRef s \<noteq> None \<longrightarrow> srvName s = n) (getServerOrEmpty E n)" for n
    unfolding getServerOrEmpty_def GetServer_def
    by (intro emits_catch emits_call_ok emits_if emits_return emits_err)
      (use assms(1) in \<open>auto simp: releases_or_keeps_def reads_by_name_def empty_Server_def named_Server_def\<close>)
  show ?thesis
    unfolding Claim_delete_def cleanupAndShutdownServer_def removeClaimRefFromServer_def
      removeBootConfigRefFromServerAndPowerOff_def
    by (intro emits_bind [OF read] emits_intros) (use assms(2) in \<open>auto simp: releases_or_keeps_def\<close>)
qed

section \<open>The invariant\<close>

text \<open>Between two moments a reference is kept, or a server without one is given to one of the claims.\<close>

definition only_given :: "ServerClaim set \<Rightarrow> ObjectReference option \<Rightarrow> ObjectReference option \<Rightarrow> bool" where
  "only_given C ref ref' \<longleftrightarrow> ref' = ref \<or> ref = None \<and> ref' \<in> Some ` claimObjectRef ` C"

lemma only_given_trans: "only_given C a b \<Longrightarrow> only_given C b c \<Longrightarrow> only_given C a c"
  by (auto simp: only_given_def)

lemma claims_after_keeps:
  "merge_patch merge \<Longrightarrow> keeps_claim_ref e \<Longrightarrow> claims_after merge e st = st"
  by (cases "(merge, e, st)" rule: claims_after.cases) (auto simp: merge_patch_def)

lemma claims_after_takes:
  "merge_patch merge \<Longrightarrow> takes_or_keeps claim e \<Longrightarrow> up_to_date st e \<Longrightarrow> claim \<in> C \<Longrightarrow>
   only_given C (st n) (claims_after merge e st n)"
  by (cases "(merge, e, st)" rule: claims_after.cases) (auto simp: merge_patch_def takes_or_keeps_def only_given_def)

lemma claims_after_releases:
  "merge_patch merge \<Longrightarrow> releases_or_keeps D e \<Longrightarrow> n \<notin> D \<Longrightarrow> claims_after merge e st n = st n"
  by (cases "(merge, e, st)" rule: claims_after.cases) (auto simp: merge_patch_def releases_or_keeps_def)

lemma emits_events: "emits P R m \<Longrightarrow> e \<in> set (events_of (m w)) \<Longrightarrow> P e"
  by (auto simp: emits_def sat_def)

text \<open>What the controllers rely on: patches as documented, reads by name, claims that keep their identity.\<close>

definition cluster_laws :: "'w env \<Rightarrow> ref_merge \<Rightarrow> bool" where
  "cluster_laws E merge \<longleftrightarrow> merge_patch merge \<and> reads_by_name E \<and> quiet_claims E"

lemma claims_step_only_gives:
  assumes "claims_step E merge C D st st'" and "cluster_laws E merge" and "n \<notin> D"
  shows "only_given C (st n) (st' n)"
proof -
  have laws: "merge_patch merge" "reads_by_name E" "quiet_claims E"
    using assms(2) by (simp_all add: cluster_laws_def)
  from assms(1) show ?thesis
  proof cases
    case (by_server e r m w)
    from emits_events [OF keeps_claim_Server_Reconcile by_server(2)] show ?thesis
      by (simp add: by_server(1) claims_after_keeps [OF laws(1)] only_given_def)
  next
    case (by_bmc e br m w)
    from emits_events [OF keeps_claim_BMC_Reconcile by_bmc(2)] show ?thesis
      by (simp add: by_bmc(1) claims_after_keeps [OF laws(1)] only_given_def)
  next
    case (by_claim claim e w)
    from emits_events [OF takes_Claim_reconcile [OF laws(3)] by_claim(3)] by_claim show ?thesis
      by (simp add: claims_after_takes [OF laws(1)])
  next
    case (by_deletion e claim w)
    from emits_events [OF releases_Claim_delete [OF laws(2) by_deletion(4)] by_deletion(2)] show ?thesis
      by (simp add: by_deletion(1) claims_after_releases [OF laws(1) _ assms(3)] only_given_def)
  qed
qed


section \<open>An instance, and what a read that is out of date does\<close>

text \<open>
  The merge of a JSON merge patch on a reference: a field that differs between the two objects is sent
  and replaces the stored one, a field that does not differ is kept, and a reference that is taken away
  is removed as a whole. An absent reference has no fields, an empty field is left out.
\<close>

definition ref_fields :: "ObjectReference option \<Rightarrow> ObjectReference" where
  "ref_fields ref = (case ref of Some r \<Rightarrow> r
     | None \<Rightarrow> \<lparr>ObjectReference_APIVersion = '''', ObjectReference_Kind = '''', ObjectReference_Namespace = '''',
                ObjectReference_Name = '''', ObjectReference_UID = ''''\<rparr>)"

definition json_field :: "(ObjectReference \<Rightarrow> string) \<Rightarrow> ObjectReference \<Rightarrow> ObjectReference \<Rightarrow> ObjectReference \<Rightarrow> string" where
  "json_field f base new stored = (if f new = f base then f stored else f new)"

definition json_merge :: ref_merge where
  "json_merge base new stored =
     (if new = base then stored
      else case new of
        None \<Rightarrow> None
      | Some n \<Rightarrow> Some \<lparr>
          ObjectReference_APIVersion = json_field ObjectReference_APIVersion (ref_fields base) n (ref_fields stored),
          ObjectReference_Kind = json_field ObjectReference_Kind (ref_fields base) n (ref_fields stored),
          ObjectReference_Namespace = json_field ObjectReference_Namespace (ref_fields base) n (ref_fields stored),
          ObjectReference_Name = json_field ObjectReference_Name (ref_fields base) n (ref_fields stored),
          ObjectReference_UID = json_field ObjectReference_UID (ref_fields base) n (ref_fields stored)\<rparr>)"

lemma json_merge_patch: "merge_patch json_merge"
  by (auto simp: merge_patch_def json_merge_def json_field_def split: option.split)

lemma ex_reads_by_name: "reads_by_name ex_env"
  by (simp add: reads_by_name_def ex_env_def)

lemma ex_cluster_laws: "cluster_laws ex_env json_merge"
  by (simp add: cluster_laws_def json_merge_patch ex_quiet_claims ex_reads_by_name)

definition ex_available :: Server where "ex_available = ex_server ''Available'' ''Off'' ''Off''"

definition ex_rival :: ServerClaim where
  "ex_rival = ex_claim\<lparr>ServerClaim_Meta := (ServerClaim_Meta ex_claim)\<lparr>ObjectMeta_Name := ''d'', ObjectMeta_UID := ''uid-d''\<rparr>\<rparr>"

text \<open>The patch with which a claim takes the available server.\<close>

definition ex_taking :: "ServerClaim \<Rightarrow> event" where
  "ex_taking claim = (let new = set_ServerClaimRef (Some (claimObjectRef claim)) ex_available
     in EKube (PatchedServer ex_available new (Ok new)))"

definition ex_taken :: claim_refs where
  "ex_taken = (\<lambda>_. None)(''srv'' := Some (claimObjectRef ex_claim))"

lemma ex_takes: "ex_taking ex_claim \<in> set (events_of (Claim_reconcile ex_env ex_claim (ex_world ex_available)))"
  by code_simp

text \<open>The server is taken by one of two claims; the other claim, which sees it taken, leaves it alone.\<close>

lemma ex_side_by_side: "(claims_step ex_env json_merge {ex_claim, ex_rival} {})\<^sup>*\<^sup>* (\<lambda>_. None) ex_taken"
proof -
  let ?read = "EKube (GotServer ''srv'' (Ok (set_ServerClaimRef (Some (claimObjectRef ex_claim)) ex_available)))"
  have "claims_step ex_env json_merge {ex_claim, ex_rival} {} (\<lambda>_. None)
      (claims_after json_merge (ex_taking ex_claim) (\<lambda>_. None))"
    by (rule by_claim [OF _ ex_takes]) (simp_all add: ex_taking_def Let_def ex_available_def ex_server_def named_Server_def)
  moreover have "claims_after json_merge (ex_taking ex_claim) (\<lambda>_. None) = ex_taken"
    using json_merge_patch
    by (simp add: ex_taking_def ex_taken_def Let_def merge_patch_def ex_available_def ex_server_def named_Server_def)
  moreover have "claims_step ex_env json_merge {ex_claim, ex_rival} {} ex_taken (claims_after json_merge ?read ex_taken)"
  proof (rule by_claim)
    show "?read \<in> set (events_of (Claim_reconcile ex_env ex_rival
        (ex_world (set_ServerClaimRef (Some (claimObjectRef ex_claim)) ex_available))))" by code_simp
  qed simp_all
  ultimately show ?thesis by (metis (no_types) claims_after.simps(2) converse_rtranclp_into_rtranclp rtranclp.rtrancl_refl)
qed


text \<open>
  The patch carries no resource version, so that the API server accepts it whatever is stored. Two
  claims whose reconciliations both read the server as available both take it, and the first one loses
  it to the second: without reads that are up to date a claimed server does not stay with its claim.
\<close>

theorem read_out_of_date_takes_claimed_server:
  "ex_taking ex_claim \<in> set (events_of (Claim_reconcile ex_env ex_claim (ex_world ex_available))) \<and>
   ex_taking ex_rival \<in> set (events_of (Claim_reconcile ex_env ex_rival (ex_world ex_available))) \<and>
   claims_after json_merge (ex_taking ex_claim) (\<lambda>_. None) ''srv'' = Some (claimObjectRef ex_claim) \<and>
   claims_after json_merge (ex_taking ex_rival) (claims_after json_merge (ex_taking ex_claim) (\<lambda>_. None)) ''srv'' =
     Some (claimObjectRef ex_rival)"
  by (intro conjI ex_takes) code_simp+

end
