(* ===== verification/Spec2Isabelle.thy ===== *)
theory Spec2Isabelle
  imports Server_Properties Redfish_Properties Claim_Properties Discovery_Properties Progress Move_Properties
    Console_Properties Metalctl_Properties Manager_Properties Ip_Properties Watch_Properties Deepcopy_Properties
    Claim_System
begin

text \<open>
  \<^bold>\<open>The verification of metal-operator\<close>

  metal-operator manages bare-metal servers from a Kubernetes cluster. Endpoints (a MAC and an IP address) become
  BMCs, BMCs report servers, a server is discovered by booting a probe on it over the network, and an available
  server is given to a claim. This development models the program under \<^verbatim>\<open>src/\<close> and proves what makes it correct.

  \<^bold>\<open>How code is modelled.\<close> A Go function that only computes is a HOL function; one that calls the API server, a
  BMC, HTTP, the file system or the clock is a program of \<^verbatim>\<open>Prelude\<close>: a function from a world to a result (a value, an
  error or a panic), the events of its calls in order, and the world it leaves. What is called and not contained in
  the repository is a parameter: the record \<open>env\<close> of \<^verbatim>\<open>Environment\<close> (Kubernetes client, gofish, HTTP, clock,
  randomness), and smaller records for SSH (\<^verbatim>\<open>Console_Command\<close>), two clusters (\<^verbatim>\<open>Move\<close>) and the start of the manager
  (\<^verbatim>\<open>Manager_Command\<close>). Nothing is known of a parameter unless a theorem assumes it by name; every such law is shown to
  hold in \<^verbatim>\<open>Example_World\<close> or in the example clusters of \<^verbatim>\<open>Move_Properties\<close>, where the witnesses run. \<^verbatim>\<open>defer\<close> is
  \<open>deferM\<close>, an early return with a wrapped error \<open>wrapM\<close>, a range loop \<open>foldM\<close>, a poll \<open>poll_loop\<close>.

  \<^bold>\<open>The parts.\<close>
  \<^item> \<^verbatim>\<open>Prelude\<close>, \<^verbatim>\<open>Go_Strings\<close>, \<^verbatim>\<open>Go_Flags\<close>, \<^verbatim>\<open>Netip\<close>: programs and their logic; the parts of Go's standard library that the
    source uses. The judgements are \<open>sat\<close> (results and traces), \<open>emits\<close> (every event), \<open>guarded\<close> (an event only after
    another), \<open>achieves\<close> (a success needs an event), \<open>returns\<close> and \<open>does\<close> (progress), \<open>ensures\<close> (total correctness over a
    state). \<^verbatim>\<open>Netip\<close> proves that an address or prefix that is written is read back.
  \<^item> \<^verbatim>\<open>Ip_Types\<close>, \<^verbatim>\<open>Api_Types\<close>: \<^verbatim>\<open>api/v1alpha1\<close>. The locale \<open>json_codec\<close> is the contract of a type with a JSON form; \<^verbatim>\<open>IP\<close> and
    \<^verbatim>\<open>IPPrefix\<close> satisfy it.
  \<^item> \<^verbatim>\<open>Go_Memory\<close>, \<^verbatim>\<open>Deepcopy\<close>: the generated deep copies, over a store of cells in which pointers, slices and maps are
    addresses. The locale \<open>copier\<close> is what a deep copy promises; structs, pointers, slices and maps have it when their
    parts do.
  \<^item> \<^verbatim>\<open>Redfish\<close>: \<^verbatim>\<open>bmc/\<close>, the interface and its three clients; \<^verbatim>\<open>Bmcutils\<close>: \<^verbatim>\<open>internal/bmcutils\<close>, \<^verbatim>\<open>internal/console\<close> and the
    controllers' helpers; \<^verbatim>\<open>Ignition\<close>: \<^verbatim>\<open>internal/ignition\<close>.
  \<^item> \<^verbatim>\<open>Server_Controller\<close>, \<^verbatim>\<open>Claim_Controller\<close>, \<^verbatim>\<open>BMC_Controller\<close> (BMC, endpoint, boot configuration and secret
    controllers, MAC database), \<^verbatim>\<open>Watches\<close> (\<^verbatim>\<open>SetupWithManager\<close> of all of them and the resync goroutine as a step
    relation): \<^verbatim>\<open>internal/controller\<close>.
  \<^item> \<^verbatim>\<open>Endpoint_Webhook\<close>: \<^verbatim>\<open>internal/webhook\<close>, with an admission relation; \<^verbatim>\<open>Registry\<close>: \<^verbatim>\<open>internal/registry\<close> and
    \<^verbatim>\<open>internal/probe\<close>, with the locale \<open>system_store\<close> that the HTTP interface satisfies.
  \<^item> \<^verbatim>\<open>Move\<close>, \<^verbatim>\<open>Owner_Trees\<close>, \<^verbatim>\<open>Move_Trace\<close>, \<^verbatim>\<open>Move_Target\<close>: \<^verbatim>\<open>cmdutils/\<close> and \<^verbatim>\<open>metalctl move\<close>; the locale \<open>parent_function\<close> is
    about chains of owners.
  \<^item> \<^verbatim>\<open>Console_Command\<close>: \<^verbatim>\<open>metalctl console\<close>; \<^verbatim>\<open>Console_Streams\<close>: its goroutines, as a step relation over the variable they
    share; \<^verbatim>\<open>Metalctl_Command\<close>: the command tree of \<^verbatim>\<open>metalctl\<close>, with cobra as a parameter; \<^verbatim>\<open>Probe_Command\<close>: \<^verbatim>\<open>cmd/metalprobe\<close>; \<^verbatim>\<open>Manager_Command\<close>: \<^verbatim>\<open>cmd/manager\<close> and the
    start of the registry server.

  \<^bold>\<open>How they interact.\<close> The manager gives the server controller the registry's URL and starts the registry on the
  same port; the controller writes URL and UUID into the ignition as flags of the probe; the probe parses them,
  collects the network interfaces and posts them; the registry keeps them until the controller takes them into the
  server's status and deletes them. The last theorem of this theory follows that path from end to end. Claims and
  servers meet in the claim reference of a server, which \<^verbatim>\<open>Claim_System\<close> follows through every interleaving, BMCs and servers in the BMC's access data, boot configurations
  and servers in the boot configuration's state.

  \<^bold>\<open>What is shown.\<close>
  \<^item> \<^verbatim>\<open>Server_Properties\<close>: the status of a server follows its lifecycle; discovery starts only prepared and ends only with
    data; power is switched as asked, by force only if enforced; sessions are closed; nothing changes before the
    boot configuration is ready.
  \<^item> \<^verbatim>\<open>Claim_Properties\<close>: a claim never takes a server of another claim, finds a free one, is bound only after the boot
    configuration, and releases before it goes.
  \<^item> \<^verbatim>\<open>Claim_System\<close>: the controllers side by side, as a step relation on the claim references of all servers. However the
    requests of their reconciliations interleave, a claimed server stays with its claim until a claim that names it is
    deleted, as long as a reference is changed from the one that is stored; a read that is out of date breaks this, since
    the patch carries no resource version.
  \<^item> \<^verbatim>\<open>Discovery_Properties\<close>: MAC addresses stay unique, discovered servers lead back to their system, the registry answers
    the last registration.
  \<^item> \<^verbatim>\<open>Redfish_Properties\<close>: lookups retry, attributes are checked against the BIOS registry, clients connect as asked.
  \<^item> \<^verbatim>\<open>Progress\<close>: with an environment that does what it is asked, an initial server reaches discovery, a discovered one
    becomes available, a power state can be reached, a claim becomes bound.
  \<^item> \<^verbatim>\<open>Move_Properties\<close>: a move is complete, a failed one is undone, nothing is written unchecked.
  \<^item> \<^verbatim>\<open>Console_Properties\<close>, \<^verbatim>\<open>Manager_Properties\<close>, \<^verbatim>\<open>Ip_Properties\<close>, \<^verbatim>\<open>Watch_Properties\<close>: what the console opens it closes and
    whom it trusts; the order of the setup, positive polling times and the probe's flags; addresses survive JSON;
    owned objects wake their owner, and the periodic resync reconciles nothing. \<^verbatim>\<open>Console_Streams\<close> and
    \<^verbatim>\<open>Metalctl_Properties\<close>: everything a console session can return under any interleaving, and that a command line
    runs the command it names with the flags it gives.
  \<^item> \<^verbatim>\<open>Deepcopy_Properties\<close>: the deep copy of an API object is equal to it and shares no memory with it. The other theories
    have objects as values without addresses; this is why they may, where the code copies before it changes.

  \<^bold>\<open>Bounds and fuel.\<close> A poll runs as many rounds as the environment says the interval fits into the timeout
  (\<open>s_polls\<close>, and its like for two clusters); theorems about polls hold for every number. The probe's and the agent's
  loops run for a given number of ticks, for every number. The trees of owners are built with as much fuel as there
  are objects, which \<^verbatim>\<open>Owner_Trees\<close> proves enough. Every other recursion is structural or has its termination proof.
  Ports, sizes, flags, bytes and address groups are words of their width; durations are nanoseconds.

  \<^bold>\<open>Not modelled.\<close> Scheme registration, which serves the client library; the manager's flag parsing (its result is a
  record) and the logger's options; the helpers of the end-to-end tests. Reconciliations of one object do not overlap,
  as the controller runtime guarantees; those of different objects do, which is why the safety theorems hold whatever
  the calls answer.
\<close>

section \<open>Discovery from end to end\<close>

text \<open>
  C6. From the flags to the status: a probe that is started with the flags the manager's server controller writes for
  a server succeeds, and from then on the controller's look at the registry patches that server's status once, with
  the interfaces of the machine the probe runs on and with nothing else changed, however often the probe registers.
\<close>

theorem discovery_from_end_to_end:
  assumes "r = serverReconciler flags regURL" and "serves_registry E regURL store" and "splits_plain split"
    and "regURL \<noteq> ''''" and "list_all plain_char regURL"
    and "srvSystemUUID s \<noteq> ''''" and "list_all plain_char (srvSystemUUID s)"
    and "collectNetworkData interfaces = Ok ifs" and "nics_of ifs = Ok nics"
  shows "let run = probe_main E L parseDuration interfaces ticks (split (probeFlags (SR_RegistryURL r) s)) w in
     result_of run = Ok () \<and>
     (\<exists>ans. filter is_status_patch (events_of (extractServerDetailsFromRegistry E r s (world_of run))) =
        [EKube (PatchedServerStatus s (s\<lparr>Server_Status := (Server_Status s)\<lparr>ServerStatus_NetworkInterfaces := nics\<rparr>\<rparr>) ans)])"
proof -
  have url: "SR_RegistryURL r = regURL" by (simp add: assms(1) serverReconciler_def)
  let ?run = "probe_main E L parseDuration interfaces ticks (split (probeFlags regURL s)) w"
  let ?a = "NewAgent (srvSystemUUID s) regURL (5 * 1000000000)"
  have "ensures (\<lambda>_. True) (Agent_Start E interfaces ticks ?a)
      (\<lambda>_ w. store w (srvSystemUUID s) = Some \<lparr>RegistryServer_NetworkInterfaces = ifs\<rparr>)"
    using ensures_Agent_Start [of E ?a store] assms(2,8) by (simp add: NewAgent_def)
  then have "ensures (\<lambda>_. True) (probe_main E L parseDuration interfaces ticks (split (probeFlags regURL s)))
      (\<lambda>_ w. store w (srvSystemUUID s) = Some \<lparr>RegistryServer_NetworkInterfaces = ifs\<rparr>)"
    unfolding probe_main_started [OF assms(3-7)] by (rule ensures_catch)
  then have "result_of ?run = Ok ()"
    and stored: "store (world_of ?run) (srvSystemUUID s) = Some \<lparr>RegistryServer_NetworkInterfaces = ifs\<rparr>"
    by (auto simp: ensures_def)
  with extract_finds_registered [of E r store "world_of ?run" s] assms(2,9) url show ?thesis by (simp add: Let_def)
qed

definition ex_machine :: "NetInterface list" where
  "ex_machine = [\<lparr>NetInterface_Name = ''eth0'', NetInterface_HardwareAddr = ''aa'', NetInterface_Flags = FlagUp,
     NetInterface_Addrs = Ok [IPNet (Some \<lparr>NetIP_String = ''10.0.0.2'', NetIP_IsLoopback = False, NetIP_To4 = True\<rparr>)]\<rparr>]"

theorem discovery_from_end_to_end_witness:
  "let s = ex_server ServerStateDiscovery PowerOn ServerOnPowerState; r = serverReconciler default_ManagerFlags ex_url in
   \<exists>ans. filter is_status_patch (events_of (extractServerDetailsFromRegistry ex_env r s
       (world_of (probe_main ex_env ex_flag_set (\<lambda>_. None) (Ok ex_machine) 3 (words_of [] (probeFlags (SR_RegistryURL r) s)) (ex_world s))))) =
     [EKube (PatchedServerStatus s (s\<lparr>Server_Status := (Server_Status s)\<lparr>ServerStatus_NetworkInterfaces :=
        [\<lparr>NetworkInterface_Name = ''eth0'', NetworkInterface_IP = IP (Addr4 [10, 0, 0, 2]), NetworkInterface_MACAddress = ''aa''\<rparr>]\<rparr>\<rparr>) ans)]"
proof -
  let ?s = "ex_server ServerStateDiscovery PowerOn ServerOnPowerState"
  have plain: "splits_plain (words_of [])" by (simp add: splits_plain_def)
  have url: "ex_url \<noteq> ''''" "list_all plain_char ex_url" by (simp_all add: ex_url_def plain_char_def)
  have "srvSystemUUID ?s = ''38-ab''" by (simp add: ex_server_def)
  then have uuid: "srvSystemUUID ?s \<noteq> ''''" "list_all plain_char (srvSystemUUID ?s)"
    by (simp_all add: plain_char_def)
  have data: "collectNetworkData (Ok ex_machine) = Ok [\<lparr>RNI_Name = ''eth0'', RNI_IPAddress = ''10.0.0.2'', RNI_MACAddress = ''aa''\<rparr>]"
    by code_simp
  have nics: "nics_of [\<lparr>RNI_Name = ''eth0'', RNI_IPAddress = ''10.0.0.2'', RNI_MACAddress = ''aa''\<rparr>] =
      Ok [\<lparr>NetworkInterface_Name = ''eth0'', NetworkInterface_IP = IP (Addr4 [10, 0, 0, 2]), NetworkInterface_MACAddress = ''aa''\<rparr>]"
    by code_simp
  have r: "serverReconciler default_ManagerFlags ex_url = serverReconciler default_ManagerFlags ex_url" ..
  from discovery_from_end_to_end [OF r ex_serves_registry plain url uuid data nics,
      of ex_flag_set "\<lambda>_. None" 3 "ex_world ?s"]
  show ?thesis by (simp add: Let_def)
qed

end
